(* ===== verification/Prelude.thy ===== *)
theory Prelude
  imports Complex_Main "HOL-Library.AList" "HOL-Library.Multiset"
begin

text \<open>
  Shared vocabulary of the development: how Python values are represented, and the
  generic facts on dictionaries, sums and rounding that the component theories use.

  \<^item> A Python \<^verbatim>\<open>float\<close> is a \<^typ>\<open>real\<close>: arithmetic is exact, so IEEE rounding,
    infinities and NaN are outside the model. Every tolerance constant of the source
    (\<open>1e-6\<close>, \<open>1e-9\<close>, \<open>1e-12\<close>, the \<open>1e-8\<close> quantity grid) is kept literally.
  \<^item> A Python \<^verbatim>\<open>int\<close> is an \<^typ>\<open>int\<close> (unbounded in both).
  \<^item> An aware UTC \<^verbatim>\<open>datetime\<close> is the number of microseconds since the epoch
    (\<open>instant\<close>); a \<^verbatim>\<open>timedelta\<close> is a number of microseconds.
  \<^item> A Python \<^verbatim>\<open>dict\<close> is an association list with distinct keys, because iteration
    order (insertion order) is observable: a lookup is \<^const>\<open>map_of\<close>, a store is
    \<^const>\<open>AList.update\<close> (in place for a known key, appended otherwise) and a
    \<^verbatim>\<open>pop\<close> is \<^const>\<open>AList.delete\<close>, which is how CPython orders them.
  \<^item> An exception is \<open>Inl\<close> of an error value.
\<close>

named_theorems dict_simps \<open>equations for dictionary lookups after updates\<close>
named_theorems fee_simps \<open>commission and fee equations\<close>
named_theorems gate_simps \<open>unfoldings of the individual risk rules\<close>

type_synonym symbol = string
type_synonym instant = int
type_synonym timedelta = int
type_synonym ('k, 'v) dict = "('k \<times> 'v) list"

datatype py_error =
    ZeroDivisionError
  | ValueError
  | KeyError
  | ValidationError
  | RuntimeError string
  | ExternalError string


abbreviation second_us :: int where "second_us \<equiv> 1000000"
abbreviation minute_us :: int where "minute_us \<equiv> 60 * 1000000"
abbreviation hour_us :: int where "hour_us \<equiv> 3600 * 1000000"
abbreviation day_us :: int where "day_us \<equiv> 86400 * 1000000"

text \<open>The threshold below which the ledger treats a remaining quantity as zero.\<close>

abbreviation eps12 :: real where "eps12 \<equiv> 1 / 10 ^ 12"

section \<open>Dictionaries\<close>

abbreviation dict_ok :: "('k, 'v) dict \<Rightarrow> bool" where
  "dict_ok d \<equiv> distinct (map fst d)"

text \<open>
  What a client may assume of a dictionary. The laws are stated for any representation
  and discharged for association lists below; the ledger and the paper book use the
  facts of the interpretation.
\<close>

locale keyed_store =
  fixes get :: "'d \<Rightarrow> 'k \<Rightarrow> 'v option"
    and put :: "'k \<Rightarrow> 'v \<Rightarrow> 'd \<Rightarrow> 'd"
    and pop :: "'k \<Rightarrow> 'd \<Rightarrow> 'd"
    and ok :: "'d \<Rightarrow> bool"
  assumes get_put: "get (put k v d) k' = (if k' = k then Some v else get d k')"
    and get_pop: "get (pop k d) k' = (if k' = k then None else get d k')"
    and ok_put: "ok d \<Longrightarrow> ok (put k v d)"
    and ok_pop: "ok d \<Longrightarrow> ok (pop k d)"
begin

lemma get_put_same: "get (put k v d) k = Some v"
  by (simp add: get_put)

lemma get_put_other: "k' \<noteq> k \<Longrightarrow> get (put k v d) k' = get d k'"
  by (simp add: get_put)

lemma get_pop_same: "get (pop k d) k = None"
  by (simp add: get_pop)

lemma get_pop_other: "k' \<noteq> k \<Longrightarrow> get (pop k d) k' = get d k'"
  by (simp add: get_pop)

lemma put_put_get: "get (put k v (put k w d)) = get (put k v d)"
  by (rule ext) (simp add: get_put)

end

interpretation alist: keyed_store map_of AList.update AList.delete dict_ok
  by unfold_locales (simp_all add: update_conv' delete_conv' distinct_update distinct_delete)

lemmas dict_laws [dict_simps] =
  alist.get_put_same alist.get_put_other alist.get_pop_same alist.get_pop_other

lemma dict_ok_update [simp]: "dict_ok d \<Longrightarrow> dict_ok (AList.update k v d)"
  by (rule alist.ok_put)

lemma dict_ok_delete [simp]: "dict_ok d \<Longrightarrow> dict_ok (AList.delete k d)"
  by (rule alist.ok_pop)

lemma set_update_value:
  "dict_ok d \<Longrightarrow> (k', w) \<in> set (AList.update k v d) \<longleftrightarrow>
     (if k' = k then w = v else (k', w) \<in> set d)"
  by (induction d) (auto simp: image_iff split: if_splits)

lemma set_delete_value:
  "(k', w) \<in> set (AList.delete k d) \<longleftrightarrow> k' \<noteq> k \<and> (k', w) \<in> set d"
  by (auto simp: AList.delete_eq)

text \<open>Summing a measure of the values of a dictionary, entry by entry.\<close>

definition dict_sum :: "('v \<Rightarrow> real) \<Rightarrow> ('k, 'v) dict \<Rightarrow> real" where
  "dict_sum f d = sum_list (map (f \<circ> snd) d)"

lemma dict_sum_Nil [simp]: "dict_sum f [] = 0"
  by (simp add: dict_sum_def)

lemma dict_sum_Cons [simp]: "dict_sum f ((k, v) # d) = f v + dict_sum f d"
  by (simp add: dict_sum_def)

lemma dict_sum_update:
  "dict_ok d \<Longrightarrow> dict_sum f (AList.update k v d) =
     dict_sum f d + f v - (case map_of d k of None \<Rightarrow> 0 | Some w \<Rightarrow> f w)"
proof (induction d)
  case (Cons p d)
  have "map_of d (fst p) = None"
    using Cons.prems by (simp add: map_of_eq_None_iff)
  with Cons show ?case by (cases p) (auto split: option.splits)
qed simp

lemma dict_sum_delete:
  "dict_ok d \<Longrightarrow> dict_sum f (AList.delete k d) =
     dict_sum f d - (case map_of d k of None \<Rightarrow> 0 | Some w \<Rightarrow> f w)"
proof (induction d)
  case (Cons p d)
  show ?case
  proof (cases "fst p = k")
    case True
    with Cons.prems have "AList.delete k d = d" by (auto intro: delete_id)
    with True show ?thesis by (cases p) simp
  next
    case False
    with Cons show ?thesis by (cases p) simp
  qed
qed simp

section \<open>Sums over filtered lists\<close>

lemma sum_list_filter_nonneg:
  fixes f :: "'a \<Rightarrow> real"
  assumes "\<And>x. x \<in> set xs \<Longrightarrow> P x \<Longrightarrow> 0 \<le> f x"
  shows "0 \<le> (\<Sum>x\<leftarrow>filter P xs. f x)"
  using assms by (induction xs) auto

section \<open>Rounding down to the 1e-8 quantity grid\<close>

text \<open>\<^verbatim>\<open>math.floor(x * 1e8) / 1e8\<close>\<close>

definition floor8 :: "real \<Rightarrow> real" where
  "floor8 x = of_int \<lfloor>x * 10 ^ 8\<rfloor> / 10 ^ 8"

definition on_grid :: "real \<Rightarrow> bool" where
  "on_grid q \<longleftrightarrow> q * 10 ^ 8 \<in> \<int>"

lemma floor8_le: "floor8 x \<le> x"
  by (simp add: floor8_def divide_le_eq)

lemma floor8_nonneg: "0 \<le> x \<Longrightarrow> 0 \<le> floor8 x"
  by (simp add: floor8_def)

lemma floor8_gap: "x - 1 / 10 ^ 8 < floor8 x"
proof -
  have "x * 10 ^ 8 - 1 < of_int \<lfloor>x * 10 ^ 8\<rfloor>" by linarith
  then show ?thesis by (simp add: floor8_def field_simps)
qed

lemma on_grid_floor8 [simp]: "on_grid (floor8 x)"
  by (simp add: on_grid_def floor8_def)

lemma on_grid_0 [simp]: "on_grid 0"
  by (simp add: on_grid_def)

lemma on_grid_literals [simp]: "on_grid 1" "on_grid (numeral n)"
  by (simp_all add: on_grid_def Ints_mult)

lemma on_grid_add: "on_grid a \<Longrightarrow> on_grid b \<Longrightarrow> on_grid (a + b)"
  by (simp add: on_grid_def distrib_right)

lemma on_grid_diff: "on_grid a \<Longrightarrow> on_grid b \<Longrightarrow> on_grid (a - b)"
  by (simp add: on_grid_def left_diff_distrib)

text \<open>On the grid the \<open>1e-12\<close> dust test is exact: nothing lies strictly between 0 and it.\<close>

lemma on_grid_dust:
  assumes "on_grid q" and "0 \<le> q" and "q \<le> eps12"
  shows "q = 0"
proof -
  from assms(1) obtain n where n: "q * 10 ^ 8 = of_int n"
    by (auto simp: on_grid_def elim: Ints_cases)
  have "q * 10 ^ 8 < 1" using assms(3) by (simp add: field_simps)
  with n have "n < 1" by simp
  moreover have "0 \<le> n" using n assms(2) by (metis mult_nonneg_nonneg of_int_0_le_iff zero_le_numeral zero_le_power)
  ultimately have "n = 0" by simp
  with n show ?thesis by simp
qed

end
