(* ===== verification/Models.thy ===== *)
theory Models
  imports Prelude
begin

text \<open>
  The shared data model of \<^verbatim>\<open>src/src/core/models.py\<close>: signals, verdicts, positions, the
  portfolio, orders and the market-context rows the event guard reads.

  Field names carry a prefix per class (\<open>p_\<close> for Position, \<open>pf_\<close> for PortfolioState,
  \<open>sig_\<close> for TradeSignal, \<dots>). A rejection reason is a value of \<open>reason\<close> with
  one constructor per message of the source, carrying the values the message interpolates.
\<close>

datatype action = A_BUY | A_SELL | A_HOLD

datatype order_side = S_BUY | S_SELL

datatype position_side = LONG | SHORT

datatype risk_verdict = APPROVED | REJECTED

datatype event_kind = MACRO | EARNINGS | DELISTING

datatype event_importance = LOW | MEDIUM | HIGH

fun importance_rank :: "event_importance \<Rightarrow> nat" where
  "importance_rank LOW = 0"
| "importance_rank MEDIUM = 1"
| "importance_rank HIGH = 2"

record trade_signal =
  sig_symbol :: symbol
  sig_action :: action
  sig_confidence :: real
  sig_reasoning :: string
  sig_stop_loss :: "real option"
  sig_take_profit :: "real option"
  sig_timestamp :: instant
  sig_is_fallback :: bool

text \<open>The field constraint \<^verbatim>\<open>confidence: float = Field(ge=0.0, le=1.0)\<close> at construction.\<close>

definition make_trade_signal ::
  "symbol \<Rightarrow> action \<Rightarrow> real \<Rightarrow> string \<Rightarrow> real option \<Rightarrow> real option \<Rightarrow> instant \<Rightarrow> bool \<Rightarrow>
   py_error + trade_signal" where
  "make_trade_signal symb act conf reas sl tp ts fb =
     (if 0 \<le> conf \<and> conf \<le> 1
      then Inr \<lparr>sig_symbol = symb, sig_action = act, sig_confidence = conf,
                sig_reasoning = reas, sig_stop_loss = sl, sig_take_profit = tp,
                sig_timestamp = ts, sig_is_fallback = fb\<rparr>
      else Inl ValidationError)"

datatype reason =
    ConfidenceBelow real real
  | MaxOpenPositionsReached int
  | PortfolioNotPositive
  | AlreadyAtMaxSize symbol real real real real
  | PlannedExceedsMax real real real real real
  | DailyLossExceeds real real
  | DrawdownExceeds real real real
  | InCooldownUntil instant
  | StopLossRequired
  | StopNotBelowPrice real real
  | TakeProfitNotAbovePrice real real
  | StopDistanceExceeds real real
  | NoLongPosition symbol
  | BackstopDrawdown real real real
  | GuardDelisting "string option" instant
  | GuardMacro "string option" string event_importance instant int int
  | GuardEarnings "string option" instant
  | GuardContextUnavailable string
  | NoPriceForMarketOrder order_side symbol
  | InsufficientCash real real
  | InsufficientPosition real real
  | NoTrackedPosition symbol
  | BelowVenueMinimum real symbol
  | OtherReason string

record decision_record =
  dr_action :: string
  dr_confidence :: real
  dr_reasoning :: string
  dr_risk_verdict :: string
  dr_risk_reason :: "reason option"
  dr_realized_pnl :: "real option"
  dr_timestamp :: "instant option"
  dr_filled :: "bool option"

record risk_result =
  rr_verdict :: risk_verdict
  rr_reason :: "reason option"

abbreviation approved :: risk_result where
  "approved \<equiv> \<lparr>rr_verdict = APPROVED, rr_reason = None\<rparr>"

abbreviation rejected :: "reason \<Rightarrow> risk_result" where
  "rejected r \<equiv> \<lparr>rr_verdict = REJECTED, rr_reason = Some r\<rparr>"

section \<open>Positions and the portfolio\<close>

record position =
  p_symbol :: symbol
  p_quantity :: real
  p_avg_entry_price :: real
  p_current_price :: real
  p_side :: position_side
  p_stop_loss :: "real option"
  p_take_profit :: "real option"

definition direction :: "position_side \<Rightarrow> real" where
  "direction s = (if s = SHORT then -1 else 1)"

definition pnl :: "position \<Rightarrow> real" where
  "pnl p = (p_current_price p - p_avg_entry_price p) * p_quantity p * direction (p_side p)"

definition pnl_pct :: "position \<Rightarrow> real" where
  "pnl_pct p =
     (if p_avg_entry_price p = 0 then 0
      else (p_current_price p - p_avg_entry_price p) / p_avg_entry_price p * direction (p_side p))"

record portfolio_state =
  pf_cash :: real
  pf_positions :: "position list"
  pf_pending_value :: real

definition position_value :: "position \<Rightarrow> real" where
  "position_value p = p_quantity p * p_current_price p * direction (p_side p)"

definition total_value :: "portfolio_state \<Rightarrow> real" where
  "total_value pf =
     pf_cash pf + pf_pending_value pf + (\<Sum>p\<leftarrow>pf_positions pf. position_value p)"

definition unrealized_pnl :: "portfolio_state \<Rightarrow> real" where
  "unrealized_pnl pf = (\<Sum>p\<leftarrow>pf_positions pf. pnl p)"

text \<open>Cost basis of a position, signed like its market value.\<close>

definition cost_basis :: "position \<Rightarrow> real" where
  "cost_basis p = p_quantity p * p_avg_entry_price p * direction (p_side p)"

lemma pnl_value_basis: "pnl p = position_value p - cost_basis p"
  by (simp add: pnl_def position_value_def cost_basis_def algebra_simps)

lemma unrealized_pnl_split:
  "unrealized_pnl pf =
     total_value pf - pf_cash pf - pf_pending_value pf - (\<Sum>p\<leftarrow>pf_positions pf. cost_basis p)"
  by (simp add: unrealized_pnl_def total_value_def pnl_value_basis sum_list_subtractf)

section \<open>Market data\<close>

record ohlcv =
  c_timestamp :: "instant option"
  c_open :: real
  c_high :: real
  c_low :: real
  c_close :: real
  c_volume :: real

record market_snapshot =
  ms_symbol :: symbol
  ms_timeframe :: string
  ms_candles :: "ohlcv list"
  ms_indicators :: "(string, real option) dict"
  ms_fetched_at :: instant

record book_context =
  bc_position :: "position option"
  bc_cash :: real
  bc_total_value :: real
  bc_max_position_pct :: "real option"
  bc_strategy :: "string option"
  bc_max_holding_hours :: "real option"
  bc_held_hours :: "real option"

section \<open>Orders\<close>

record closed_entry =
  ce_entry_decision_id :: "int option"
  ce_pnl :: real

datatype order_status = FILLED | PENDING | ORDER_REJECTED | CANCELLED

record order_result =
  o_order_id :: string
  o_symbol :: symbol
  o_side :: order_side
  o_quantity :: real
  o_price :: "real option"
  o_status :: order_status
  o_filled_at :: "instant option"
  o_reason :: "reason option"
  o_realized_pnl :: "real option"
  o_closed_entries :: "closed_entry list"
  o_fee_base :: "real option"
  o_fee_quote :: "real option"

definition side_value :: "order_side \<Rightarrow> string" where
  "side_value side = (case side of S_BUY \<Rightarrow> ''buy'' | S_SELL \<Rightarrow> ''sell'')"

definition status_value :: "order_status \<Rightarrow> string" where
  "status_value status =
     (case status of FILLED \<Rightarrow> ''filled'' | PENDING \<Rightarrow> ''pending'' | ORDER_REJECTED \<Rightarrow> ''rejected''
      | CANCELLED \<Rightarrow> ''cancelled'')"

section \<open>Market context\<close>

record market_event =
  ev_source :: string
  ev_kind :: event_kind
  ev_at :: instant
  ev_title :: string
  ev_asset :: "string option"
  ev_currency :: "string option"
  ev_importance :: event_importance
  ev_url :: "string option"

record sentiment_reading =
  sr_source :: string
  sr_value :: real
  sr_label :: "string option"
  sr_as_of :: instant

record card_event =
  cev_type :: string
  cev_date :: string

record context_card =
  card_symbol :: symbol
  card_as_of :: instant
  card_sentiment :: real
  card_catalysts :: "string list"
  card_event_risk :: "card_event list"
  card_sources :: "string list"
  card_confidence :: real

record symbol_context =
  sc_symbol :: symbol
  sc_now :: instant
  sc_lookahead_hours :: real
  sc_sentiment :: "sentiment_reading option"
  sc_events :: "market_event list"
  sc_notices :: "market_event list"
  sc_card :: "context_card option"
  sc_entry_blackout :: "reason option"

end
