(* ===== verification/Storage.thy ===== *)
theory Storage
  imports Models
begin

text \<open>
  The SQLite repository of \<^verbatim>\<open>src/src/core/storage\<close>: row types, agent and venue scoping, and
  the queries the trading core reads its state back with.

  A table is the list of its rows in rowid order; a row's key is one more than the largest
  key in the table, as SQLite assigns it. A query is a filter, a stable sort on its
  \<^verbatim>\<open>ORDER BY\<close> keys (rows that tie keep their rowid order, which SQL leaves open) and a
  \<^verbatim>\<open>LIMIT\<close>. A comparison with NULL is false, so a scoped column is compared with
  \<open>Some\<close>. JSON columns hold the value they encode. A column default that reads the
  clock is the argument \<open>now\<close>. Failures of the database itself are injected where the
  callers handle them (theory \<open>Decision_Pipeline\<close>).
\<close>

record decision_row =
  d_id :: int
  d_symbol :: symbol
  d_action :: string
  d_confidence :: real
  d_reasoning :: string
  d_stop_loss :: "real option"
  d_take_profit :: "real option"
  d_risk_verdict :: string
  d_risk_reason :: "reason option"
  d_realized_pnl :: "real option"
  d_is_fallback :: bool
  d_llm_latency_ms :: "real option"
  d_llm_prompt_tokens :: "int option"
  d_llm_completion_tokens :: "int option"
  d_timestamp :: instant
  d_agent :: "string option"
  d_strategy :: "string option"

record order_row =
  or_id :: int
  or_order_id :: string
  or_symbol :: symbol
  or_side :: string
  or_quantity :: real
  or_price :: "real option"
  or_status :: string
  or_decision_id :: "int option"
  or_filled_at :: "instant option"
  or_created_at :: instant
  or_agent :: "string option"
  or_realized_pnl :: "real option"
  or_venue :: "string option"
  or_strategy :: "string option"
  or_fee_base :: "real option"
  or_fee_quote :: "real option"

record market_row =
  mk_id :: int
  mk_symbol :: symbol
  mk_timeframe :: string
  mk_candles :: "ohlcv list"
  mk_indicators :: "(string, real option) dict"
  mk_fetched_at :: instant

record portfolio_row =
  ps_id :: int
  ps_cash :: real
  ps_positions :: "position list"
  ps_total_value :: real
  ps_unrealized_pnl :: real
  ps_timestamp :: instant
  ps_agent :: "string option"
  ps_venue :: "string option"

record drawdown_reset_row =
  dd_agent :: string
  dd_baseline_value :: real
  dd_reset_at :: instant
  dd_venue :: "string option"

record watchlist_row =
  wl_id :: int
  wl_agent :: "string option"
  wl_symbol :: symbol
  wl_source :: string
  wl_added_at :: instant
  wl_expires_at :: instant
  wl_meta :: "(string, real option) dict"

record allocation_row =
  al_id :: int
  al_agent :: "string option"
  al_venue :: "string option"
  al_base_equity :: real
  al_weights :: "(string, real) dict"
  al_reason :: string
  al_created_at :: instant

record sleeve_row =
  sn_id :: int
  sn_agent :: "string option"
  sn_venue :: "string option"
  sn_strategy :: string
  sn_equity :: real
  sn_cash :: real
  sn_positions_value :: real
  sn_realized_pnl :: real
  sn_unrealized_pnl :: real
  sn_open_positions :: int
  sn_timestamp :: instant

record sleeve_reset_row =
  sd_agent :: string
  sd_strategy :: string
  sd_baseline_value :: real
  sd_reset_at :: instant

record control_row =
  ac_agent :: string
  ac_state :: string
  ac_close_all_requested :: bool
  ac_last_cycle_at :: "instant option"
  ac_last_error :: "string option"
  ac_config_override :: "string option"
  ac_updated_at :: instant

record db =
  db_decisions :: "decision_row list"
  db_orders :: "order_row list"
  db_market :: "market_row list"
  db_portfolio :: "portfolio_row list"
  db_resets :: "drawdown_reset_row list"
  db_watchlist :: "watchlist_row list"
  db_allocations :: "allocation_row list"
  db_sleeves :: "sleeve_row list"
  db_sleeve_resets :: "sleeve_reset_row list"
  db_control :: "control_row list"
  db_identity :: "(string \<times> string) option"

definition empty_db :: db where
  "empty_db = \<lparr>db_decisions = [], db_orders = [], db_market = [], db_portfolio = [], db_resets = [],
     db_watchlist = [], db_allocations = [], db_sleeves = [], db_sleeve_resets = [], db_control = [],
     db_identity = None\<rparr>"

record storage =
  st_db :: db
  st_agent :: "string option"
  st_venue :: "string option"

section \<open>The base class: scoping and identity\<close>

definition agent_scope :: "storage \<Rightarrow> string option \<Rightarrow> string option" where
  "agent_scope st agent = (case agent of Some a \<Rightarrow> Some a | None \<Rightarrow> st_agent st)"

definition where_agent :: "storage \<Rightarrow> string option \<Rightarrow> string option \<Rightarrow> bool" where
  "where_agent st agent column =
     (case agent_scope st agent of None \<Rightarrow> True | Some s \<Rightarrow> column = Some s)"

definition bind_venue :: "storage \<Rightarrow> string option \<Rightarrow> storage" where
  "bind_venue st venue = st\<lparr>st_venue := venue\<rparr>"

definition venue_match :: "string option \<Rightarrow> string \<Rightarrow> bool" where
  "venue_match column venue = (column = Some venue)"

definition risk_venue :: "storage \<Rightarrow> string option \<Rightarrow> string option" where
  "risk_venue st venue = (case venue of Some v \<Rightarrow> Some v | None \<Rightarrow> st_venue st)"

definition venue_applies :: "string option \<Rightarrow> string option \<Rightarrow> bool" where
  "venue_applies row_venue venue = (venue = None \<or> row_venue = venue)"

definition check_identity :: "storage \<Rightarrow> string \<times> string \<Rightarrow> py_error + storage" where
  "check_identity st identity =
     (case db_identity (st_db st) of
        Some row \<Rightarrow> if row \<noteq> identity then Inl (RuntimeError ''DatabaseIdentityError'') else Inr st
      | None \<Rightarrow> Inr (st\<lparr>st_db := (st_db st)\<lparr>db_identity := Some identity\<rparr>\<rparr>))"

definition get_identity :: "storage \<Rightarrow> (string \<times> string) option" where
  "get_identity st = db_identity (st_db st)"

definition next_id :: "('r \<Rightarrow> int) \<Rightarrow> 'r list \<Rightarrow> int" where
  "next_id key rows = fold (\<lambda>r m. max (key r) m) rows 0 + 1"

text \<open>\<^verbatim>\<open>ORDER BY key DESC LIMIT n\<close>, for one or two integer keys.\<close>

definition desc :: "('r \<Rightarrow> int) \<Rightarrow> 'r list \<Rightarrow> 'r list" where
  "desc key rows = sort_key (\<lambda>r. - key r) rows"

definition desc2 :: "('r \<Rightarrow> int) \<Rightarrow> ('r \<Rightarrow> int) \<Rightarrow> 'r list \<Rightarrow> 'r list" where
  "desc2 key1 key2 rows = desc key1 (desc key2 rows)"

definition first :: "'r list \<Rightarrow> 'r option" where
  "first rows = (case rows of [] \<Rightarrow> None | r # _ \<Rightarrow> Some r)"

text \<open>\<^verbatim>\<open>SELECT max(column)\<close>: NULL over no rows.\<close>

fun sql_max :: "real list \<Rightarrow> real option" where
  "sql_max [] = None"
| "sql_max (x # xs) = Some (fold max xs x)"


section \<open>Decisions\<close>

definition save_llm_decision ::
  "storage \<Rightarrow> instant \<Rightarrow> symbol \<Rightarrow> string \<Rightarrow> real \<Rightarrow> string \<Rightarrow> real option \<Rightarrow> real option \<Rightarrow> string \<Rightarrow>
   reason option \<Rightarrow> bool \<Rightarrow> real option \<Rightarrow> int option \<Rightarrow> int option \<Rightarrow> string option \<Rightarrow> storage \<times> int" where
  "save_llm_decision st now s action confidence reasoning stop_loss take_profit risk_verdict risk_reason
       is_fallback latency prompt_tokens completion_tokens strategy =
     (let rows = db_decisions (st_db st); i = next_id d_id rows;
          row = \<lparr>d_id = i, d_symbol = s, d_action = action, d_confidence = confidence,
                 d_reasoning = reasoning, d_stop_loss = stop_loss, d_take_profit = take_profit,
                 d_risk_verdict = risk_verdict, d_risk_reason = risk_reason, d_realized_pnl = None,
                 d_is_fallback = is_fallback, d_llm_latency_ms = latency,
                 d_llm_prompt_tokens = prompt_tokens, d_llm_completion_tokens = completion_tokens,
                 d_timestamp = now, d_agent = agent_scope st None, d_strategy = strategy\<rparr>
      in (st\<lparr>st_db := (st_db st)\<lparr>db_decisions := rows @ [row]\<rparr>\<rparr>, i))"

definition update_decisions :: "storage \<Rightarrow> (decision_row \<Rightarrow> decision_row) \<Rightarrow> storage" where
  "update_decisions st f = st\<lparr>st_db := (st_db st)\<lparr>db_decisions := map f (db_decisions (st_db st))\<rparr>\<rparr>"

definition set_realized_pnl :: "storage \<Rightarrow> int \<Rightarrow> real \<Rightarrow> storage" where
  "set_realized_pnl st decision_id realized =
     update_decisions st (\<lambda>r. if d_id r = decision_id then r\<lparr>d_realized_pnl := Some realized\<rparr> else r)"

definition add_realized_pnl :: "storage \<Rightarrow> int \<Rightarrow> real \<Rightarrow> storage" where
  "add_realized_pnl st decision_id delta =
     update_decisions st (\<lambda>r. if d_id r = decision_id
       then r\<lparr>d_realized_pnl := Some ((case d_realized_pnl r of None \<Rightarrow> 0 | Some v \<Rightarrow> v) + delta)\<rparr> else r)"

definition get_exit_levels ::
  "storage \<Rightarrow> int list \<Rightarrow> (int, real option \<times> real option) dict" where
  "get_exit_levels st ids =
     map (\<lambda>r. (d_id r, (d_stop_loss r, d_take_profit r)))
       (filter (\<lambda>r. d_id r \<in> set ids) (db_decisions (st_db st)))"

definition get_closed_decisions :: "storage \<Rightarrow> nat \<Rightarrow> string option \<Rightarrow> decision_row list" where
  "get_closed_decisions st limit agent =
     take limit (desc2 d_timestamp d_id
       (filter (\<lambda>r. d_realized_pnl r \<noteq> None \<and> where_agent st agent (d_agent r)) (db_decisions (st_db st))))"

definition get_recent_decisions ::
  "storage \<Rightarrow> symbol option \<Rightarrow> nat \<Rightarrow> bool \<Rightarrow> string option \<Rightarrow> string option \<Rightarrow> decision_row list" where
  "get_recent_decisions st s limit include_fallback agent strategy =
     take limit (desc d_timestamp
       (filter (\<lambda>r. (include_fallback \<or> \<not> d_is_fallback r)
            \<and> (case s of None \<Rightarrow> True | Some x \<Rightarrow> x = [] \<or> d_symbol r = x)
            \<and> (case strategy of None \<Rightarrow> True | Some x \<Rightarrow> d_strategy r = Some x)
            \<and> where_agent st agent (d_agent r)) (db_decisions (st_db st))))"

definition get_decision_strategies ::
  "storage \<Rightarrow> int list \<Rightarrow> (int, string option \<times> instant option) dict" where
  "get_decision_strategies st ids =
     map (\<lambda>r. (d_id r, (d_strategy r, Some (d_timestamp r))))
       (filter (\<lambda>r. d_id r \<in> set ids) (db_decisions (st_db st)))"

definition get_decisions_in_range ::
  "storage \<Rightarrow> instant \<Rightarrow> instant \<Rightarrow> symbol list \<Rightarrow> bool \<Rightarrow> string option \<Rightarrow> string option \<Rightarrow> decision_row list" where
  "get_decisions_in_range st start stop syms include_fallback agent strategy =
     sort_key d_timestamp
       (filter (\<lambda>r. start \<le> d_timestamp r \<and> d_timestamp r \<le> stop
            \<and> (syms = [] \<or> d_symbol r \<in> set syms)
            \<and> (include_fallback \<or> \<not> d_is_fallback r)
            \<and> (case strategy of None \<Rightarrow> True | Some x \<Rightarrow> d_strategy r = Some x)
            \<and> where_agent st agent (d_agent r)) (db_decisions (st_db st)))"

section \<open>Orders\<close>

text \<open>The \<^verbatim>\<open>order_id\<close> column is unique: a second insert raises the integrity error.\<close>

definition save_order ::
  "storage \<Rightarrow> instant \<Rightarrow> string \<Rightarrow> symbol \<Rightarrow> string \<Rightarrow> real \<Rightarrow> real option \<Rightarrow> string \<Rightarrow> int option \<Rightarrow>
   instant option \<Rightarrow> real option \<Rightarrow> string option \<Rightarrow> real option \<Rightarrow> real option \<Rightarrow>
   storage \<times> (py_error + int)" where
  "save_order st now order_id s side qty price status decision_id filled_at realized_pnl strategy
       fee_base fee_quote =
     (let rows = db_orders (st_db st); i = next_id or_id rows
      in if \<exists>r\<in>set rows. or_order_id r = order_id then (st, Inl (ExternalError ''IntegrityError''))
         else (st\<lparr>st_db := (st_db st)\<lparr>db_orders := rows @
                [\<lparr>or_id = i, or_order_id = order_id, or_symbol = s, or_side = side, or_quantity = qty,
                  or_price = price, or_status = status, or_decision_id = decision_id,
                  or_filled_at = filled_at, or_created_at = now, or_agent = agent_scope st None,
                  or_realized_pnl = realized_pnl, or_venue = st_venue st, or_strategy = strategy,
                  or_fee_base = fee_base, or_fee_quote = fee_quote\<rparr>]\<rparr>\<rparr>, Inr i))"

definition supplied :: "'a option \<Rightarrow> 'a option \<Rightarrow> 'a option" where
  "supplied new old = (case new of None \<Rightarrow> old | Some v \<Rightarrow> Some v)"

definition update_order_status ::
  "storage \<Rightarrow> string \<Rightarrow> string \<Rightarrow> real option \<Rightarrow> instant option \<Rightarrow> real option \<Rightarrow> real option \<Rightarrow>
   real option \<Rightarrow> real option \<Rightarrow> storage \<times> bool" where
  "update_order_status st order_id status price filled_at realized_pnl qty fee_base fee_quote =
     (let patch = (\<lambda>r. r\<lparr>or_status := status,
                         or_price := supplied price (or_price r),
                         or_filled_at := supplied filled_at (or_filled_at r),
                         or_realized_pnl := supplied realized_pnl (or_realized_pnl r),
                         or_quantity := (case qty of None \<Rightarrow> or_quantity r | Some q \<Rightarrow> q),
                         or_fee_base := supplied fee_base (or_fee_base r),
                         or_fee_quote := supplied fee_quote (or_fee_quote r)\<rparr>)
      in (st\<lparr>st_db := (st_db st)\<lparr>db_orders :=
              map (\<lambda>r. if or_order_id r = order_id then patch r else r) (db_orders (st_db st))\<rparr>\<rparr>,
          \<exists>r\<in>set (db_orders (st_db st)). or_order_id r = order_id))"

definition get_recent_orders :: "storage \<Rightarrow> symbol option \<Rightarrow> nat \<Rightarrow> string option \<Rightarrow> order_row list" where
  "get_recent_orders st s limit agent =
     take limit (desc or_id
       (filter (\<lambda>r. (case s of None \<Rightarrow> True | Some x \<Rightarrow> x = [] \<or> or_symbol r = x)
            \<and> where_agent st agent (or_agent r)) (db_orders (st_db st))))"

definition get_recent_closing_fills ::
  "storage \<Rightarrow> nat \<Rightarrow> string option \<Rightarrow> string option \<Rightarrow> string option \<Rightarrow> order_row list" where
  "get_recent_closing_fills st limit agent strategy venue =
     take limit (desc or_id
       (filter (\<lambda>r. or_status r = ''filled'' \<and> or_realized_pnl r \<noteq> None
            \<and> (case strategy of None \<Rightarrow> True | Some x \<Rightarrow> or_strategy r = Some x)
            \<and> where_agent st agent (or_agent r)
            \<and> (case risk_venue st venue of None \<Rightarrow> True | Some v \<Rightarrow> venue_match (or_venue r) v))
          (db_orders (st_db st))))"

definition get_filled_decision_ids :: "storage \<Rightarrow> int list \<Rightarrow> int list" where
  "get_filled_decision_ids st ids =
     remdups (List.map_filter (\<lambda>r. if or_status r = ''filled'' then
         (case or_decision_id r of Some i \<Rightarrow> if i \<in> set ids then Some i else None | None \<Rightarrow> None)
       else None) (db_orders (st_db st)))"

definition get_orders_by_status ::
  "storage \<Rightarrow> string \<Rightarrow> string option \<Rightarrow> string option \<Rightarrow> order_row list" where
  "get_orders_by_status st status agent venue =
     sort_key or_id (filter (\<lambda>r. or_status r = status
            \<and> (case venue of None \<Rightarrow> True | Some v \<Rightarrow> venue_match (or_venue r) v)
            \<and> where_agent st agent (or_agent r)) (db_orders (st_db st)))"

definition get_filled_orders ::
  "storage \<Rightarrow> symbol option \<Rightarrow> string option \<Rightarrow> string option \<Rightarrow> order_row list" where
  "get_filled_orders st s agent venue =
     filter (\<lambda>r. case s of None \<Rightarrow> True | Some x \<Rightarrow> x = [] \<or> or_symbol r = x)
       (get_orders_by_status st ''filled'' agent venue)"

definition get_pending_orders :: "storage \<Rightarrow> string option \<Rightarrow> string option \<Rightarrow> order_row list" where
  "get_pending_orders st agent venue = get_orders_by_status st ''pending'' agent venue"


section \<open>Market and portfolio snapshots\<close>

definition save_market_snapshot ::
  "storage \<Rightarrow> instant \<Rightarrow> symbol \<Rightarrow> string \<Rightarrow> ohlcv list \<Rightarrow> (string, real option) dict \<Rightarrow> storage \<times> int" where
  "save_market_snapshot st now s timeframe candles indicators =
     (let rows = db_market (st_db st); i = next_id mk_id rows
      in (st\<lparr>st_db := (st_db st)\<lparr>db_market := rows @
            [\<lparr>mk_id = i, mk_symbol = s, mk_timeframe = timeframe, mk_candles = candles,
              mk_indicators = indicators, mk_fetched_at = now\<rparr>]\<rparr>\<rparr>, i))"

definition get_recent_snapshots :: "storage \<Rightarrow> symbol \<Rightarrow> nat \<Rightarrow> market_row list" where
  "get_recent_snapshots st s limit =
     take limit (desc mk_fetched_at (filter (\<lambda>r. mk_symbol r = s) (db_market (st_db st))))"

definition save_portfolio_snapshot ::
  "storage \<Rightarrow> instant \<Rightarrow> real \<Rightarrow> position list \<Rightarrow> real \<Rightarrow> real \<Rightarrow> storage \<times> int" where
  "save_portfolio_snapshot st now cash positions v unrealized =
     (let rows = db_portfolio (st_db st); i = next_id ps_id rows
      in (st\<lparr>st_db := (st_db st)\<lparr>db_portfolio := rows @
            [\<lparr>ps_id = i, ps_cash = cash, ps_positions = positions, ps_total_value = v,
              ps_unrealized_pnl = unrealized, ps_timestamp = now, ps_agent = agent_scope st None,
              ps_venue = st_venue st\<rparr>]\<rparr>\<rparr>, i))"

definition scoped_snapshots :: "storage \<Rightarrow> string option \<Rightarrow> portfolio_row list" where
  "scoped_snapshots st agent = filter (\<lambda>r. where_agent st agent (ps_agent r)) (db_portfolio (st_db st))"

definition risk_scoped_snapshots ::
  "storage \<Rightarrow> string option \<Rightarrow> portfolio_row list \<Rightarrow> portfolio_row list" where
  "risk_scoped_snapshots st venue rows =
     (case risk_venue st venue of
        None \<Rightarrow> rows | Some v \<Rightarrow> filter (\<lambda>r. venue_match (ps_venue r) v) rows)"

definition day_start :: "instant \<Rightarrow> instant" where
  "day_start now = now div day_us * day_us"

definition get_first_portfolio_snapshot_of_day ::
  "storage \<Rightarrow> instant \<Rightarrow> string option \<Rightarrow> string option \<Rightarrow> portfolio_row option" where
  "get_first_portfolio_snapshot_of_day st now agent venue =
     first (sort_key ps_timestamp (risk_scoped_snapshots st venue
       (filter (\<lambda>r. day_start now \<le> ps_timestamp r) (scoped_snapshots st agent))))"

definition get_max_portfolio_value :: "storage \<Rightarrow> string option \<Rightarrow> string option \<Rightarrow> real option" where
  "get_max_portfolio_value st agent venue =
     sql_max (map ps_total_value (risk_scoped_snapshots st venue (scoped_snapshots st agent)))"

definition record_drawdown_reset ::
  "storage \<Rightarrow> instant \<Rightarrow> real \<Rightarrow> string option \<Rightarrow> string option \<Rightarrow> py_error + storage" where
  "record_drawdown_reset st now baseline_value agent venue =
     (case agent_scope st agent of
        None \<Rightarrow> Inl ValueError
      | Some scope \<Rightarrow>
          let rows = db_resets (st_db st);
              row = \<lparr>dd_agent = scope, dd_baseline_value = baseline_value, dd_reset_at = now,
                     dd_venue = venue\<rparr>
          in Inr (st\<lparr>st_db := (st_db st)\<lparr>db_resets :=
               (if \<exists>r\<in>set rows. dd_agent r = scope
                then map (\<lambda>r. if dd_agent r = scope then row else r) rows else rows @ [row])\<rparr>\<rparr>))"

definition get_drawdown_reset :: "storage \<Rightarrow> string option \<Rightarrow> drawdown_reset_row option" where
  "get_drawdown_reset st agent =
     (case agent_scope st agent of
        None \<Rightarrow> None | Some scope \<Rightarrow> find (\<lambda>r. dd_agent r = scope) (db_resets (st_db st)))"

definition get_effective_peak_equity :: "storage \<Rightarrow> string option \<Rightarrow> string option \<Rightarrow> real option" where
  "get_effective_peak_equity st agent venue0 =
     (let venue = risk_venue st venue0
      in case (case get_drawdown_reset st agent of
                 None \<Rightarrow> None
               | Some r \<Rightarrow> if venue_applies (dd_venue r) venue then Some r else None) of
           None \<Rightarrow> get_max_portfolio_value st agent venue
         | Some reset \<Rightarrow>
             (case sql_max (map ps_total_value (risk_scoped_snapshots st venue
                     (filter (\<lambda>r. dd_reset_at reset \<le> ps_timestamp r) (scoped_snapshots st agent)))) of
                None \<Rightarrow> Some (dd_baseline_value reset)
              | Some since \<Rightarrow> Some (max (dd_baseline_value reset) since)))"

definition venue_snapshots :: "storage \<Rightarrow> string option \<Rightarrow> string option \<Rightarrow> portfolio_row list" where
  "venue_snapshots st agent venue =
     (case venue of None \<Rightarrow> scoped_snapshots st agent
      | Some v \<Rightarrow> filter (\<lambda>r. venue_match (ps_venue r) v) (scoped_snapshots st agent))"

definition get_latest_portfolio_snapshot ::
  "storage \<Rightarrow> string option \<Rightarrow> string option \<Rightarrow> portfolio_row option" where
  "get_latest_portfolio_snapshot st agent venue = first (desc ps_id (venue_snapshots st agent venue))"

definition get_first_portfolio_snapshot ::
  "storage \<Rightarrow> string option \<Rightarrow> string option \<Rightarrow> portfolio_row option" where
  "get_first_portfolio_snapshot st agent venue = first (sort_key ps_id (venue_snapshots st agent venue))"

definition get_portfolio_history :: "storage \<Rightarrow> nat \<Rightarrow> string option \<Rightarrow> portfolio_row list" where
  "get_portfolio_history st limit agent = take limit (desc ps_id (scoped_snapshots st agent))"

section \<open>Sleeves\<close>

definition sleeve_scoped :: "storage \<Rightarrow> string option \<Rightarrow> string option \<Rightarrow> string option \<Rightarrow> bool" where
  "sleeve_scoped st agent row_agent row_venue \<longleftrightarrow>
     where_agent st agent row_agent \<and>
     (case st_venue st of None \<Rightarrow> True | Some v \<Rightarrow> row_venue = Some v)"

definition record_allocation ::
  "storage \<Rightarrow> instant \<Rightarrow> real \<Rightarrow> (string, real) dict \<Rightarrow> string \<Rightarrow> storage \<times> allocation_row" where
  "record_allocation st now base_equity weights why =
     (let rows = db_allocations (st_db st);
          row = \<lparr>al_id = next_id al_id rows, al_agent = agent_scope st None, al_venue = st_venue st,
                 al_base_equity = base_equity, al_weights = weights, al_reason = why,
                 al_created_at = now\<rparr>
      in (st\<lparr>st_db := (st_db st)\<lparr>db_allocations := rows @ [row]\<rparr>\<rparr>, row))"

definition get_latest_allocation :: "storage \<Rightarrow> string option \<Rightarrow> allocation_row option" where
  "get_latest_allocation st agent =
     first (desc al_id (filter (\<lambda>r. sleeve_scoped st agent (al_agent r) (al_venue r))
       (db_allocations (st_db st))))"

text \<open>The sleeve's filled orders; an order without a fill time is not at or after any instant.\<close>

definition strategy_fills :: "storage \<Rightarrow> string \<Rightarrow> instant option \<Rightarrow> string option \<Rightarrow> order_row list" where
  "strategy_fills st strategy since agent =
     filter (\<lambda>r. or_status r = ''filled'' \<and> or_strategy r = Some strategy
          \<and> (case since of None \<Rightarrow> True
             | Some t \<Rightarrow> (case or_filled_at r of None \<Rightarrow> False | Some f \<Rightarrow> t \<le> f))
          \<and> where_agent st agent (or_agent r)
          \<and> (case st_venue st of None \<Rightarrow> True | Some v \<Rightarrow> venue_match (or_venue r) v))
       (db_orders (st_db st))"

definition get_strategy_realized_pnl :: "storage \<Rightarrow> string \<Rightarrow> instant \<Rightarrow> string option \<Rightarrow> real" where
  "get_strategy_realized_pnl st strategy since agent =
     (\<Sum>v\<leftarrow>List.map_filter or_realized_pnl (strategy_fills st strategy (Some since) agent). v)"

definition get_strategy_orders :: "storage \<Rightarrow> string \<Rightarrow> instant option \<Rightarrow> string option \<Rightarrow> order_row list" where
  "get_strategy_orders st strategy since agent = sort_key or_id (strategy_fills st strategy since agent)"

definition sleeve_rows :: "storage \<Rightarrow> string \<Rightarrow> instant option \<Rightarrow> string option \<Rightarrow> sleeve_row list" where
  "sleeve_rows st strategy since agent =
     filter (\<lambda>r. sleeve_scoped st agent (sn_agent r) (sn_venue r) \<and> sn_strategy r = strategy
          \<and> (case since of None \<Rightarrow> True | Some t \<Rightarrow> t \<le> sn_timestamp r))
       (db_sleeves (st_db st))"

definition get_sleeve_equity_series ::
  "storage \<Rightarrow> string \<Rightarrow> instant option \<Rightarrow> string option \<Rightarrow> real list" where
  "get_sleeve_equity_series st strategy since agent =
     map sn_equity (sort_key sn_timestamp (sort_key sn_id (sleeve_rows st strategy since agent)))"

definition save_sleeve_snapshot ::
  "storage \<Rightarrow> instant \<Rightarrow> string \<Rightarrow> real \<Rightarrow> real \<Rightarrow> real \<Rightarrow> real \<Rightarrow> real \<Rightarrow> int \<Rightarrow> storage \<times> int" where
  "save_sleeve_snapshot st now strategy equity cash positions_value realized unrealized open_positions =
     (let rows = db_sleeves (st_db st); i = next_id sn_id rows
      in (st\<lparr>st_db := (st_db st)\<lparr>db_sleeves := rows @
            [\<lparr>sn_id = i, sn_agent = agent_scope st None, sn_venue = st_venue st, sn_strategy = strategy,
              sn_equity = equity, sn_cash = cash, sn_positions_value = positions_value,
              sn_realized_pnl = realized, sn_unrealized_pnl = unrealized,
              sn_open_positions = open_positions, sn_timestamp = now\<rparr>]\<rparr>\<rparr>, i))"

definition get_sleeve_peak_equity :: "storage \<Rightarrow> string \<Rightarrow> instant \<Rightarrow> string option \<Rightarrow> real option" where
  "get_sleeve_peak_equity st strategy since agent =
     sql_max (map sn_equity (sleeve_rows st strategy (Some since) agent))"

definition get_latest_sleeve_snapshot :: "storage \<Rightarrow> string \<Rightarrow> string option \<Rightarrow> sleeve_row option" where
  "get_latest_sleeve_snapshot st strategy agent =
     first (desc sn_id (sleeve_rows st strategy None agent))"

definition record_sleeve_drawdown_reset ::
  "storage \<Rightarrow> instant \<Rightarrow> string \<Rightarrow> real \<Rightarrow> string option \<Rightarrow> py_error + storage" where
  "record_sleeve_drawdown_reset st now strategy baseline_value agent =
     (case agent_scope st agent of
        None \<Rightarrow> Inl ValueError
      | Some scope \<Rightarrow>
          let rows = db_sleeve_resets (st_db st);
              row = \<lparr>sd_agent = scope, sd_strategy = strategy, sd_baseline_value = baseline_value,
                     sd_reset_at = now\<rparr>;
              mine = (\<lambda>r. sd_agent r = scope \<and> sd_strategy r = strategy)
          in Inr (st\<lparr>st_db := (st_db st)\<lparr>db_sleeve_resets :=
               (if \<exists>r\<in>set rows. mine r then map (\<lambda>r. if mine r then row else r) rows
                else rows @ [row])\<rparr>\<rparr>))"

definition get_sleeve_drawdown_reset :: "storage \<Rightarrow> string \<Rightarrow> string option \<Rightarrow> sleeve_reset_row option" where
  "get_sleeve_drawdown_reset st strategy agent =
     (case agent_scope st agent of
        None \<Rightarrow> None
      | Some scope \<Rightarrow> find (\<lambda>r. sd_agent r = scope \<and> sd_strategy r = strategy)
                       (db_sleeve_resets (st_db st)))"

definition get_effective_sleeve_peak :: "storage \<Rightarrow> string \<Rightarrow> instant \<Rightarrow> string option \<Rightarrow> real option" where
  "get_effective_sleeve_peak st strategy since agent =
     (case (case get_sleeve_drawdown_reset st strategy agent of
              None \<Rightarrow> None | Some r \<Rightarrow> if sd_reset_at r < since then None else Some r) of
        None \<Rightarrow> get_sleeve_peak_equity st strategy since agent
      | Some reset \<Rightarrow>
          (case get_sleeve_peak_equity st strategy (sd_reset_at reset) agent of
             None \<Rightarrow> Some (sd_baseline_value reset)
           | Some peak \<Rightarrow> Some (max (sd_baseline_value reset) peak)))"

fun set_defaults :: "(symbol \<times> string) list \<Rightarrow> (symbol, string) dict \<Rightarrow> (symbol, string) dict" where
  "set_defaults [] d = d"
| "set_defaults ((s, x) # xs) d =
     set_defaults xs (if map_of d s = None then AList.update s x d else d)"

definition get_position_strategies ::
  "storage \<Rightarrow> symbol list \<Rightarrow> string option \<Rightarrow> (symbol, string) dict" where
  "get_position_strategies st syms agent =
     set_defaults
       (map (\<lambda>r. (or_symbol r, the (or_strategy r)))
         (desc or_id (filter (\<lambda>r. or_status r = ''filled'' \<and> or_side r = ''buy'' \<and> or_strategy r \<noteq> None
             \<and> or_symbol r \<in> set syms \<and> where_agent st agent (or_agent r)) (db_orders (st_db st))))) []"

definition get_first_sleeve_snapshot_of_day ::
  "storage \<Rightarrow> instant \<Rightarrow> string \<Rightarrow> instant option \<Rightarrow> string option \<Rightarrow> sleeve_row option" where
  "get_first_sleeve_snapshot_of_day st now strategy since agent =
     (let start = (case since of None \<Rightarrow> day_start now | Some t \<Rightarrow> max (day_start now) t)
      in first (sort_key sn_timestamp (sleeve_rows st strategy (Some start) agent)))"


section \<open>Pruning, watchlist, control\<close>

definition prune :: "storage \<Rightarrow> instant \<Rightarrow> int \<Rightarrow> int \<Rightarrow> storage \<times> (string, nat) dict" where
  "prune st now snapshot_days history_days =
     (if snapshot_days \<le> 0 \<and> history_days \<le> 0 then (st, [])
      else let d0 = st_db st;
               (d1, c1) =
                 (if snapshot_days > 0
                  then let cutoff = now - snapshot_days * day_us;
                           kept = filter (\<lambda>r. \<not> mk_fetched_at r < cutoff) (db_market d0)
                       in (d0\<lparr>db_market := kept\<rparr>,
                           [(''market_snapshots'', length (db_market d0) - length kept)])
                  else (d0, []));
               (d2, c2) =
                 (if history_days > 0
                  then let cutoff = now - history_days * day_us;
                           ds = filter (\<lambda>r. \<not> d_timestamp r < cutoff) (db_decisions d1);
                           os = filter (\<lambda>r. \<not> or_created_at r < cutoff) (db_orders d1)
                       in (d1\<lparr>db_decisions := ds, db_orders := os\<rparr>,
                           [(''llm_decisions'', length (db_decisions d1) - length ds),
                            (''orders'', length (db_orders d1) - length os)])
                  else (d1, []))
           in (st\<lparr>st_db := d2\<rparr>, c1 @ c2))"

text \<open>\<^verbatim>\<open>upsert_watchlist_entry\<close>: the scoped agent is compared as a value, so an unbound storage
  (NULL agent) never finds an existing row; more than one match raises.\<close>

definition upsert_watchlist_entry ::
  "storage \<Rightarrow> instant \<Rightarrow> symbol \<Rightarrow> instant \<Rightarrow> string option \<Rightarrow> string \<Rightarrow> (string, real option) dict \<Rightarrow>
   py_error + storage" where
  "upsert_watchlist_entry st added_at s expires_at agent source meta =
     (let scope = agent_scope st agent; rows = db_watchlist (st_db st);
          mine = (\<lambda>r. wl_symbol r = s \<and> scope \<noteq> None \<and> wl_agent r = scope);
          matches = filter mine rows
      in if length matches > 1 then Inl (ExternalError ''MultipleResultsFound'')
         else if matches = []
         then Inr (st\<lparr>st_db := (st_db st)\<lparr>db_watchlist := rows @
                [\<lparr>wl_id = next_id wl_id rows, wl_agent = scope, wl_symbol = s, wl_source = source,
                  wl_added_at = added_at, wl_expires_at = expires_at, wl_meta = meta\<rparr>]\<rparr>\<rparr>)
         else Inr (st\<lparr>st_db := (st_db st)\<lparr>db_watchlist :=
                map (\<lambda>r. if mine r then r\<lparr>wl_expires_at := expires_at, wl_meta := meta\<rparr> else r) rows\<rparr>\<rparr>))"

definition get_active_watchlist :: "storage \<Rightarrow> instant \<Rightarrow> string option \<Rightarrow> watchlist_row list" where
  "get_active_watchlist st now agent =
     sort_key wl_added_at (filter (\<lambda>r. now < wl_expires_at r \<and> where_agent st agent (wl_agent r))
       (db_watchlist (st_db st)))"

definition delete_expired_watchlist_entries :: "storage \<Rightarrow> instant \<Rightarrow> string option \<Rightarrow> storage \<times> nat" where
  "delete_expired_watchlist_entries st now agent =
     (let rows = db_watchlist (st_db st);
          kept = filter (\<lambda>r. \<not> (wl_expires_at r \<le> now \<and> where_agent st agent (wl_agent r))) rows
      in (st\<lparr>st_db := (st_db st)\<lparr>db_watchlist := kept\<rparr>\<rparr>, length rows - length kept))"

definition get_agent_control :: "storage \<Rightarrow> string \<Rightarrow> control_row option" where
  "get_agent_control st agent = find (\<lambda>r. ac_agent r = agent) (db_control (st_db st))"

definition upsert_agent_control ::
  "storage \<Rightarrow> instant \<Rightarrow> string \<Rightarrow> (control_row \<Rightarrow> control_row) \<Rightarrow> storage" where
  "upsert_agent_control st now agent patch =
     (let rows = db_control (st_db st);
          fresh = \<lparr>ac_agent = agent, ac_state = ''running'', ac_close_all_requested = False,
                   ac_last_cycle_at = None, ac_last_error = None, ac_config_override = None,
                   ac_updated_at = now\<rparr>;
          upd = (\<lambda>r. (patch r)\<lparr>ac_updated_at := now\<rparr>)
      in st\<lparr>st_db := (st_db st)\<lparr>db_control :=
           (if get_agent_control st agent = None then rows @ [upd fresh]
            else map (\<lambda>r. if ac_agent r = agent then upd r else r) rows)\<rparr>\<rparr>)"

definition set_agent_state :: "storage \<Rightarrow> instant \<Rightarrow> string \<Rightarrow> string \<Rightarrow> py_error + storage" where
  "set_agent_state st now agent state =
     (if state \<notin> {''running'', ''paused''} then Inl ValueError
      else Inr (upsert_agent_control st now agent (ac_state_update (\<lambda>_. state))))"

definition request_close_all :: "storage \<Rightarrow> instant \<Rightarrow> string \<Rightarrow> bool \<Rightarrow> storage" where
  "request_close_all st now agent requested =
     upsert_agent_control st now agent (ac_close_all_requested_update (\<lambda>_. requested))"

definition record_cycle_health :: "storage \<Rightarrow> instant \<Rightarrow> string \<Rightarrow> string option \<Rightarrow> storage" where
  "record_cycle_health st now agent last_error =
     upsert_agent_control st now agent
       (\<lambda>r. r\<lparr>ac_last_cycle_at := Some now, ac_last_error := last_error\<rparr>)"

definition set_config_override :: "storage \<Rightarrow> instant \<Rightarrow> string \<Rightarrow> string option \<Rightarrow> storage" where
  "set_config_override st now agent overrides =
     upsert_agent_control st now agent (ac_config_override_update (\<lambda>_. overrides))"

section \<open>Lemmas on queries\<close>

named_theorems scope_simps \<open>unfoldings of the agent and venue scoping\<close>

lemmas scoping [scope_simps] =
  agent_scope_def where_agent_def risk_venue_def venue_match_def sleeve_scoped_def

lemma set_desc [simp]: "set (desc key rows) = set rows" "set (desc2 k1 k2 rows) = set rows"
  by (simp_all add: desc_def desc2_def)

lemma next_id_greater: "r \<in> set rows \<Longrightarrow> key r < next_id key rows"
proof -
  have mono: "m \<le> fold (\<lambda>r m. max (key r) m) rs m" for rs m
  proof (induction rs arbitrary: m)
    case (Cons r rs)
    from Cons.IH [of "max (key r) m"] show ?case by simp
  qed simp
  have "r \<in> set rows \<Longrightarrow> key r \<le> fold (\<lambda>r m. max (key r) m) rows m" for m
  proof (induction rows arbitrary: m)
    case (Cons x rows)
    then show ?case using mono [of "max (key x) m" rows] by auto
  qed simp
  then show "r \<in> set rows \<Longrightarrow> key r < next_id key rows" by (simp add: next_id_def)
qed

lemma next_id_fresh: "next_id key rows \<notin> key ` set rows"
  by (metis imageE less_irrefl next_id_greater)

text \<open>The newest row comes first.\<close>

lemma first_desc_snoc:
  assumes "\<And>r. r \<in> set rows \<Longrightarrow> key r < key x"
  shows "first (desc key (rows @ [x])) = Some x"
proof -
  have "desc key (rows @ [x]) = x # desc key rows"
    using assms by (induction rows) (auto simp: desc_def not_le [symmetric])
  then show ?thesis by (simp add: first_def)
qed

lemma sql_max_ge: "x \<in> set xs \<Longrightarrow> \<exists>m. sql_max xs = Some m \<and> x \<le> m"
proof (cases xs)
  case (Cons y ys)
  have "x \<in> set (y # ys) \<Longrightarrow> x \<le> fold max ys y"
    by (metis Max.set_eq_fold Max_ge finite_set)
  then show "x \<in> set xs \<Longrightarrow> ?thesis" using Cons by simp
qed simp

lemma sql_max_mem: "sql_max xs = Some m \<Longrightarrow> m \<in> set xs"
  using Max_in [OF finite_set [of xs]] by (cases xs) (simp_all add: Max.set_eq_fold [symmetric])


section \<open>Properties\<close>

text \<open>One agent never reads another agent's state: every decision, order and snapshot that a
  storage bound to an agent returns to that agent's trading core (prompt history, fill replay,
  loss streak, daily baseline, paper book) was written for that agent; closing fills and the
  daily baseline are also of the bound venue.\<close>

theorem bound_reads_are_own_rows:
  assumes "st_agent st = Some a"
  shows "(\<forall>r\<in>set (get_recent_decisions st s limit fb None strategy). d_agent r = Some a)
    \<and> (\<forall>r\<in>set (get_filled_orders st s None venue) \<union> set (get_pending_orders st None venue).
         or_agent r = Some a)
    \<and> (\<forall>r\<in>set (get_recent_closing_fills st limit None strategy None). or_agent r = Some a
         \<and> (st_venue st \<noteq> None \<longrightarrow> or_venue r = st_venue st))
    \<and> (\<forall>r. get_latest_portfolio_snapshot st None venue = Some r \<longrightarrow> ps_agent r = Some a)
    \<and> (\<forall>r. get_first_portfolio_snapshot_of_day st now None None = Some r \<longrightarrow>
         ps_agent r = Some a \<and> (st_venue st \<noteq> None \<longrightarrow> ps_venue r = st_venue st))"
proof -
  have first_mem: "first rows = Some r \<Longrightarrow> r \<in> set rows" for rows and r :: portfolio_row
    by (cases rows) (simp_all add: first_def)
  have taken: "x \<in> set (take n xs) \<Longrightarrow> x \<in> set xs" for x :: order_row and n xs by (rule in_set_takeD)
  have takend: "x \<in> set (take n xs) \<Longrightarrow> x \<in> set xs" for x :: decision_row and n xs by (rule in_set_takeD)
  show ?thesis
    using assms
    by (auto simp: get_recent_decisions_def get_filled_orders_def get_pending_orders_def
        get_orders_by_status_def get_recent_closing_fills_def get_latest_portfolio_snapshot_def
        get_first_portfolio_snapshot_of_day_def venue_snapshots_def scoped_snapshots_def
        risk_scoped_snapshots_def scope_simps
        dest!: first_mem taken takend split: option.splits)
qed

definition demo_storage :: storage where
  "demo_storage = \<lparr>st_db = empty_db, st_agent = Some ''crypto'', st_venue = Some ''paper''\<rparr>"

theorem bound_reads_are_own_rows_witness:
  "\<exists>st r. st = fst (save_order (fst (save_order demo_storage 5 ''o1'' ''BTC/EUR'' ''buy'' 1 (Some 10)
        ''filled'' None (Some 5) None None None None)) 6 ''o2'' ''BTC/EUR'' ''sell'' 1 (Some 9)
        ''filled'' None (Some 6) (Some (-1)) None None None)
     \<and> r \<in> set (get_recent_closing_fills st 50 None None None) \<and> or_agent r = Some ''crypto''"
proof -
  let ?st = "fst (save_order (fst (save_order demo_storage 5 ''o1'' ''BTC/EUR'' ''buy'' 1 (Some 10)
        ''filled'' None (Some 5) None None None None)) 6 ''o2'' ''BTC/EUR'' ''sell'' 1 (Some 9)
        ''filled'' None (Some 6) (Some (-1)) None None None)"
  have e: "get_recent_closing_fills ?st 50 None None None \<noteq> []" and a: "st_agent ?st = Some ''crypto''"
    by (simp_all add: demo_storage_def save_order_def empty_db_def get_recent_closing_fills_def Let_def
        scope_simps desc_def)
  then obtain r where "r \<in> set (get_recent_closing_fills ?st 50 None None None)" by (metis list.set_intros(1) neq_Nil_conv)
  with bound_reads_are_own_rows [OF a, of None 50 False None None 0] show ?thesis by blast
qed



end
