(* ===== verification/Costs.thy ===== *)
theory Costs
  imports Models
begin

text \<open>
  The per-venue commission schedule of \<^verbatim>\<open>src/src/core/costs.py\<close> (class
  \<^verbatim>\<open>CostModel\<close>), and the executor book reader of \<^verbatim>\<open>src/src/core/portfolio.py\<close>.

  The locale \<open>fee_schedule\<close> is what sizing and the paper executor rely on: fees are
  never negative, and \<open>affordable\<close> names the largest notional whose all-in cost fits
  the cash. It is interpreted on \<open>total_fee\<close> and \<open>max_affordable_fill_notional\<close>.
\<close>

record cost_model =
  cm_slippage_pct :: real
  cm_fee_pct :: real
  cm_min_commission :: real
  cm_fx_fee_pct :: real

text \<open>
  \<^verbatim>\<open>CostModel.__init__\<close>: each parameter must be a non-negative number. The type test of
  the source is the type of the argument here; an attribute that is missing or not a
  number is \<open>None\<close> in \<open>cost_model_from_attrs\<close>.
\<close>

definition cost_model_ok :: "cost_model \<Rightarrow> bool" where
  "cost_model_ok m \<longleftrightarrow>
     0 \<le> cm_slippage_pct m \<and> 0 \<le> cm_fee_pct m \<and> 0 \<le> cm_min_commission m \<and> 0 \<le> cm_fx_fee_pct m"

definition make_cost_model :: "real \<Rightarrow> real \<Rightarrow> real \<Rightarrow> real \<Rightarrow> py_error + cost_model" where
  "make_cost_model slippage_pct fee_pct min_commission fx_fee_pct =
     (if slippage_pct < 0 \<or> fee_pct < 0 \<or> min_commission < 0 \<or> fx_fee_pct < 0
      then Inl ValueError
      else Inr \<lparr>cm_slippage_pct = slippage_pct, cm_fee_pct = fee_pct,
                cm_min_commission = min_commission, cm_fx_fee_pct = fx_fee_pct\<rparr>)"

definition attr_or_zero :: "real option \<Rightarrow> real" where
  "attr_or_zero v = (case v of None \<Rightarrow> 0 | Some x \<Rightarrow> x)"

definition cost_model_from_attrs ::
  "real option \<Rightarrow> real option \<Rightarrow> real option \<Rightarrow> real option \<Rightarrow> py_error + cost_model" where
  "cost_model_from_attrs slippage_pct fee_pct min_commission fx_fee_pct =
     make_cost_model (attr_or_zero slippage_pct) (attr_or_zero fee_pct)
       (attr_or_zero min_commission) (attr_or_zero fx_fee_pct)"

definition commission :: "cost_model \<Rightarrow> real \<Rightarrow> real" where
  "commission m notional =
     (if notional \<le> 0 then 0
      else let pct = notional * cm_fee_pct m
           in if cm_min_commission m > 0 then max pct (cm_min_commission m) else pct)"

definition total_fee :: "cost_model \<Rightarrow> real \<Rightarrow> real" where
  "total_fee m notional =
     (if notional \<le> 0 then 0 else commission m notional + notional * cm_fx_fee_pct m)"

definition cm_buy_cost_factor :: "cost_model \<Rightarrow> real" where
  "cm_buy_cost_factor m = (1 + cm_slippage_pct m) * (1 + cm_fee_pct m + cm_fx_fee_pct m)"

definition max_affordable_fill_notional :: "cost_model \<Rightarrow> real \<Rightarrow> real" where
  "max_affordable_fill_notional m cash =
     (if cash \<le> 0 then 0
      else let combined = cm_fee_pct m + cm_fx_fee_pct m;
               floor_regime = max (cash - cm_min_commission m) 0 / (1 + cm_fx_fee_pct m)
           in if cm_min_commission m \<le> 0 then cash / (1 + combined)
              else if cm_fee_pct m > 0
              then let above_floor = cash / (1 + combined)
                   in if above_floor * cm_fee_pct m \<ge> cm_min_commission m
                      then above_floor else floor_regime
              else floor_regime)"

section \<open>The contract\<close>

locale fee_schedule =
  fixes ok :: "'m \<Rightarrow> bool"
    and fee :: "'m \<Rightarrow> real \<Rightarrow> real"
    and affordable :: "'m \<Rightarrow> real \<Rightarrow> real"
  assumes fee_nonneg: "ok m \<Longrightarrow> 0 \<le> fee m n"
    and fee_zero: "fee m 0 = 0"
    and fee_mono: "ok m \<Longrightarrow> a \<le> b \<Longrightarrow> fee m a \<le> fee m b"
    and affordable_nonneg: "ok m \<Longrightarrow> 0 \<le> affordable m c"
    and affordable_fits: "ok m \<Longrightarrow> affordable m c + fee m (affordable m c) \<le> max c 0"
    and affordable_greatest: "ok m \<Longrightarrow> n + fee m n \<le> c \<Longrightarrow> 0 \<le> c \<Longrightarrow> n \<le> affordable m c"
begin

text \<open>Anything up to the affordable notional is paid for in full.\<close>

lemma smaller_fits:
  assumes "ok m" and "n \<le> affordable m c" and "0 \<le> c"
  shows "n + fee m n \<le> c"
proof -
  have "fee m n \<le> fee m (affordable m c)" using assms by (intro fee_mono)
  with affordable_fits [OF assms(1), of c] assms(2,3) show ?thesis by (simp add: max_def)
qed

lemma fits_iff:
  "ok m \<Longrightarrow> 0 \<le> c \<Longrightarrow> n + fee m n \<le> c \<longleftrightarrow> n \<le> affordable m c"
  using smaller_fits affordable_greatest by blast

lemma affordable_le_cash: "ok m \<Longrightarrow> 0 \<le> c \<Longrightarrow> affordable m c \<le> c"
  using affordable_fits [of m c] fee_nonneg [of m "affordable m c"] by (simp add: max_def)

end

lemma make_cost_model_ok: "make_cost_model s f mc fx = Inr m \<Longrightarrow> cost_model_ok m"
  by (auto simp: make_cost_model_def cost_model_ok_def split: if_splits)

lemma make_cost_model_Inr:
  "(\<exists>m. make_cost_model s f mc fx = Inr m) \<longleftrightarrow> 0 \<le> s \<and> 0 \<le> f \<and> 0 \<le> mc \<and> 0 \<le> fx"
  by (auto simp: make_cost_model_def)

lemma commission_nonneg [fee_simps]: "cost_model_ok m \<Longrightarrow> 0 \<le> commission m n"
  by (auto simp: commission_def cost_model_ok_def Let_def)

lemma commission_mono:
  assumes "cost_model_ok m" and "a \<le> b"
  shows "commission m a \<le> commission m b"
proof -
  have "a * cm_fee_pct m \<le> b * cm_fee_pct m"
    using assms by (auto simp: cost_model_ok_def intro: mult_right_mono)
  with assms show ?thesis
    by (auto simp: commission_def cost_model_ok_def Let_def max_def)
qed

lemma total_fee_nonneg [fee_simps]: "cost_model_ok m \<Longrightarrow> 0 \<le> total_fee m n"
  by (auto simp: total_fee_def commission_nonneg cost_model_ok_def)

lemma total_fee_mono:
  assumes "cost_model_ok m" and "a \<le> b"
  shows "total_fee m a \<le> total_fee m b"
proof -
  have "a * cm_fx_fee_pct m \<le> b * cm_fx_fee_pct m"
    using assms by (auto simp: cost_model_ok_def intro: mult_right_mono)
  with commission_mono [OF assms] have
    "commission m a + a * cm_fx_fee_pct m \<le> commission m b + b * cm_fx_fee_pct m"
    by simp
  with assms(2) total_fee_nonneg [OF assms(1), of b] show ?thesis
    by (cases "a \<le> 0") (simp_all add: total_fee_def)
qed

text \<open>The two regimes of the inverse, each with the equation its closed form solves.\<close>

lemma percent_regime:
  assumes "cost_model_ok m" and "0 < c"
    and "n = c / (1 + (cm_fee_pct m + cm_fx_fee_pct m))"
  shows "n * (1 + cm_fee_pct m + cm_fx_fee_pct m) = c" and "0 < n"
  using assms by (auto simp: cost_model_ok_def add.assoc add_nonneg_pos)

lemma floor_regime_binds:
  assumes ok: "cost_model_ok m" and c: "0 < c" and mc: "0 < cm_min_commission m"
    and below: "cm_fee_pct m > 0 \<Longrightarrow>
      c / (1 + (cm_fee_pct m + cm_fx_fee_pct m)) * cm_fee_pct m < cm_min_commission m"
    and n: "n = (c - cm_min_commission m) / (1 + cm_fx_fee_pct m)"
  shows "n * cm_fee_pct m \<le> cm_min_commission m"
proof (cases "cm_fee_pct m > 0")
  case False
  with ok mc show ?thesis by (simp add: cost_model_ok_def)
next
  case True
  let ?f = "cm_fee_pct m" and ?x = "cm_fx_fee_pct m" and ?mc = "cm_min_commission m"
  have pos: "0 < 1 + ?x" "0 < 1 + (?f + ?x)" using ok by (auto simp: cost_model_ok_def)
  from below [OF True] pos have "c * ?f < ?mc * (1 + (?f + ?x))" by (simp add: field_simps)
  then have "(c - ?mc) * ?f \<le> ?mc * (1 + ?x)" by (simp add: algebra_simps)
  with pos show ?thesis by (simp only: n times_divide_eq_left pos_divide_le_eq)
qed

text \<open>What the inverse returns for positive cash: nothing, because not even the minimum
  commission is covered, or exactly the notional that uses the cash up.\<close>

lemma max_affordable_cases:
  assumes ok: "cost_model_ok m" and c: "0 < c"
  obtains (none) "max_affordable_fill_notional m c = 0" "0 < cm_min_commission m"
      "c \<le> cm_min_commission m"
    | (spend) "0 < max_affordable_fill_notional m c"
      "max_affordable_fill_notional m c + total_fee m (max_affordable_fill_notional m c) = c"
proof -
  let ?f = "cm_fee_pct m" and ?x = "cm_fx_fee_pct m" and ?mc = "cm_min_commission m"
  let ?above = "c / (1 + (?f + ?x))" and ?a = "max_affordable_fill_notional m c"
  have nn: "0 \<le> ?f" "0 \<le> ?x" "0 \<le> ?mc" using ok by (auto simp: cost_model_ok_def)
  show thesis
  proof (cases "?mc \<le> 0 \<or> (?f > 0 \<and> ?above * ?f \<ge> ?mc)")
    case True
    define n where "n = ?above"
    have a: "?a = n" using True c by (auto simp: max_affordable_fill_notional_def Let_def n_def)
    note p = percent_regime [OF ok c n_def]
    have "commission m n = n * ?f"
      using True p(2) nn by (auto simp: commission_def Let_def n_def)
    then have "n + total_fee m n = n * (1 + ?f + ?x)"
      using p(2) by (simp add: total_fee_def algebra_simps)
    with p a show thesis by (intro spend) simp_all
  next
    case False
    then have mc: "0 < ?mc" and a: "?a = max (c - ?mc) 0 / (1 + ?x)"
      using c by (auto simp: max_affordable_fill_notional_def Let_def)
    show thesis
    proof (cases "c \<le> ?mc")
      case True
      with a mc show thesis by (intro none) simp_all
    next
      case gt: False
      define n where "n = (c - ?mc) / (1 + ?x)"
      have n: "0 < n" "?a = n" using gt a nn by (simp_all add: n_def)
      have "n * ?f \<le> ?mc" by (rule floor_regime_binds [OF ok c mc _ n_def]) (use False in auto)
      then have "commission m n = ?mc" using n(1) mc by (simp add: commission_def Let_def)
      moreover have "n * (1 + ?x) = c - ?mc" using nn by (simp add: n_def)
      ultimately have "n + total_fee m n = c"
        using n(1) by (simp add: total_fee_def algebra_simps)
      with n show thesis by (intro spend) simp_all
    qed
  qed
qed

lemma total_fee_ge_min: "cost_model_ok m \<Longrightarrow> 0 < n \<Longrightarrow> cm_min_commission m \<le> total_fee m n"
  by (auto simp: total_fee_def commission_def cost_model_ok_def Let_def max_def add_increasing2)

lemma max_affordable_nonneg: "cost_model_ok m \<Longrightarrow> 0 \<le> max_affordable_fill_notional m c"
  by (auto simp: max_affordable_fill_notional_def cost_model_ok_def Let_def)

lemma max_affordable_fits:
  assumes "cost_model_ok m"
  shows "max_affordable_fill_notional m c + total_fee m (max_affordable_fill_notional m c) \<le> max c 0"
proof (cases "0 < c")
  case True
  with assms show ?thesis by (cases rule: max_affordable_cases) (auto simp: total_fee_def)
qed (simp add: max_affordable_fill_notional_def total_fee_def)

lemma max_affordable_greatest:
  assumes ok: "cost_model_ok m" and fits: "n + total_fee m n \<le> c" and c: "0 \<le> c"
  shows "n \<le> max_affordable_fill_notional m c"
proof (rule ccontr)
  let ?a = "max_affordable_fill_notional m c"
  assume "\<not> n \<le> ?a"
  then have gt: "?a < n" by simp
  have n: "0 < n" using gt max_affordable_nonneg [OF ok, of c] by simp
  have "0 < c" using n fits total_fee_nonneg [OF ok, of n] by simp
  with ok show False
  proof (cases rule: max_affordable_cases)
    case none
    with total_fee_ge_min [OF ok n] n fits show False by simp
  next
    case spend
    with total_fee_mono [OF ok, of ?a n] gt fits show False by simp
  qed
qed

lemma total_fee_zero [simp]: "total_fee m 0 = 0"
  by (simp add: total_fee_def)

interpretation venue: fee_schedule cost_model_ok total_fee max_affordable_fill_notional
  by unfold_locales
    (simp_all add: total_fee_nonneg total_fee_mono max_affordable_nonneg max_affordable_fits
      max_affordable_greatest)

text \<open>\<^verbatim>\<open>max_affordable_fill_notional\<close> returns the largest fill notional whose all-in
  cost (commission with its floor, plus the FX fee) fits the cash: a notional is payable
  if and only if it is at most the returned one.\<close>

theorem max_affordable_is_largest:
  assumes "make_cost_model s f mc fx = Inr m" and "0 \<le> cash"
  shows "n + total_fee m n \<le> cash \<longleftrightarrow> n \<le> max_affordable_fill_notional m cash"
  using make_cost_model_ok [OF assms(1)] assms(2) by (rule venue.fits_iff)

theorem max_affordable_is_largest_witness:
  "make_cost_model 0 (1/1000) 1 0 =
     Inr \<lparr>cm_slippage_pct = 0, cm_fee_pct = 1/1000, cm_min_commission = 1, cm_fx_fee_pct = 0\<rparr> \<and>
   (100 + total_fee \<lparr>cm_slippage_pct = 0, cm_fee_pct = 1/1000, cm_min_commission = 1,
      cm_fx_fee_pct = 0\<rparr> 100 \<le> 101 \<longleftrightarrow>
    100 \<le> max_affordable_fill_notional \<lparr>cm_slippage_pct = 0, cm_fee_pct = 1/1000,
      cm_min_commission = 1, cm_fx_fee_pct = 0\<rparr> 101)"
proof -
  have m: "make_cost_model 0 (1/1000) 1 0 =
     Inr \<lparr>cm_slippage_pct = 0, cm_fee_pct = 1/1000, cm_min_commission = 1, cm_fx_fee_pct = 0\<rparr>"
    by (simp add: make_cost_model_def)
  show ?thesis using m max_affordable_is_largest [OF m, of 101 100] by simp
qed

section \<open>Reading the book off an executor (portfolio.py)\<close>

text \<open>
  \<^verbatim>\<open>pending_buy_value\<close>: the executor's optional hook. \<open>None\<close>: no hook;
  \<open>Some (Inl e)\<close>: it raised; \<open>Some (Inr None)\<close>: it returned something that is not a
  number; \<open>Some (Inr (Some v))\<close>: it returned \<open>v\<close>.
\<close>

definition pending_buy_value :: "(py_error + real option) option \<Rightarrow> real" where
  "pending_buy_value hook =
     (case hook of
        None \<Rightarrow> 0
      | Some (Inl e) \<Rightarrow> 0
      | Some (Inr None) \<Rightarrow> 0
      | Some (Inr (Some v)) \<Rightarrow> max v 0)"

definition read_portfolio ::
  "py_error + position list \<Rightarrow> py_error + real \<Rightarrow> (py_error + real option) option \<Rightarrow>
   py_error + portfolio_state" where
  "read_portfolio positions cash hook =
     (case positions of
        Inl e \<Rightarrow> Inl e
      | Inr ps \<Rightarrow>
          (case cash of
             Inl e \<Rightarrow> Inl e
           | Inr c \<Rightarrow> Inr \<lparr>pf_cash = c, pf_positions = ps,
                              pf_pending_value = pending_buy_value hook\<rparr>))"

lemma pending_buy_value_nonneg: "0 \<le> pending_buy_value hook"
  by (auto simp: pending_buy_value_def split: option.splits sum.splits)

end
