(* ===== verification/Risk_Engine.thy ===== *)
theory Risk_Engine
  imports Models
begin

text \<open>
  The deterministic gate of \<^verbatim>\<open>src/src/core/risk_engine.py\<close>: the daily-loss and
  loss-streak trackers, the seven entry rules of \<^verbatim>\<open>RiskEngine.evaluate\<close>, the exit rule,
  the agent-wide backstop and the event guard; the limits are \<^verbatim>\<open>RiskSettings\<close> of
  \<^verbatim>\<open>src/src/core/config.py\<close>.

  The engine is a record of its attributes; a method that reads the clock takes the clock's
  value as the argument \<open>now\<close>, and a method that mutates the engine returns it. The
  formatted date \<^verbatim>\<open>YYYY-MM-DD\<close> is the day number it renders (\<open>None\<close> for the empty
  string the tracker starts with).
\<close>

record risk_settings =
  rs_max_position_pct :: real
  rs_daily_loss_limit_pct :: real
  rs_max_drawdown_pct :: real
  rs_consecutive_losses_cooldown_minutes :: int
  rs_consecutive_losses_threshold :: int
  rs_max_open_positions :: int
  rs_min_confidence :: real
  rs_max_stop_distance_pct :: real
  rs_risk_per_trade_pct :: real
  rs_enforce_exit_levels :: bool
  rs_event_guard_enabled :: bool
  rs_event_blackout_before_minutes :: int
  rs_event_blackout_after_minutes :: int
  rs_event_guard_min_importance :: event_importance
  rs_earnings_blackout_days_before :: int
  rs_earnings_blackout_hours_after :: int
  rs_delisting_blackout_days :: int

text \<open>The defaults, and the validator (the importance level is an enumeration here).\<close>

definition default_risk_settings :: risk_settings where
  "default_risk_settings =
     \<lparr>rs_max_position_pct = 10/100, rs_daily_loss_limit_pct = 2/100, rs_max_drawdown_pct = 5/100,
      rs_consecutive_losses_cooldown_minutes = 60, rs_consecutive_losses_threshold = 3,
      rs_max_open_positions = 5, rs_min_confidence = 6/10, rs_max_stop_distance_pct = 25/100,
      rs_risk_per_trade_pct = 0, rs_enforce_exit_levels = True, rs_event_guard_enabled = True,
      rs_event_blackout_before_minutes = 120, rs_event_blackout_after_minutes = 60,
      rs_event_guard_min_importance = HIGH, rs_earnings_blackout_days_before = 1,
      rs_earnings_blackout_hours_after = 24, rs_delisting_blackout_days = 90\<rparr>"

definition check_risk_settings :: "risk_settings \<Rightarrow> py_error + risk_settings" where
  "check_risk_settings s =
     (if rs_event_blackout_before_minutes s < 0 \<or> rs_event_blackout_after_minutes s < 0
         \<or> rs_earnings_blackout_days_before s < 0 \<or> rs_earnings_blackout_hours_after s < 0
         \<or> rs_delisting_blackout_days s < 0
      then Inl ValueError else Inr s)"

section \<open>Trackers\<close>

definition long_exposure :: "portfolio_state \<Rightarrow> symbol \<Rightarrow> real" where
  "long_exposure pf s =
     (\<Sum>p\<leftarrow>filter (\<lambda>p. p_symbol p = s \<and> p_side p = LONG) (pf_positions pf).
        p_quantity p * p_current_price p)"

definition day_of :: "instant \<Rightarrow> int" where
  "day_of t = t div day_us"

record daily_tracker =
  dt_start_of_day_value :: "real option"
  dt_current_date :: "int option"
  dt_latest_value :: "real option"

definition new_daily_tracker :: daily_tracker where
  "new_daily_tracker =
     \<lparr>dt_start_of_day_value = None, dt_current_date = None, dt_latest_value = None\<rparr>"

definition reset_if_new_day :: "instant \<Rightarrow> real \<Rightarrow> daily_tracker \<Rightarrow> daily_tracker" where
  "reset_if_new_day now v t =
     (if Some (day_of now) \<noteq> dt_current_date t
      then t\<lparr>dt_current_date := Some (day_of now), dt_start_of_day_value := Some v\<rparr> else t)"

definition restore_today :: "instant \<Rightarrow> real \<Rightarrow> daily_tracker \<Rightarrow> daily_tracker" where
  "restore_today now v t =
     t\<lparr>dt_current_date := Some (day_of now), dt_start_of_day_value := Some v\<rparr>"

definition daily_pnl_pct :: "daily_tracker \<Rightarrow> real option" where
  "daily_pnl_pct t =
     (case (dt_start_of_day_value t, dt_latest_value t) of
        (Some b, Some v) \<Rightarrow> (if b = 0 then None else Some ((v - b) / b))
      | _ \<Rightarrow> None)"

definition update_latest_value :: "real \<Rightarrow> daily_tracker \<Rightarrow> daily_tracker" where
  "update_latest_value v t = t\<lparr>dt_latest_value := Some v\<rparr>"

record loss_tracker =
  lt_consecutive_losses :: int
  lt_cooldown_until :: "instant option"

definition new_loss_tracker :: loss_tracker where
  "new_loss_tracker = \<lparr>lt_consecutive_losses = 0, lt_cooldown_until = None\<rparr>"

definition in_cooldown :: "instant \<Rightarrow> loss_tracker \<Rightarrow> bool" where
  "in_cooldown now t = (case lt_cooldown_until t of None \<Rightarrow> False | Some u \<Rightarrow> now < u)"

definition record_loss :: "instant \<Rightarrow> int \<Rightarrow> int \<Rightarrow> loss_tracker \<Rightarrow> loss_tracker" where
  "record_loss now cooldown_minutes threshold t =
     (let n = lt_consecutive_losses t + 1
      in if n \<ge> threshold
         then \<lparr>lt_consecutive_losses = n,
               lt_cooldown_until = Some (now + cooldown_minutes * minute_us)\<rparr>
         else t\<lparr>lt_consecutive_losses := n\<rparr>)"

definition record_win :: "loss_tracker \<Rightarrow> loss_tracker" where
  "record_win t = \<lparr>lt_consecutive_losses = 0, lt_cooldown_until = None\<rparr>"

definition restore_losses :: "int \<Rightarrow> instant option \<Rightarrow> loss_tracker \<Rightarrow> loss_tracker" where
  "restore_losses n until t = \<lparr>lt_consecutive_losses = n, lt_cooldown_until = until\<rparr>"

section \<open>The engine\<close>

record risk_engine =
  re_settings :: risk_settings
  re_daily :: daily_tracker
  re_loss :: loss_tracker
  re_peak_equity :: "real option"

definition new_risk_engine :: "risk_settings \<Rightarrow> risk_engine" where
  "new_risk_engine s =
     \<lparr>re_settings = s, re_daily = new_daily_tracker, re_loss = new_loss_tracker,
      re_peak_equity = None\<rparr>"

definition note_equity :: "real \<Rightarrow> risk_engine \<Rightarrow> risk_engine" where
  "note_equity v e =
     (if v > 0 \<and> (case re_peak_equity e of None \<Rightarrow> True | Some p \<Rightarrow> v > p)
      then e\<lparr>re_peak_equity := Some v\<rparr> else e)"

definition update_daily_value :: "instant \<Rightarrow> real \<Rightarrow> risk_engine \<Rightarrow> risk_engine" where
  "update_daily_value now v e =
     note_equity v (e\<lparr>re_daily := update_latest_value v (reset_if_new_day now v (re_daily e))\<rparr>)"

definition record_outcome :: "instant \<Rightarrow> bool \<Rightarrow> risk_engine \<Rightarrow> risk_engine" where
  "record_outcome now was_profitable e =
     e\<lparr>re_loss := (if was_profitable then record_win (re_loss e)
        else record_loss now (rs_consecutive_losses_cooldown_minutes (re_settings e))
               (rs_consecutive_losses_threshold (re_settings e)) (re_loss e))\<rparr>"

definition restore_daily_baseline :: "instant \<Rightarrow> real \<Rightarrow> risk_engine \<Rightarrow> risk_engine" where
  "restore_daily_baseline now v e = e\<lparr>re_daily := restore_today now v (re_daily e)\<rparr>"

definition restore_loss_streak :: "int \<Rightarrow> instant option \<Rightarrow> risk_engine \<Rightarrow> risk_engine" where
  "restore_loss_streak n until e = e\<lparr>re_loss := restore_losses n until (re_loss e)\<rparr>"

definition seed_peak_equity :: "real option \<Rightarrow> risk_engine \<Rightarrow> risk_engine" where
  "seed_peak_equity v e = (case v of None \<Rightarrow> e | Some x \<Rightarrow> note_equity x e)"

text \<open>\<^verbatim>\<open>self._peak_equity or total_value\<close>: a missing or zero peak is the value itself.\<close>

definition peak_or :: "risk_engine \<Rightarrow> real \<Rightarrow> real" where
  "peak_or e v = (case re_peak_equity e of None \<Rightarrow> v | Some p \<Rightarrow> if p = 0 then v else p)"

subsection \<open>The individual rules\<close>

definition check_confidence :: "risk_settings \<Rightarrow> trade_signal \<Rightarrow> risk_result" where
  "check_confidence s sig =
     (if sig_confidence sig < rs_min_confidence s
      then rejected (ConfidenceBelow (sig_confidence sig) (rs_min_confidence s)) else approved)"

definition check_max_positions ::
  "risk_settings \<Rightarrow> trade_signal \<Rightarrow> portfolio_state \<Rightarrow> risk_result" where
  "check_max_positions s sig pf =
     (let existing_symbols = p_symbol ` set (pf_positions pf);
          is_new_position = (sig_symbol sig \<notin> existing_symbols)
      in if is_new_position \<and> int (length (pf_positions pf)) \<ge> rs_max_open_positions s
         then rejected (MaxOpenPositionsReached (rs_max_open_positions s)) else approved)"

definition check_position_size ::
  "risk_settings \<Rightarrow> trade_signal \<Rightarrow> portfolio_state \<Rightarrow> real option \<Rightarrow> risk_result" where
  "check_position_size s sig pf planned_notional =
     (if total_value pf \<le> 0 then rejected PortfolioNotPositive
      else let cap = rs_max_position_pct s * total_value pf;
               existing = (if sig_action sig = A_BUY then long_exposure pf (sig_symbol sig) else 0)
           in if sig_action sig = A_BUY \<and> existing \<ge> cap * (1 - 1 / 10 ^ 9)
              then rejected (AlreadyAtMaxSize (sig_symbol sig) existing cap
                               (rs_max_position_pct s) (total_value pf))
              else case planned_notional of
                     None \<Rightarrow> approved
                   | Some n \<Rightarrow>
                       let resulting = existing + n
                       in if resulting > cap * (1 + 1 / 10 ^ 6)
                          then rejected (PlannedExceedsMax resulting cap (rs_max_position_pct s)
                                           (total_value pf) existing)
                          else approved)"

definition check_daily_loss ::
  "instant \<Rightarrow> portfolio_state \<Rightarrow> risk_engine \<Rightarrow> risk_engine \<times> risk_result" where
  "check_daily_loss now pf e =
     (let d = update_latest_value (total_value pf)
                (reset_if_new_day now (total_value pf) (re_daily e));
          threshold = rs_daily_loss_limit_pct (re_settings e) * (1 - 1 / 10 ^ 9)
      in (e\<lparr>re_daily := d\<rparr>,
          case daily_pnl_pct d of
            None \<Rightarrow> approved
          | Some pct \<Rightarrow>
              if pct \<le> - threshold
              then rejected (DailyLossExceeds pct (- rs_daily_loss_limit_pct (re_settings e)))
              else approved))"

definition check_drawdown :: "portfolio_state \<Rightarrow> risk_engine \<Rightarrow> risk_engine \<times> risk_result" where
  "check_drawdown pf e =
     (let v = total_value pf
      in if v \<le> 0 then (e, approved)
         else let e' = note_equity v e; peak = peak_or e' v; dd = (peak - v) / peak
              in (e', if dd > rs_max_drawdown_pct (re_settings e')
                      then rejected (DrawdownExceeds dd (rs_max_drawdown_pct (re_settings e')) peak)
                      else approved))"

definition check_cooldown :: "instant \<Rightarrow> risk_engine \<Rightarrow> risk_result" where
  "check_cooldown now e =
     (case lt_cooldown_until (re_loss e) of
        None \<Rightarrow> approved
      | Some remaining \<Rightarrow>
          if in_cooldown now (re_loss e) then rejected (InCooldownUntil remaining) else approved)"

definition check_stop_loss :: "risk_settings \<Rightarrow> trade_signal \<Rightarrow> real option \<Rightarrow> risk_result" where
  "check_stop_loss s sig current_price =
     (if sig_action sig \<noteq> A_BUY then approved
      else case sig_stop_loss sig of
             None \<Rightarrow> rejected StopLossRequired
           | Some sl \<Rightarrow>
               (case current_price of
                  None \<Rightarrow> approved
                | Some price \<Rightarrow>
                    if price > 0
                    then if sl \<ge> price then rejected (StopNotBelowPrice sl price)
                         else case (case sig_take_profit sig of
                                      None \<Rightarrow> None
                                    | Some tp \<Rightarrow> if tp \<le> price then Some tp else None) of
                                Some tp \<Rightarrow> rejected (TakeProfitNotAbovePrice tp price)
                              | None \<Rightarrow>
                                  let dist = (price - sl) / price
                                  in if dist > rs_max_stop_distance_pct s
                                     then rejected (StopDistanceExceeds dist (rs_max_stop_distance_pct s))
                                     else approved
                    else approved))"

subsection \<open>Evaluation\<close>

fun first_rejected :: "risk_result list \<Rightarrow> risk_result" where
  "first_rejected [] = approved"
| "first_rejected (r # rs) = (if rr_verdict r = REJECTED then r else first_rejected rs)"

definition evaluate_exit :: "risk_settings \<Rightarrow> trade_signal \<Rightarrow> portfolio_state \<Rightarrow> risk_result" where
  "evaluate_exit s sig pf =
     (if long_exposure pf (sig_symbol sig) \<le> 0 then rejected (NoLongPosition (sig_symbol sig))
      else check_confidence s sig)"

text \<open>All seven checks run (the list is built before it is searched), so the daily baseline
  and the high-water mark move even when an earlier rule rejects.\<close>

definition evaluate ::
  "instant \<Rightarrow> trade_signal \<Rightarrow> portfolio_state \<Rightarrow> real option \<Rightarrow> real option \<Rightarrow> risk_engine \<Rightarrow>
   risk_engine \<times> risk_result" where
  "evaluate now sig pf planned_notional current_price e =
     (if sig_action sig = A_HOLD then (e, approved)
      else if sig_action sig = A_SELL then (e, evaluate_exit (re_settings e) sig pf)
      else let s = re_settings e;
               c1 = check_confidence s sig;
               c2 = check_max_positions s sig pf;
               c3 = check_position_size s sig pf planned_notional;
               (e4, c4) = check_daily_loss now pf e;
               (e5, c5) = check_drawdown pf e4;
               c6 = check_cooldown now e5;
               c7 = check_stop_loss s sig current_price
           in (e5, first_rejected [c1, c2, c3, c4, c5, c6, c7]))"

definition check_backstop :: "real \<Rightarrow> real \<Rightarrow> risk_engine \<Rightarrow> risk_engine \<times> risk_result" where
  "check_backstop v limit_pct e =
     (if v \<le> 0 then (e, approved)
      else let e' = note_equity v e; peak = peak_or e' v; dd = (peak - v) / peak
           in (e', if dd > limit_pct then rejected (BackstopDrawdown dd limit_pct peak) else approved))"

subsection \<open>The event guard\<close>

fun first_delisting :: "risk_settings \<Rightarrow> instant \<Rightarrow> market_event list \<Rightarrow> reason option" where
  "first_delisting s now [] = None"
| "first_delisting s now (n # ns) =
     (let window_start = ev_at n - day_us;
          window_end = ev_at n + rs_delisting_blackout_days s * day_us
      in if ev_kind n = DELISTING \<and> window_start \<le> now \<and> now \<le> window_end
         then Some (GuardDelisting (ev_asset n) (ev_at n))
         else first_delisting s now ns)"

fun first_event :: "risk_settings \<Rightarrow> instant \<Rightarrow> market_event list \<Rightarrow> reason option" where
  "first_event s now [] = None"
| "first_event s now (v # vs) =
     (let before = rs_event_blackout_before_minutes s * minute_us;
          after = rs_event_blackout_after_minutes s * minute_us
      in if ev_kind v = MACRO
            \<and> importance_rank (ev_importance v) \<ge> importance_rank (rs_event_guard_min_importance s)
         then if ev_at v - before \<le> now \<and> now \<le> ev_at v + after
              then Some (GuardMacro (ev_currency v) (ev_title v) (ev_importance v) (ev_at v)
                           (rs_event_blackout_before_minutes s) (rs_event_blackout_after_minutes s))
              else first_event s now vs
         else if ev_kind v = EARNINGS
         then let start = ev_at v - rs_earnings_blackout_days_before s * day_us;
                  stop = ev_at v + rs_earnings_blackout_hours_after s * hour_us
              in if start \<le> now \<and> now \<le> stop
                 then Some (GuardEarnings (ev_asset v) (ev_at v))
                 else first_event s now vs
         else first_event s now vs)"

definition event_blackout_reason :: "risk_settings \<Rightarrow> symbol_context option \<Rightarrow> reason option" where
  "event_blackout_reason s ctx =
     (case ctx of
        None \<Rightarrow> None
      | Some c \<Rightarrow>
          if \<not> rs_event_guard_enabled s then None
          else case first_delisting s (sc_now c) (sc_notices c) of
                 Some r \<Rightarrow> Some r
               | None \<Rightarrow> first_event s (sc_now c) (sc_events c))"

definition check_event_guard ::
  "risk_settings \<Rightarrow> trade_signal \<Rightarrow> symbol_context option \<Rightarrow> string option \<Rightarrow> risk_result" where
  "check_event_guard s sig ctx context_error =
     (if sig_action sig \<noteq> A_BUY \<or> \<not> rs_event_guard_enabled s then approved
      else case (case context_error of
                   Some err \<Rightarrow> Some (GuardContextUnavailable err)
                 | None \<Rightarrow> event_blackout_reason s ctx) of
             None \<Rightarrow> approved
           | Some r \<Rightarrow> rejected r)"

section \<open>What each rule decides\<close>

lemma first_rejected_approved:
  "rr_verdict (first_rejected rs) = APPROVED \<longleftrightarrow> (\<forall>r\<in>set rs. rr_verdict r = APPROVED)"
proof (induction rs)
  case (Cons r rs)
  then show ?case by (cases "rr_verdict r") auto
qed simp

declare first_rejected.simps [simp del]

lemma check_confidence_iff [gate_simps]:
  "rr_verdict (check_confidence s sig) = APPROVED \<longleftrightarrow> rs_min_confidence s \<le> sig_confidence sig"
  by (simp add: check_confidence_def)

lemma check_max_positions_iff [gate_simps]:
  "rr_verdict (check_max_positions s sig pf) = APPROVED \<longleftrightarrow>
     sig_symbol sig \<in> p_symbol ` set (pf_positions pf)
     \<or> int (length (pf_positions pf)) < rs_max_open_positions s"
  by (auto simp: check_max_positions_def Let_def)

definition size_rule :: "risk_settings \<Rightarrow> symbol \<Rightarrow> portfolio_state \<Rightarrow> real option \<Rightarrow> bool" where
  "size_rule s symb pf planned \<longleftrightarrow>
     (let cap = rs_max_position_pct s * total_value pf
      in 0 < total_value pf \<and> long_exposure pf symb < cap * (1 - 1 / 10 ^ 9)
         \<and> (case planned of None \<Rightarrow> True
             | Some n \<Rightarrow> long_exposure pf symb + n \<le> cap * (1 + 1 / 10 ^ 6)))"

lemma check_position_size_iff [gate_simps]:
  "sig_action sig = A_BUY \<Longrightarrow>
   rr_verdict (check_position_size s sig pf planned) = APPROVED \<longleftrightarrow>
     size_rule s (sig_symbol sig) pf planned"
  by (auto simp: check_position_size_def size_rule_def Let_def split: option.splits)

text \<open>The baseline a check at \<open>now\<close> compares with: today's, or the value itself on a new day.\<close>

definition baseline_at :: "instant \<Rightarrow> real \<Rightarrow> daily_tracker \<Rightarrow> real option" where
  "baseline_at now v d =
     (if dt_current_date d = Some (day_of now) then dt_start_of_day_value d else Some v)"

definition daily_rule :: "real \<Rightarrow> real \<Rightarrow> real option \<Rightarrow> bool" where
  "daily_rule limit v base \<longleftrightarrow>
     (case base of None \<Rightarrow> True
      | Some b \<Rightarrow> b = 0 \<or> - (limit * (1 - 1 / 10 ^ 9)) < (v - b) / b)"

lemma check_daily_loss_iff [gate_simps]:
  "rr_verdict (snd (check_daily_loss now pf e)) = APPROVED \<longleftrightarrow>
     daily_rule (rs_daily_loss_limit_pct (re_settings e)) (total_value pf)
       (baseline_at now (total_value pf) (re_daily e))"
  by (auto simp: check_daily_loss_def daily_rule_def baseline_at_def daily_pnl_pct_def Let_def
      reset_if_new_day_def update_latest_value_def split: option.splits)

lemma check_daily_loss_frame [simp]:
  "re_settings (fst (check_daily_loss now pf e)) = re_settings e"
  "re_loss (fst (check_daily_loss now pf e)) = re_loss e"
  "re_peak_equity (fst (check_daily_loss now pf e)) = re_peak_equity e"
  by (simp_all add: check_daily_loss_def Let_def)

text \<open>The high-water mark once a value has been noted.\<close>

definition high_water :: "real option \<Rightarrow> real \<Rightarrow> real" where
  "high_water peak v = (case peak of None \<Rightarrow> v | Some p \<Rightarrow> max p v)"

definition drawdown :: "real option \<Rightarrow> real \<Rightarrow> real" where
  "drawdown peak v = (high_water peak v - v) / high_water peak v"

lemma note_equity_frame [simp]:
  "re_settings (note_equity v e) = re_settings e"
  "re_daily (note_equity v e) = re_daily e"
  "re_loss (note_equity v e) = re_loss e"
  by (simp_all add: note_equity_def)

lemma note_equity_peak: "0 < v \<Longrightarrow> re_peak_equity (note_equity v e) = Some (high_water (re_peak_equity e) v)"
  by (auto simp: note_equity_def high_water_def max_def split: option.splits)

lemma note_equity_nonpos: "v \<le> 0 \<Longrightarrow> note_equity v e = e"
  by (simp add: note_equity_def)

lemma high_water_ge: "v \<le> high_water peak v" "peak = Some p \<Longrightarrow> p \<le> high_water peak v"
  by (auto simp: high_water_def split: option.splits)

lemma peak_or_noted: "0 < v \<Longrightarrow> peak_or (note_equity v e) v = high_water (re_peak_equity e) v"
  using high_water_ge(1) [of v "re_peak_equity e"] by (simp add: peak_or_def note_equity_peak)

lemma check_drawdown_iff [gate_simps]:
  "rr_verdict (snd (check_drawdown pf e)) = APPROVED \<longleftrightarrow>
     total_value pf \<le> 0 \<or>
     drawdown (re_peak_equity e) (total_value pf) \<le> rs_max_drawdown_pct (re_settings e)"
  by (auto simp: check_drawdown_def drawdown_def Let_def peak_or_noted)

lemma check_drawdown_state [simp]: "fst (check_drawdown pf e) = note_equity (total_value pf) e"
  by (simp add: check_drawdown_def Let_def note_equity_nonpos)

lemma check_cooldown_iff [gate_simps]:
  "rr_verdict (check_cooldown now e) = APPROVED \<longleftrightarrow> \<not> in_cooldown now (re_loss e)"
  by (auto simp: check_cooldown_def in_cooldown_def split: option.splits)

definition stop_rule :: "risk_settings \<Rightarrow> real option \<Rightarrow> real option \<Rightarrow> real option \<Rightarrow> bool" where
  "stop_rule s stop target price \<longleftrightarrow>
     (case stop of None \<Rightarrow> False
      | Some sl \<Rightarrow>
          (case price of None \<Rightarrow> True
           | Some p \<Rightarrow> p \<le> 0 \<or>
               sl < p \<and> (case target of None \<Rightarrow> True | Some tp \<Rightarrow> p < tp)
               \<and> (p - sl) / p \<le> rs_max_stop_distance_pct s))"

lemma check_stop_loss_iff [gate_simps]:
  "sig_action sig = A_BUY \<Longrightarrow>
   rr_verdict (check_stop_loss s sig price) = APPROVED \<longleftrightarrow>
     stop_rule s (sig_stop_loss sig) (sig_take_profit sig) price"
  by (auto simp: check_stop_loss_def stop_rule_def Let_def split: option.splits)

text \<open>The specification of the gate: when an entry, and when an exit, may go ahead.\<close>

definition entry_allowed ::
  "instant \<Rightarrow> trade_signal \<Rightarrow> portfolio_state \<Rightarrow> real option \<Rightarrow> real option \<Rightarrow> risk_engine \<Rightarrow> bool" where
  "entry_allowed now sig pf planned price e \<longleftrightarrow>
     (let s = re_settings e; v = total_value pf
      in rs_min_confidence s \<le> sig_confidence sig
         \<and> (sig_symbol sig \<in> p_symbol ` set (pf_positions pf)
             \<or> int (length (pf_positions pf)) < rs_max_open_positions s)
         \<and> size_rule s (sig_symbol sig) pf planned
         \<and> daily_rule (rs_daily_loss_limit_pct s) v (baseline_at now v (re_daily e))
         \<and> drawdown (re_peak_equity e) v \<le> rs_max_drawdown_pct s
         \<and> \<not> in_cooldown now (re_loss e)
         \<and> stop_rule s (sig_stop_loss sig) (sig_take_profit sig) price)"

definition exit_allowed :: "risk_settings \<Rightarrow> trade_signal \<Rightarrow> portfolio_state \<Rightarrow> bool" where
  "exit_allowed s sig pf \<longleftrightarrow>
     0 < long_exposure pf (sig_symbol sig) \<and> rs_min_confidence s \<le> sig_confidence sig"

lemma evaluate_hold [simp]: "sig_action sig = A_HOLD \<Longrightarrow> evaluate now sig pf n c e = (e, approved)"
  by (simp add: evaluate_def)

lemma evaluate_sell [simp]:
  "sig_action sig = A_SELL \<Longrightarrow> evaluate now sig pf n c e = (e, evaluate_exit (re_settings e) sig pf)"
  by (simp add: evaluate_def)

lemma evaluate_buy_state:
  "sig_action sig = A_BUY \<Longrightarrow> fst (evaluate now sig pf n c e) =
     note_equity (total_value pf) (fst (check_daily_loss now pf e))"
  by (simp add: evaluate_def Let_def case_prod_beta)

lemma evaluate_exit_iff:
  "rr_verdict (evaluate_exit s sig pf) = APPROVED \<longleftrightarrow> exit_allowed s sig pf"
  by (simp add: evaluate_exit_def exit_allowed_def gate_simps not_le)

lemma evaluate_buy_iff:
  assumes "sig_action sig = A_BUY"
  shows "rr_verdict (snd (evaluate now sig pf n c e)) = APPROVED \<longleftrightarrow> entry_allowed now sig pf n c e"
proof -
  have "0 < total_value pf" if "size_rule (re_settings e) (sig_symbol sig) pf n"
    using that by (simp add: size_rule_def Let_def)
  then show ?thesis
    using assms
    by (auto simp: evaluate_def Let_def case_prod_beta first_rejected_approved gate_simps
        entry_allowed_def)
qed

section \<open>The engine as a state machine\<close>

text \<open>Everything the rest of the program does to an engine.\<close>

datatype engine_op =
    Op_update_daily_value instant real
  | Op_record_outcome instant bool
  | Op_restore_daily_baseline instant real
  | Op_restore_loss_streak int "instant option"
  | Op_seed_peak_equity "real option"
  | Op_evaluate instant trade_signal portfolio_state "real option" "real option"
  | Op_check_backstop real real
  | Op_settings risk_settings

fun engine_do :: "engine_op \<Rightarrow> risk_engine \<Rightarrow> risk_engine" where
  "engine_do (Op_update_daily_value now v) e = update_daily_value now v e"
| "engine_do (Op_record_outcome now b) e = record_outcome now b e"
| "engine_do (Op_restore_daily_baseline now v) e = restore_daily_baseline now v e"
| "engine_do (Op_restore_loss_streak n u) e = restore_loss_streak n u e"
| "engine_do (Op_seed_peak_equity v) e = seed_peak_equity v e"
| "engine_do (Op_evaluate now sig pf n c) e = fst (evaluate now sig pf n c e)"
| "engine_do (Op_check_backstop v l) e = fst (check_backstop v l e)"
| "engine_do (Op_settings s) e = e\<lparr>re_settings := s\<rparr>"

text \<open>The equity values an operation shows to the high-water mark.\<close>

fun observed :: "engine_op \<Rightarrow> real list" where
  "observed (Op_update_daily_value now v) = [v]"
| "observed (Op_seed_peak_equity (Some v)) = [v]"
| "observed (Op_evaluate now sig pf n c) = (if sig_action sig = A_BUY then [total_value pf] else [])"
| "observed (Op_check_backstop v l) = [v]"
| "observed _ = []"

inductive engine_run :: "risk_engine \<Rightarrow> real list \<Rightarrow> bool" where
  start: "engine_run (new_risk_engine s) []"
| step: "engine_run e vs \<Longrightarrow> engine_run (engine_do op e) (observed op @ vs)"

inductive_cases engine_runE: "engine_run e vs"

text \<open>The mark is the largest positive value ever observed.\<close>

definition peak_inv :: "risk_engine \<Rightarrow> real list \<Rightarrow> bool" where
  "peak_inv e vs \<longleftrightarrow>
     (\<forall>v\<in>set vs. 0 < v \<longrightarrow> (\<exists>p. re_peak_equity e = Some p \<and> v \<le> p)) \<and>
     (\<forall>p. re_peak_equity e = Some p \<longrightarrow> 0 < p \<and> p \<in> set vs)"

lemma peak_inv_note:
  assumes "peak_inv e vs"
  shows "peak_inv (note_equity v e) (v # vs)"
proof (cases "0 < v")
  case True
  with assms show ?thesis
    by (auto simp: peak_inv_def note_equity_peak high_water_def max_def split: option.splits
        intro: order_trans)
next
  case False
  with assms show ?thesis by (auto simp: peak_inv_def note_equity_nonpos)
qed

lemma peak_inv_frame:
  "re_peak_equity e' = re_peak_equity e \<Longrightarrow> peak_inv e' vs = peak_inv e vs"
  by (simp add: peak_inv_def)

lemma engine_do_peak:
  "re_peak_equity (engine_do op e) =
     (case observed op of [] \<Rightarrow> re_peak_equity e | v # _ \<Rightarrow> re_peak_equity (note_equity v e))"
proof (cases op)
  case (Op_seed_peak_equity v)
  then show ?thesis by (cases v) (simp_all add: seed_peak_equity_def)
next
  case (Op_evaluate now sig pf n c)
  then show ?thesis
    by (cases "sig_action sig") (simp_all add: evaluate_buy_state note_equity_def split: option.splits)
next
  case (Op_check_backstop v l)
  then show ?thesis by (simp add: check_backstop_def Let_def note_equity_nonpos)
qed (simp_all add: update_daily_value_def record_outcome_def restore_daily_baseline_def
    restore_loss_streak_def note_equity_def split: option.splits)

lemma observed_single: "observed op = [] \<or> (\<exists>v. observed op = [v])"
  by (cases op rule: observed.cases) auto

lemma engine_run_peak: "engine_run e vs \<Longrightarrow> peak_inv e vs"
proof (induction rule: engine_run.induct)
  case (start s)
  then show ?case by (simp add: peak_inv_def new_risk_engine_def)
next
  case (step e vs op)
  consider "observed op = []" | v where "observed op = [v]" using observed_single by blast
  then show ?case
  proof cases
    case 1
    with step.IH show ?thesis by (simp add: peak_inv_frame [of "engine_do op e" e] engine_do_peak)
  next
    case 2
    with peak_inv_note [OF step.IH, of v] show ?thesis
      by (simp add: peak_inv_frame [of "engine_do op e" "note_equity v e"] engine_do_peak)
  qed
qed

section \<open>Loss streaks\<close>

text \<open>Outcomes (profitable?, time) recorded oldest first.\<close>

definition record_outcomes :: "(bool \<times> instant) list \<Rightarrow> risk_engine \<Rightarrow> risk_engine" where
  "record_outcomes xs e = fold (\<lambda>(win, t). record_outcome t win) xs e"

definition loss_streak :: "(bool \<times> instant) list \<Rightarrow> nat" where
  "loss_streak xs = length (takeWhile (\<lambda>(win, t). \<not> win) (rev xs))"

lemma loss_streak_snoc [simp]:
  "loss_streak (xs @ [(win, t)]) = (if win then 0 else Suc (loss_streak xs))"
  by (simp add: loss_streak_def)

lemma loss_streak_Nil [simp]: "loss_streak [] = 0"
  by (simp add: loss_streak_def)

lemma loss_streak_nonempty: "0 < loss_streak xs \<Longrightarrow> xs \<noteq> []"
  by auto

lemma record_outcomes_snoc [simp]:
  "record_outcomes (xs @ [(win, t)]) e = record_outcome t win (record_outcomes xs e)"
  by (simp add: record_outcomes_def)

lemma record_outcomes_Nil [simp]: "record_outcomes [] e = e"
  by (simp add: record_outcomes_def)

lemma record_outcome_frame [simp]:
  "re_settings (record_outcome t win e) = re_settings e"
  "re_daily (record_outcome t win e) = re_daily e"
  "re_peak_equity (record_outcome t win e) = re_peak_equity e"
  by (simp_all add: record_outcome_def)

lemma record_outcomes_settings [simp]: "re_settings (record_outcomes xs e) = re_settings e"
  by (induction xs rule: rev_induct) auto

text \<open>What the tracker holds after a run of outcomes, from a fresh tracker.\<close>

definition streak_state :: "int \<Rightarrow> int \<Rightarrow> (bool \<times> instant) list \<Rightarrow> loss_tracker" where
  "streak_state cooldown threshold xs =
     \<lparr>lt_consecutive_losses = int (loss_streak xs),
      lt_cooldown_until =
        (if 0 < loss_streak xs \<and> threshold \<le> int (loss_streak xs)
         then Some (snd (last xs) + cooldown * minute_us) else None)\<rparr>"

lemma record_outcomes_streak:
  assumes "re_loss e = new_loss_tracker"
  shows "re_loss (record_outcomes xs e) =
    streak_state (rs_consecutive_losses_cooldown_minutes (re_settings e))
      (rs_consecutive_losses_threshold (re_settings e)) xs"
proof (induction xs rule: rev_induct)
  case Nil
  with assms show ?case by (simp add: streak_state_def new_loss_tracker_def)
next
  case (snoc x xs)
  obtain win t where x: "x = (win, t)" by (cases x)
  from snoc.IH show ?case
    unfolding x by (auto simp: record_outcome_def record_win_def record_loss_def streak_state_def Let_def)
qed

section \<open>Tightening the limits\<close>

definition tighter :: "risk_settings \<Rightarrow> risk_settings \<Rightarrow> bool" where
  "tighter a b \<longleftrightarrow>
     rs_max_position_pct a \<le> rs_max_position_pct b
     \<and> rs_daily_loss_limit_pct a \<le> rs_daily_loss_limit_pct b
     \<and> rs_max_drawdown_pct a \<le> rs_max_drawdown_pct b
     \<and> rs_max_open_positions a \<le> rs_max_open_positions b
     \<and> rs_min_confidence b \<le> rs_min_confidence a
     \<and> rs_max_stop_distance_pct a \<le> rs_max_stop_distance_pct b"

lemma size_rule_mono:
  assumes "rs_max_position_pct a \<le> rs_max_position_pct b" and "size_rule a symb pf n"
  shows "size_rule b symb pf n"
proof -
  define A where "A = rs_max_position_pct a * total_value pf"
  define B where "B = rs_max_position_pct b * total_value pf"
  have "0 < total_value pf" using assms(2) by (simp add: size_rule_def Let_def)
  with assms(1) have "A \<le> B" by (simp add: A_def B_def)
  with assms(2) show ?thesis
    unfolding size_rule_def Let_def A_def [symmetric] B_def [symmetric] by (cases n) auto
qed

lemma daily_rule_mono: "l \<le> l' \<Longrightarrow> daily_rule l v b \<Longrightarrow> daily_rule l' v b"
  by (auto simp: daily_rule_def split: option.splits)

lemma stop_rule_mono:
  "rs_max_stop_distance_pct a \<le> rs_max_stop_distance_pct b \<Longrightarrow> stop_rule a sl tp p \<Longrightarrow>
   stop_rule b sl tp p"
  by (auto simp: stop_rule_def split: option.splits)

lemma entry_allowed_mono:
  assumes "tighter a b"
  shows "entry_allowed now sig pf n c (e\<lparr>re_settings := a\<rparr>) \<Longrightarrow>
    entry_allowed now sig pf n c (e\<lparr>re_settings := b\<rparr>)"
  using assms
  by (auto simp: entry_allowed_def tighter_def Let_def intro: size_rule_mono stop_rule_mono daily_rule_mono)

section \<open>The daily-loss window\<close>

text \<open>Operations whose clock reads day \<open>d\<close> and that are not a restart's baseline restore.\<close>

fun op_in_day :: "int \<Rightarrow> engine_op \<Rightarrow> bool" where
  "op_in_day d (Op_update_daily_value now v) = (day_of now = d)"
| "op_in_day d (Op_evaluate now sig pf n c) = (day_of now = d)"
| "op_in_day d (Op_restore_daily_baseline now v) = False"
| "op_in_day d _ = True"

definition day_baseline :: "int \<Rightarrow> real \<Rightarrow> risk_engine \<Rightarrow> bool" where
  "day_baseline d b e \<longleftrightarrow>
     dt_current_date (re_daily e) = Some d \<and> dt_start_of_day_value (re_daily e) = Some b"

lemma check_daily_loss_baseline:
  "day_of now = d \<Longrightarrow> day_baseline d b e \<Longrightarrow> day_baseline d b (fst (check_daily_loss now pf e))"
  by (simp add: day_baseline_def check_daily_loss_def Let_def reset_if_new_day_def
      update_latest_value_def)

lemma day_baseline_note [simp]: "day_baseline d b (note_equity v e) = day_baseline d b e"
  by (simp add: day_baseline_def)

lemma engine_do_baseline:
  assumes "op_in_day d op" and "day_baseline d b e"
  shows "day_baseline d b (engine_do op e)"
proof (cases op)
  case (Op_evaluate now sig pf n c)
  with assms show ?thesis
    by (cases "sig_action sig") (simp_all add: evaluate_buy_state check_daily_loss_baseline)
next
  case (Op_seed_peak_equity v)
  with assms show ?thesis by (simp add: seed_peak_equity_def split: option.splits)
next
  case (Op_check_backstop v l)
  with assms show ?thesis by (simp add: check_backstop_def Let_def)
qed (use assms in \<open>simp_all add: day_baseline_def update_daily_value_def reset_if_new_day_def
    update_latest_value_def restore_loss_streak_def\<close>)

lemma engine_ops_baseline:
  "list_all (op_in_day d) ops \<Longrightarrow> day_baseline d b e \<Longrightarrow> day_baseline d b (fold engine_do ops e)"
  by (induction ops arbitrary: e) (simp_all add: engine_do_baseline)

section \<open>The event guard\<close>

definition delisting_active :: "risk_settings \<Rightarrow> instant \<Rightarrow> market_event \<Rightarrow> bool" where
  "delisting_active s now n \<longleftrightarrow>
     ev_kind n = DELISTING \<and> ev_at n - day_us \<le> now
     \<and> now \<le> ev_at n + rs_delisting_blackout_days s * day_us"

definition event_active :: "risk_settings \<Rightarrow> instant \<Rightarrow> market_event \<Rightarrow> bool" where
  "event_active s now v \<longleftrightarrow>
     (ev_kind v = MACRO
        \<and> importance_rank (rs_event_guard_min_importance s) \<le> importance_rank (ev_importance v)
        \<and> ev_at v - rs_event_blackout_before_minutes s * minute_us \<le> now
        \<and> now \<le> ev_at v + rs_event_blackout_after_minutes s * minute_us)
     \<or> (ev_kind v = EARNINGS
        \<and> ev_at v - rs_earnings_blackout_days_before s * day_us \<le> now
        \<and> now \<le> ev_at v + rs_earnings_blackout_hours_after s * hour_us)"

lemma first_delisting_None:
  "first_delisting s now ns = None \<longleftrightarrow> (\<forall>n\<in>set ns. \<not> delisting_active s now n)"
  by (induction ns) (auto simp: delisting_active_def Let_def)

lemma first_event_None:
  "first_event s now vs = None \<longleftrightarrow> (\<forall>v\<in>set vs. \<not> event_active s now v)"
  by (induction vs) (auto simp: event_active_def Let_def)

definition blackout :: "risk_settings \<Rightarrow> symbol_context \<Rightarrow> bool" where
  "blackout s c \<longleftrightarrow>
     list_ex (delisting_active s (sc_now c)) (sc_notices c)
     \<or> list_ex (event_active s (sc_now c)) (sc_events c)"

lemma event_blackout_reason_iff:
  "event_blackout_reason s (Some c) = None \<longleftrightarrow> \<not> rs_event_guard_enabled s \<or> \<not> blackout s c"
  using first_delisting_None [of s "sc_now c" "sc_notices c"]
    first_event_None [of s "sc_now c" "sc_events c"]
  by (auto simp: event_blackout_reason_def blackout_def list_ex_iff split: option.splits)

section \<open>Properties\<close>

text \<open>C5: The gate decides exactly its specification: a HOLD passes; a SELL passes iff there
  is a long position to close and the confidence suffices; a BUY passes iff every one of
  the seven entry rules holds in the state the engine is in before the call, whatever the
  order in which the code evaluates and mutates.\<close>

theorem evaluate_decides:
  "rr_verdict (snd (evaluate now sig pf planned price e)) = APPROVED \<longleftrightarrow>
     (case sig_action sig of
        A_HOLD \<Rightarrow> True
      | A_SELL \<Rightarrow> exit_allowed (re_settings e) sig pf
      | A_BUY \<Rightarrow> entry_allowed now sig pf planned price e)"
  by (cases "sig_action sig") (simp_all add: evaluate_buy_iff evaluate_exit_iff)

text \<open>An exit is never stranded by a tracker: for a SELL the verdict depends only on the
  limits, the signal and the book, not on daily losses, drawdown, cooldown, the clock, the
  planned size or the price, and the engine is left unchanged.\<close>

theorem exits_ignore_trackers:
  assumes "sig_action sig = A_SELL" and "re_settings e' = re_settings e"
  shows "snd (evaluate now sig pf n c e) = snd (evaluate now' sig pf n' c' e')
    \<and> fst (evaluate now sig pf n c e) = e"
  using assms by simp

definition demo_signal :: "action \<Rightarrow> trade_signal" where
  "demo_signal a = \<lparr>sig_symbol = ''BTC/EUR'', sig_action = a, sig_confidence = 8/10,
     sig_reasoning = ''trend'', sig_stop_loss = Some 95, sig_take_profit = Some 120,
     sig_timestamp = 0, sig_is_fallback = False\<rparr>"

theorem exits_ignore_trackers_witness:
  "snd (evaluate 0 (demo_signal A_SELL) \<lparr>pf_cash = 1, pf_positions = [], pf_pending_value = 0\<rparr>
      None None (new_risk_engine default_risk_settings)) =
   snd (evaluate 5 (demo_signal A_SELL) \<lparr>pf_cash = 1, pf_positions = [], pf_pending_value = 0\<rparr>
      (Some 3) None (record_outcome 0 False (new_risk_engine default_risk_settings)))"
  using exits_ignore_trackers [of "demo_signal A_SELL"
      "record_outcome 0 False (new_risk_engine default_risk_settings)"
      "new_risk_engine default_risk_settings" 0
      "\<lparr>pf_cash = 1, pf_positions = [], pf_pending_value = 0\<rparr>" None None 5 "Some 3" None]
  by (simp add: demo_signal_def)

text \<open>In every state the engine can reach, the high-water mark is the maximum of the
  positive equity values it was ever shown, and unset when there was none.\<close>

theorem peak_is_maximum:
  assumes "engine_run e vs"
  shows "re_peak_equity e =
    (if \<exists>v\<in>set vs. 0 < v then Some (Max {v \<in> set vs. 0 < v}) else None)"
proof (cases "re_peak_equity e")
  case None
  with engine_run_peak [OF assms] show ?thesis by (auto simp: peak_inv_def)
next
  case (Some p)
  with engine_run_peak [OF assms] have p: "0 < p" "p \<in> set vs" and
    top: "\<forall>v\<in>set vs. 0 < v \<longrightarrow> v \<le> p" by (auto simp: peak_inv_def)
  then have "Max {v \<in> set vs. 0 < v} = p" by (intro Max_eqI) auto
  with p Some show ?thesis by auto
qed

theorem peak_is_maximum_witness:
  "re_peak_equity (engine_do (Op_update_daily_value 0 90)
     (engine_do (Op_update_daily_value 0 100) (new_risk_engine default_risk_settings))) = Some 100"
proof -
  have "engine_run (engine_do (Op_update_daily_value 0 90)
     (engine_do (Op_update_daily_value 0 100) (new_risk_engine default_risk_settings))) [90, 100]"
    using engine_run.step [OF engine_run.step [OF engine_run.start [of default_risk_settings],
          of "Op_update_daily_value 0 100"], of "Op_update_daily_value 0 90"] by simp
  from peak_is_maximum [OF this] show ?thesis
    by (simp add: Collect_disj_eq conj_disj_distribR cong: conj_cong)
qed

text \<open>C9: A drawdown is never forgotten: once any operation, in any order and across any
  change of the limits, has shown the engine an equity v, every BUY at a total value more
  than max_drawdown_pct below v is rejected.\<close>

theorem drawdown_blocks_entries:
  assumes "engine_run e vs" and "v \<in> set vs" and "0 < v" and "sig_action sig = A_BUY"
    and "rs_max_drawdown_pct (re_settings e) < (v - total_value pf) / v"
  shows "rr_verdict (snd (evaluate now sig pf planned price e)) = REJECTED"
proof -
  let ?w = "total_value pf"
  from engine_run_peak [OF assms(1)] assms(2,3) obtain p where
    p: "re_peak_equity e = Some p" "v \<le> p" by (auto simp: peak_inv_def)
  have "\<not> drawdown (re_peak_equity e) ?w \<le> rs_max_drawdown_pct (re_settings e)" if "0 < ?w"
  proof -
    let ?h = "high_water (re_peak_equity e) ?w"
    have h: "v \<le> ?h" using high_water_ge(2) [OF p(1), of ?w] p(2) by simp
    have "(v - ?w) / v = 1 - ?w / v" "(?h - ?w) / ?h = 1 - ?w / ?h"
      using assms(3) h by (simp_all add: diff_divide_distrib)
    moreover have "?w / ?h \<le> ?w / v" using h assms(3) that by (simp add: frac_le)
    ultimately show ?thesis using assms(5) by (simp add: drawdown_def)
  qed
  then have "\<not> entry_allowed now sig pf planned price e"
    by (auto simp: entry_allowed_def size_rule_def Let_def)
  with evaluate_buy_iff [OF assms(4)] show ?thesis
    by (cases "rr_verdict (snd (evaluate now sig pf planned price e))") auto
qed

theorem drawdown_blocks_entries_witness:
  "rr_verdict (snd (evaluate 7 (demo_signal A_BUY)
     \<lparr>pf_cash = 80, pf_positions = [], pf_pending_value = 0\<rparr> None None
     (engine_do (Op_update_daily_value 0 100) (new_risk_engine default_risk_settings)))) = REJECTED"
proof -
  have "engine_run (engine_do (Op_update_daily_value 0 100) (new_risk_engine default_risk_settings))
    [100]"
    using engine_run.step [OF engine_run.start [of default_risk_settings],
        of "Op_update_daily_value 0 100"] by simp
  then show ?thesis
    by (rule drawdown_blocks_entries [of _ _ 100])
      (simp_all add: demo_signal_def total_value_def update_daily_value_def new_risk_engine_def
        default_risk_settings_def)
qed





text \<open>Tightening limits never lets more through: whatever a gate with tighter limits
  approves, the gate with the looser limits and the same trackers approves too.\<close>

theorem tighter_limits_approve_less:
  assumes "tighter a b"
    and "rr_verdict (snd (evaluate now sig pf planned price (e\<lparr>re_settings := a\<rparr>))) = APPROVED"
  shows "rr_verdict (snd (evaluate now sig pf planned price (e\<lparr>re_settings := b\<rparr>))) = APPROVED"
proof (cases "sig_action sig")
  case A_BUY
  with assms entry_allowed_mono [OF assms(1)] show ?thesis by (simp add: evaluate_buy_iff)
next
  case A_SELL
  with assms show ?thesis by (auto simp: evaluate_exit_iff exit_allowed_def tighter_def)
qed simp

theorem tighter_limits_approve_less_witness:
  "rr_verdict (snd (evaluate 0 (demo_signal A_BUY)
     \<lparr>pf_cash = 1000, pf_positions = [], pf_pending_value = 0\<rparr> (Some 50) (Some 100)
     (new_risk_engine default_risk_settings\<lparr>re_settings := default_risk_settings\<rparr>))) = APPROVED"
proof -
  let ?a = "default_risk_settings\<lparr>rs_max_position_pct := 6/100\<rparr>"
  let ?pf = "\<lparr>pf_cash = 1000, pf_positions = [], pf_pending_value = 0\<rparr>"
  have t: "tighter ?a default_risk_settings" by (simp add: tighter_def default_risk_settings_def)
  have "entry_allowed 0 (demo_signal A_BUY) ?pf (Some 50) (Some 100)
      (new_risk_engine default_risk_settings\<lparr>re_settings := ?a\<rparr>)"
    by (simp add: entry_allowed_def size_rule_def daily_rule_def drawdown_def high_water_def
        stop_rule_def baseline_at_def in_cooldown_def demo_signal_def new_risk_engine_def
        new_daily_tracker_def new_loss_tracker_def default_risk_settings_def total_value_def
        long_exposure_def Let_def)
  then have "rr_verdict (snd (evaluate 0 (demo_signal A_BUY) ?pf (Some 50) (Some 100)
      (new_risk_engine default_risk_settings\<lparr>re_settings := ?a\<rparr>))) = APPROVED"
    by (simp add: evaluate_buy_iff demo_signal_def)
  from tighter_limits_approve_less [OF t this] show ?thesis .
qed

text \<open>The event guard blocks a BUY exactly when it is enabled and the context could not
  be read, or a delisting notice, a macro event of sufficient importance or an earnings
  release is inside its blackout window; nothing else is ever gated by it.\<close>

theorem event_guard_decides:
  "rr_verdict (check_event_guard s sig ctx context_error) = REJECTED \<longleftrightarrow>
     sig_action sig = A_BUY \<and> rs_event_guard_enabled s
     \<and> ((\<exists>e. context_error = Some e) \<or> (\<exists>c. ctx = Some c \<and> blackout s c))"
proof (cases ctx)
  case None
  then show ?thesis
    by (auto simp: check_event_guard_def event_blackout_reason_def split: option.splits)
next
  case (Some c)
  with event_blackout_reason_iff [of s c] show ?thesis
    by (auto simp: check_event_guard_def split: option.splits)
qed

end
