(* ===== verification/Sizing.thy ===== *)
theory Sizing
  imports Costs Risk_Engine
begin

text \<open>
  The trading rules shared by the live pipeline and the backtester, at the end of
  \<^verbatim>\<open>src/src/core/decision_pipeline.py\<close>: exit-level breaches, the closing side, the cost
  model an executor exposes to sizing, and \<^verbatim>\<open>calculate_quantity\<close>.

  The lemmas show that a planned BUY is always payable at the executor's all-in cost, fits
  the headroom under the position cap (so the gate's size rule accepts it) and respects the
  risk-per-trade budget, and that a SELL closes exactly what is held.
\<close>

definition exit_level_breach :: "position \<Rightarrow> real \<Rightarrow> string option" where
  "exit_level_breach p mark =
     (let short = (p_side p = SHORT)
      in if (case p_stop_loss p of None \<Rightarrow> False
             | Some sl \<Rightarrow> if short then mark \<ge> sl else mark \<le> sl)
         then Some ''stop_loss''
         else if (case p_take_profit p of None \<Rightarrow> False
                  | Some tp \<Rightarrow> if short then mark \<le> tp else mark \<ge> tp)
         then Some ''take_profit''
         else None)"

definition closing_side :: "position \<Rightarrow> order_side" where
  "closing_side p = (if p_side p = SHORT then S_BUY else S_SELL)"

text \<open>The numeric attributes of an executor; \<open>None\<close> for one that is missing or not a number.\<close>

record exec_attrs =
  xa_slippage_pct :: "real option"
  xa_fee_pct :: "real option"
  xa_min_commission :: "real option"
  xa_fx_fee_pct :: "real option"
  xa_buy_price_factor :: "real option"

definition sizing_cost_model :: "exec_attrs \<Rightarrow> py_error + cost_model" where
  "sizing_cost_model x =
     (case cost_model_from_attrs (xa_slippage_pct x) (xa_fee_pct x) (xa_min_commission x)
             (xa_fx_fee_pct x) of
        Inl e \<Rightarrow> Inl e
      | Inr m \<Rightarrow>
          (case xa_buy_price_factor x of
             None \<Rightarrow> Inr m
           | Some price_factor \<Rightarrow>
               if price_factor > 1
               then make_cost_model ((1 + cm_slippage_pct m) * price_factor - 1) (cm_fee_pct m)
                      (cm_min_commission m) (cm_fx_fee_pct m)
               else Inr m))"

definition buy_cost_factor :: "exec_attrs \<Rightarrow> py_error + real" where
  "buy_cost_factor x =
     (case sizing_cost_model x of Inl e \<Rightarrow> Inl e | Inr m \<Rightarrow> Inr (cm_buy_cost_factor m))"

definition sizing_price :: "trade_signal \<Rightarrow> real option \<Rightarrow> real" where
  "sizing_price sig current_price =
     (let price = (case current_price of
                     Some c \<Rightarrow> if c > 0 then Some c else sig_stop_loss sig
                   | None \<Rightarrow> sig_stop_loss sig)
      in case price of None \<Rightarrow> 1 | Some p \<Rightarrow> if p \<le> 0 then 1 else p)"

definition held_long :: "portfolio_state \<Rightarrow> symbol \<Rightarrow> real" where
  "held_long pf s =
     (\<Sum>p\<leftarrow>filter (\<lambda>p. p_symbol p = s \<and> p_side p = LONG) (pf_positions pf). p_quantity p)"

definition max_position_value :: "trade_signal \<Rightarrow> portfolio_state \<Rightarrow> risk_settings \<Rightarrow> real" where
  "max_position_value sig pf s =
     (let v = total_value pf * rs_max_position_pct s
      in if sig_action sig = A_BUY then max 0 (v - long_exposure pf (sig_symbol sig)) else v)"

text \<open>The optional risk-per-trade cap on a BUY.\<close>

definition risk_capped ::
  "trade_signal \<Rightarrow> portfolio_state \<Rightarrow> risk_settings \<Rightarrow> real \<Rightarrow> real \<Rightarrow> real" where
  "risk_capped sig pf s price quantity =
     (if sig_action sig = A_BUY \<and> rs_risk_per_trade_pct s > 0
      then case sig_stop_loss sig of
             None \<Rightarrow> quantity
           | Some sl \<Rightarrow>
               if sl < price
               then min quantity (total_value pf * rs_risk_per_trade_pct s / (price - sl))
               else quantity
      else quantity)"

text \<open>The cash clamp: what the spendable cash buys at the executor's all-in cost.\<close>

definition spendable :: "portfolio_state \<Rightarrow> real option \<Rightarrow> real" where
  "spendable pf cash_cap =
     max (case cash_cap of None \<Rightarrow> pf_cash pf | Some c \<Rightarrow> min (pf_cash pf) c) 0"

definition max_qty_by_cash ::
  "portfolio_state \<Rightarrow> real \<Rightarrow> real \<Rightarrow> cost_model option \<Rightarrow> real option \<Rightarrow> real" where
  "max_qty_by_cash pf price cost_factor cost_model cash_cap =
     (let cash = spendable pf cash_cap;
          fill_price = (case cost_model of
                          Some m \<Rightarrow> price * (1 + cm_slippage_pct m)
                        | None \<Rightarrow> price * max cost_factor 1);
          affordable = (case cost_model of
                          Some m \<Rightarrow> max_affordable_fill_notional m cash
                        | None \<Rightarrow> cash)
      in if fill_price > 0 then affordable / fill_price else 0)"

definition calculate_quantity ::
  "trade_signal \<Rightarrow> portfolio_state \<Rightarrow> risk_settings \<Rightarrow> real option \<Rightarrow> real \<Rightarrow> cost_model option \<Rightarrow>
   real option \<Rightarrow> real" where
  "calculate_quantity sig pf s current_price cost_factor cost_model cash_cap =
     (let price = sizing_price sig current_price;
          quantity0 = max_position_value sig pf s / price;
          quantity1 = risk_capped sig pf s price quantity0;
          quantity2 = (if sig_action sig = A_BUY
                       then min quantity1 (max_qty_by_cash pf price cost_factor cost_model cash_cap)
                       else quantity1);
          held = held_long pf (sig_symbol sig)
      in if sig_action sig = A_SELL \<and> held > 0 then held
         else floor8 (max quantity2 0))"

section \<open>Clamping a quantity to the cash\<close>

context fee_schedule
begin

text \<open>A quantity bounded by the affordable notional at the fill price is paid for, fee included.\<close>

lemma clamp_affordable:
  assumes "ok m" and "0 \<le> c" and "0 < fp" and "q \<le> affordable m c / fp"
  shows "q * fp + fee m (q * fp) \<le> c"
proof -
  have "q * fp \<le> affordable m c" using assms(3,4) by (simp add: pos_le_divide_eq)
  with assms(1) show ?thesis using assms(2) by (rule smaller_fits)
qed

end

lemma sizing_price_pos: "0 < sizing_price sig cp"
  by (auto simp: sizing_price_def Let_def split: option.splits)

lemma sizing_price_current [simp]: "0 < p \<Longrightarrow> sizing_price sig (Some p) = p"
  by (simp add: sizing_price_def)

lemma risk_capped_le: "risk_capped sig pf s price q \<le> q"
  by (simp add: risk_capped_def split: option.splits)

lemma calculate_quantity_sell:
  "sig_action sig = A_SELL \<Longrightarrow> 0 < held_long pf (sig_symbol sig) \<Longrightarrow>
   calculate_quantity sig pf s cp cf cm cap = held_long pf (sig_symbol sig)"
  by (simp add: calculate_quantity_def Let_def)

lemma calculate_quantity_buy:
  "sig_action sig = A_BUY \<Longrightarrow>
   calculate_quantity sig pf s cp cf cm cap =
     floor8 (max (min (risk_capped sig pf s (sizing_price sig cp)
                         (max_position_value sig pf s / sizing_price sig cp))
                      (max_qty_by_cash pf (sizing_price sig cp) cf cm cap)) 0)"
  by (simp add: calculate_quantity_def Let_def)

text \<open>A planned BUY is below any non-negative bound that one of its clamps imposes.\<close>

lemma calculate_quantity_buy_le:
  assumes "sig_action sig = A_BUY" and "0 \<le> b"
    and "risk_capped sig pf s (sizing_price sig cp)
           (max_position_value sig pf s / sizing_price sig cp) \<le> b
         \<or> max_qty_by_cash pf (sizing_price sig cp) cf cm cap \<le> b"
  shows "calculate_quantity sig pf s cp cf cm cap \<le> b"
  unfolding calculate_quantity_buy [OF assms(1)]
  by (rule order_trans [OF floor8_le]) (use assms(2,3) in auto)

lemma calculate_quantity_buy_nonneg:
  "sig_action sig = A_BUY \<Longrightarrow> 0 \<le> calculate_quantity sig pf s cp cf cm cap"
  by (simp add: calculate_quantity_buy floor8_nonneg)

lemma calculate_quantity_buy_grid:
  "sig_action sig = A_BUY \<Longrightarrow> on_grid (calculate_quantity sig pf s cp cf cm cap)"
  by (simp add: calculate_quantity_buy)

lemma max_position_value_nonneg: "sig_action sig = A_BUY \<Longrightarrow> 0 \<le> max_position_value sig pf s"
  by (simp add: max_position_value_def)

lemma calculate_quantity_buy_headroom:
  assumes "sig_action sig = A_BUY"
  shows "calculate_quantity sig pf s cp cf cm cap * sizing_price sig cp \<le> max_position_value sig pf s"
proof -
  let ?p = "sizing_price sig cp"
  have "calculate_quantity sig pf s cp cf cm cap \<le> max_position_value sig pf s / ?p"
    by (rule calculate_quantity_buy_le [OF assms])
      (simp_all add: max_position_value_nonneg [OF assms] risk_capped_le
        less_imp_le [OF sizing_price_pos])
  then show ?thesis using sizing_price_pos [of sig cp] by (simp add: pos_le_divide_eq)
qed

lemma calculate_quantity_ok:
  assumes "\<And>p. p \<in> set (pf_positions pf) \<Longrightarrow> 0 \<le> p_quantity p \<and> on_grid (p_quantity p)"
  shows "0 \<le> calculate_quantity sig pf s cp cf cm cap \<and> on_grid (calculate_quantity sig pf s cp cf cm cap)"
proof -
  have "0 \<le> (\<Sum>p\<leftarrow>filter P ps. p_quantity p) \<and> on_grid (\<Sum>p\<leftarrow>filter P ps. p_quantity p)"
    if "\<And>p. p \<in> set ps \<Longrightarrow> 0 \<le> p_quantity p \<and> on_grid (p_quantity p)" for P ps
    using that by (induction ps) (auto intro!: on_grid_add)
  then have "on_grid (held_long pf (sig_symbol sig))" unfolding held_long_def using assms by blast
  then show ?thesis by (simp add: calculate_quantity_def Let_def floor8_nonneg)
qed

lemma spendable_nonneg: "0 \<le> spendable pf cap"
  by (simp add: spendable_def)

lemma calculate_quantity_buy_cash:
  assumes "sig_action sig = A_BUY" and ok: "cost_model_ok m"
  shows "let n = calculate_quantity sig pf s cp cf (Some m) cap *
           (sizing_price sig cp * (1 + cm_slippage_pct m))
         in n + total_fee m n \<le> spendable pf cap"
proof -
  let ?fp = "sizing_price sig cp * (1 + cm_slippage_pct m)"
  let ?b = "max_affordable_fill_notional m (spendable pf cap) / ?fp"
  have fp: "0 < ?fp" using sizing_price_pos [of sig cp] ok
    by (simp add: cost_model_ok_def add_pos_nonneg)
  have "0 \<le> ?b" using fp venue.affordable_nonneg [OF ok] by simp
  moreover have "max_qty_by_cash pf (sizing_price sig cp) cf (Some m) cap \<le> ?b"
    using fp by (simp add: max_qty_by_cash_def)
  ultimately have "calculate_quantity sig pf s cp cf (Some m) cap \<le> ?b"
    by (intro calculate_quantity_buy_le [OF assms(1)] disjI2)
  from venue.clamp_affordable [OF ok spendable_nonneg fp this] show ?thesis by (simp add: Let_def)
qed

section \<open>Properties\<close>

text \<open>C13: A planned BUY is never refused for money: at the executor's fill price (quote plus
  slippage or price offset) its notional and all its fees fit the portfolio's cash and, in
  a sleeve, the agent's free cash.\<close>

theorem planned_buy_is_payable:
  assumes "sig_action sig = A_BUY" and "sizing_cost_model x = Inr m" and "0 < price"
    and "q = calculate_quantity sig pf s (Some price) cf (Some m) cash_cap"
    and "n = q * (price * (1 + cm_slippage_pct m))"
  shows "0 \<le> q \<and> on_grid q \<and> n + total_fee m n \<le> max (pf_cash pf) 0
    \<and> (\<forall>c. cash_cap = Some c \<longrightarrow> n + total_fee m n \<le> max c 0)"
proof -
  have "cost_model_ok m"
    using assms(2) make_cost_model_ok
    by (auto simp: sizing_cost_model_def cost_model_from_attrs_def split: sum.splits option.splits if_splits)
  from calculate_quantity_buy_cash [OF assms(1) this, of pf s "Some price" cf cash_cap]
  have "n + total_fee m n \<le> spendable pf cash_cap"
    using assms(3,4,5) by (simp add: Let_def)
  then show ?thesis
    using assms(1,4) calculate_quantity_buy_nonneg calculate_quantity_buy_grid
    by (auto simp: spendable_def max_def split: option.splits if_splits)
qed

definition demo_attrs :: exec_attrs where
  "demo_attrs = \<lparr>xa_slippage_pct = Some (1/1000), xa_fee_pct = Some (8/10000),
     xa_min_commission = Some 1, xa_fx_fee_pct = None, xa_buy_price_factor = None\<rparr>"

definition demo_cost_model :: cost_model where
  "demo_cost_model = \<lparr>cm_slippage_pct = 1/1000, cm_fee_pct = 8/10000, cm_min_commission = 1,
     cm_fx_fee_pct = 0\<rparr>"

definition demo_portfolio :: portfolio_state where
  "demo_portfolio = \<lparr>pf_cash = 1000, pf_positions = [], pf_pending_value = 0\<rparr>"

lemma demo_sizing_cost_model: "sizing_cost_model demo_attrs = Inr demo_cost_model"
  by (simp add: sizing_cost_model_def demo_attrs_def cost_model_from_attrs_def attr_or_zero_def
      make_cost_model_def demo_cost_model_def)

theorem planned_buy_is_payable_witness:
  "let q = calculate_quantity (demo_signal A_BUY) demo_portfolio default_risk_settings (Some 100) 1
             (Some demo_cost_model) (Some 50);
       n = q * (100 * (1 + cm_slippage_pct demo_cost_model))
   in 0 \<le> q \<and> n + total_fee demo_cost_model n \<le> 50"
  using planned_buy_is_payable [OF _ demo_sizing_cost_model, of "demo_signal A_BUY" 100 _
      demo_portfolio default_risk_settings 1 "Some 50", OF _ _ refl refl]
  by (simp add: demo_signal_def Let_def)

text \<open>Sizing and gate agree: a BUY planned from the headroom under the position cap always
  satisfies the notional part of the gate's position-size rule, so the gate rejects the
  size only when the symbol is already at its cap or the portfolio is worthless.\<close>

theorem planned_buy_fits_cap:
  assumes "sig_action sig = A_BUY" and "0 < price" and "0 \<le> rs_max_position_pct s"
    and "q = calculate_quantity sig pf s (Some price) cf cm cash_cap"
    and "0 < total_value pf"
    and "long_exposure pf (sig_symbol sig) < rs_max_position_pct s * total_value pf * (1 - 1 / 10 ^ 9)"
  shows "rr_verdict (check_position_size s sig pf (Some (q * price))) = APPROVED"
proof -
  let ?cap = "rs_max_position_pct s * total_value pf"
  let ?x = "long_exposure pf (sig_symbol sig)"
  have cap: "0 \<le> ?cap" using assms(3,5) by simp
  have "q * price \<le> max 0 (?cap - ?x)"
    using calculate_quantity_buy_headroom [OF assms(1), of pf s "Some price" cf cm cash_cap] assms(1,2,4)
    by (simp add: max_position_value_def mult.commute)
  moreover have "?x \<le> ?cap" using assms(6) cap by simp
  ultimately have "?x + q * price \<le> ?cap" by simp
  with cap assms(1,5,6) show ?thesis by (simp add: check_position_size_iff size_rule_def Let_def)
qed

theorem planned_buy_fits_cap_witness:
  "rr_verdict (check_position_size default_risk_settings (demo_signal A_BUY) demo_portfolio
     (Some (calculate_quantity (demo_signal A_BUY) demo_portfolio default_risk_settings (Some 100) 1
        (Some demo_cost_model) None * 100))) = APPROVED"
  by (rule planned_buy_fits_cap [OF _ _ _ refl])
    (simp_all add: demo_signal_def demo_portfolio_def default_risk_settings_def total_value_def
      long_exposure_def)

text \<open>With risk-per-trade sizing on, hitting the stop of a planned BUY loses at most
  risk_per_trade_pct of the portfolio's value.\<close>

theorem planned_buy_respects_risk_budget:
  assumes "sig_action sig = A_BUY" and "0 < price" and "sig_stop_loss sig = Some sl" and "sl < price"
    and "0 < rs_risk_per_trade_pct s" and "0 \<le> total_value pf"
  shows "calculate_quantity sig pf s (Some price) cf cm cash_cap * (price - sl)
    \<le> rs_risk_per_trade_pct s * total_value pf"
proof -
  let ?b = "total_value pf * rs_risk_per_trade_pct s / (price - sl)"
  have "calculate_quantity sig pf s (Some price) cf cm cash_cap \<le> ?b"
    by (rule calculate_quantity_buy_le [OF assms(1)])
      (use assms in \<open>auto simp: risk_capped_def\<close>)
  then show ?thesis using assms(4) by (simp add: pos_le_divide_eq mult.commute)
qed

theorem planned_buy_respects_risk_budget_witness:
  "calculate_quantity (demo_signal A_BUY) demo_portfolio
     (default_risk_settings\<lparr>rs_risk_per_trade_pct := 1/100\<rparr>) (Some 100) 1 None None * (100 - 95)
   \<le> 1/100 * 1000"
  using planned_buy_respects_risk_budget [of "demo_signal A_BUY" 100 95
      "default_risk_settings\<lparr>rs_risk_per_trade_pct := 1/100\<rparr>" demo_portfolio 1 None None]
  by (simp add: demo_signal_def demo_portfolio_def default_risk_settings_def total_value_def)

end
