(* ===== verification/Position_Tracker.thy ===== *)
theory Position_Tracker
  imports Models
begin

text \<open>
  The FIFO cost-basis ledger of \<^verbatim>\<open>src/src/execution/position_tracker.py\<close>: lots, the
  long and the short book, the booking rule \<^verbatim>\<open>book_fill\<close> and the restart replay.

  The consumption loop of \<^verbatim>\<open>on_sell\<close> and \<^verbatim>\<open>cover\<close> is one function,
  \<open>consume_loop\<close>, given the gross PnL of taking an amount from a lot, which is the only
  line in which the two loops of the source differ. The locale \<open>fifo_book\<close> states what an
  executor may assume of one book (how the held quantity and the cost basis move, that
  other symbols are untouched); it is interpreted on the long book and on the short book.
\<close>

record lot =
  l_quantity :: real
  l_price :: real
  l_fee_paid :: real
  l_decision_id :: "int option"

type_synonym exit_levels = "real option \<times> real option"

record fill_record =
  f_symbol :: symbol
  f_side :: string
  f_quantity :: real
  f_price :: real
  f_decision_id :: "int option"
  f_stop_loss :: "real option"
  f_take_profit :: "real option"
  f_fee_base :: real
  f_fee_quote :: real
  f_order_id :: "string option"

record sell_outcome =
  so_gross_pnl :: real
  so_net_pnl :: real
  so_closed_entries :: "closed_entry list"

record tracker =
  t_lots :: "(symbol, lot list) dict"
  t_short_lots :: "(symbol, lot list) dict"

definition new_tracker :: tracker where
  "new_tracker = \<lparr>t_lots = [], t_short_lots = []\<rparr>"

definition dict_lots :: "(symbol, lot list) dict \<Rightarrow> symbol \<Rightarrow> lot list" where
  "dict_lots d s = (case map_of d s of None \<Rightarrow> [] | Some ls \<Rightarrow> ls)"

definition lots_quantity :: "lot list \<Rightarrow> real" where
  "lots_quantity ls = (\<Sum>l\<leftarrow>ls. l_quantity l)"

definition quantity :: "tracker \<Rightarrow> symbol \<Rightarrow> real" where
  "quantity t s = lots_quantity (dict_lots (t_lots t) s)"

definition symbols :: "tracker \<Rightarrow> symbol list" where
  "symbols t = map fst (filter (\<lambda>(s, ls). ls \<noteq> []) (t_lots t))"

definition entry_decision_ids :: "tracker \<Rightarrow> symbol \<Rightarrow> int option list" where
  "entry_decision_ids t s = map l_decision_id (dict_lots (t_lots t) s)"

definition average_price :: "tracker \<Rightarrow> symbol \<Rightarrow> real option" where
  "average_price t s =
     (let lots = dict_lots (t_lots t) s; qty = lots_quantity lots
      in if qty \<le> 0 then None else Some ((\<Sum>l\<leftarrow>lots. l_quantity l * l_price l) / qty))"

text \<open>Appending a lot to a book (\<^verbatim>\<open>setdefault\<close> then \<^verbatim>\<open>append\<close>).\<close>

definition add_lot ::
  "(symbol, lot list) dict \<Rightarrow> symbol \<Rightarrow> real \<Rightarrow> real \<Rightarrow> real \<Rightarrow> int option \<Rightarrow> (symbol, lot list) dict" where
  "add_lot d s qty price fee did =
     (if qty \<le> 0 then d
      else AList.update s
             (dict_lots d s @ [\<lparr>l_quantity = qty, l_price = price, l_fee_paid = fee,
                               l_decision_id = did\<rparr>]) d)"

definition on_buy ::
  "tracker \<Rightarrow> symbol \<Rightarrow> real \<Rightarrow> real \<Rightarrow> real \<Rightarrow> int option \<Rightarrow> tracker" where
  "on_buy t s qty price fee did = t\<lparr>t_lots := add_lot (t_lots t) s qty price fee did\<rparr>"

definition open_short ::
  "tracker \<Rightarrow> symbol \<Rightarrow> real \<Rightarrow> real \<Rightarrow> real \<Rightarrow> int option \<Rightarrow> tracker" where
  "open_short t s qty price fee did =
     t\<lparr>t_short_lots := add_lot (t_short_lots t) s qty price fee did\<rparr>"

section \<open>Consuming lots first in, first out\<close>

type_synonym attribution = "(int option, real) dict"

definition credit :: "attribution \<Rightarrow> int option \<Rightarrow> real \<Rightarrow> attribution" where
  "credit per did net =
     AList.update did ((case map_of per did of None \<Rightarrow> 0 | Some v \<Rightarrow> v) + net) per"

function consume_loop ::
  "(lot \<Rightarrow> real \<Rightarrow> real) \<Rightarrow> real \<Rightarrow> real \<Rightarrow> real \<Rightarrow> lot list \<Rightarrow> real \<Rightarrow> real \<Rightarrow> attribution \<Rightarrow>
   lot list \<times> real \<times> real \<times> attribution" where
  "consume_loop gross_of qty fee remaining lots gross_pnl net_pnl per_entry =
     (case lots of
        [] \<Rightarrow> (lots, gross_pnl, net_pnl, per_entry)
      | lot # rest \<Rightarrow>
          if remaining > 0
          then let take = min (l_quantity lot) remaining;
                   gross = gross_of lot take;
                   open_fee_share = (if l_quantity lot > 0
                                     then l_fee_paid lot * (take / l_quantity lot) else 0);
                   close_fee_share = (if qty > 0 then fee * (take / qty) else 0);
                   net = gross - open_fee_share - close_fee_share;
                   lot' = lot\<lparr>l_fee_paid := l_fee_paid lot - open_fee_share,
                              l_quantity := l_quantity lot - take\<rparr>;
                   lots' = (if l_quantity lot' \<le> eps12 then rest else lot' # rest)
               in consume_loop gross_of qty fee (remaining - take) lots'
                    (gross_pnl + gross) (net_pnl + net) (credit per_entry (l_decision_id lot) net)
          else (lots, gross_pnl, net_pnl, per_entry))"
  by pat_completeness auto
termination
  by (relation "measure (\<lambda>(g, q, fee, r, lots, a, b, p). if r > 0 then Suc (length lots) else 0)")
    (auto simp: min_def split: if_splits)

declare consume_loop.simps [simp del]

definition closed_entries_of :: "attribution \<Rightarrow> closed_entry list" where
  "closed_entries_of per =
     map (\<lambda>(did, v). \<lparr>ce_entry_decision_id = did, ce_pnl = v\<rparr>) per"

definition consume ::
  "(lot \<Rightarrow> real \<Rightarrow> real) \<Rightarrow> (symbol, lot list) dict \<Rightarrow> symbol \<Rightarrow> real \<Rightarrow> real \<Rightarrow>
   (symbol, lot list) dict \<times> sell_outcome" where
  "consume gross_of d s qty fee =
     (case consume_loop gross_of qty fee qty (dict_lots d s) 0 0 [] of
        (lots, gross, net, per) \<Rightarrow>
          (if lots = [] then AList.delete s d else AList.update s lots d,
           \<lparr>so_gross_pnl = gross, so_net_pnl = net, so_closed_entries = closed_entries_of per\<rparr>))"

definition on_sell :: "tracker \<Rightarrow> symbol \<Rightarrow> real \<Rightarrow> real \<Rightarrow> real \<Rightarrow> tracker \<times> sell_outcome" where
  "on_sell t s qty price fee =
     (case consume (\<lambda>lot take. (price - l_price lot) * take) (t_lots t) s qty fee of
        (d, out) \<Rightarrow> (t\<lparr>t_lots := d\<rparr>, out))"

definition cover :: "tracker \<Rightarrow> symbol \<Rightarrow> real \<Rightarrow> real \<Rightarrow> real \<Rightarrow> tracker \<times> sell_outcome" where
  "cover t s qty price fee =
     (case consume (\<lambda>lot take. (l_price lot - price) * take) (t_short_lots t) s qty fee of
        (d, out) \<Rightarrow> (t\<lparr>t_short_lots := d\<rparr>, out))"

definition discard :: "tracker \<Rightarrow> symbol \<Rightarrow> tracker \<times> real" where
  "discard t s = (t\<lparr>t_lots := AList.delete s (t_lots t)\<rparr>, quantity t s)"

definition short_quantity :: "tracker \<Rightarrow> symbol \<Rightarrow> real" where
  "short_quantity t s = lots_quantity (dict_lots (t_short_lots t) s)"

section \<open>Booking and replaying fills\<close>

definition book_fill ::
  "tracker \<Rightarrow> symbol \<Rightarrow> string \<Rightarrow> real \<Rightarrow> real \<Rightarrow> real \<Rightarrow> real \<Rightarrow> int option \<Rightarrow>
   tracker \<times> sell_outcome option" where
  "book_fill t s side qty price fee_base fee_quote did =
     (if side = ''buy''
      then let (booked, fb) = (if 0 < fee_base \<and> fee_base < qty then (qty - fee_base, fee_base)
                               else if fee_base \<ge> qty \<and> qty > 0 then (qty, 0)
                               else (qty, fee_base))
           in (on_buy t s booked price (fb * price + fee_quote) did, None)
      else if quantity t s \<le> 0 then (t, None)
      else case on_sell t s qty price (fee_quote + fee_base * price) of
             (t', out) \<Rightarrow> (t', Some out))"

fun replay_loop ::
  "tracker \<Rightarrow> fill_record list \<Rightarrow> nat \<Rightarrow> (symbol, exit_levels) dict \<Rightarrow>
   tracker \<times> nat \<times> (symbol, exit_levels) dict" where
  "replay_loop t [] replayed levels = (t, replayed, levels)"
| "replay_loop t (f # fs) replayed levels =
     (if f_side f \<notin> {''buy'', ''sell''} then replay_loop t fs replayed levels
      else let t' = fst (book_fill t (f_symbol f) (f_side f) (f_quantity f) (f_price f)
                           (f_fee_base f) (f_fee_quote f) (f_decision_id f));
               levels1 = (if f_side f = ''buy''
                          then AList.update (f_symbol f) (f_stop_loss f, f_take_profit f) levels
                          else levels);
               levels2 = (if quantity t' (f_symbol f) \<le> eps12
                          then AList.delete (f_symbol f) levels1 else levels1)
           in replay_loop t' fs (Suc replayed) levels2)"

definition replay_fills ::
  "tracker \<Rightarrow> fill_record list \<Rightarrow> tracker \<times> nat \<times> (symbol, exit_levels) dict" where
  "replay_fills t fills = replay_loop t fills 0 []"

section \<open>What one consumption does\<close>

definition lots_ok :: "lot list \<Rightarrow> bool" where
  "lots_ok ls \<longleftrightarrow> (\<forall>l\<in>set ls. 0 < l_quantity l)"

definition lots_on_grid :: "lot list \<Rightarrow> bool" where
  "lots_on_grid ls \<longleftrightarrow> (\<forall>l\<in>set ls. on_grid (l_quantity l))"

text \<open>
  Cost basis of a list of lots: the money put in (\<open>sg = 1\<close>, long) or taken out
  (\<open>sg = -1\<close>, short) at the entry prices, plus the opening fees still carried.
\<close>

definition basis :: "real \<Rightarrow> lot list \<Rightarrow> real" where
  "basis sg ls = (\<Sum>l\<leftarrow>ls. sg * l_quantity l * l_price l + l_fee_paid l)"

lemma lots_quantity_simps [simp]:
  "lots_quantity [] = 0"
  "lots_quantity (l # ls) = l_quantity l + lots_quantity ls"
  "lots_quantity (ls @ ls') = lots_quantity ls + lots_quantity ls'"
  by (simp_all add: lots_quantity_def)

lemma basis_simps [simp]:
  "basis sg [] = 0"
  "basis sg (l # ls) = sg * l_quantity l * l_price l + l_fee_paid l + basis sg ls"
  "basis sg (ls @ ls') = basis sg ls + basis sg ls'"
  by (simp_all add: basis_def)

lemma lots_ok_simps [simp]:
  "lots_ok []" "lots_ok (l # ls) \<longleftrightarrow> 0 < l_quantity l \<and> lots_ok ls"
  "lots_ok (ls @ ls') \<longleftrightarrow> lots_ok ls \<and> lots_ok ls'"
  by (auto simp: lots_ok_def)

lemma lots_on_grid_simps [simp]:
  "lots_on_grid []" "lots_on_grid (l # ls) \<longleftrightarrow> on_grid (l_quantity l) \<and> lots_on_grid ls"
  "lots_on_grid (ls @ ls') \<longleftrightarrow> lots_on_grid ls \<and> lots_on_grid ls'"
  by (auto simp: lots_on_grid_def)

lemma lots_quantity_nonneg: "lots_ok ls \<Longrightarrow> 0 \<le> lots_quantity ls"
  by (induction ls) auto

lemma lots_quantity_on_grid: "lots_on_grid ls \<Longrightarrow> on_grid (lots_quantity ls)"
  by (induction ls) (auto intro: on_grid_add)

text \<open>The loop, one iteration at a time: it has stopped, it eats a whole lot, or it ends
  inside a lot.\<close>

lemma consume_Nil [simp]: "consume_loop g qty fee r [] G N P = ([], G, N, P)"
  by (simp add: consume_loop.simps)

lemma consume_stop [simp]: "r \<le> 0 \<Longrightarrow> consume_loop g qty fee r ls G N P = (ls, G, N, P)"
  by (simp add: consume_loop.simps split: list.splits)

lemma consume_full [simp]:
  "0 < l_quantity l \<Longrightarrow> l_quantity l \<le> r \<Longrightarrow> 0 < qty \<Longrightarrow>
   consume_loop g qty fee r (l # ls) G N P =
     (let net = g l (l_quantity l) - l_fee_paid l - fee * (l_quantity l / qty)
      in consume_loop g qty fee (r - l_quantity l) ls (G + g l (l_quantity l)) (N + net)
           (credit P (l_decision_id l) net))"
  by (subst consume_loop.simps) (simp add: Let_def min_def)

lemma consume_part [simp]:
  "0 < r \<Longrightarrow> r < l_quantity l \<Longrightarrow> 0 < qty \<Longrightarrow>
   consume_loop g qty fee r (l # ls) G N P =
     (let share = l_fee_paid l * (r / l_quantity l);
          net = g l r - share - fee * (r / qty)
      in (if l_quantity l - r \<le> eps12 then ls
          else l\<lparr>l_fee_paid := l_fee_paid l - share, l_quantity := l_quantity l - r\<rparr> # ls,
          G + g l r, N + net, credit P (l_decision_id l) net))"
  by (subst consume_loop.simps) (simp add: Let_def min_def)

lemma consume_induct [consumes 2, case_names Nil Stop Full Part]:
  assumes "lots_ok ls" and "0 < qty"
    and "\<And>r G N P. Q r [] G N P"
    and "\<And>r l ls G N P. r \<le> 0 \<Longrightarrow> lots_ok (l # ls) \<Longrightarrow> Q r (l # ls) G N P"
    and "\<And>r l ls G N P. 0 < l_quantity l \<Longrightarrow> l_quantity l \<le> r \<Longrightarrow> lots_ok ls \<Longrightarrow>
      (\<And>G N P. Q (r - l_quantity l) ls G N P) \<Longrightarrow> Q r (l # ls) G N P"
    and "\<And>r l ls G N P. 0 < r \<Longrightarrow> r < l_quantity l \<Longrightarrow> lots_ok ls \<Longrightarrow> Q r (l # ls) G N P"
  shows "Q r ls G N P"
  using assms(1)
proof (induction ls arbitrary: r G N P)
  case (Cons l ls)
  consider "r \<le> 0" | "l_quantity l \<le> r" | "0 < r" "r < l_quantity l" by linarith
  then show ?case using Cons assms(4-6) by cases auto
qed (rule assms(3))

lemma consume_lots_ok:
  assumes "lots_ok ls" and "0 < qty"
  shows "lots_ok (fst (consume_loop g qty fee r ls G N P))"
  using assms
  by (induction r ls G N P rule: consume_induct) (auto simp: Let_def assms(2))

lemma dict_sum_credit: "dict_ok P \<Longrightarrow> dict_sum (\<lambda>v. v) (credit P did v) = dict_sum (\<lambda>v. v) P + v"
  by (simp add: credit_def dict_sum_update split: option.splits)

lemma dict_ok_credit [simp]: "dict_ok P \<Longrightarrow> dict_ok (credit P did v)"
  by (simp add: credit_def)

text \<open>Attribution: whatever is booked as net PnL is credited to an entry decision.\<close>

lemma consume_attribution:
  assumes "lots_ok ls" and "0 < qty"
  shows "dict_ok P \<Longrightarrow> consume_loop g qty fee r ls G N P = (ls', G', N', P') \<Longrightarrow>
    dict_ok P' \<and> dict_sum (\<lambda>v. v) P' - N' = dict_sum (\<lambda>v. v) P - N"
  using assms
proof (induction r ls G N P rule: consume_induct)
  case (Full r l ls G N P)
  let ?net = "g l (l_quantity l) - l_fee_paid l - fee * (l_quantity l / qty)"
  have "consume_loop g qty fee (r - l_quantity l) ls (G + g l (l_quantity l)) (N + ?net)
      (credit P (l_decision_id l) ?net) = (ls', G', N', P')"
    using Full.prems Full.hyps assms(2) by (simp add: Let_def)
  from Full.IH [OF dict_ok_credit [OF Full.prems(1)] this] Full.prems(1) show ?case
    by (simp add: dict_sum_credit)
qed (auto simp: Let_def dict_sum_credit assms(2))

text \<open>How much the loop takes, one lot at a time.\<close>

lemma taken_step:
  "0 < l_quantity l \<Longrightarrow> l_quantity l \<le> r \<Longrightarrow> lots_ok ls \<Longrightarrow>
   min (max r 0) (lots_quantity (l # ls)) =
     l_quantity l + min (max (r - l_quantity l) 0) (lots_quantity ls)"
  using lots_quantity_nonneg [of ls] by (simp add: min_def max_def)

text \<open>The quantity leaves the book, up to one dust remainder that is written off.\<close>

lemma consume_quantity:
  assumes "lots_ok ls" and "0 < qty"
  shows "let left = lots_quantity (fst (consume_loop g qty fee r ls G N P));
             due = lots_quantity ls - min (max r 0) (lots_quantity ls)
         in due - eps12 \<le> left \<and> left \<le> due"
  using assms
proof (induction r ls G N P rule: consume_induct)
  case (Stop r l ls G N P)
  then show ?case using lots_quantity_nonneg [of "l # ls"] by (simp add: Let_def min_def max_def)
next
  case (Full r l ls G N P)
  let ?net = "g l (l_quantity l) - l_fee_paid l - fee * (l_quantity l / qty)"
  have step: "consume_loop g qty fee r (l # ls) G N P =
      consume_loop g qty fee (r - l_quantity l) ls (G + g l (l_quantity l)) (N + ?net)
        (credit P (l_decision_id l) ?net)"
    using Full.hyps assms(2) by (simp add: Let_def)
  show ?case using Full.IH unfolding step taken_step [OF Full.hyps] by simp
next
  case (Part r l ls G N P)
  then show ?case using assms(2) lots_quantity_nonneg [of ls]
    by (simp add: Let_def min_def max_def)
qed simp

text \<open>On the quantity grid nothing is written off, and the cost basis that leaves the book
  is exactly accounted for by the proceeds, the closing fee and the net PnL.\<close>

lemma consume_exact:
  assumes "lots_ok ls" and "0 < qty" and gross: "\<And>l k. g l k = sg * (price - l_price l) * k"
  shows "lots_on_grid ls \<Longrightarrow> on_grid r \<Longrightarrow>
    consume_loop g qty fee r ls G N P = (ls', G', N', P') \<Longrightarrow>
    lots_on_grid ls' \<and>
    lots_quantity ls' = lots_quantity ls - min (max r 0) (lots_quantity ls) \<and>
    N' - N = (sg * price - fee / qty) * min (max r 0) (lots_quantity ls)
               - (basis sg ls - basis sg ls')"
  using assms(1,2)
proof (induction r ls G N P rule: consume_induct)
  case (Stop r l ls G N P)
  then show ?case using lots_quantity_nonneg [of "l # ls"] by (auto simp: min_def max_def)
next
  case (Full r l ls G N P)
  let ?net = "g l (l_quantity l) - l_fee_paid l - fee * (l_quantity l / qty)"
  let ?k = "min (max (r - l_quantity l) 0) (lots_quantity ls)"
  have "on_grid (r - l_quantity l)" using Full.prems by (auto intro: on_grid_diff)
  moreover have "consume_loop g qty fee (r - l_quantity l) ls (G + g l (l_quantity l)) (N + ?net)
      (credit P (l_decision_id l) ?net) = (ls', G', N', P')"
    using Full.prems(3) Full.hyps assms(2) by (simp add: Let_def)
  ultimately have IH: "lots_on_grid ls'" "lots_quantity ls' = lots_quantity ls - ?k"
    "N' - (N + ?net) = (sg * price - fee / qty) * ?k - (basis sg ls - basis sg ls')"
    using Full.IH Full.prems by auto
  have k: "min (max r 0) (lots_quantity (l # ls)) = l_quantity l + ?k"
    by (rule taken_step [OF Full.hyps])
  have "g l (l_quantity l) = sg * (price - l_price l) * l_quantity l" by (rule gross)
  with IH show ?case unfolding k by (simp add: algebra_simps)
next
  case (Part r l ls G N P)
  have "on_grid (l_quantity l - r)" using Part.prems by (auto intro: on_grid_diff)
  with Part.hyps have big: "\<not> l_quantity l - r \<le> eps12"
    using on_grid_dust [of "l_quantity l - r"] by auto
  with Part.prems Part.hyps assms(2) lots_quantity_nonneg [OF Part.hyps(3)] \<open>on_grid (l_quantity l - r)\<close>
  show ?case by (auto simp: Let_def min_def max_def gross algebra_simps)
qed (auto simp: min_def max_def)

text \<open>First in, first out: a prefix of the lots is gone and at most the lot the loop ended in
  is reduced; the later lots are untouched.\<close>

definition fifo_suffix :: "lot list \<Rightarrow> lot list \<Rightarrow> bool" where
  "fifo_suffix ls ls' \<longleftrightarrow>
     (\<exists>k. ls' = drop k ls \<or>
        (\<exists>l q f. k < length ls \<and> l = ls ! k \<and> 0 < q \<and> q < l_quantity l \<and>
           ls' = l\<lparr>l_fee_paid := f, l_quantity := q\<rparr> # drop (Suc k) ls))"

lemma fifo_suffix_refl [simp]: "fifo_suffix ls ls"
  unfolding fifo_suffix_def by (rule exI [of _ 0]) simp

lemma fifo_suffix_tl [simp]: "fifo_suffix (l # ls) ls"
  unfolding fifo_suffix_def by (rule exI [of _ 1]) simp

lemma fifo_suffix_head:
  "0 < q \<Longrightarrow> q < l_quantity l \<Longrightarrow>
   fifo_suffix (l # ls) (l\<lparr>l_fee_paid := f, l_quantity := q\<rparr> # ls)"
  unfolding fifo_suffix_def
  by (intro exI [of _ 0] disjI2 exI [of _ l] exI [of _ q] exI [of _ f]) simp

lemma fifo_suffix_Cons: "fifo_suffix ls ls' \<Longrightarrow> fifo_suffix (l # ls) ls'"
  unfolding fifo_suffix_def by (metis Suc_less_eq drop_Suc_Cons length_Cons nth_Cons_Suc)

lemma consume_fifo:
  assumes "lots_ok ls" and "0 < qty"
  shows "fifo_suffix ls (fst (consume_loop g qty fee r ls G N P))"
  using assms
proof (induction r ls G N P rule: consume_induct)
  case (Full r l ls G N P)
  then show ?case using assms(2) by (simp add: Let_def fifo_suffix_Cons)
next
  case (Part r l ls G N P)
  have "0 < l_quantity l - r" if "\<not> l_quantity l - r \<le> eps12" using Part.hyps(2) by simp
  with Part.hyps assms(2) show ?case by (simp add: Let_def fifo_suffix_head)
qed simp_all

text \<open>Which lots are consumed does not depend on the fees: erasing them commutes with the
  loop. This is what lets a restart rebuild the lots from fee-less order rows.\<close>

definition erase_fee :: "lot \<Rightarrow> lot" where
  "erase_fee l = l\<lparr>l_fee_paid := 0\<rparr>"

lemma erase_fee_simps [simp]:
  "l_quantity (erase_fee l) = l_quantity l" "l_price (erase_fee l) = l_price l"
  "l_decision_id (erase_fee l) = l_decision_id l" "l_fee_paid (erase_fee l) = 0"
  "erase_fee (l\<lparr>l_fee_paid := f\<rparr>) = erase_fee l"
  "erase_fee (l\<lparr>l_quantity := q\<rparr>) = (erase_fee l)\<lparr>l_quantity := q\<rparr>"
  "(erase_fee l)\<lparr>l_fee_paid := 0\<rparr> = erase_fee l"
  by (simp_all add: erase_fee_def)

lemma consume_erase:
  assumes "lots_ok ls" and "0 < qty"
  shows "\<forall>G' N' P'. fst (consume_loop g' qty fee' r (map erase_fee ls) G' N' P') =
    map erase_fee (fst (consume_loop g qty fee r ls G N P))"
  using assms
proof (induction r ls G N P rule: consume_induct)
  case (Full r l ls G N P)
  then show ?case using assms(2) by (simp add: Let_def)
next
  case (Part r l ls G N P)
  then show ?case using assms(2) by (simp add: Let_def)
qed simp_all

section \<open>Books: what an executor may assume\<close>

definition book_wf :: "(symbol, lot list) dict \<Rightarrow> bool" where
  "book_wf d \<longleftrightarrow> dict_ok d \<and> (\<forall>(s, ls)\<in>set d. ls \<noteq> [] \<and> lots_ok ls)"

definition book_ok :: "(symbol, lot list) dict \<Rightarrow> bool" where
  "book_ok d \<longleftrightarrow> book_wf d \<and> (\<forall>(s, ls)\<in>set d. lots_on_grid ls)"

lemma dict_lots_mem: "dict_lots d s \<noteq> [] \<Longrightarrow> (s, dict_lots d s) \<in> set d"
  by (auto simp: dict_lots_def split: option.splits dest: map_of_SomeD)

lemma book_wf_lots [simp]: "book_wf d \<Longrightarrow> lots_ok (dict_lots d s)"
  using dict_lots_mem [of d s] by (cases "dict_lots d s = []") (auto simp: book_wf_def)

lemma book_ok_lots [simp]:
  "book_ok d \<Longrightarrow> lots_ok (dict_lots d s)" "book_ok d \<Longrightarrow> lots_on_grid (dict_lots d s)"
  using dict_lots_mem [of d s]
  by (cases "dict_lots d s = []"; fastforce simp: book_ok_def book_wf_def)+

lemma dict_lots_update [simp]:
  "dict_lots (AList.update s ls d) s' = (if s' = s then ls else dict_lots d s')"
  by (simp add: dict_lots_def update_conv')

lemma dict_lots_delete [simp]:
  "dict_lots (AList.delete s d) s' = (if s' = s then [] else dict_lots d s')"
  by (simp add: dict_lots_def delete_conv')

lemma book_wf_update: "book_wf d \<Longrightarrow> ls \<noteq> [] \<Longrightarrow> lots_ok ls \<Longrightarrow> book_wf (AList.update s ls d)"
  by (auto simp: book_wf_def set_update_value split: if_splits)

lemma book_wf_delete: "book_wf d \<Longrightarrow> book_wf (AList.delete s d)"
  by (auto simp: book_wf_def set_delete_value)

lemma book_ok_update:
  "book_ok d \<Longrightarrow> ls \<noteq> [] \<Longrightarrow> lots_ok ls \<Longrightarrow> lots_on_grid ls \<Longrightarrow> book_ok (AList.update s ls d)"
  by (auto simp: book_ok_def book_wf_def set_update_value split: if_splits)

lemma book_ok_delete: "book_ok d \<Longrightarrow> book_ok (AList.delete s d)"
  by (auto simp: book_ok_def book_wf_delete set_delete_value)

lemma book_ok_Nil [simp]: "book_ok []" "book_wf []"
  by (simp_all add: book_ok_def book_wf_def)

definition book_basis :: "real \<Rightarrow> (symbol, lot list) dict \<Rightarrow> real" where
  "book_basis sg d = dict_sum (basis sg) d"

lemma book_basis_update:
  "dict_ok d \<Longrightarrow> book_basis sg (AList.update s ls d) =
     book_basis sg d + basis sg ls - basis sg (dict_lots d s)"
  by (simp add: book_basis_def dict_sum_update dict_lots_def split: option.splits)

lemma book_basis_delete:
  "dict_ok d \<Longrightarrow> book_basis sg (AList.delete s d) = book_basis sg d - basis sg (dict_lots d s)"
  by (simp add: book_basis_def dict_sum_delete dict_lots_def split: option.splits)

lemma lots_quantity_zero_iff: "lots_ok ls \<Longrightarrow> lots_quantity ls = 0 \<longleftrightarrow> ls = []"
  by (cases ls) (auto dest: lots_quantity_nonneg)

lemma sum_closed_entries: "(\<Sum>e\<leftarrow>closed_entries_of per. ce_pnl e) = dict_sum (\<lambda>v. v) per"
  by (induction per) (auto simp: closed_entries_of_def)

text \<open>The effect of closing on a whole book.\<close>

lemma consume_lots:
  "dict_lots (fst (consume g d s qty fee)) s' =
     (if s' = s then fst (consume_loop g qty fee qty (dict_lots d s) 0 0 []) else dict_lots d s')"
  by (auto simp: consume_def split: prod.splits)

lemma consume_outcome:
  "snd (consume g d s qty fee) =
     (case consume_loop g qty fee qty (dict_lots d s) 0 0 [] of
        (_, gross, net, per) \<Rightarrow>
          \<lparr>so_gross_pnl = gross, so_net_pnl = net, so_closed_entries = closed_entries_of per\<rparr>)"
  by (auto simp: consume_def split: prod.splits)

lemma consume_wf: "book_wf d \<Longrightarrow> 0 < qty \<Longrightarrow> book_wf (fst (consume g d s qty fee))"
  using consume_lots_ok [of "dict_lots d s" qty g fee qty 0 0 "[]"]
  by (auto simp: consume_def intro: book_wf_update book_wf_delete split: prod.splits)

lemma consume_basis:
  assumes "dict_ok d"
  shows "book_basis sg (fst (consume g d s qty fee)) - book_basis sg d =
     basis sg (dict_lots (fst (consume g d s qty fee)) s) - basis sg (dict_lots d s)"
  using assms
  by (auto simp: consume_def book_basis_update book_basis_delete split: prod.splits)

lemma consume_attributes_all:
  assumes "book_wf d" and "0 < qty"
  shows "(\<Sum>e\<leftarrow>so_closed_entries (snd (consume g d s qty fee)). ce_pnl e) =
    so_net_pnl (snd (consume g d s qty fee))"
  using consume_attribution [of "dict_lots d s" qty "[]" g fee qty 0 0] assms
  by (simp add: consume_outcome sum_closed_entries split: prod.splits)

lemma consume_book:
  assumes ok: "book_ok d" and q: "0 < qty" "on_grid qty"
    and gross: "\<And>l k. g l k = sg * (price - l_price l) * k"
  shows "book_ok (fst (consume g d s qty fee))"
    and "lots_quantity (dict_lots (fst (consume g d s qty fee)) s) =
      lots_quantity (dict_lots d s) - min qty (lots_quantity (dict_lots d s))"
    and "so_net_pnl (snd (consume g d s qty fee)) =
      (sg * price - fee / qty) * min qty (lots_quantity (dict_lots d s)) -
      (basis sg (dict_lots d s) - basis sg (dict_lots (fst (consume g d s qty fee)) s))"
proof -
  obtain ls G N P where e: "consume_loop g qty fee qty (dict_lots d s) 0 0 [] = (ls, G, N, P)"
    by (cases "consume_loop g qty fee qty (dict_lots d s) 0 0 []") auto
  note ex = consume_exact [OF book_ok_lots(1) [OF ok] q(1) gross book_ok_lots(2) [OF ok] q(2) e]
  have "lots_ok ls" using consume_lots_ok [OF book_ok_lots(1) [OF ok] q(1)] e by (metis fst_conv)
  with ok ex e show "book_ok (fst (consume g d s qty fee))"
    by (auto simp: consume_def intro: book_ok_update book_ok_delete)
  from ex q(1) show "lots_quantity (dict_lots (fst (consume g d s qty fee)) s) =
      lots_quantity (dict_lots d s) - min qty (lots_quantity (dict_lots d s))"
    by (simp add: consume_lots e)
  from ex q(1) show "so_net_pnl (snd (consume g d s qty fee)) =
      (sg * price - fee / qty) * min qty (lots_quantity (dict_lots d s)) -
      (basis sg (dict_lots d s) - basis sg (dict_lots (fst (consume g d s qty fee)) s))"
    by (simp add: consume_lots consume_outcome e)
qed

lemma add_lot_lots:
  "0 < qty \<Longrightarrow> dict_lots (add_lot d s qty price fee did) s' =
     (if s' = s
      then dict_lots d s @ [\<lparr>l_quantity = qty, l_price = price, l_fee_paid = fee, l_decision_id = did\<rparr>]
      else dict_lots d s')"
  by (simp add: add_lot_def)

lemma add_lot_wf: "book_wf d \<Longrightarrow> book_wf (add_lot d s qty price fee did)"
  by (auto simp: add_lot_def intro!: book_wf_update)

lemma add_lot_ok: "book_ok d \<Longrightarrow> on_grid qty \<Longrightarrow> book_ok (add_lot d s qty price fee did)"
  by (auto simp: add_lot_def intro!: book_ok_update)

lemma add_lot_basis:
  "dict_ok d \<Longrightarrow> 0 < qty \<Longrightarrow>
   book_basis sg (add_lot d s qty price fee did) = book_basis sg d + (sg * qty * price + fee)"
  by (simp add: add_lot_def book_basis_update)

text \<open>The contract of one book.\<close>

locale fifo_book =
  fixes sg :: real
    and ok :: "'t \<Rightarrow> bool"
    and held :: "'t \<Rightarrow> symbol \<Rightarrow> real"
    and cost :: "'t \<Rightarrow> symbol \<Rightarrow> real"
    and total :: "'t \<Rightarrow> real"
    and open_lot :: "'t \<Rightarrow> symbol \<Rightarrow> real \<Rightarrow> real \<Rightarrow> real \<Rightarrow> int option \<Rightarrow> 't"
    and close_lots :: "'t \<Rightarrow> symbol \<Rightarrow> real \<Rightarrow> real \<Rightarrow> real \<Rightarrow> 't \<times> sell_outcome"
  assumes held_nonneg: "ok t \<Longrightarrow> 0 \<le> held t s"
    and flat_cost: "ok t \<Longrightarrow> held t s = 0 \<Longrightarrow> cost t s = 0"
    and open_ok: "ok t \<Longrightarrow> on_grid q \<Longrightarrow> ok (open_lot t s q p f i)"
    and open_held: "0 < q \<Longrightarrow> held (open_lot t s q p f i) s' = held t s' + (if s' = s then q else 0)"
    and open_total: "ok t \<Longrightarrow> 0 < q \<Longrightarrow> total (open_lot t s q p f i) = total t + (sg * q * p + f)"
    and close_ok: "ok t \<Longrightarrow> 0 < q \<Longrightarrow> on_grid q \<Longrightarrow> ok (fst (close_lots t s q p f))"
    and close_other: "s' \<noteq> s \<Longrightarrow> held (fst (close_lots t s q p f)) s' = held t s'"
    and close_held: "ok t \<Longrightarrow> 0 < q \<Longrightarrow> on_grid q \<Longrightarrow>
      held (fst (close_lots t s q p f)) s = held t s - min q (held t s)"
    and close_total: "ok t \<Longrightarrow>
      total (fst (close_lots t s q p f)) - total t = cost (fst (close_lots t s q p f)) s - cost t s"
    and close_net: "ok t \<Longrightarrow> 0 < q \<Longrightarrow> on_grid q \<Longrightarrow>
      so_net_pnl (snd (close_lots t s q p f)) =
        (sg * p - f / q) * min q (held t s) - (cost t s - cost (fst (close_lots t s q p f)) s)"
    and close_attribution: "ok t \<Longrightarrow> 0 < q \<Longrightarrow>
      (\<Sum>e\<leftarrow>so_closed_entries (snd (close_lots t s q p f)). ce_pnl e) =
        so_net_pnl (snd (close_lots t s q p f))"
begin

text \<open>Selling what is covered: the whole closing fee is charged, and the realized PnL is
  what the sale brings in minus the basis that left the book.\<close>

lemma close_covered:
  assumes "ok t" and "0 < q" and "on_grid q" and "q \<le> held t s"
  shows "held (fst (close_lots t s q p f)) s = held t s - q"
    and "total (fst (close_lots t s q p f)) =
      total t - (sg * q * p - f - so_net_pnl (snd (close_lots t s q p f)))"
proof -
  show "held (fst (close_lots t s q p f)) s = held t s - q"
    using close_held [OF assms(1-3)] assms(4) by simp
  have "(sg * p - f / q) * min q (held t s) = sg * q * p - f"
    using assms(2,4) by (simp add: algebra_simps)
  with close_net [OF assms(1-3), of s p f] have "so_net_pnl (snd (close_lots t s q p f)) =
      sg * q * p - f - (cost t s - cost (fst (close_lots t s q p f)) s)"
    by simp
  with close_total [OF assms(1), of s q p f] show "total (fst (close_lots t s q p f)) =
      total t - (sg * q * p - f - so_net_pnl (snd (close_lots t s q p f)))"
    by simp
qed

text \<open>Closing everything leaves the symbol flat with no basis behind it.\<close>

lemma close_all_held:
  assumes "ok t" and "0 < q" and "on_grid q" and "q = held t s"
  shows "held (fst (close_lots t s q p f)) s = 0"
    and "so_net_pnl (snd (close_lots t s q p f)) = sg * q * p - f - cost t s"
proof -
  show flat: "held (fst (close_lots t s q p f)) s = 0"
    using close_covered(1) [OF assms(1-3)] assms(4) by simp
  then have "cost (fst (close_lots t s q p f)) s = 0"
    by (rule flat_cost [OF close_ok [OF assms(1-3)]])
  moreover have "(sg * p - f / q) * min q (held t s) = sg * q * p - f"
    using assms(2,4) by (simp add: algebra_simps)
  ultimately show "so_net_pnl (snd (close_lots t s q p f)) = sg * q * p - f - cost t s"
    using close_net [OF assms(1-3), of s p f] by simp
qed

end

lemma book_ok_wf [simp]: "book_ok d \<Longrightarrow> book_wf d" "book_wf d \<Longrightarrow> dict_ok d"
  by (simp_all add: book_ok_def book_wf_def)

interpretation longs: fifo_book 1 "\<lambda>t. book_ok (t_lots t)" quantity
  "\<lambda>t s. basis 1 (dict_lots (t_lots t) s)" "\<lambda>t. book_basis 1 (t_lots t)" on_buy on_sell
proof (unfold_locales, goal_cases)
  case (2 t s)
  then show ?case by (simp add: quantity_def lots_quantity_zero_iff)
next
  case (9 t s q p f)
  then show ?case by (simp add: on_sell_def case_prod_beta consume_basis)
next
  case (10 t q s p f)
  then show ?case
    using consume_book(3) [of "t_lots t" q "\<lambda>lot take. (p - l_price lot) * take" 1 p s f]
    by (simp add: on_sell_def case_prod_beta quantity_def)
next
  case (8 t q s p f)
  then show ?case
    using consume_book(2) [of "t_lots t" q "\<lambda>lot take. (p - l_price lot) * take" 1 p s f]
    by (simp add: on_sell_def case_prod_beta quantity_def)
next
  case (6 t q s p f)
  then show ?case
    using consume_book(1) [of "t_lots t" q "\<lambda>lot take. (p - l_price lot) * take" 1 p s f]
    by (simp add: on_sell_def case_prod_beta)
qed (simp_all add: on_buy_def on_sell_def quantity_def lots_quantity_nonneg add_lot_ok add_lot_lots
    add_lot_basis case_prod_beta consume_lots consume_attributes_all)

interpretation shorts: fifo_book "-1" "\<lambda>t. book_ok (t_short_lots t)" short_quantity
  "\<lambda>t s. basis (-1) (dict_lots (t_short_lots t) s)" "\<lambda>t. book_basis (-1) (t_short_lots t)"
  open_short cover
proof (unfold_locales, goal_cases)
  case (2 t s)
  then show ?case by (simp add: short_quantity_def lots_quantity_zero_iff)
next
  case (9 t s q p f)
  then show ?case by (simp add: cover_def case_prod_beta consume_basis)
next
  case (10 t q s p f)
  then show ?case
    using consume_book(3) [of "t_short_lots t" q "\<lambda>lot take. (l_price lot - p) * take" "-1" p s f]
    by (simp add: cover_def case_prod_beta short_quantity_def)
next
  case (8 t q s p f)
  then show ?case
    using consume_book(2) [of "t_short_lots t" q "\<lambda>lot take. (l_price lot - p) * take" "-1" p s f]
    by (simp add: cover_def case_prod_beta short_quantity_def)
next
  case (6 t q s p f)
  then show ?case
    using consume_book(1) [of "t_short_lots t" q "\<lambda>lot take. (l_price lot - p) * take" "-1" p s f]
    by (simp add: cover_def case_prod_beta)
qed (simp_all add: open_short_def cover_def short_quantity_def lots_quantity_nonneg add_lot_ok
    add_lot_lots add_lot_basis case_prod_beta consume_lots consume_attributes_all)

section \<open>The ledger operations\<close>

lemma on_sell_book [simp]:
  "t_lots (fst (on_sell t s qty price fee)) =
     fst (consume (\<lambda>lot take. (price - l_price lot) * take) (t_lots t) s qty fee)"
  "snd (on_sell t s qty price fee) =
     snd (consume (\<lambda>lot take. (price - l_price lot) * take) (t_lots t) s qty fee)"
  "t_short_lots (fst (on_sell t s qty price fee)) = t_short_lots t"
  by (simp_all add: on_sell_def case_prod_beta)

lemma on_sell_none: "qty \<le> 0 \<Longrightarrow> quantity (fst (on_sell t s qty price fee)) s' = quantity t s'"
  by (simp add: quantity_def consume_lots)

text \<open>Whatever the lots and quantities are, a sale takes what it asks for, or all there is,
  and at most \<open>1e-12\<close> is written off as dust.\<close>

lemma on_sell_quantity:
  assumes "book_wf (t_lots t)" and "0 < qty"
  shows "quantity t s - min qty (quantity t s) - eps12 \<le> quantity (fst (on_sell t s qty price fee)) s"
    and "quantity (fst (on_sell t s qty price fee)) s \<le> quantity t s - min qty (quantity t s)"
    and "quantity (fst (on_sell t s qty price fee)) s \<le> quantity t s"
  using consume_quantity [of "dict_lots (t_lots t) s" qty "\<lambda>lot take. (price - l_price lot) * take"
      fee qty 0 0 "[]"] assms lots_quantity_nonneg [of "dict_lots (t_lots t) s"]
  by (auto simp: quantity_def consume_lots Let_def)

lemma on_sell_other: "s' \<noteq> s \<Longrightarrow> quantity (fst (on_sell t s qty price fee)) s' = quantity t s'"
  by (rule longs.close_other)

lemma on_sell_wf: "book_wf (t_lots t) \<Longrightarrow> book_wf (t_lots (fst (on_sell t s qty price fee)))"
proof (cases "0 < qty")
  case False
  assume wf: "book_wf (t_lots t)"
  let ?ls = "dict_lots (t_lots t) s"
  have "lots_ok ?ls" using wf by simp
  with wf False show ?thesis
    by (auto simp: consume_def intro: book_wf_update book_wf_delete)
qed (simp add: consume_wf)

lemma on_buy_wf: "book_wf (t_lots t) \<Longrightarrow> book_wf (t_lots (on_buy t s qty price fee did))"
  by (simp add: on_buy_def add_lot_wf)

lemma on_buy_other: "s' \<noteq> s \<Longrightarrow> quantity (on_buy t s qty price fee did) s' = quantity t s'"
  by (simp add: on_buy_def quantity_def add_lot_def)

lemma book_fill_wf:
  "book_wf (t_lots t) \<Longrightarrow> book_wf (t_lots (fst (book_fill t s side qty price fb fq did)))"
  by (auto simp: book_fill_def Let_def on_buy_wf case_prod_beta on_sell_wf simp del: on_sell_book)

lemma book_fill_other:
  "s' \<noteq> s \<Longrightarrow> quantity (fst (book_fill t s side qty price fb fq did)) s' = quantity t s'"
  by (auto simp: book_fill_def Let_def on_buy_other case_prod_beta on_sell_other)

lemma book_fill_sell_le:
  "book_wf (t_lots t) \<Longrightarrow> side \<noteq> ''buy'' \<Longrightarrow>
   quantity (fst (book_fill t s side qty price fb fq did)) s \<le> quantity t s"
  using on_sell_quantity(3) [of t qty s price "fq + fb * price"]
    on_sell_none [of qty t s price "fq + fb * price" s]
  by (cases "0 < qty") (auto simp: book_fill_def case_prod_beta simp del: on_sell_book)

text \<open>After a replay there are exit levels for exactly the symbols that are still open.\<close>

definition levels_match :: "tracker \<Rightarrow> (symbol, exit_levels) dict \<Rightarrow> bool" where
  "levels_match t levels \<longleftrightarrow> (\<forall>s. map_of levels s \<noteq> None \<longleftrightarrow> eps12 < quantity t s)"

lemma replay_loop_levels:
  "book_wf (t_lots t) \<Longrightarrow> levels_match t levels \<Longrightarrow>
   replay_loop t fs n levels = (t', n', levels') \<Longrightarrow>
   book_wf (t_lots t') \<and> levels_match t' levels'"
proof (induction t fs n levels rule: replay_loop.induct)
  case (2 t f fs n levels)
  show ?case
  proof (cases "f_side f \<in> {''buy'', ''sell''}")
    case False
    with 2 show ?thesis by simp
  next
    case True
    let ?s = "f_symbol f"
    define u where "u = fst (book_fill t ?s (f_side f) (f_quantity f) (f_price f)
      (f_fee_base f) (f_fee_quote f) (f_decision_id f))"
    define lv where "lv = (if f_side f = ''buy''
      then AList.update ?s (f_stop_loss f, f_take_profit f) levels else levels)"
    define lv' where "lv' = (if quantity u ?s \<le> eps12 then AList.delete ?s lv else lv)"
    have wf: "book_wf (t_lots u)" unfolding u_def by (rule book_fill_wf [OF "2.prems"(1)])
    have other: "quantity u s = quantity t s" if "s \<noteq> ?s" for s
      using that by (simp add: u_def book_fill_other)
    have sell: "quantity u ?s \<le> quantity t ?s" if "f_side f \<noteq> ''buy''"
      using book_fill_sell_le [OF "2.prems"(1) that] by (simp add: u_def)
    have "map_of lv' s \<noteq> None \<longleftrightarrow> eps12 < quantity u s" for s
      using "2.prems"(2) other [of s] sell
      by (cases "s = ?s") (auto simp: lv'_def lv_def levels_match_def update_conv' delete_conv')
    then have "levels_match u lv'" by (simp add: levels_match_def)
    moreover have "replay_loop t (f # fs) n levels = replay_loop u fs (Suc n) lv'"
      unfolding u_def lv_def lv'_def
      by (simp only: replay_loop.simps True simp_thms if_False Let_def)
    ultimately show ?thesis
      using "2.IH"(2) [OF _ u_def lv_def lv'_def] True wf "2.prems"(3) by auto
  qed
qed simp

lemma book_fill_buy_basis:
  assumes "dict_ok (t_lots t)" and "0 < qty" and "0 \<le> fb"
  shows "book_basis 1 (t_lots (fst (book_fill t s ''buy'' qty price fb fq did))) =
    book_basis 1 (t_lots t) + (qty * price + fq)"
proof -
  consider "0 < fb" "fb < qty" | "fb \<ge> qty" | "fb = 0" using assms(3) by linarith
  then show ?thesis
    using assms(1,2) by cases (auto simp: book_fill_def on_buy_def add_lot_basis algebra_simps)
qed

section \<open>Properties\<close>

text \<open>C8: Selling a covered quantity on the 1e-8 grid: exactly that quantity leaves the
  symbol's lots, no other symbol moves, the ledger stays well formed, the realized net PnL
  is the proceeds minus the sell fee minus the cost basis (entry prices and opening fees)
  that left the ledger, and the per-decision attribution adds up to it.\<close>

theorem on_sell_accounting:
  assumes "book_ok (t_lots t)" and "0 < q" and "on_grid q" and "q \<le> quantity t s"
    and "on_sell t s q price fee = (t', out)"
  shows "quantity t' s = quantity t s - q
    \<and> (\<forall>s'. s' \<noteq> s \<longrightarrow> quantity t' s' = quantity t s')
    \<and> book_ok (t_lots t')
    \<and> so_net_pnl out = q * price - fee - (book_basis 1 (t_lots t) - book_basis 1 (t_lots t'))
    \<and> (\<Sum>e\<leftarrow>so_closed_entries out. ce_pnl e) = so_net_pnl out"
proof -
  have e: "t' = fst (on_sell t s q price fee)" "out = snd (on_sell t s q price fee)"
    using assms(5) by simp_all
  from longs.close_covered [OF assms(1-4), of price fee] longs.close_ok [OF assms(1-3)]
    longs.close_attribution [OF assms(1,2)] show ?thesis
    unfolding e by (simp add: longs.close_other del: on_sell_book)
qed

definition demo_tracker :: tracker where
  "demo_tracker = on_buy (on_buy new_tracker ''BTC/EUR'' 2 100 1 (Some 7)) ''BTC/EUR'' 3 120 2 (Some 8)"

lemma demo_tracker_lots:
  "t_lots demo_tracker =
     [(''BTC/EUR'', [\<lparr>l_quantity = 2, l_price = 100, l_fee_paid = 1, l_decision_id = Some 7\<rparr>,
                    \<lparr>l_quantity = 3, l_price = 120, l_fee_paid = 2, l_decision_id = Some 8\<rparr>])]"
  by (simp add: demo_tracker_def on_buy_def add_lot_def new_tracker_def dict_lots_def)

lemma demo_tracker_facts:
  "book_ok (t_lots demo_tracker)" "quantity demo_tracker ''BTC/EUR'' = 5"
  by (simp_all add: demo_tracker_lots book_ok_def book_wf_def quantity_def dict_lots_def)

theorem on_sell_accounting_witness:
  "so_net_pnl (snd (on_sell demo_tracker ''BTC/EUR'' 4 130 (1/2))) =
     4 * 130 - 1/2 - (book_basis 1 (t_lots demo_tracker) -
       book_basis 1 (t_lots (fst (on_sell demo_tracker ''BTC/EUR'' 4 130 (1/2)))))
   \<and> quantity (fst (on_sell demo_tracker ''BTC/EUR'' 4 130 (1/2))) ''BTC/EUR'' = 1"
  using on_sell_accounting [OF demo_tracker_facts(1), of 4 "''BTC/EUR''" 130 "1/2"
      "fst (on_sell demo_tracker ''BTC/EUR'' 4 130 (1/2))"
      "snd (on_sell demo_tracker ''BTC/EUR'' 4 130 (1/2))"]
  by (simp add: demo_tracker_facts del: on_sell_book)

text \<open>C21: Whatever quantities are booked, on_sell returns: it takes what is asked for or all
  there is, and the only quantity ever lost is one remainder of at most 1e-12 that is
  written off; the ledger stays well formed (no empty entry, no non-positive lot).\<close>

theorem on_sell_writes_off_dust_only:
  assumes "book_wf (t_lots t)" and "0 < q"
  shows "\<exists>t' out. on_sell t s q price fee = (t', out) \<and> book_wf (t_lots t')
    \<and> quantity t s - min q (quantity t s) - eps12 \<le> quantity t' s
    \<and> quantity t' s \<le> quantity t s - min q (quantity t s)"
  using on_sell_quantity [OF assms, of s price fee] on_sell_wf [OF assms(1), of s q price fee]
  by (cases "on_sell t s q price fee") auto

theorem on_sell_writes_off_dust_only_witness:
  "\<exists>t' out. on_sell demo_tracker ''BTC/EUR'' (1/3) 130 0 = (t', out) \<and> book_wf (t_lots t')
    \<and> 5 - 1/3 - eps12 \<le> quantity t' ''BTC/EUR'' \<and> quantity t' ''BTC/EUR'' \<le> 5 - 1/3"
  using on_sell_writes_off_dust_only [of demo_tracker "1/3" "''BTC/EUR''" 130 0] demo_tracker_facts
  by (simp add: min_def)

text \<open>Lots are consumed oldest first: after a sale the symbol's lots are a suffix of the
  lots before it, with at most the first of them reduced.\<close>

theorem on_sell_consumes_oldest_first:
  assumes "book_wf (t_lots t)" and "0 < q"
  shows "fifo_suffix (dict_lots (t_lots t) s)
    (dict_lots (t_lots (fst (on_sell t s q price fee))) s)"
  using consume_fifo [of "dict_lots (t_lots t) s" q] assms by (simp add: consume_lots)

theorem on_sell_consumes_oldest_first_witness:
  "fifo_suffix (dict_lots (t_lots demo_tracker) ''BTC/EUR'')
     (dict_lots (t_lots (fst (on_sell demo_tracker ''BTC/EUR'' 4 130 0))) ''BTC/EUR'')"
  using on_sell_consumes_oldest_first [of demo_tracker 4] demo_tracker_facts by simp

text \<open>Covering a short on the grid realizes the proceeds of the opening sells that leave
  the short book, minus their fees, the covering cost and the covering fee.\<close>

theorem cover_accounting:
  assumes "book_ok (t_short_lots t)" and "0 < q" and "on_grid q" and "q \<le> short_quantity t s"
    and "cover t s q price fee = (t', out)"
  shows "short_quantity t' s = short_quantity t s - q
    \<and> so_net_pnl out =
        (book_basis (-1) (t_short_lots t') - book_basis (-1) (t_short_lots t)) - q * price - fee
    \<and> (\<Sum>e\<leftarrow>so_closed_entries out. ce_pnl e) = so_net_pnl out
    \<and> t_lots t' = t_lots t"
proof -
  have e: "t' = fst (cover t s q price fee)" "out = snd (cover t s q price fee)"
    using assms(5) by simp_all
  have "t_lots (fst (cover t s q price fee)) = t_lots t" by (simp add: cover_def case_prod_beta)
  with shorts.close_covered [OF assms(1-4), of price fee] shorts.close_attribution [OF assms(1,2)]
  show ?thesis unfolding e by simp
qed

theorem cover_accounting_witness:
  "short_quantity (fst (cover (open_short new_tracker ''ETH'' 3 50 0 (Some 1)) ''ETH'' 2 40 1))
     ''ETH'' = 3 - 2
   \<and> so_net_pnl (snd (cover (open_short new_tracker ''ETH'' 3 50 0 (Some 1)) ''ETH'' 2 40 1)) =
       (book_basis (-1) (t_short_lots (fst (cover (open_short new_tracker ''ETH'' 3 50 0 (Some 1))
          ''ETH'' 2 40 1)))
        - book_basis (-1) (t_short_lots (open_short new_tracker ''ETH'' 3 50 0 (Some 1)))) - 2 * 40 - 1"
proof -
  let ?t = "open_short new_tracker ''ETH'' 3 50 0 (Some 1)"
  have "book_ok (t_short_lots ?t)" "short_quantity ?t ''ETH'' = 3"
    by (simp_all add: open_short_def add_lot_def new_tracker_def dict_lots_def book_ok_def
        book_wf_def short_quantity_def)
  then show ?thesis
    using cover_accounting [of ?t 2 "''ETH''" 40 1 "fst (cover ?t ''ETH'' 2 40 1)"
        "snd (cover ?t ''ETH'' 2 40 1)"] by simp
qed

text \<open>Booking a venue BUY with a fee in the coin shrinks the lot but never changes what
  was paid: the ledger's cost basis grows by the fill's notional plus the quote fee.\<close>

theorem book_fill_buy_keeps_cost:
  assumes "dict_ok (t_lots t)" and "0 < qty" and "0 \<le> fee_base"
  shows "book_basis 1 (t_lots (fst (book_fill t s ''buy'' qty price fee_base fee_quote did))) =
    book_basis 1 (t_lots t) + (qty * price + fee_quote)"
  using assms by (rule book_fill_buy_basis)

theorem book_fill_buy_keeps_cost_witness:
  "book_basis 1 (t_lots (fst (book_fill demo_tracker ''BTC/EUR'' ''buy'' 2 100 (1/10) 1 None))) =
     book_basis 1 (t_lots demo_tracker) + (2 * 100 + 1)"
  by (rule book_fill_buy_keeps_cost) (simp_all add: demo_tracker_lots)

text \<open>Replaying the stored fills at a restart leaves exit levels armed for exactly the
  symbols whose replayed position is open (more than 1e-12).\<close>

theorem replay_arms_open_symbols_only:
  assumes "replay_fills new_tracker fills = (t, n, levels)"
  shows "map_of levels s \<noteq> None \<longleftrightarrow> eps12 < quantity t s"
proof -
  have "levels_match new_tracker []"
    by (simp add: levels_match_def new_tracker_def quantity_def dict_lots_def)
  with assms show ?thesis
    using replay_loop_levels [of new_tracker "[]" fills 0 t n levels]
    by (simp add: replay_fills_def levels_match_def new_tracker_def)
qed

theorem replay_arms_open_symbols_only_witness:
  "\<exists>t n levels. replay_fills new_tracker
     [\<lparr>f_symbol = ''A'', f_side = ''buy'', f_quantity = 2, f_price = 10, f_decision_id = Some 1,
       f_stop_loss = Some 9, f_take_profit = None, f_fee_base = 0, f_fee_quote = 0,
       f_order_id = None\<rparr>] = (t, n, levels)
     \<and> (map_of levels ''A'' \<noteq> None \<longleftrightarrow> eps12 < quantity t ''A'')"
  by (cases "replay_fills new_tracker
     [\<lparr>f_symbol = ''A'', f_side = ''buy'', f_quantity = 2, f_price = 10, f_decision_id = Some 1,
       f_stop_loss = Some 9, f_take_profit = None, f_fee_base = 0, f_fee_quote = 0,
       f_order_id = None\<rparr>]") (use replay_arms_open_symbols_only in blast)

end
