(* ===== verification/Paper_Executor.thy ===== *)
theory Paper_Executor
  imports Sizing Position_Tracker
begin

text \<open>
  The simulated executor of \<^verbatim>\<open>src/src/execution/paper_executor.py\<close>.

  \<open>paper_executor\<close> is the object's attributes. \<^verbatim>\<open>place_order\<close> takes an
  \<open>order_request\<close>: the arguments of the call, plus the order id and the time that
  \<^verbatim>\<open>uuid4\<close> and the clock supply. It returns the executor afterwards and either the order
  result or the exception; the executor is returned in the error case too, because
  \<^verbatim>\<open>_execute_buy\<close> has already taken the cash when its average-price division fails.

  The locale \<open>order_book\<close> states the executor contract that outcome tracking relies on (an
  order changes the book's wealth, cash plus cost basis, by exactly the PnL it reports) and
  is interpreted on the paper executor.
\<close>

record order_request =
  rq_symbol :: symbol
  rq_side :: order_side
  rq_quantity :: real
  rq_price :: "real option"
  rq_decision_id :: "int option"
  rq_stop_loss :: "real option"
  rq_take_profit :: "real option"
  rq_order_id :: string
  rq_now :: instant

record paper_executor =
  px_initial_cash :: real
  px_cash :: real
  px_slippage_pct :: real
  px_fee_pct :: real
  px_min_commission :: real
  px_fx_fee_pct :: real
  px_positions :: "(symbol, position) dict"
  px_tracker :: tracker
  px_orders :: "(string, order_result) dict"

definition new_paper_executor :: "real \<Rightarrow> real \<Rightarrow> real \<Rightarrow> real \<Rightarrow> real \<Rightarrow> paper_executor" where
  "new_paper_executor initial_cash slippage_pct fee_pct min_commission fx_fee_pct =
     \<lparr>px_initial_cash = initial_cash, px_cash = initial_cash, px_slippage_pct = slippage_pct,
      px_fee_pct = fee_pct, px_min_commission = min_commission, px_fx_fee_pct = fx_fee_pct,
      px_positions = [], px_tracker = new_tracker, px_orders = []\<rparr>"

definition px_attrs :: "paper_executor \<Rightarrow> exec_attrs" where
  "px_attrs px =
     \<lparr>xa_slippage_pct = Some (px_slippage_pct px), xa_fee_pct = Some (px_fee_pct px),
      xa_min_commission = Some (px_min_commission px), xa_fx_fee_pct = Some (px_fx_fee_pct px),
      xa_buy_price_factor = None\<rparr>"

definition px_cost_model :: "paper_executor \<Rightarrow> py_error + cost_model" where
  "px_cost_model px =
     cost_model_from_attrs (Some (px_slippage_pct px)) (Some (px_fee_pct px))
       (Some (px_min_commission px)) (Some (px_fx_fee_pct px))"

definition rejected_order :: "order_request \<Rightarrow> real option \<Rightarrow> reason \<Rightarrow> order_result" where
  "rejected_order r price why =
     \<lparr>o_order_id = rq_order_id r, o_symbol = rq_symbol r, o_side = rq_side r,
      o_quantity = rq_quantity r, o_price = price, o_status = ORDER_REJECTED, o_filled_at = None,
      o_reason = Some why, o_realized_pnl = None, o_closed_entries = [], o_fee_base = None,
      o_fee_quote = None\<rparr>"

definition filled_order ::
  "order_request \<Rightarrow> real \<Rightarrow> real option \<Rightarrow> closed_entry list \<Rightarrow> order_result" where
  "filled_order r price realized entries =
     \<lparr>o_order_id = rq_order_id r, o_symbol = rq_symbol r, o_side = rq_side r,
      o_quantity = rq_quantity r, o_price = Some price, o_status = FILLED,
      o_filled_at = Some (rq_now r), o_reason = None, o_realized_pnl = realized,
      o_closed_entries = entries, o_fee_base = None, o_fee_quote = None\<rparr>"

text \<open>The position a BUY leaves behind: averaged into the open one, or new.\<close>

definition bought_position ::
  "position option \<Rightarrow> order_request \<Rightarrow> real \<Rightarrow> py_error + position" where
  "bought_position old r price =
     (case old of
        None \<Rightarrow>
          Inr \<lparr>p_symbol = rq_symbol r, p_quantity = rq_quantity r, p_avg_entry_price = price,
               p_current_price = price, p_side = LONG, p_stop_loss = rq_stop_loss r,
               p_take_profit = rq_take_profit r\<rparr>
      | Some pos \<Rightarrow>
          let total_qty = p_quantity pos + rq_quantity r
          in if total_qty = 0 then Inl ZeroDivisionError
             else Inr (pos\<lparr>p_quantity := total_qty,
                  p_avg_entry_price :=
                    (p_avg_entry_price pos * p_quantity pos + price * rq_quantity r) / total_qty,
                  p_stop_loss := (case rq_stop_loss r of None \<Rightarrow> p_stop_loss pos | sl \<Rightarrow> sl),
                  p_take_profit := (case rq_take_profit r of None \<Rightarrow> p_take_profit pos | tp \<Rightarrow> tp)\<rparr>))"

definition execute_buy ::
  "paper_executor \<Rightarrow> order_request \<Rightarrow> real \<Rightarrow> paper_executor \<times> (py_error + order_result)" where
  "execute_buy px r price =
     (let cost = rq_quantity r * price
      in case px_cost_model px of
           Inl e \<Rightarrow> (px, Inl e)
         | Inr m \<Rightarrow>
             let fee = total_fee m cost; total = cost + fee
             in if total > px_cash px
                then (px, Inr (rejected_order r (Some price) (InsufficientCash total (px_cash px))))
                else let px1 = px\<lparr>px_cash := px_cash px - total\<rparr>
                     in case bought_position (map_of (px_positions px) (rq_symbol r)) r price of
                          Inl e \<Rightarrow> (px1, Inl e)
                        | Inr pos \<Rightarrow>
                            (px1\<lparr>px_positions := AList.update (rq_symbol r) pos (px_positions px),
                                 px_tracker := on_buy (px_tracker px) (rq_symbol r) (rq_quantity r)
                                                 price fee (rq_decision_id r)\<rparr>,
                             Inr (filled_order r price None [])))"

definition execute_sell ::
  "paper_executor \<Rightarrow> order_request \<Rightarrow> real \<Rightarrow> paper_executor \<times> (py_error + order_result)" where
  "execute_sell px r price =
     (let pos = map_of (px_positions px) (rq_symbol r);
          available = (case pos of None \<Rightarrow> 0 | Some p \<Rightarrow> p_quantity p)
      in if pos = None \<or> available < rq_quantity r
         then (px, Inr (rejected_order r (Some price) (InsufficientPosition (rq_quantity r) available)))
         else let proceeds = rq_quantity r * price
              in case px_cost_model px of
                   Inl e \<Rightarrow> (px, Inl e)
                 | Inr m \<Rightarrow>
                     let sell_fee = total_fee m proceeds;
                         (tracker', outcome) =
                           on_sell (px_tracker px) (rq_symbol r) (rq_quantity r) price sell_fee;
                         left = available - rq_quantity r
                     in (px\<lparr>px_cash := px_cash px + (proceeds - sell_fee),
                            px_tracker := tracker',
                            px_positions :=
                              (if left \<le> eps12 then AList.delete (rq_symbol r) (px_positions px)
                               else AList.update (rq_symbol r) ((the pos)\<lparr>p_quantity := left\<rparr>)
                                      (px_positions px))\<rparr>,
                         Inr (filled_order r price (Some (so_net_pnl outcome))
                                (so_closed_entries outcome))))"

definition effective_price :: "paper_executor \<Rightarrow> order_request \<Rightarrow> real option" where
  "effective_price px r =
     (let quoted = (case rq_price r of
                      Some p \<Rightarrow> Some p
                    | None \<Rightarrow> map_option p_current_price (map_of (px_positions px) (rq_symbol r)))
      in case quoted of
           None \<Rightarrow> None
         | Some p \<Rightarrow> Some (if rq_side r = S_BUY then p * (1 + px_slippage_pct px)
                          else p * (1 - px_slippage_pct px)))"

definition place_order ::
  "paper_executor \<Rightarrow> order_request \<Rightarrow> paper_executor \<times> (py_error + order_result)" where
  "place_order px r =
     (case effective_price px r of
        None \<Rightarrow> (px, Inr (rejected_order r None (NoPriceForMarketOrder (rq_side r) (rq_symbol r))))
      | Some price \<Rightarrow>
          (case (if rq_side r = S_BUY then execute_buy px r price else execute_sell px r price) of
             (px', Inl e) \<Rightarrow> (px', Inl e)
           | (px', Inr res) \<Rightarrow>
               (px'\<lparr>px_orders := AList.update (rq_order_id r) res (px_orders px')\<rparr>, Inr res)))"

definition get_positions :: "paper_executor \<Rightarrow> position list" where
  "get_positions px = map snd (px_positions px)"

definition get_cash :: "paper_executor \<Rightarrow> real" where
  "get_cash px = px_cash px"

definition cancel_order :: "paper_executor \<Rightarrow> string \<Rightarrow> paper_executor \<times> bool" where
  "cancel_order px oid =
     (case map_of (px_orders px) oid of
        None \<Rightarrow> (px, False)
      | Some order \<Rightarrow>
          if o_status order \<noteq> PENDING then (px, False)
          else (px\<lparr>px_orders := AList.update oid (order\<lparr>o_status := CANCELLED\<rparr>) (px_orders px)\<rparr>, True))"

definition update_price :: "paper_executor \<Rightarrow> symbol \<Rightarrow> real \<Rightarrow> paper_executor" where
  "update_price px s new_price =
     (case map_of (px_positions px) s of
        None \<Rightarrow> px
      | Some p \<Rightarrow> px\<lparr>px_positions :=
                       AList.update s (p\<lparr>p_current_price := new_price\<rparr>) (px_positions px)\<rparr>)"

definition px_entry_decision_ids :: "paper_executor \<Rightarrow> symbol \<Rightarrow> int option list" where
  "px_entry_decision_ids px s = entry_decision_ids (px_tracker px) s"

subsection \<open>Loading a persisted book\<close>

fun positions_dict :: "position list \<Rightarrow> (symbol, position) dict \<Rightarrow> (symbol, position) dict" where
  "positions_dict [] d = d"
| "positions_dict (p # ps) d = positions_dict ps (AList.update (p_symbol p) p d)"

fun top_up :: "tracker \<Rightarrow> position list \<Rightarrow> nat \<Rightarrow> tracker \<times> nat" where
  "top_up t [] synthetic = (t, synthetic)"
| "top_up t (p # ps) synthetic =
     (let missing = p_quantity p - quantity t (p_symbol p)
      in if missing > eps12
         then top_up (on_buy t (p_symbol p) missing (p_avg_entry_price p) 0 None) ps (Suc synthetic)
         else top_up t ps synthetic)"

definition load_portfolio_state ::
  "paper_executor \<Rightarrow> real \<Rightarrow> position list \<Rightarrow> fill_record list option \<Rightarrow> paper_executor \<times> nat \<times> nat" where
  "load_portfolio_state px cash positions fills =
     (case replay_fills new_tracker (case fills of None \<Rightarrow> [] | Some fs \<Rightarrow> fs) of
        (t, replayed, _) \<Rightarrow>
          (case top_up t positions 0 of
             (t', synthetic) \<Rightarrow>
               (px\<lparr>px_cash := cash, px_positions := positions_dict positions [], px_tracker := t'\<rparr>,
                replayed, synthetic)))"


section \<open>The book invariant\<close>

text \<open>Positions and lots tell the same story: unique symbols, long positions with quantities
  on the grid, a well-formed ledger holding exactly the quantities of the positions.\<close>

definition px_held :: "paper_executor \<Rightarrow> symbol \<Rightarrow> real" where
  "px_held px s = (case map_of (px_positions px) s of None \<Rightarrow> 0 | Some p \<Rightarrow> p_quantity p)"

definition costs_ok :: "paper_executor \<Rightarrow> bool" where
  "costs_ok px \<longleftrightarrow> 0 \<le> px_slippage_pct px \<and> 0 \<le> px_fee_pct px \<and> 0 \<le> px_min_commission px
     \<and> 0 \<le> px_fx_fee_pct px"

definition position_ok :: "symbol \<times> position \<Rightarrow> bool" where
  "position_ok kp \<longleftrightarrow> p_symbol (snd kp) = fst kp \<and> p_side (snd kp) = LONG
     \<and> 0 \<le> p_quantity (snd kp) \<and> on_grid (p_quantity (snd kp))"

definition px_ok :: "paper_executor \<Rightarrow> bool" where
  "px_ok px \<longleftrightarrow> costs_ok px \<and> dict_ok (px_positions px)
     \<and> (\<forall>kp\<in>set (px_positions px). position_ok kp)
     \<and> book_ok (t_lots (px_tracker px)) \<and> (\<forall>s. quantity (px_tracker px) s = px_held px s)"

definition request_ok :: "order_request \<Rightarrow> bool" where
  "request_ok r \<longleftrightarrow> 0 \<le> rq_quantity r \<and> on_grid (rq_quantity r)"

definition wealth :: "paper_executor \<Rightarrow> real" where
  "wealth px = px_cash px + book_basis 1 (t_lots (px_tracker px))"

definition live_cost_model :: "paper_executor \<Rightarrow> cost_model" where
  "live_cost_model px =
     \<lparr>cm_slippage_pct = px_slippage_pct px, cm_fee_pct = px_fee_pct px,
      cm_min_commission = px_min_commission px, cm_fx_fee_pct = px_fx_fee_pct px\<rparr>"

lemma px_cost_model_live: "costs_ok px \<Longrightarrow> px_cost_model px = Inr (live_cost_model px)"
  by (simp add: px_cost_model_def cost_model_from_attrs_def make_cost_model_def attr_or_zero_def
      live_cost_model_def costs_ok_def)

lemma live_cost_model_ok: "costs_ok px \<Longrightarrow> cost_model_ok (live_cost_model px)"
  by (simp add: cost_model_ok_def live_cost_model_def costs_ok_def)

lemma px_okD:
  assumes "px_ok px"
  shows "costs_ok px" "dict_ok (px_positions px)" "book_ok (t_lots (px_tracker px))"
    "quantity (px_tracker px) s = px_held px s"
    "map_of (px_positions px) s = Some p \<Longrightarrow>
       p_symbol p = s \<and> p_side p = LONG \<and> 0 \<le> p_quantity p \<and> on_grid (p_quantity p)"
  using assms by (auto simp: px_ok_def position_ok_def dest: map_of_SomeD)

lemma px_held_facts: "px_ok px \<Longrightarrow> 0 \<le> px_held px s" "px_ok px \<Longrightarrow> on_grid (px_held px s)"
  using px_okD(5) [of px s] by (auto simp: px_held_def split: option.splits)

lemma px_held_update [simp]:
  "px_held (px\<lparr>px_positions := AList.update k p d\<rparr>) s =
     (if s = k then p_quantity p else px_held (px\<lparr>px_positions := d\<rparr>) s)"
  "px_held (px\<lparr>px_positions := AList.delete k d\<rparr>) s =
     (if s = k then 0 else px_held (px\<lparr>px_positions := d\<rparr>) s)"
  by (simp_all add: px_held_def update_conv' delete_conv')

text \<open>One rule for every state change: the new book is well formed if the touched symbol's
  position and lots agree and nothing else moved.\<close>

lemma px_ok_put:
  assumes "px_ok px" and "book_ok (t_lots t)"
    and "position_ok (k, p)" and "\<And>s. quantity t s = (if s = k then p_quantity p else px_held px s)"
  shows "px_ok (px\<lparr>px_cash := c, px_tracker := t, px_positions := AList.update k p (px_positions px)\<rparr>)"
  using assms
  by (auto simp: px_ok_def costs_ok_def set_update_value px_held_def update_conv' split: if_splits)

lemma px_ok_pop:
  assumes "px_ok px" and "book_ok (t_lots t)"
    and "\<And>s. quantity t s = (if s = k then 0 else px_held px s)"
  shows "px_ok (px\<lparr>px_cash := c, px_tracker := t, px_positions := AList.delete k (px_positions px)\<rparr>)"
  using assms
  by (auto simp: px_ok_def costs_ok_def set_delete_value px_held_def delete_conv')

lemma px_ok_same: "px_ok px \<Longrightarrow> px_ok (px\<lparr>px_cash := c\<rparr>)" "px_ok px \<Longrightarrow> px_ok (px\<lparr>px_orders := os\<rparr>)"
  by (auto simp: px_ok_def costs_ok_def px_held_def)


text \<open>The ledger under an order of a quantity that may be zero.\<close>

lemma on_buy_any:
  assumes "book_ok (t_lots t)" and "0 \<le> q" and "on_grid q" and "f = total_fee m (q * p)"
  shows "book_ok (t_lots (on_buy t s q p f i))"
    and "quantity (on_buy t s q p f i) s' = quantity t s' + (if s' = s then q else 0)"
    and "book_basis 1 (t_lots (on_buy t s q p f i)) = book_basis 1 (t_lots t) + (q * p + f)"
proof -
  consider "0 < q" | "q = 0" using assms(2) by linarith
  note cases = this
  show "book_ok (t_lots (on_buy t s q p f i))" by (rule longs.open_ok [OF assms(1,3)])
  show "quantity (on_buy t s q p f i) s' = quantity t s' + (if s' = s then q else 0)"
    using cases by cases (simp add: longs.open_held, simp add: on_buy_def add_lot_def)
  show "book_basis 1 (t_lots (on_buy t s q p f i)) = book_basis 1 (t_lots t) + (q * p + f)"
    using cases assms(1,4)
    by cases (simp add: longs.open_total, simp add: on_buy_def add_lot_def)
qed

lemma on_sell_zero:
  assumes "book_ok (t_lots t)"
  shows "book_ok (t_lots (fst (on_sell t s 0 p f)))"
    and "dict_lots (t_lots (fst (on_sell t s 0 p f))) s' = dict_lots (t_lots t) s'"
    and "book_basis 1 (t_lots (fst (on_sell t s 0 p f))) = book_basis 1 (t_lots t)"
    and "so_net_pnl (snd (on_sell t s 0 p f)) = 0"
proof -
  show "book_ok (t_lots (fst (on_sell t s 0 p f)))"
    using book_ok_lots [OF assms, of s] assms by (auto simp: consume_def intro: book_ok_update book_ok_delete)
  show "dict_lots (t_lots (fst (on_sell t s 0 p f))) s' = dict_lots (t_lots t) s'"
    by (simp add: consume_lots)
  show "book_basis 1 (t_lots (fst (on_sell t s 0 p f))) = book_basis 1 (t_lots t)"
    using assms by (auto simp: consume_def book_basis_update book_basis_delete)
  show "so_net_pnl (snd (on_sell t s 0 p f)) = 0" by (simp add: consume_outcome)
qed

lemma on_sell_any:
  assumes "book_ok (t_lots t)" and "0 \<le> q" and "on_grid q" and "q \<le> quantity t s"
    and "f = total_fee m (q * p)"
  shows "book_ok (t_lots (fst (on_sell t s q p f)))"
    and "quantity (fst (on_sell t s q p f)) s' = quantity t s' - (if s' = s then q else 0)"
    and "book_basis 1 (t_lots (fst (on_sell t s q p f))) =
      book_basis 1 (t_lots t) - (q * p - f - so_net_pnl (snd (on_sell t s q p f)))"
proof -
  consider (pos) "0 < q" | (zero) "q = 0" using assms(2) by linarith
  note cases = this
  show "book_ok (t_lots (fst (on_sell t s q p f)))"
    using cases longs.close_ok [OF assms(1) _ assms(3)] on_sell_zero(1) [OF assms(1)]
    by cases auto
  show "quantity (fst (on_sell t s q p f)) s' = quantity t s' - (if s' = s then q else 0)"
    using cases longs.close_covered(1) [OF assms(1) _ assms(3,4)] longs.close_other [of s' s t q p f]
      on_sell_zero(2) [OF assms(1)]
    by cases (auto simp: quantity_def simp del: on_sell_book)
  show "book_basis 1 (t_lots (fst (on_sell t s q p f))) =
      book_basis 1 (t_lots t) - (q * p - f - so_net_pnl (snd (on_sell t s q p f)))"
    using cases longs.close_covered(2) [OF assms(1) _ assms(3,4)] on_sell_zero(3,4) [OF assms(1)] assms(5)
    by cases (auto simp del: on_sell_book)
qed

section \<open>What an order does\<close>

text \<open>The three outcomes of a BUY: refused for money, the average-price division by a zero
  total, or a fill.\<close>

lemma execute_buy_cases:
  assumes "costs_ok px"
  obtains (refused) "rq_quantity r * p + total_fee (live_cost_model px) (rq_quantity r * p) > px_cash px"
      "execute_buy px r p = (px, Inr (rejected_order r (Some p) (InsufficientCash
         (rq_quantity r * p + total_fee (live_cost_model px) (rq_quantity r * p)) (px_cash px))))"
    | (crash) "rq_quantity r * p + total_fee (live_cost_model px) (rq_quantity r * p) \<le> px_cash px"
      "map_of (px_positions px) (rq_symbol r) \<noteq> None" "px_held px (rq_symbol r) + rq_quantity r = 0"
      "execute_buy px r p = (px\<lparr>px_cash := px_cash px -
         (rq_quantity r * p + total_fee (live_cost_model px) (rq_quantity r * p))\<rparr>, Inl ZeroDivisionError)"
    | (fill) pos where
      "rq_quantity r * p + total_fee (live_cost_model px) (rq_quantity r * p) \<le> px_cash px"
      "bought_position (map_of (px_positions px) (rq_symbol r)) r p = Inr pos"
      "p_quantity pos = px_held px (rq_symbol r) + rq_quantity r"
      "execute_buy px r p =
        (px\<lparr>px_cash := px_cash px - (rq_quantity r * p + total_fee (live_cost_model px) (rq_quantity r * p)),
            px_tracker := on_buy (px_tracker px) (rq_symbol r) (rq_quantity r) p
              (total_fee (live_cost_model px) (rq_quantity r * p)) (rq_decision_id r),
            px_positions := AList.update (rq_symbol r) pos (px_positions px)\<rparr>,
         Inr (filled_order r p None []))"
proof (cases "rq_quantity r * p + total_fee (live_cost_model px) (rq_quantity r * p) > px_cash px")
  case True
  then show thesis
    by (intro refused) (simp_all add: execute_buy_def px_cost_model_live [OF assms] Let_def)
next
  case False
  show thesis
  proof (cases "bought_position (map_of (px_positions px) (rq_symbol r)) r p")
    case (Inl e)
    with False show thesis
      by (intro crash) (auto simp: execute_buy_def px_cost_model_live [OF assms] px_held_def
          bought_position_def Let_def split: option.splits if_splits)
  next
    case (Inr pos)
    with False show thesis
      by (intro fill [of pos]) (auto simp: execute_buy_def px_cost_model_live [OF assms] px_held_def
          bought_position_def Let_def split: option.splits if_splits)
  qed
qed

lemma bought_position_facts:
  assumes "bought_position old r p = Inr pos"
    and "\<And>q. old = Some q \<Longrightarrow> p_symbol q = rq_symbol r \<and> p_side q = LONG"
  shows "p_symbol pos = rq_symbol r" and "p_side pos = LONG"
  using assms by (auto simp: bought_position_def Let_def split: option.splits if_splits)

lemma execute_sell_cases:
  assumes "costs_ok px"
  obtains (refused) "execute_sell px r p = (px, Inr (rejected_order r (Some p)
        (InsufficientPosition (rq_quantity r) (px_held px (rq_symbol r)))))"
      "map_of (px_positions px) (rq_symbol r) = None \<or> px_held px (rq_symbol r) < rq_quantity r"
    | (fill) pos where "map_of (px_positions px) (rq_symbol r) = Some pos"
      "rq_quantity r \<le> px_held px (rq_symbol r)" "p_quantity pos = px_held px (rq_symbol r)"
      "execute_sell px r p =
        (px\<lparr>px_cash := px_cash px + (rq_quantity r * p - total_fee (live_cost_model px) (rq_quantity r * p)),
            px_tracker := fst (on_sell (px_tracker px) (rq_symbol r) (rq_quantity r) p
              (total_fee (live_cost_model px) (rq_quantity r * p))),
            px_positions :=
              (if px_held px (rq_symbol r) - rq_quantity r \<le> eps12
               then AList.delete (rq_symbol r) (px_positions px)
               else AList.update (rq_symbol r)
                      (pos\<lparr>p_quantity := px_held px (rq_symbol r) - rq_quantity r\<rparr>) (px_positions px))\<rparr>,
         Inr (filled_order r p
           (Some (so_net_pnl (snd (on_sell (px_tracker px) (rq_symbol r) (rq_quantity r) p
              (total_fee (live_cost_model px) (rq_quantity r * p))))))
           (so_closed_entries (snd (on_sell (px_tracker px) (rq_symbol r) (rq_quantity r) p
              (total_fee (live_cost_model px) (rq_quantity r * p)))))))"
proof (cases "map_of (px_positions px) (rq_symbol r) = None \<or> px_held px (rq_symbol r) < rq_quantity r")
  case True
  then show thesis
    by (intro refused) (auto simp: execute_sell_def px_held_def split: option.splits)
next
  case False
  then obtain pos where "map_of (px_positions px) (rq_symbol r) = Some pos" by auto
  with False show thesis
    by (intro fill [of pos])
      (simp_all add: execute_sell_def px_held_def px_cost_model_live [OF assms] Let_def case_prod_beta
        del: on_sell_book)
qed


text \<open>What an order reports as realized.\<close>

definition reported :: "py_error + order_result \<Rightarrow> real" where
  "reported out =
     (case out of
        Inl _ \<Rightarrow> 0
      | Inr res \<Rightarrow> if o_status res = FILLED
                   then (case o_realized_pnl res of None \<Rightarrow> 0 | Some v \<Rightarrow> v) else 0)"

lemma reported_simps [simp]:
  "reported (Inl e) = 0"
  "reported (Inr (rejected_order r p why)) = 0"
  "reported (Inr (filled_order r q pn es)) = (case pn of None \<Rightarrow> 0 | Some v \<Rightarrow> v)"
  by (simp_all add: reported_def rejected_order_def filled_order_def)

lemma wealth_simps [simp]:
  "wealth (px\<lparr>px_positions := d\<rparr>) = wealth px"
  "wealth (px\<lparr>px_orders := os\<rparr>) = wealth px"
  "wealth (px\<lparr>px_cash := c\<rparr>) = wealth px - px_cash px + c"
  by (simp_all add: wealth_def)

lemma execute_buy_step:
  assumes ok: "px_ok px" and r: "request_ok r"
  shows "px_ok (fst (execute_buy px r p))"
    and "wealth (fst (execute_buy px r p)) = wealth px + reported (snd (execute_buy px r p))"
proof -
  let ?f = "total_fee (live_cost_model px) (rq_quantity r * p)" and ?s = "rq_symbol r"
  let ?t = "on_buy (px_tracker px) ?s (rq_quantity r) p ?f (rq_decision_id r)"
  note d = px_okD [OF ok]
  have q: "0 \<le> rq_quantity r" "on_grid (rq_quantity r)"
    using r by (simp_all add: request_ok_def)
  note b = on_buy_any [OF d(3) q(1,2) refl, where s = ?s and p = p and i = "rq_decision_id r"]
  show "px_ok (fst (execute_buy px r p))"
    using d(1)
  proof (cases rule: execute_buy_cases [of px r p])
    case (fill pos)
    have "position_ok (?s, pos)"
      using bought_position_facts [OF fill(2)] d(5) fill(3) px_held_facts [OF ok, of ?s] q
      by (simp add: position_ok_def on_grid_add)
    moreover have "quantity ?t s = (if s = ?s then p_quantity pos else px_held px s)" for s
      unfolding b(2) by (simp add: d(4) fill(3))
    ultimately show ?thesis unfolding fill(4) fst_conv by (intro px_ok_put [OF ok b(1)])
  qed (use ok px_ok_same in auto)
  show "wealth (fst (execute_buy px r p)) = wealth px + reported (snd (execute_buy px r p))"
    using d(1)
  proof (cases rule: execute_buy_cases [of px r p])
    case crash
    with px_held_facts [OF ok, of ?s] q have "rq_quantity r = 0" by linarith
    with crash(4) show ?thesis by simp
  next
    case (fill pos)
    then show ?thesis using b(3) by (simp add: wealth_def)
  qed simp
qed

lemma execute_sell_step:
  assumes ok: "px_ok px" and r: "request_ok r"
  shows "px_ok (fst (execute_sell px r p))"
    and "wealth (fst (execute_sell px r p)) = wealth px + reported (snd (execute_sell px r p))"
proof -
  let ?f = "total_fee (live_cost_model px) (rq_quantity r * p)" and ?s = "rq_symbol r"
  let ?t = "fst (on_sell (px_tracker px) ?s (rq_quantity r) p ?f)"
  note d = px_okD [OF ok]
  have q: "0 \<le> rq_quantity r" "on_grid (rq_quantity r)"
    using r by (simp_all add: request_ok_def)
  show "px_ok (fst (execute_sell px r p))"
    using d(1)
  proof (cases rule: execute_sell_cases [of px r p])
    case (fill pos)
    note b = on_sell_any [OF d(3) q(1,2) _ refl, where s = ?s, unfolded d(4), OF fill(2)]
    let ?left = "px_held px ?s - rq_quantity r"
    have left: "0 \<le> ?left" "on_grid ?left"
      using fill(2) px_held_facts [OF ok] q by (auto intro: on_grid_diff)
    show ?thesis
    proof (cases "?left \<le> eps12")
      case True
      with left have "?left = 0" by (intro on_grid_dust)
      then have "quantity ?t s = (if s = ?s then 0 else px_held px s)" for s
        unfolding b(2) by (simp add: d(4))
      with True show ?thesis unfolding fill(4) by (simp add: px_ok_pop [OF ok b(1)] del: on_sell_book)
    next
      case False
      have "position_ok (?s, pos\<lparr>p_quantity := ?left\<rparr>)"
        using d(5) [OF fill(1)] left by (simp add: position_ok_def)
      moreover have "quantity ?t s = (if s = ?s then ?left else px_held px s)" for s
        unfolding b(2) by (simp add: d(4))
      ultimately show ?thesis
        using False unfolding fill(4) by (simp add: px_ok_put [OF ok b(1)] del: on_sell_book)
    qed
  qed (use ok in simp)
  show "wealth (fst (execute_sell px r p)) = wealth px + reported (snd (execute_sell px r p))"
    using d(1)
  proof (cases rule: execute_sell_cases [of px r p])
    case (fill pos)
    note b = on_sell_any [OF d(3) q(1,2) _ refl, where s = ?s, unfolded d(4), OF fill(2)]
    show ?thesis unfolding fill(4) using b(3) by (simp add: wealth_def del: on_sell_book)
  qed simp
qed

lemma place_order_step:
  assumes "px_ok px" and "request_ok r"
  shows "px_ok (fst (place_order px r))"
    and "wealth (fst (place_order px r)) = wealth px + reported (snd (place_order px r))"
  using execute_buy_step [OF assms] execute_sell_step [OF assms] assms(1)
  by (auto simp: place_order_def px_ok_same split: option.splits prod.splits sum.splits if_splits)
    (metis fst_conv snd_conv px_ok_same(2) reported_simps(1) wealth_simps(2) add.right_neutral)+


section \<open>The executor contract\<close>

fun run_orders ::
  "('x \<Rightarrow> order_request \<Rightarrow> 'x \<times> (py_error + order_result)) \<Rightarrow> 'x \<Rightarrow> order_request list \<Rightarrow>
   'x \<times> (py_error + order_result) list" where
  "run_orders step x [] = (x, [])"
| "run_orders step x (r # rs) =
     (let (x1, out) = step x r; (x2, outs) = run_orders step x1 rs in (x2, out # outs))"

locale order_book =
  fixes ok :: "'x \<Rightarrow> bool"
    and worth :: "'x \<Rightarrow> real"
    and step :: "'x \<Rightarrow> order_request \<Rightarrow> 'x \<times> (py_error + order_result)"
  assumes step_ok: "ok x \<Longrightarrow> request_ok r \<Longrightarrow> ok (fst (step x r))"
    and step_worth: "ok x \<Longrightarrow> request_ok r \<Longrightarrow> worth (fst (step x r)) = worth x + reported (snd (step x r))"
begin

text \<open>Over any sequence of orders the book stays consistent and its worth moves by exactly
  the realized PnL the orders reported.\<close>

lemma run_accounts:
  assumes "ok x" and "\<And>r. r \<in> set rs \<Longrightarrow> request_ok r"
  shows "ok (fst (run_orders step x rs))"
    and "worth (fst (run_orders step x rs)) = worth x + (\<Sum>out\<leftarrow>snd (run_orders step x rs). reported out)"
  using assms
  by (induction rs arbitrary: x) (auto simp: case_prod_beta step_ok step_worth)

end

interpretation paper: order_book px_ok wealth place_order
  by unfold_locales (rule place_order_step; assumption)+

lemma new_paper_executor_ok:
  "0 \<le> sl \<Longrightarrow> 0 \<le> fp \<Longrightarrow> 0 \<le> mc \<Longrightarrow> 0 \<le> fx \<Longrightarrow> px_ok (new_paper_executor c sl fp mc fx)"
  by (simp add: px_ok_def new_paper_executor_def costs_ok_def new_tracker_def quantity_def
      dict_lots_def px_held_def)

lemma wealth_new [simp]: "wealth (new_paper_executor c sl fp mc fx) = c"
  by (simp add: wealth_def new_paper_executor_def new_tracker_def book_basis_def)

lemma update_price_ok: "px_ok px \<Longrightarrow> px_ok (update_price px s v)"
  using px_okD(5) [of px s] px_ok_put [of px "px_tracker px" s _ "px_cash px"] px_okD [of px]
  by (cases "map_of (px_positions px) s")
    (simp_all add: update_price_def position_ok_def px_held_def)

lemma get_positions_get:
  assumes "px_ok px" and "p \<in> set (get_positions px)"
  shows "map_of (px_positions px) (p_symbol p) = Some p"
proof -
  from assms(2) obtain k where k: "(k, p) \<in> set (px_positions px)" by (auto simp: get_positions_def)
  with assms(1) have "p_symbol p = k" by (auto simp: px_ok_def position_ok_def)
  with k px_okD(2) [OF assms(1)] show ?thesis by simp
qed

text \<open>Refused orders leave the cash alone; a BUY never spends more than there is.\<close>

lemma place_order_orders [simp]:
  "px_cash (fst (place_order px r)) = px_cash (case effective_price px r of None \<Rightarrow> px
     | Some p \<Rightarrow> fst (if rq_side r = S_BUY then execute_buy px r p else execute_sell px r p))"
  by (auto simp: place_order_def split: option.splits prod.splits sum.splits)

lemma place_order_buy_cash:
  assumes "costs_ok px" and "rq_side r = S_BUY" and "0 \<le> px_cash px"
  shows "0 \<le> px_cash (fst (place_order px r))"
proof (cases "effective_price px r")
  case (Some p)
  from assms(1) show ?thesis
    by (cases rule: execute_buy_cases [of px r p]) (use assms Some in auto)
qed (use assms in simp)

section \<open>Sized orders are filled\<close>

lemma sizing_cost_model_paper: "costs_ok px \<Longrightarrow> sizing_cost_model (px_attrs px) = Inr (live_cost_model px)"
  using px_cost_model_live [of px] by (simp add: sizing_cost_model_def px_attrs_def px_cost_model_def)

definition buy_request :: "symbol \<Rightarrow> real \<Rightarrow> real \<Rightarrow> order_request" where
  "buy_request s q price =
     \<lparr>rq_symbol = s, rq_side = S_BUY, rq_quantity = q, rq_price = Some price, rq_decision_id = None,
      rq_stop_loss = None, rq_take_profit = None, rq_order_id = [], rq_now = 0\<rparr>"

lemma effective_price_buy: "rq_side r = S_BUY \<Longrightarrow> rq_price r = Some p \<Longrightarrow>
    effective_price px r = Some (p * (1 + px_slippage_pct px))"
  by (simp add: effective_price_def)

lemma place_order_payable:
  assumes "costs_ok px" and "rq_side r = S_BUY" and "rq_price r = Some price" and "0 < rq_quantity r"
    and "0 \<le> px_held px (rq_symbol r)"
    and "n = rq_quantity r * (price * (1 + px_slippage_pct px))"
    and "n + total_fee (live_cost_model px) n \<le> px_cash px"
  shows "snd (place_order px r) = Inr (filled_order r (price * (1 + px_slippage_pct px)) None [])"
  using assms(1)
  by (cases rule: execute_buy_cases [of px r "price * (1 + px_slippage_pct px)"])
    (use assms in \<open>auto simp: place_order_def effective_price_buy\<close>)


section \<open>Restarting from persisted rows\<close>

text \<open>A tracker rebuilt from order rows, which carry no commission: the same lots, fee-free.\<close>

definition erased :: "tracker \<Rightarrow> tracker \<Rightarrow> bool" where
  "erased t' t \<longleftrightarrow> (\<forall>s. dict_lots (t_lots t') s = map erase_fee (dict_lots (t_lots t) s))"

lemma lots_quantity_erase [simp]: "lots_quantity (map erase_fee ls) = lots_quantity ls"
  by (induction ls) simp_all

lemma erased_quantity: "erased t' t \<Longrightarrow> quantity t' s = quantity t s"
  by (simp add: erased_def quantity_def)

lemma erased_ids: "erased t' t \<Longrightarrow> entry_decision_ids t' s = entry_decision_ids t s"
  by (simp add: erased_def entry_decision_ids_def comp_def)

lemma erased_buy: "erased t' t \<Longrightarrow> erased (on_buy t' s q p 0 i) (on_buy t s q p f i)"
  by (auto simp: erased_def on_buy_def add_lot_def erase_fee_def)

lemma erased_sell:
  assumes "erased t' t" and "book_ok (t_lots t)" and "0 \<le> q" and "q \<le> quantity t s"
  shows "erased (fst (book_fill t' s ''sell'' q p 0 0 i)) (fst (on_sell t s q p f))"
proof (cases "0 < q")
  case True
  have "dict_lots (t_lots (fst (on_sell t' s q p 0))) s' =
      map erase_fee (dict_lots (t_lots (fst (on_sell t s q p f))) s')" for s'
    using assms(1) True book_ok_lots(1) [OF assms(2), of s]
      consume_erase [of "dict_lots (t_lots t) s" q "\<lambda>lot take. (p - l_price lot) * take" 0 q
        "\<lambda>lot take. (p - l_price lot) * take" f 0 0 "[]"]
    by (auto simp: erased_def consume_lots)
  then show ?thesis
    using True assms(4) erased_quantity [OF assms(1), of s]
    by (simp add: book_fill_def erased_def case_prod_beta del: on_sell_book)
next
  case False
  with assms show ?thesis by (auto simp: erased_def book_fill_def case_prod_beta consume_lots)
qed

text \<open>The fill row a filled order leaves behind, and the runs of an executor with the rows
  they persist; marks may come in between.\<close>

definition fill_row :: "order_request \<Rightarrow> order_result \<Rightarrow> fill_record" where
  "fill_row r res =
     \<lparr>f_symbol = o_symbol res, f_side = (if o_side res = S_BUY then ''buy'' else ''sell''),
      f_quantity = o_quantity res, f_price = the (o_price res), f_decision_id = rq_decision_id r,
      f_stop_loss = rq_stop_loss r, f_take_profit = rq_take_profit r, f_fee_base = 0, f_fee_quote = 0,
      f_order_id = Some (o_order_id res)\<rparr>"

definition fill_rows :: "order_request \<Rightarrow> py_error + order_result \<Rightarrow> fill_record list" where
  "fill_rows r out =
     (case out of
        Inl _ \<Rightarrow> []
      | Inr res \<Rightarrow> if o_status res = FILLED then [fill_row r res] else [])"

inductive paper_run :: "paper_executor \<Rightarrow> fill_record list \<Rightarrow> paper_executor \<Rightarrow> bool" for px0 where
  start: "paper_run px0 [] px0"
| order: "paper_run px0 fills px \<Longrightarrow> request_ok r \<Longrightarrow> place_order px r = (px', out) \<Longrightarrow>
    paper_run px0 (fills @ fill_rows r out) px'"
| mark: "paper_run px0 fills px \<Longrightarrow> paper_run px0 fills (update_price px s v)"

lemma replay_loop_append:
  "replay_loop t (fs @ gs) n lv =
     (case replay_loop t fs n lv of (t', n', lv') \<Rightarrow> replay_loop t' gs n' lv')"
  by (induction t fs n lv rule: replay_loop.induct) (simp_all add: Let_def)

lemma replay_one:
  "f_side f \<in> {''buy'', ''sell''} \<Longrightarrow>
   fst (replay_loop t [f] n lv) = fst (book_fill t (f_symbol f) (f_side f) (f_quantity f) (f_price f)
     (f_fee_base f) (f_fee_quote f) (f_decision_id f)) \<and> fst (snd (replay_loop t [f] n lv)) = Suc n"
  by (simp add: Let_def)

lemma place_order_replay:
  assumes ok: "px_ok px" and r: "request_ok r" and e: "erased t (px_tracker px)"
  shows "erased (fst (replay_loop t (fill_rows r (snd (place_order px r))) n lv))
      (px_tracker (fst (place_order px r)))
    \<and> fst (snd (replay_loop t (fill_rows r (snd (place_order px r))) n lv)) =
        n + length (fill_rows r (snd (place_order px r)))"
proof (cases "effective_price px r")
  case None
  with e show ?thesis by (simp add: place_order_def fill_rows_def rejected_order_def)
next
  case (Some p)
  note d = px_okD [OF ok]
  have q: "0 \<le> rq_quantity r" using r by (simp add: request_ok_def)
  show ?thesis
  proof (cases "rq_side r = S_BUY")
    case True
    from d(1) show ?thesis
    proof (cases rule: execute_buy_cases [of px r p])
      case (fill pos)
      with True Some erased_buy [OF e] show ?thesis
        by (simp add: place_order_def fill_rows_def fill_row_def filled_order_def book_fill_def Let_def)
    qed (use True Some e in \<open>simp_all add: place_order_def fill_rows_def rejected_order_def\<close>)
  next
    case False
    from d(1) show ?thesis
    proof (cases rule: execute_sell_cases [of px r p])
      case (fill pos)
      with d(4) have "rq_quantity r \<le> quantity (px_tracker px) (rq_symbol r)" by simp
      from False Some fill(4) erased_sell [OF e d(3) q this] show ?thesis
        by (simp add: place_order_def fill_rows_def fill_row_def filled_order_def
            Let_def del: on_sell_book)
    qed (use False Some e in \<open>simp add: place_order_def fill_rows_def rejected_order_def\<close>)
  qed
qed

lemma update_price_tracker [simp]: "px_tracker (update_price px s v) = px_tracker px"
  by (simp add: update_price_def split: option.splits)

lemma paper_run_replay:
  assumes "paper_run px0 fills px" and "px_ok px0" and "px_tracker px0 = new_tracker"
  shows "px_ok px \<and> erased (fst (replay_fills new_tracker fills)) (px_tracker px)
    \<and> fst (snd (replay_fills new_tracker fills)) = length fills"
  using assms
proof (induction rule: paper_run.induct)
  case start
  then show ?case by (simp add: replay_fills_def erased_def new_tracker_def dict_lots_def)
next
  case (order fills px r px' out)
  obtain t n lv where e: "replay_fills new_tracker fills = (t, n, lv)"
    by (cases "replay_fills new_tracker fills")
  from order have IH: "px_ok px" "erased t (px_tracker px)" "n = length fills" by (auto simp: e)
  from place_order_replay [OF IH(1) order.hyps(2) IH(2), of n lv] order.hyps(3) IH(3) e
    place_order_step(1) [OF IH(1) order.hyps(2)]
  show ?case by (simp add: replay_fills_def replay_loop_append)
qed (simp add: update_price_ok)

lemma positions_dict_id:
  "dict_ok (d @ e) \<Longrightarrow> (\<And>kp. kp \<in> set e \<Longrightarrow> p_symbol (snd kp) = fst kp) \<Longrightarrow>
   positions_dict (map snd e) d = d @ e"
proof (induction e arbitrary: d)
  case (Cons kp e)
  have "AList.update (fst kp) (snd kp) d = d @ [kp]"
    using Cons.prems(1) by (induction d) auto
  with Cons.prems Cons.IH [of "d @ [kp]"] show ?case by simp
qed simp

lemma position_filter:
  "dict_ok d \<Longrightarrow> (\<forall>kp\<in>set d. position_ok kp) \<Longrightarrow> map_of d s = Some p \<Longrightarrow>
   filter (\<lambda>p. p_symbol p = s \<and> p_side p = LONG) (map snd d) = [p]"
proof (induction d)
  case (Cons kp d)
  have "filter (\<lambda>p. p_symbol p = s \<and> p_side p = LONG) (map snd d) = []" if "fst kp = s"
    using Cons.prems(1,2) that by (auto simp: filter_empty_conv position_ok_def image_iff)
  with Cons show ?case by (cases kp) (auto simp: position_ok_def split: if_splits)
qed simp

lemma top_up_none:
  "(\<And>p. p \<in> set ps \<Longrightarrow> p_quantity p = quantity t (p_symbol p)) \<Longrightarrow> top_up t ps n = (t, n)"
  by (induction ps) (simp_all add: Let_def)


lemma load_restores:
  assumes "px_ok px" and "erased (fst (replay_fills new_tracker fills)) (px_tracker px)"
  shows "load_portfolio_state fresh (px_cash px) (get_positions px) (Some fills) =
    (fresh\<lparr>px_cash := px_cash px, px_positions := px_positions px,
           px_tracker := fst (replay_fills new_tracker fills)\<rparr>,
     fst (snd (replay_fills new_tracker fills)), 0)"
proof -
  note d = px_okD [OF assms(1)]
  have sym: "p_symbol (snd kp) = fst kp" if "kp \<in> set (px_positions px)" for kp
    using that assms(1) by (auto simp: px_ok_def position_ok_def)
  have "p_quantity p = px_held px (p_symbol p)" if "p \<in> set (get_positions px)" for p
  proof -
    from that obtain k where k: "(k, p) \<in> set (px_positions px)" by (auto simp: get_positions_def)
    with d(2) have "map_of (px_positions px) k = Some p" by simp
    with sym [OF k] show ?thesis by (simp add: px_held_def)
  qed
  then have "top_up (fst (replay_fills new_tracker fills)) (get_positions px) 0 =
      (fst (replay_fills new_tracker fills), 0)"
    by (intro top_up_none) (simp add: erased_quantity [OF assms(2)] d(4))
  moreover have "positions_dict (get_positions px) [] = px_positions px"
    unfolding get_positions_def using d(2) sym by (subst positions_dict_id) auto
  ultimately show ?thesis
    by (cases "replay_fills new_tracker fills") (simp add: load_portfolio_state_def)
qed

section \<open>Properties\<close>


definition sell_request :: "symbol \<Rightarrow> real \<Rightarrow> real \<Rightarrow> order_request" where
  "sell_request s q price = (buy_request s q price)\<lparr>rq_side := S_SELL\<rparr>"


text \<open>Sizing and the paper executor agree on money: a BUY whose quantity was planned by
  calculate_quantity from the executor's own cash and cost attributes, and is not zero, is
  filled at the quote plus slippage, for the planned quantity.\<close>

theorem sized_buy_is_filled:
  assumes "px_ok px" and "0 \<le> px_cash px" and "sizing_cost_model (px_attrs px) = Inr m"
    and "sig_action sig = A_BUY" and "0 < price" and "pf_cash pf = get_cash px"
    and "rq_quantity r = calculate_quantity sig pf s (Some price) cf (Some m) cash_cap"
    and "0 < rq_quantity r" and "rq_side r = S_BUY" and "rq_price r = Some price"
  shows "snd (place_order px r) = Inr (filled_order r (price * (1 + px_slippage_pct px)) None [])
    \<and> 0 \<le> px_cash (fst (place_order px r))"
proof -
  have c: "costs_ok px" by (rule px_okD(1) [OF assms(1)])
  have m: "m = live_cost_model px" using sizing_cost_model_paper [OF c] assms(3) by simp
  let ?n = "rq_quantity r * (price * (1 + px_slippage_pct px))"
  have "?n + total_fee m ?n \<le> spendable pf cash_cap"
    using calculate_quantity_buy_cash [OF assms(4) live_cost_model_ok [OF c], of pf s "Some price" cf cash_cap]
      assms(5,7) by (simp add: m Let_def live_cost_model_def)
  also have "\<dots> \<le> px_cash px"
    using assms(2,6) by (simp add: spendable_def get_cash_def split: option.splits)
  finally have "snd (place_order px r) = Inr (filled_order r (price * (1 + px_slippage_pct px)) None [])"
    using px_held_facts(1) [OF assms(1)] assms(8-10) by (intro place_order_payable [OF c]) (simp_all add: m)
  with place_order_buy_cash [OF c assms(9,2)] show ?thesis by simp
qed

theorem sized_buy_is_filled_witness:
  "\<exists>px q. px = new_paper_executor 1000 0 0 0 0
     \<and> q = calculate_quantity (demo_signal A_BUY) demo_portfolio default_risk_settings (Some 100) 1
             (Some (live_cost_model px)) None
     \<and> q = 1 \<and> o_status (projr (snd (place_order px (buy_request ''BTC/EUR'' q 100)))) = FILLED"
proof -
  let ?px = "new_paper_executor 1000 0 0 0 0"
  let ?m = "live_cost_model ?px"
  have q: "calculate_quantity (demo_signal A_BUY) demo_portfolio default_risk_settings (Some 100) 1
             (Some ?m) None = 1"
    by (simp add: calculate_quantity_def demo_signal_def demo_portfolio_def default_risk_settings_def
        max_position_value_def risk_capped_def max_qty_by_cash_def spendable_def live_cost_model_def
        new_paper_executor_def max_affordable_fill_notional_def total_value_def long_exposure_def
        floor8_def)
  have ok: "px_ok ?px" by (simp add: new_paper_executor_ok)
  have "snd (place_order ?px (buy_request ''BTC/EUR'' 1 100)) =
      Inr (filled_order (buy_request ''BTC/EUR'' 1 100) (100 * (1 + px_slippage_pct ?px)) None [])"
    using sized_buy_is_filled [OF ok _ sizing_cost_model_paper [OF px_okD(1) [OF ok]],
        of "demo_signal A_BUY" 100 demo_portfolio "buy_request ''BTC/EUR'' 1 100"
          default_risk_settings 1 None] q
    by (simp add: buy_request_def demo_signal_def demo_portfolio_def get_cash_def new_paper_executor_def)
  with q show ?thesis by (simp add: filled_order_def)
qed


text \<open>Closing works: an exit sized by calculate_quantity for a held paper position is
  always filled, leaves no position and no lot of the symbol, and realizes exactly the
  proceeds minus the sell fee minus everything the position's lots had cost.\<close>

theorem sized_sell_closes_position:
  assumes "px_ok px" and "map_of (px_positions px) (sig_symbol sig) = Some pos" and "0 < p_quantity pos"
    and "sig_action sig = A_SELL" and "pf_positions pf = get_positions px"
    and "rq_quantity r = calculate_quantity sig pf s cp cf cm cap"
    and "rq_side r = S_SELL" and "rq_symbol r = sig_symbol sig" and "rq_price r = Some price"
    and "fill_price = price * (1 - px_slippage_pct px)" and "q = p_quantity pos"
  shows "\<exists>px' res. place_order px r = (px', Inr res) \<and> o_status res = FILLED \<and> o_quantity res = q
    \<and> map_of (px_positions px') (sig_symbol sig) = None
    \<and> dict_lots (t_lots (px_tracker px')) (sig_symbol sig) = []
    \<and> o_realized_pnl res = Some (q * fill_price - total_fee (live_cost_model px) (q * fill_price)
        - basis 1 (dict_lots (t_lots (px_tracker px)) (sig_symbol sig)))"
proof -
  let ?s = "sig_symbol sig" and ?t = "px_tracker px"
  let ?f = "total_fee (live_cost_model px) (q * fill_price)"
  note d = px_okD [OF assms(1)]
  note p = d(5) [OF assms(2)]
  have held: "px_held px ?s = q" using assms(2,11) by (simp add: px_held_def)
  have "held_long pf ?s = q"
  proof -
    have "filter (\<lambda>p. p_symbol p = ?s \<and> p_side p = LONG) (map snd (px_positions px)) = [pos]"
      using assms(1,2) by (intro position_filter) (simp_all add: px_ok_def)
    then show ?thesis by (simp add: held_long_def assms(5,11) get_positions_def)
  qed
  with assms(3,4,6,11) have rq: "rq_quantity r = q" by (simp add: calculate_quantity_sell)
  have q: "0 < q" "on_grid q" "q = quantity ?t ?s" using assms(3,11) p held d(4) by simp_all
  note close = longs.close_all_held [OF d(3) q, of fill_price ?f]
  have flat: "dict_lots (t_lots (fst (on_sell ?t ?s q fill_price ?f))) ?s = []"
    using close(1) longs.close_ok [OF d(3) q(1,2), of ?s fill_price ?f]
    by (simp add: quantity_def lots_quantity_zero_iff del: on_sell_book)
  have eff: "effective_price px r = Some fill_price"
    using assms(7,9,10) by (simp add: effective_price_def)
  from d(1) show ?thesis
  proof (cases rule: execute_sell_cases [of px r fill_price])
    case refused
    with held rq assms(2,8) show ?thesis by simp
  next
    case (fill pos')
    with close flat assms(7,8) eff held rq show ?thesis
      by (simp add: place_order_def filled_order_def delete_conv' del: on_sell_book)
  qed
qed


definition demo_paper :: paper_executor where
  "demo_paper = fst (place_order (new_paper_executor 1000 0 (1/100) 0 0) (buy_request ''BTC/EUR'' 2 100))"

lemma demo_paper_facts:
  "px_ok demo_paper"
  "map_of (px_positions demo_paper) ''BTC/EUR'' =
     Some \<lparr>p_symbol = ''BTC/EUR'', p_quantity = 2, p_avg_entry_price = 100, p_current_price = 100,
       p_side = LONG, p_stop_loss = None, p_take_profit = None\<rparr>"
proof -
  show "px_ok demo_paper"
    unfolding demo_paper_def
    by (rule place_order_step(1)) (simp_all add: new_paper_executor_ok request_ok_def buy_request_def)
  show "map_of (px_positions demo_paper) ''BTC/EUR'' =
     Some \<lparr>p_symbol = ''BTC/EUR'', p_quantity = 2, p_avg_entry_price = 100, p_current_price = 100,
       p_side = LONG, p_stop_loss = None, p_take_profit = None\<rparr>"
    by (simp add: demo_paper_def place_order_def effective_price_def buy_request_def
        new_paper_executor_def execute_buy_def px_cost_model_def cost_model_from_attrs_def
        make_cost_model_def attr_or_zero_def total_fee_def commission_def bought_position_def Let_def)
qed

theorem sized_sell_closes_position_witness:
  "\<exists>px' res. place_order demo_paper (sell_request ''BTC/EUR'' 2 150) = (px', Inr res)
     \<and> o_status res = FILLED \<and> map_of (px_positions px') ''BTC/EUR'' = None"
proof -
  let ?pf = "\<lparr>pf_cash = 0, pf_positions = get_positions demo_paper, pf_pending_value = 0\<rparr>"
  have "filter (\<lambda>p. p_symbol p = ''BTC/EUR'' \<and> p_side p = LONG) (map snd (px_positions demo_paper)) =
      [the (map_of (px_positions demo_paper) ''BTC/EUR'')]"
    using demo_paper_facts by (intro position_filter) (simp_all add: px_ok_def)
  then have "held_long ?pf ''BTC/EUR'' = 2"
    by (simp add: held_long_def get_positions_def demo_paper_facts(2))
  then have q: "calculate_quantity (demo_signal A_SELL) ?pf default_risk_settings None 1 None None = 2"
    by (subst calculate_quantity_sell) (simp_all add: demo_signal_def)
  show ?thesis
    using sized_sell_closes_position [OF demo_paper_facts(1) _ _ _ _ _ _ _ _ refl refl,
        of "demo_signal A_SELL" "the (map_of (px_positions demo_paper) ''BTC/EUR'')" ?pf
          "sell_request ''BTC/EUR'' 2 150" default_risk_settings None 1 None None 150] demo_paper_facts(2) q
    by (auto simp: demo_signal_def sell_request_def buy_request_def)
qed



text \<open>C40: A BUY planned with no spendable cash has quantity zero, and the paper executor fills it:
  a position with nothing in it is opened, which counts against max_open_positions, and the next
  such BUY of the symbol raises ZeroDivisionError.\<close>

theorem zero_buy_opens_empty_position:
  assumes "px_ok px" and "sig_action sig = A_BUY" and "pf_cash pf = get_cash px" and "get_cash px = 0"
    and "rq_quantity r = calculate_quantity sig pf s (Some price) cf (Some (live_cost_model px)) cash_cap"
    and "0 < price" and "rq_side r = S_BUY" and "rq_price r = Some price"
    and "map_of (px_positions px) (rq_symbol r) = None"
    and "place_order px r = (px', out)"
  shows "out = Inr (filled_order r (price * (1 + px_slippage_pct px)) None [])
    \<and> length (get_positions px') = Suc (length (get_positions px)) \<and> px_held px' (rq_symbol r) = 0
    \<and> snd (place_order px' r) = Inl ZeroDivisionError"
proof -
  have c: "costs_ok px" by (rule px_okD(1) [OF assms(1)])
  have "max_qty_by_cash pf (sizing_price sig (Some price)) cf (Some (live_cost_model px)) cash_cap = 0"
    using assms(3,4) by (auto simp: max_qty_by_cash_def spendable_def max_affordable_fill_notional_def
        Let_def min_def split: option.splits)
  then have "rq_quantity r \<le> 0"
    using calculate_quantity_buy_le [OF assms(2), of 0] assms(5) by simp
  with calculate_quantity_buy_nonneg [OF assms(2)] assms(5) have q: "rq_quantity r = 0"
    by (metis order_antisym)
  have len: "length (AList.update k v d) = Suc (length d)" if "map_of d k = None" for k and v :: position and d
    using that by (induction d) auto
  have "px_cost_model (px\<lparr>px_positions := a, px_orders := b\<rparr>) = px_cost_model px" for a b
    by (simp add: px_cost_model_def)
  with assms(4,7-10) q px_cost_model_live [OF c] show ?thesis
    by (auto simp: place_order_def effective_price_def execute_buy_def bought_position_def get_cash_def
        Let_def get_positions_def len px_held_def on_buy_def add_lot_def update_conv' px_cost_model_def)
qed


theorem zero_buy_opens_empty_position_witness:
  "\<exists>px r px' out. place_order px r = (px', out) \<and> rq_quantity r = 0
     \<and> length (get_positions px') = Suc (length (get_positions px))
     \<and> snd (place_order px' r) = Inl ZeroDivisionError"
proof -
  let ?px = "new_paper_executor 0 0 0 0 0"
  let ?pf = "\<lparr>pf_cash = 0, pf_positions = [], pf_pending_value = 0\<rparr>"
  let ?r = "buy_request ''BTC/EUR'' 0 100"
  have q: "calculate_quantity (demo_signal A_BUY) ?pf default_risk_settings (Some 100) 1
      (Some (live_cost_model ?px)) None = 0"
    by (simp add: calculate_quantity_def demo_signal_def default_risk_settings_def
        max_position_value_def risk_capped_def max_qty_by_cash_def spendable_def
        max_affordable_fill_notional_def total_value_def long_exposure_def floor8_def)
  obtain px' out where e: "place_order ?px ?r = (px', out)" by (cases "place_order ?px ?r")
  have "px_ok ?px" by (simp add: new_paper_executor_ok)
  from zero_buy_opens_empty_position [OF this, of "demo_signal A_BUY" ?pf ?r default_risk_settings 100 1 None,
      OF _ _ _ _ _ _ _ _ e] q
  have "length (get_positions px') = Suc (length (get_positions ?px))
     \<and> snd (place_order px' ?r) = Inl ZeroDivisionError"
    by (simp add: buy_request_def demo_signal_def get_cash_def new_paper_executor_def)
  moreover have "rq_quantity ?r = 0" by (simp add: buy_request_def)
  ultimately show ?thesis using e by blast
qed

end
