(* ===== verification/Rehydration.thy ===== *)
theory Rehydration
  imports Storage Paper_Executor
begin

text \<open>
  Restart rehydration, \<^verbatim>\<open>src/src/core/rehydration.py\<close>: the paper book, the fill and pending
  records handed to a venue executor, the daily-loss baseline and the losing streak are
  rebuilt from the stored rows.

  Every step is fail-soft in the source. A database error is injected through \<open>faults\<close>:
  which storage calls raise during the step. The hooks of a venue executor
  (\<^verbatim>\<open>load_fills\<close>, \<^verbatim>\<open>load_pending_orders\<close>, \<^verbatim>\<open>restore_protection\<close>) are arguments; what is
  modelled is the records that are handed to them.
\<close>

datatype storage_call =
    C_get_latest_portfolio_snapshot
  | C_get_filled_orders
  | C_get_pending_orders
  | C_get_exit_levels
  | C_get_first_portfolio_snapshot_of_day
  | C_get_recent_closing_fills
  | C_get_decision_strategies
  | C_get_latest_allocation
  | C_record_allocation
  | C_get_strategy_realized_pnl string
  | C_save_sleeve_snapshot string
  | C_get_effective_sleeve_peak string
  | C_get_first_sleeve_snapshot_of_day string
  | C_save_llm_decision
  | C_save_market_snapshot
  | C_get_recent_decisions
  | C_get_filled_decision_ids
  | C_get_agent_control
  | C_request_close_all
  | C_record_cycle_health
  | C_save_order nat
  | C_update_order_status string
  | C_set_realized_pnl
  | C_add_realized_pnl int
  | C_save_portfolio_snapshot
  | C_delete_expired_watchlist_entries
  | C_get_active_watchlist
  | C_upsert_watchlist_entry symbol

type_synonym faults = "storage_call \<Rightarrow> py_error option"

definition attempt :: "faults \<Rightarrow> storage_call \<Rightarrow> 'a \<Rightarrow> py_error + 'a" where
  "attempt flt call result = (case flt call of Some e \<Rightarrow> Inl e | None \<Rightarrow> Inr result)"

definition no_faults :: faults where
  "no_faults call = None"

definition executor_venue :: "string option \<Rightarrow> string option" where
  "executor_venue venue = (case venue of None \<Rightarrow> None | Some v \<Rightarrow> if v = [] then None else Some v)"

section \<open>The paper book\<close>

definition paper_venue :: string where
  "paper_venue = ''paper''"

definition paper_fill :: "order_row \<Rightarrow> fill_record option" where
  "paper_fill ord =
     (case or_price ord of
        None \<Rightarrow> None
      | Some price \<Rightarrow>
          Some \<lparr>f_symbol = or_symbol ord, f_side = or_side ord, f_quantity = or_quantity ord, f_price = price,
                f_decision_id = or_decision_id ord, f_stop_loss = None, f_take_profit = None,
                f_fee_base = 0, f_fee_quote = 0, f_order_id = None\<rparr>)"

definition rehydrate_paper_executor ::
  "faults \<Rightarrow> storage \<Rightarrow> paper_executor \<Rightarrow> paper_executor \<times> bool" where
  "rehydrate_paper_executor flt st px =
     (let venue = executor_venue (Some paper_venue)
      in case attempt flt C_get_latest_portfolio_snapshot (get_latest_portfolio_snapshot st None venue) of
           Inl e \<Rightarrow> (px, False)
         | Inr None \<Rightarrow> (px, False)
         | Inr (Some row) \<Rightarrow>
             let fills = (case attempt flt C_get_filled_orders (get_filled_orders st None None venue) of
                            Inl e \<Rightarrow> None
                          | Inr orders \<Rightarrow> Some (List.map_filter paper_fill orders))
             in (fst (load_portfolio_state px (ps_cash row) (ps_positions row) fills), True))"

section \<open>Venue executors\<close>

definition is_paper_order :: "string \<Rightarrow> bool" where
  "is_paper_order order_id = (take 6 order_id = ''paper-'')"

record pending_order_record =
  po_order_id :: string
  po_symbol :: symbol
  po_side :: order_side
  po_quantity :: real
  po_decision_id :: "int option"
  po_stop_loss :: "real option"
  po_take_profit :: "real option"
  po_placed_at :: instant
  po_price :: "real option"

text \<open>\<^verbatim>\<open>levels.get(o.decision_id or -1, (None, None))\<close>\<close>

definition levels_of ::
  "(int, real option \<times> real option) dict \<Rightarrow> int option \<Rightarrow> real option \<times> real option" where
  "levels_of levels did =
     (let key = (case did of None \<Rightarrow> -1 | Some i \<Rightarrow> if i = 0 then -1 else i)
      in case map_of levels key of None \<Rightarrow> (None, None) | Some lv \<Rightarrow> lv)"

fun last_buys :: "order_row list \<Rightarrow> (symbol, int) dict \<Rightarrow> (symbol, int) dict" where
  "last_buys [] d = d"
| "last_buys (ord # os) d =
     last_buys os (case or_decision_id ord of
                     Some i \<Rightarrow> if or_side ord = ''buy'' then AList.update (or_symbol ord) i d else d
                   | None \<Rightarrow> d)"

definition venue_fill :: "(int, real option \<times> real option) dict \<Rightarrow> order_row \<Rightarrow> fill_record" where
  "venue_fill levels ord =
     (let (sl, tp) = (if or_side ord = ''buy'' then levels_of levels (or_decision_id ord) else (None, None))
      in \<lparr>f_symbol = or_symbol ord, f_side = or_side ord, f_quantity = or_quantity ord,
          f_price = the (or_price ord), f_decision_id = or_decision_id ord, f_stop_loss = sl,
          f_take_profit = tp,
          f_fee_base = (case or_fee_base ord of None \<Rightarrow> 0 | Some v \<Rightarrow> v),
          f_fee_quote = (case or_fee_quote ord of None \<Rightarrow> 0 | Some v \<Rightarrow> v),
          f_order_id = Some (or_order_id ord)\<rparr>)"

definition venue_fills :: "faults \<Rightarrow> storage \<Rightarrow> string option \<Rightarrow> py_error + fill_record list" where
  "venue_fills flt st venue =
     (case attempt flt C_get_filled_orders (get_filled_orders st None None venue) of
        Inl e \<Rightarrow> Inl e
      | Inr orders \<Rightarrow>
          let rows = filter (\<lambda>ord. or_price ord \<noteq> None \<and> \<not> is_paper_order (or_order_id ord)) orders;
              last_buy = last_buys rows []
          in case attempt flt C_get_exit_levels (get_exit_levels st (map snd last_buy)) of
               Inl e \<Rightarrow> Inl e
             | Inr levels \<Rightarrow> Inr (map (venue_fill levels) rows))"

definition pending_record ::
  "(int, real option \<times> real option) dict \<Rightarrow> order_row \<Rightarrow> py_error + pending_order_record" where
  "pending_record levels ord =
     (let (sl, tp) = levels_of levels (or_decision_id ord)
      in if or_side ord \<notin> {''buy'', ''sell''} then Inl ValueError
         else Inr \<lparr>po_order_id = or_order_id ord, po_symbol = or_symbol ord,
                   po_side = (if or_side ord = ''buy'' then S_BUY else S_SELL),
                   po_quantity = or_quantity ord, po_decision_id = or_decision_id ord, po_stop_loss = sl,
                   po_take_profit = tp, po_placed_at = or_created_at ord, po_price = or_price ord\<rparr>)"

fun all_ok :: "(py_error + 'a) list \<Rightarrow> py_error + 'a list" where
  "all_ok [] = Inr []"
| "all_ok (Inl e # xs) = Inl e"
| "all_ok (Inr x # xs) = (case all_ok xs of Inl e \<Rightarrow> Inl e | Inr ys \<Rightarrow> Inr (x # ys))"

definition venue_pending ::
  "faults \<Rightarrow> storage \<Rightarrow> string option \<Rightarrow> py_error + pending_order_record list" where
  "venue_pending flt st venue =
     (case attempt flt C_get_pending_orders (get_pending_orders st None venue) of
        Inl e \<Rightarrow> Inl e
      | Inr orders \<Rightarrow>
          let rows = filter (\<lambda>ord. or_order_id ord \<noteq> [] \<and> \<not> is_paper_order (or_order_id ord)) orders
          in case attempt flt C_get_exit_levels
                    (get_exit_levels st (List.map_filter or_decision_id rows)) of
               Inl e \<Rightarrow> Inl e
             | Inr levels \<Rightarrow> all_ok (map (pending_record levels) rows))"

text \<open>The hooks of the executor, \<open>None\<close> when it does not have one; a hook returns the executor
  it leaves behind, also when it raises.\<close>

record 'x venue_hooks =
  vh_load_fills :: "('x \<Rightarrow> fill_record list \<Rightarrow> 'x) option"
  vh_load_pending :: "('x \<Rightarrow> pending_order_record list \<Rightarrow> 'x) option"
  vh_restore_protection :: "('x \<Rightarrow> 'x) option"

definition rehydrate_venue_executor ::
  "faults \<Rightarrow> storage \<Rightarrow> string option \<Rightarrow> 'x venue_hooks \<Rightarrow> 'x \<Rightarrow> 'x" where
  "rehydrate_venue_executor flt st venue0 hooks x =
     (let venue = executor_venue venue0;
          x1 = (case vh_load_fills hooks of
                  None \<Rightarrow> x
                | Some load \<Rightarrow> (case venue_fills flt st venue of Inl e \<Rightarrow> x | Inr fs \<Rightarrow> load x fs));
          x2 = (case vh_load_pending hooks of
                  None \<Rightarrow> x1
                | Some load \<Rightarrow>
                    (case venue_pending flt st venue of
                       Inl e \<Rightarrow> x1 | Inr ps \<Rightarrow> if ps = [] then x1 else load x1 ps))
      in case vh_restore_protection hooks of None \<Rightarrow> x2 | Some restore \<Rightarrow> restore x2)"

section \<open>Risk trackers\<close>

fun trailing_losses :: "(real \<times> instant) list \<Rightarrow> int \<Rightarrow> instant option \<Rightarrow> int \<times> instant option" where
  "trailing_losses [] streak newest = (streak, newest)"
| "trailing_losses ((v, ts) # os) streak newest =
     (if v < 0
      then trailing_losses os (streak + 1) (case newest of None \<Rightarrow> Some ts | Some t \<Rightarrow> Some t)
      else (streak, newest))"

definition fill_outcome :: "order_row \<Rightarrow> real \<times> instant" where
  "fill_outcome ord =
     (the (or_realized_pnl ord), case or_filled_at ord of Some t \<Rightarrow> t | None \<Rightarrow> or_created_at ord)"

definition rehydrate_loss_streak ::
  "faults \<Rightarrow> storage \<Rightarrow> string option \<Rightarrow> risk_engine \<Rightarrow> risk_engine" where
  "rehydrate_loss_streak flt st strategy e =
     (case attempt flt C_get_recent_closing_fills (get_recent_closing_fills st 50 None strategy None) of
        Inl err \<Rightarrow> e
      | Inr rows \<Rightarrow>
          let (streak, newest) = trailing_losses (map fill_outcome rows) 0 None;
              cooldown_until =
                (case newest of
                   Some t \<Rightarrow> if streak \<ge> rs_consecutive_losses_threshold (re_settings e)
                             then Some (t + rs_consecutive_losses_cooldown_minutes (re_settings e) * minute_us)
                             else None
                 | None \<Rightarrow> None)
          in if streak \<noteq> 0 \<or> cooldown_until \<noteq> None
             then restore_loss_streak streak cooldown_until e else e)"

definition rehydrate_risk_engine :: "faults \<Rightarrow> storage \<Rightarrow> instant \<Rightarrow> risk_engine \<Rightarrow> risk_engine" where
  "rehydrate_risk_engine flt st now e =
     (let e1 = (case attempt flt C_get_first_portfolio_snapshot_of_day
                       (get_first_portfolio_snapshot_of_day st now None None) of
                  Inr (Some row) \<Rightarrow> restore_daily_baseline now (ps_total_value row) e
                | _ \<Rightarrow> e)
      in rehydrate_loss_streak flt st None e1)"

definition rehydrate_from_storage ::
  "faults \<Rightarrow> storage \<Rightarrow> instant \<Rightarrow> risk_engine \<Rightarrow> paper_executor \<Rightarrow> risk_engine \<times> paper_executor" where
  "rehydrate_from_storage flt st now e px =
     (rehydrate_risk_engine flt st now e, fst (rehydrate_paper_executor flt st px))"


section \<open>The streak comes back\<close>

text \<open>A table whose keys grow, which is what inserting keeps.\<close>

definition orders_sorted :: "storage \<Rightarrow> bool" where
  "orders_sorted st \<longleftrightarrow> sorted_wrt (<) (map or_id (db_orders (st_db st)))"

lemma save_order_sorted: "orders_sorted st \<Longrightarrow>
   orders_sorted (fst (save_order st now oid s side q pr stt did fa rp strat fb fq))"
  by (auto simp: orders_sorted_def save_order_def Let_def sorted_wrt_append next_id_greater)

lemma desc_rev: "sorted_wrt (<) (map key rows) \<Longrightarrow> desc key rows = rev rows"
proof (induction rows rule: rev_induct)
  case (snoc r rows)
  have "desc key (rows @ [r]) = r # desc key rows"
    using snoc.prems by (induction rows) (auto simp: desc_def sorted_wrt_append not_le [symmetric])
  with snoc show ?case by (simp add: sorted_wrt_append)
qed (simp add: desc_def)

text \<open>The closing fills of the scope in the order they happened, as outcomes.\<close>

definition closing_rows :: "storage \<Rightarrow> string option \<Rightarrow> order_row list" where
  "closing_rows st strategy =
     filter (\<lambda>r. or_status r = ''filled'' \<and> or_realized_pnl r \<noteq> None
        \<and> (case strategy of None \<Rightarrow> True | Some x \<Rightarrow> or_strategy r = Some x)
        \<and> where_agent st None (or_agent r)
        \<and> (case risk_venue st None of None \<Rightarrow> True | Some v \<Rightarrow> venue_match (or_venue r) v))
       (db_orders (st_db st))"

definition outcome_of :: "order_row \<Rightarrow> bool \<times> instant" where
  "outcome_of ord = (0 \<le> fst (fill_outcome ord), snd (fill_outcome ord))"

lemma closing_fills_rev:
  "orders_sorted st \<Longrightarrow> get_recent_closing_fills st n None strategy None = take n (rev (closing_rows st strategy))"
  unfolding orders_sorted_def get_recent_closing_fills_def closing_rows_def
  by (subst desc_rev) (auto simp: sorted_wrt_map intro: sorted_wrt_filter)

lemma trailing_losses_eq:
  "trailing_losses os n t =
     (n + int (length (takeWhile (\<lambda>(v, ts). v < 0) os)),
      case t of Some x \<Rightarrow> Some x
      | None \<Rightarrow> (case takeWhile (\<lambda>(v, ts). v < 0) os of [] \<Rightarrow> None | x # _ \<Rightarrow> Some (snd x)))"
  by (induction os n t rule: trailing_losses.induct) (auto split: option.splits)

lemma takeWhile_take: "length (takeWhile P xs) \<le> n \<Longrightarrow> takeWhile P (take n xs) = takeWhile P xs"
  by (induction xs arbitrary: n) (auto simp: take_Cons split: nat.splits)

lemma loss_streak_rows:
  "loss_streak (map outcome_of rows) =
     length (takeWhile (\<lambda>(v, ts). v < 0) (map fill_outcome (rev rows)))"
  by (simp add: loss_streak_def rev_map takeWhile_map comp_def case_prod_beta outcome_of_def not_le)

lemma trailing_losses_rows:
  assumes "loss_streak (map outcome_of rows) \<le> n"
  shows "trailing_losses (map fill_outcome (take n (rev rows))) 0 None =
    (int (loss_streak (map outcome_of rows)),
     if 0 < loss_streak (map outcome_of rows) then Some (snd (last (map outcome_of rows))) else None)"
proof -
  let ?P = "\<lambda>(v :: real, ts :: instant). v < 0"
  let ?os = "map fill_outcome (rev rows)"
  have e: "takeWhile ?P (take n ?os) = takeWhile ?P ?os"
    using assms by (intro takeWhile_take) (simp add: loss_streak_rows)
  have "rows = [] \<or> (\<exists>xs x. rows = xs @ [x])" by (cases rows rule: rev_cases) auto
  then have h: "takeWhile ?P ?os \<noteq> [] \<Longrightarrow> snd (hd (takeWhile ?P ?os)) = snd (last (map outcome_of rows))"
    by (auto simp: outcome_of_def case_prod_beta split: if_splits)
  have "trailing_losses (take n ?os) 0 None =
    (int (loss_streak (map outcome_of rows)),
     if 0 < loss_streak (map outcome_of rows) then Some (snd (last (map outcome_of rows))) else None)"
    unfolding trailing_losses_eq e loss_streak_rows
    using h by (auto split: list.splits)
  then show ?thesis by (simp add: take_map)
qed

section \<open>Properties\<close>

text \<open>C15: A restart does not forget the losing streak: rebuilding it from the stored closing
  fills of the agent (or of one sleeve) gives exactly the tracker, count and cooldown, that
  the live engine reached by recording those fills one by one, as long as the streak is not
  longer than the fifty fills that are read.\<close>

theorem rehydrated_streak_is_live_streak:
  assumes "orders_sorted st" and "re_loss e = new_loss_tracker"
    and "loss_streak (map outcome_of (closing_rows st strategy)) \<le> 50"
  shows "re_loss (rehydrate_loss_streak no_faults st strategy e) =
    re_loss (record_outcomes (map outcome_of (closing_rows st strategy)) e)"
proof -
  let ?xs = "map outcome_of (closing_rows st strategy)"
  note live = record_outcomes_streak [OF assms(2), of ?xs]
  show ?thesis
    unfolding live rehydrate_loss_streak_def attempt_def no_faults_def closing_fills_rev [OF assms(1)]
    by (simp add: trailing_losses_rows [OF assms(3)] streak_state_def restore_loss_streak_def
        restore_losses_def assms(2) new_loss_tracker_def)
qed

definition demo_losses :: storage where
  "demo_losses = fst (save_order demo_storage 6 ''o2'' ''BTC/EUR'' ''sell'' 1 (Some 9)
     ''filled'' None (Some 6) (Some (-1)) None None None)"

theorem rehydrated_streak_is_live_streak_witness:
  "re_loss (rehydrate_loss_streak no_faults demo_losses None (new_risk_engine default_risk_settings)) =
     re_loss (record_outcomes [(False, 6)] (new_risk_engine default_risk_settings))"
proof -
  have rows: "map outcome_of (closing_rows demo_losses None) = [(False, 6)]"
    by (simp add: demo_losses_def demo_storage_def save_order_def empty_db_def closing_rows_def Let_def
        scope_simps outcome_of_def fill_outcome_def)
  have "orders_sorted demo_losses"
    unfolding demo_losses_def
    by (rule save_order_sorted) (simp add: orders_sorted_def demo_storage_def empty_db_def)
  from rehydrated_streak_is_live_streak [OF this, of "new_risk_engine default_risk_settings" None] rows
  show ?thesis by (simp add: new_risk_engine_def loss_streak_def)
qed

end
