(* ===== verification/Candles.thy ===== *)
theory Candles
  imports Models
begin

text \<open>
  Candle timing, \<^verbatim>\<open>src/src/analysis/candles.py\<close>: the duration a timeframe string names,
  the split of a series into closed bars and the still-forming one, and the close time of
  a bar.

  A string is a list of \<^typ>\<open>char\<close> (code points up to 255), so the regular expression's
  \<^verbatim>\<open>\d\<close> is the ten ASCII digits. A duration is in microseconds; the \<^verbatim>\<open>OverflowError\<close> of
  a \<^verbatim>\<open>timedelta\<close> beyond a billion days is outside the model.
\<close>

section \<open>Timeframe strings\<close>

definition is_space :: "char \<Rightarrow> bool" where
  "is_space c = (let n = of_char c :: nat
                 in (9 \<le> n \<and> n \<le> 13) \<or> (28 \<le> n \<and> n \<le> 32) \<or> n = 133 \<or> n = 160)"

definition strip :: "string \<Rightarrow> string" where
  "strip s = rev (dropWhile is_space (rev (dropWhile is_space s)))"

definition is_digit :: "char \<Rightarrow> bool" where
  "is_digit c = (let n = of_char c :: nat in 48 \<le> n \<and> n \<le> 57)"

definition digits_value :: "string \<Rightarrow> int" where
  "digits_value ds = foldl (\<lambda>n c. 10 * n + (of_char c - 48)) 0 ds"

fun unit_seconds :: "char \<Rightarrow> int option" where
  "unit_seconds c =
     (if c = CHR ''m'' then Some 60
      else if c = CHR ''h'' then Some 3600
      else if c = CHR ''d'' then Some 86400
      else if c = CHR ''w'' then Some 604800
      else None)"

text \<open>The match of \<^verbatim>\<open>^(\d+)([mhdw])$\<close> on the stripped text.\<close>

definition match_timeframe :: "string \<Rightarrow> (string \<times> char) option" where
  "match_timeframe s =
     (case rev s of
        [] \<Rightarrow> None
      | u # ds \<Rightarrow> if ds \<noteq> [] \<and> list_all is_digit ds \<and> unit_seconds u \<noteq> None
                  then Some (rev ds, u) else None)"

definition timeframe_delta :: "string \<Rightarrow> timedelta option" where
  "timeframe_delta timeframe =
     (case (if timeframe = [] then None else match_timeframe (strip timeframe)) of
        None \<Rightarrow> None
      | Some (digits, u) \<Rightarrow>
          if digits_value digits \<le> 0 then None
          else Some (digits_value digits * the (unit_seconds u) * second_us))"

section \<open>Closed and forming bars\<close>

definition split_forming ::
  "ohlcv list \<Rightarrow> string \<Rightarrow> instant \<Rightarrow> ohlcv list \<times> ohlcv option" where
  "split_forming candles timeframe now =
     (if candles = [] then (candles, None)
      else case (timeframe_delta timeframe, c_timestamp (last candles)) of
             (Some duration, Some ts) \<Rightarrow>
               if ts + duration > now then (butlast candles, Some (last candles))
               else (candles, None)
           | _ \<Rightarrow> (candles, None))"

definition bar_close_time :: "ohlcv \<Rightarrow> string \<Rightarrow> instant option" where
  "bar_close_time candle timeframe =
     (case (timeframe_delta timeframe, c_timestamp candle) of
        (Some duration, Some ts) \<Rightarrow> Some (ts + duration)
      | _ \<Rightarrow> None)"

section \<open>Lemmas\<close>

lemma digits_value_snoc: "digits_value (ds @ [c]) = 10 * digits_value ds + (of_char c - 48)"
  by (simp add: digits_value_def)

lemma unit_seconds_pos: "unit_seconds u = Some k \<Longrightarrow> 0 < k"
  by (auto split: if_splits)

declare unit_seconds.simps [simp del]

lemma timeframe_delta_pos: "timeframe_delta tf = Some d \<Longrightarrow> 0 < d"
  using unit_seconds_pos
  by (auto simp: timeframe_delta_def match_timeframe_def split: option.splits if_splits list.splits)

lemma split_forming_append:
  "split_forming candles tf now = (xs, f) \<Longrightarrow> candles = xs @ (case f of None \<Rightarrow> [] | Some c \<Rightarrow> [c])"
  by (auto simp: split_forming_def split: if_splits option.splits prod.splits)

text \<open>Printing a count, to state that every printed timeframe is read back.\<close>

fun show_nat :: "nat \<Rightarrow> string" where
  "show_nat n = (if n < 10 then [char_of (n + 48)]
                 else show_nat (n div 10) @ [char_of (n mod 10 + 48)])"

declare show_nat.simps [simp del]

lemma digit_char:
  "k < 10 \<Longrightarrow> is_digit (char_of (k + 48 :: nat)) \<and> (of_char (char_of (k + 48 :: nat)) :: int) = int k + 48"
  using of_nat_of_char [of "char_of (k + 48 :: nat)", where 'a = int] by (simp add: is_digit_def Let_def)

lemma show_nat_digits: "show_nat n \<noteq> [] \<and> list_all is_digit (show_nat n)"
proof (induction n rule: show_nat.induct)
  case (1 n)
  then show ?case using digit_char [of n] digit_char [of "n mod 10"]
    by (subst (1 2) show_nat.simps) auto
qed

lemma show_nat_value: "digits_value (show_nat n) = int n"
proof (induction n rule: show_nat.induct)
  case (1 n)
  show ?case
  proof (cases "n < 10")
    case True
    then show ?thesis using digit_char [of n] by (subst show_nat.simps) (simp add: digits_value_def)
  next
    case False
    with 1 digit_char [of "n mod 10"] show ?thesis
      by (subst show_nat.simps) (simp add: digits_value_snoc zdiv_int zmod_int)
  qed
qed

lemma digit_not_space: "is_digit c \<Longrightarrow> \<not> is_space c"
  by (auto simp: is_digit_def is_space_def Let_def)

lemma strip_id: "s \<noteq> [] \<Longrightarrow> \<not> is_space (hd s) \<Longrightarrow> \<not> is_space (last s) \<Longrightarrow> strip s = s"
  using dropWhile_eq_self_iff [of is_space s] dropWhile_eq_self_iff [of is_space "rev s"]
  by (simp add: strip_def hd_rev)

lemma unit_not_space: "unit_seconds u \<noteq> None \<Longrightarrow> \<not> is_space u"
  by (auto simp: unit_seconds.simps is_space_def Let_def split: if_splits)


lemma split_forming_closed:
  assumes "timeframe_delta tf = Some d" and "split_forming candles tf now = (xs, f)"
    and "\<And>i. Suc i < length candles \<Longrightarrow> \<exists>t u. c_timestamp (candles ! i) = Some t
      \<and> c_timestamp (candles ! Suc i) = Some u \<and> t + d \<le> u"
    and "candles \<noteq> []" and "c_timestamp (last candles) = Some te" and "te \<le> now"
    and "c \<in> set xs"
  shows "\<exists>close. bar_close_time c tf = Some close \<and> close \<le> now"
proof -
  let ?n = "length candles"
  have last: "last candles = candles ! (?n - 1)" using assms(4) by (rule last_conv_nth)
  have later: "\<exists>t. c_timestamp (candles ! i) = Some t \<and> t + d \<le> te" if "Suc i < ?n" for i
    using that
  proof (induction "?n - Suc (Suc i)" arbitrary: i)
    case 0
    then have "Suc i = ?n - 1" by simp
    with assms(3) [of i] assms(5) 0(2) last show ?case by auto
  next
    case (Suc k)
    then have "k = ?n - Suc (Suc (Suc i))" "Suc (Suc i) < ?n" by simp_all
    from Suc(1) [OF this] assms(3) [OF Suc(3)] timeframe_delta_pos [OF assms(1)] show ?case by auto
  qed
  have "f = None \<longrightarrow> te + d \<le> now"
    using assms(1,2,4,5) by (auto simp: split_forming_def split: if_splits)
  moreover from assms(7) obtain i where i: "i < length xs" "c = xs ! i" by (auto simp: in_set_conv_nth)
  moreover note split_forming_append [OF assms(2)]
  ultimately have "c = candles ! i \<and> (Suc i < ?n \<or> Suc i = ?n \<and> te + d \<le> now)"
    by (auto simp: nth_append split: option.splits)
  then consider "Suc i < ?n" "c = candles ! i" | "i = ?n - 1" "c = candles ! i" "te + d \<le> now"
    by fastforce
  then show ?thesis
    using later [of i] assms(1,5,6) last by cases (auto simp: bar_close_time_def)
qed

section \<open>Properties\<close>

text \<open>No look-ahead: in a series of bars at least one timeframe apart whose last bar has opened,
  every bar that split_forming counts as closed has a close time that has passed, and the
  closed bars followed by the forming one are the whole series.\<close>

theorem closed_bars_have_closed:
  assumes "timeframe_delta tf = Some d" and "split_forming candles tf now = (xs, forming)"
    and "\<forall>i. Suc i < length candles \<longrightarrow> (\<exists>t u. c_timestamp (candles ! i) = Some t
      \<and> c_timestamp (candles ! Suc i) = Some u \<and> t + d \<le> u)"
    and "candles \<noteq> []" and "c_timestamp (last candles) = Some te" and "te \<le> now"
  shows "(\<forall>c\<in>set xs. \<exists>close. bar_close_time c tf = Some close \<and> close \<le> now)
    \<and> candles = xs @ (case forming of None \<Rightarrow> [] | Some c \<Rightarrow> [c])
    \<and> (\<forall>c. forming = Some c \<longrightarrow> (\<exists>close. bar_close_time c tf = Some close \<and> now < close))"
proof -
  have "\<forall>c\<in>set xs. \<exists>close. bar_close_time c tf = Some close \<and> close \<le> now"
    using split_forming_closed [OF assms(1,2) _ assms(4-6)] assms(3) by blast
  moreover have "\<forall>c. forming = Some c \<longrightarrow> (\<exists>close. bar_close_time c tf = Some close \<and> now < close)"
    using assms(1,2,4,5) by (auto simp: split_forming_def bar_close_time_def split: if_splits)
  ultimately show ?thesis using split_forming_append [OF assms(2)] by simp
qed

definition demo_bar :: "instant \<Rightarrow> ohlcv" where
  "demo_bar t = \<lparr>c_timestamp = Some t, c_open = 1, c_high = 1, c_low = 1, c_close = 1, c_volume = 1\<rparr>"

lemma timeframe_1h: "timeframe_delta ''1h'' = Some hour_us"
  by code_simp

theorem closed_bars_have_closed_witness:
  "\<exists>xs f. split_forming [demo_bar 0, demo_bar hour_us] ''1h'' (hour_us + 5) = (xs, f)
     \<and> (\<forall>c\<in>set xs. \<exists>close. bar_close_time c ''1h'' = Some close \<and> close \<le> hour_us + 5)"
  using closed_bars_have_closed [OF timeframe_1h, of "[demo_bar 0, demo_bar hour_us]" "hour_us + 5" _ _ hour_us]
  by (cases "split_forming [demo_bar 0, demo_bar hour_us] ''1h'' (hour_us + 5)")
    (auto simp: demo_bar_def)

text \<open>Timeframe strings are read back: a positive count printed in decimal, followed by one
  of the units m, h, d, w (and no space around it), names exactly count times
  the unit; a zero count names no duration.\<close>

theorem timeframe_delta_reads_printed:
  assumes "unit_seconds u = Some k"
  shows "timeframe_delta (show_nat n @ [u]) = (if n = 0 then None else Some (int n * k * second_us))"
proof -
  have "strip (show_nat n @ [u]) = show_nat n @ [u]"
  proof (rule strip_id)
    have "is_digit (hd (show_nat n))" using show_nat_digits [of n] by (cases "show_nat n") auto
    then show "\<not> is_space (hd (show_nat n @ [u]))" using show_nat_digits [of n] digit_not_space by simp
    show "\<not> is_space (last (show_nat n @ [u]))" using unit_not_space [of u] assms by simp
  qed simp
  then show ?thesis
    using show_nat_digits [of n] show_nat_value [of n] assms
    by (simp add: timeframe_delta_def match_timeframe_def list_all_rev)
qed

theorem timeframe_delta_reads_printed_witness:
  "timeframe_delta (show_nat 15 @ ''m'') = Some (15 * 60 * second_us)"
  using timeframe_delta_reads_printed [of "CHR ''m''" 60 15] by (simp add: unit_seconds.simps)

end
