(* ===== verification/Sleeves.thy ===== *)
theory Sleeves
  imports Rehydration Candles
begin

text \<open>
  Strategy sleeves: \<^verbatim>\<open>src/src/core/sleeves.py\<close>, with the sleeve configuration of
  \<^verbatim>\<open>src/src/core/config.py\<close> and the tightening directions of
  \<^verbatim>\<open>src/src/core/control_config.py\<close>.

  Risk engines are shared objects: a sleeve's engine is the one its own pipeline gates on,
  and the agent's engine is the backstop. They live in a store, a map from references to
  engines, and everything that mentions an engine holds a reference. The \<^verbatim>\<open>risk:\<close> block of
  a sleeve is a list of assignments, one constructor of \<open>risk_override\<close> per field.
  The executor's ledger hooks are arguments (\<open>None\<close> when the executor has none).
\<close>

type_synonym engine_ref = nat
type_synonym engines = "engine_ref \<Rightarrow> risk_engine"

section \<open>Configuration\<close>

datatype risk_override =
    O_max_position_pct real
  | O_daily_loss_limit_pct real
  | O_max_drawdown_pct real
  | O_consecutive_losses_cooldown_minutes int
  | O_consecutive_losses_threshold int
  | O_max_open_positions int
  | O_min_confidence real
  | O_max_stop_distance_pct real
  | O_risk_per_trade_pct real
  | O_enforce_exit_levels bool
  | O_event_guard_enabled bool
  | O_event_blackout_before_minutes int
  | O_event_blackout_after_minutes int
  | O_event_guard_min_importance event_importance
  | O_earnings_blackout_days_before int
  | O_earnings_blackout_hours_after int
  | O_delisting_blackout_days int

fun set_risk_field :: "risk_override \<Rightarrow> risk_settings \<Rightarrow> risk_settings" where
  "set_risk_field (O_max_position_pct v) s = s\<lparr>rs_max_position_pct := v\<rparr>"
| "set_risk_field (O_daily_loss_limit_pct v) s = s\<lparr>rs_daily_loss_limit_pct := v\<rparr>"
| "set_risk_field (O_max_drawdown_pct v) s = s\<lparr>rs_max_drawdown_pct := v\<rparr>"
| "set_risk_field (O_consecutive_losses_cooldown_minutes v) s =
     s\<lparr>rs_consecutive_losses_cooldown_minutes := v\<rparr>"
| "set_risk_field (O_consecutive_losses_threshold v) s = s\<lparr>rs_consecutive_losses_threshold := v\<rparr>"
| "set_risk_field (O_max_open_positions v) s = s\<lparr>rs_max_open_positions := v\<rparr>"
| "set_risk_field (O_min_confidence v) s = s\<lparr>rs_min_confidence := v\<rparr>"
| "set_risk_field (O_max_stop_distance_pct v) s = s\<lparr>rs_max_stop_distance_pct := v\<rparr>"
| "set_risk_field (O_risk_per_trade_pct v) s = s\<lparr>rs_risk_per_trade_pct := v\<rparr>"
| "set_risk_field (O_enforce_exit_levels v) s = s\<lparr>rs_enforce_exit_levels := v\<rparr>"
| "set_risk_field (O_event_guard_enabled v) s = s\<lparr>rs_event_guard_enabled := v\<rparr>"
| "set_risk_field (O_event_blackout_before_minutes v) s = s\<lparr>rs_event_blackout_before_minutes := v\<rparr>"
| "set_risk_field (O_event_blackout_after_minutes v) s = s\<lparr>rs_event_blackout_after_minutes := v\<rparr>"
| "set_risk_field (O_event_guard_min_importance v) s = s\<lparr>rs_event_guard_min_importance := v\<rparr>"
| "set_risk_field (O_earnings_blackout_days_before v) s = s\<lparr>rs_earnings_blackout_days_before := v\<rparr>"
| "set_risk_field (O_earnings_blackout_hours_after v) s = s\<lparr>rs_earnings_blackout_hours_after := v\<rparr>"
| "set_risk_field (O_delisting_blackout_days v) s = s\<lparr>rs_delisting_blackout_days := v\<rparr>"

record sleeve_spec =
  sl_name :: string
  sl_timeframe :: string
  sl_playbook :: string
  sl_holding :: "(string, real) dict"
  sl_weight :: "real option"
  sl_risk :: "risk_override list"

definition max_holding_hours :: "sleeve_spec \<Rightarrow> real option" where
  "max_holding_hours spec =
     (case map_of (sl_holding spec) ''max_hours'' of
        Some h \<Rightarrow> Some h
      | None \<Rightarrow> (case map_of (sl_holding spec) ''max_days'' of
                  Some d \<Rightarrow> Some (d * 24) | None \<Rightarrow> None))"

definition is_lower :: "char \<Rightarrow> bool" where
  "is_lower c = (let n = of_char c :: nat in 97 \<le> n \<and> n \<le> 122)"

text \<open>\<^verbatim>\<open>^[a-z][a-z0-9_]{0,19}$\<close>; the dollar sign also matches before a final newline.\<close>

definition sleeve_name_ok :: "string \<Rightarrow> bool" where
  "sleeve_name_ok name =
     (case (if name \<noteq> [] \<and> last name = CHR 0x0A then butlast name else name) of
        [] \<Rightarrow> False
      | c # cs \<Rightarrow> is_lower c \<and> length cs \<le> 19
                  \<and> list_all (\<lambda>x. is_lower x \<or> is_digit x \<or> x = CHR ''_'') cs)"

definition check_sleeve_spec :: "sleeve_spec \<Rightarrow> py_error + sleeve_spec" where
  "check_sleeve_spec spec =
     (if \<not> sleeve_name_ok (sl_name spec) then Inl ValueError
      else if timeframe_delta (sl_timeframe spec) = None then Inl ValueError
      else if sl_playbook spec \<notin> {''swing'', ''position'', ''test''} then Inl ValueError
      else if \<not> fst ` set (sl_holding spec) \<subseteq> {''max_hours'', ''max_days''} then Inl ValueError
      else if length (sl_holding spec) > 1 then Inl ValueError
      else if (case max_holding_hours spec of Some h \<Rightarrow> h \<le> 0 | None \<Rightarrow> False) then Inl ValueError
      else if (case sl_weight spec of Some w \<Rightarrow> \<not> (0 < w \<and> w \<le> 1) | None \<Rightarrow> False) then Inl ValueError
      else if \<exists>ov\<in>set (sl_risk spec). (case ov of O_enforce_exit_levels _ \<Rightarrow> True | _ \<Rightarrow> False)
      then Inl ValueError
      else Inr spec)"

record sleeves_settings =
  ss_enabled :: bool
  ss_backstop_max_drawdown_pct :: real
  ss_strategies :: "sleeve_spec list"

definition check_sleeves_settings :: "sleeves_settings \<Rightarrow> py_error + sleeves_settings" where
  "check_sleeves_settings ss =
     (let specs = ss_strategies ss; weights = map sl_weight specs
      in if \<not> (0 < ss_backstop_max_drawdown_pct ss \<and> ss_backstop_max_drawdown_pct ss < 1)
         then Inl ValueError
         else if ss_enabled ss \<and> specs = [] then Inl ValueError
         else if specs \<noteq> [] \<and> (\<exists>w\<in>set weights. w \<noteq> None) \<and> (\<exists>w\<in>set weights. w = None)
         then Inl ValueError
         else if specs \<noteq> [] \<and> (\<exists>w\<in>set weights. w \<noteq> None)
                 \<and> (\<Sum>w\<leftarrow>List.map_filter (\<lambda>w. w) weights. w) > 1 + 1 / 10 ^ 9
         then Inl ValueError
         else Inr (ss\<lparr>ss_strategies :=
                map (\<lambda>s. if sl_weight s = None then s\<lparr>sl_weight := Some (1 / real (length specs))\<rparr> else s)
                  specs\<rparr>))"

definition settings_get :: "sleeves_settings \<Rightarrow> string option \<Rightarrow> sleeve_spec option" where
  "settings_get ss name =
     (case name of None \<Rightarrow> None | Some n \<Rightarrow> find (\<lambda>s. sl_name s = n) (ss_strategies ss))"

section \<open>Effective risk limits\<close>

text \<open>The ceiling an operator's live tightening puts on one field.\<close>

definition cap_le :: "'a::linorder \<Rightarrow> 'a \<Rightarrow> 'a \<Rightarrow> 'a" where
  "cap_le base_value live_value v = (if live_value \<noteq> base_value then min v live_value else v)"

definition cap_ge :: "'a::linorder \<Rightarrow> 'a \<Rightarrow> 'a \<Rightarrow> 'a" where
  "cap_ge base_value live_value v = (if live_value \<noteq> base_value then max v live_value else v)"

definition sleeve_risk_settings ::
  "risk_settings \<Rightarrow> risk_settings \<Rightarrow> risk_override list \<Rightarrow> py_error + risk_settings" where
  "sleeve_risk_settings base live overrides =
     (let v = fold set_risk_field overrides base
      in check_risk_settings (v\<lparr>
        rs_max_position_pct := cap_le (rs_max_position_pct base) (rs_max_position_pct live) (rs_max_position_pct v),
        rs_daily_loss_limit_pct :=
          cap_le (rs_daily_loss_limit_pct base) (rs_daily_loss_limit_pct live) (rs_daily_loss_limit_pct v),
        rs_max_drawdown_pct := cap_le (rs_max_drawdown_pct base) (rs_max_drawdown_pct live) (rs_max_drawdown_pct v),
        rs_max_open_positions :=
          cap_le (rs_max_open_positions base) (rs_max_open_positions live) (rs_max_open_positions v),
        rs_min_confidence := cap_ge (rs_min_confidence base) (rs_min_confidence live) (rs_min_confidence v),
        rs_consecutive_losses_cooldown_minutes :=
          cap_ge (rs_consecutive_losses_cooldown_minutes base) (rs_consecutive_losses_cooldown_minutes live)
            (rs_consecutive_losses_cooldown_minutes v)\<rparr>))"

section \<open>The sleeve book\<close>

record allocation =
  a_base_equity :: real
  a_weights :: "(string, real) dict"
  a_created_at :: instant

record sleeve_equity_book =
  se_strategy :: string
  se_portfolio :: portfolio_state
  se_realized_pnl :: real
  se_unrealized_pnl :: real

definition se_equity :: "sleeve_equity_book \<Rightarrow> real" where
  "se_equity b = total_value (se_portfolio b)"

record ownership =
  ow_strategy :: string
  ow_opened_at :: "instant option"

record sleeve_book =
  sb_settings :: sleeves_settings
  sb_decision_meta :: "(int, string option \<times> instant option) dict"
  sb_engines :: "(string, engine_ref) dict"
  sb_backstop_engine :: "engine_ref option"
  sb_allocation :: "allocation option"

definition new_sleeve_book ::
  "sleeves_settings \<Rightarrow> (string, engine_ref) dict \<Rightarrow> engine_ref option \<Rightarrow> py_error + sleeve_book" where
  "new_sleeve_book ss engs backstop =
     (if ss_strategies ss = [] then Inl ValueError
      else Inr \<lparr>sb_settings = ss, sb_decision_meta = [], sb_engines = engs,
                sb_backstop_engine = backstop, sb_allocation = None\<rparr>)"

definition per_sleeve_books :: "sleeve_book \<Rightarrow> bool" where
  "per_sleeve_books b = (sb_allocation b \<noteq> None)"

definition sb_default :: "sleeve_book \<Rightarrow> string" where
  "sb_default b = sl_name (hd (ss_strategies (sb_settings b)))"

definition sb_names :: "sleeve_book \<Rightarrow> string list" where
  "sb_names b = map sl_name (ss_strategies (sb_settings b))"

definition sb_spec :: "sleeve_book \<Rightarrow> string option \<Rightarrow> sleeve_spec" where
  "sb_spec b name =
     (case settings_get (sb_settings b) name of
        Some s \<Rightarrow> s | None \<Rightarrow> hd (ss_strategies (sb_settings b)))"

definition sb_engine :: "sleeve_book \<Rightarrow> string option \<Rightarrow> engine_ref option" where
  "sb_engine b name = map_of (sb_engines b) (sl_name (sb_spec b name))"

text \<open>\<^verbatim>\<open>dict.fromkeys\<close>: the distinct elements in first-occurrence order.\<close>

definition fromkeys :: "'a list \<Rightarrow> 'a list" where
  "fromkeys xs = rev (remdups (rev xs))"

definition load_meta :: "faults \<Rightarrow> storage \<Rightarrow> int list \<Rightarrow> sleeve_book \<Rightarrow> py_error + sleeve_book" where
  "load_meta flt st ids b =
     (let missing = filter (\<lambda>i. map_of (sb_decision_meta b) i = None) (fromkeys ids)
      in if missing = [] then Inr b
         else case attempt flt C_get_decision_strategies (get_decision_strategies st missing) of
                Inl e \<Rightarrow> Inl e
              | Inr found \<Rightarrow>
                  Inr (b\<lparr>sb_decision_meta :=
                    fold (\<lambda>i d. AList.update i (case map_of found i of None \<Rightarrow> (None, None) | Some m \<Rightarrow> m) d)
                      missing (sb_decision_meta b)\<rparr>))"

definition meta_of :: "sleeve_book \<Rightarrow> int \<Rightarrow> string option \<times> instant option" where
  "meta_of b i = (case map_of (sb_decision_meta b) i of None \<Rightarrow> (None, None) | Some m \<Rightarrow> m)"

definition py_or :: "string option \<Rightarrow> string \<Rightarrow> string" where
  "py_or v d = (case v of None \<Rightarrow> d | Some x \<Rightarrow> if x = [] then d else x)"

fun owner_scan ::
  "sleeve_book \<Rightarrow> int list \<Rightarrow> string option \<Rightarrow> instant option \<Rightarrow> string option \<times> instant option" where
  "owner_scan b [] strategy opened_at = (strategy, opened_at)"
| "owner_scan b (i # is) strategy opened_at =
     (let (name, ts) = meta_of b i
      in owner_scan b is
           (if strategy = None \<and> settings_get (sb_settings b) name \<noteq> None then name else strategy)
           (if opened_at = None then ts else opened_at))"

type_synonym ledger_hook = "(symbol \<Rightarrow> int option list) option"

definition hook_ids :: "ledger_hook \<Rightarrow> symbol \<Rightarrow> int option list" where
  "hook_ids hook s = (case hook of None \<Rightarrow> [] | Some f \<Rightarrow> f s)"

definition sb_ownership ::
  "faults \<Rightarrow> storage \<Rightarrow> ledger_hook \<Rightarrow> ledger_hook \<Rightarrow> position list \<Rightarrow> symbol \<Rightarrow> sleeve_book \<Rightarrow>
   py_error + sleeve_book \<times> ownership option" where
  "sb_ownership flt st entry_hook pending_hook positions s b =
     (if \<not> (\<exists>p\<in>set positions. p_symbol p = s \<and> p_quantity p > 0)
      then let pending = hook_ids pending_hook s
           in if pending = [] then Inr (b, None)
              else let ids = List.map_filter (\<lambda>i. i) pending
                   in case load_meta flt st ids b of
                        Inl e \<Rightarrow> Inl e
                      | Inr b1 \<Rightarrow>
                          let known = find (\<lambda>n. settings_get (sb_settings b1) n \<noteq> None)
                                        (map (fst \<circ> meta_of b1) ids)
                          in Inr (b1, Some \<lparr>ow_strategy =
                               py_or (case known of None \<Rightarrow> None | Some n \<Rightarrow> n) (sb_default b1),
                               ow_opened_at = None\<rparr>)
      else let ids = List.map_filter (\<lambda>i. i) (hook_ids entry_hook s)
           in case load_meta flt st ids b of
                Inl e \<Rightarrow> Inl e
              | Inr b1 \<Rightarrow>
                  let (strategy, opened_at) = owner_scan b1 ids None None
                  in Inr (b1, Some \<lparr>ow_strategy = py_or strategy (sb_default b1),
                                    ow_opened_at = opened_at\<rparr>))"

fun owners_loop ::
  "faults \<Rightarrow> storage \<Rightarrow> ledger_hook \<Rightarrow> ledger_hook \<Rightarrow> position list \<Rightarrow> symbol list \<Rightarrow>
   (symbol, string) dict \<Rightarrow> sleeve_book \<Rightarrow> py_error + sleeve_book \<times> (symbol, string) dict" where
  "owners_loop flt st eh ph positions [] owners b = Inr (b, owners)"
| "owners_loop flt st eh ph positions (s # ss) owners b =
     (case sb_ownership flt st eh ph positions s b of
        Inl e \<Rightarrow> Inl e
      | Inr (b1, None) \<Rightarrow> owners_loop flt st eh ph positions ss owners b1
      | Inr (b1, Some ow) \<Rightarrow>
          owners_loop flt st eh ph positions ss (AList.update s (ow_strategy ow) owners) b1)"

definition sb_owners ::
  "faults \<Rightarrow> storage \<Rightarrow> ledger_hook \<Rightarrow> ledger_hook \<Rightarrow> position list \<Rightarrow> sleeve_book \<Rightarrow>
   py_error + sleeve_book \<times> (symbol, string) dict" where
  "sb_owners flt st eh ph positions0 b =
     (let positions = filter (\<lambda>p. p_quantity p > 0) positions0
      in owners_loop flt st eh ph positions (fromkeys (map p_symbol positions)) [] b)"

definition strategy_of_decision ::
  "faults \<Rightarrow> storage \<Rightarrow> int option \<Rightarrow> sleeve_book \<Rightarrow> py_error + sleeve_book \<times> string" where
  "strategy_of_decision flt st did b =
     (case did of
        None \<Rightarrow> Inr (b, sb_default b)
      | Some i \<Rightarrow>
          (case load_meta flt st [i] b of
             Inl e \<Rightarrow> Inl e
           | Inr b1 \<Rightarrow>
               let name = fst (meta_of b1 i)
               in Inr (b1, if settings_get (sb_settings b1) name \<noteq> None then the name
                           else sb_default b1)))"


section \<open>Time stops\<close>

text \<open>\<^verbatim>\<open>timedelta(hours=h)\<close>, to the nearest microsecond.\<close>

definition timedelta_hours :: "real \<Rightarrow> timedelta" where
  "timedelta_hours h = round (h * of_int hour_us)"

definition time_stop_due :: "sleeve_book \<Rightarrow> ownership \<Rightarrow> instant \<Rightarrow> bool" where
  "time_stop_due b ow now =
     (case (max_holding_hours (sb_spec b (Some (ow_strategy ow))), ow_opened_at ow) of
        (Some max_hours, Some opened_at) \<Rightarrow> now - opened_at \<ge> timedelta_hours max_hours
      | _ \<Rightarrow> False)"

definition held_hours :: "ownership \<Rightarrow> instant \<Rightarrow> real option" where
  "held_hours ow now =
     (case ow_opened_at ow of
        None \<Rightarrow> None
      | Some opened_at \<Rightarrow> Some (max 0 (of_int (now - opened_at) / of_int hour_us)))"

section \<open>Per-sleeve books\<close>

definition dict_eq :: "('k, 'v) dict \<Rightarrow> ('k, 'v) dict \<Rightarrow> bool" where
  "dict_eq a b \<longleftrightarrow> (\<forall>(k, v)\<in>set a. map_of b k = Some v) \<and> (\<forall>(k, v)\<in>set b. map_of a k = Some v)"

definition configured_weights :: "sleeve_book \<Rightarrow> (string, real) dict" where
  "configured_weights b =
     fold (\<lambda>spec d. AList.update (sl_name spec) (case sl_weight spec of None \<Rightarrow> 0 | Some w \<Rightarrow> w) d)
       (ss_strategies (sb_settings b)) []"

definition allocation_of :: "allocation_row \<Rightarrow> allocation" where
  "allocation_of row =
     \<lparr>a_base_equity = al_base_equity row, a_weights = al_weights row, a_created_at = al_created_at row\<rparr>"

definition ensure_allocation ::
  "faults \<Rightarrow> storage \<Rightarrow> instant \<Rightarrow> portfolio_state \<Rightarrow> sleeve_book \<Rightarrow>
   py_error + storage \<times> sleeve_book" where
  "ensure_allocation flt st now pf b =
     (let weights = configured_weights b
      in case attempt flt C_get_latest_allocation (get_latest_allocation st None) of
           Inl e \<Rightarrow> Inl e
         | Inr row \<Rightarrow>
             if (case row of None \<Rightarrow> True | Some r \<Rightarrow> \<not> dict_eq (al_weights r) weights)
             then let base = pf_cash pf + pf_pending_value pf + (\<Sum>p\<leftarrow>pf_positions pf. cost_basis p);
                      why = (if row = None then ''initial'' else ''weights_changed'');
                      (st1, row1) = record_allocation st now base weights why
                  in (case attempt flt C_record_allocation (st1, row1) of
                        Inl e \<Rightarrow> Inl e
                      | Inr _ \<Rightarrow> Inr (st1, b\<lparr>sb_allocation := Some (allocation_of row1)\<rparr>))
             else Inr (st, b\<lparr>sb_allocation := map_option allocation_of row\<rparr>))"

text \<open>Two parts of \<^verbatim>\<open>sleeve_equity\<close>: the owned positions, and the book made of them.\<close>

definition owned_by :: "(symbol, string) dict \<Rightarrow> string \<Rightarrow> position list \<Rightarrow> position list" where
  "owned_by owners name positions =
     filter (\<lambda>p. p_quantity p > 0 \<and> map_of owners (p_symbol p) = Some name) positions"

definition sleeve_book_of ::
  "allocation \<Rightarrow> string \<Rightarrow> real \<Rightarrow> position list \<Rightarrow> sleeve_equity_book" where
  "sleeve_book_of al name realized owned =
     (let unrealized = (\<Sum>p\<leftarrow>owned. pnl p);
          equity = (case map_of (a_weights al) name of None \<Rightarrow> 0 | Some w \<Rightarrow> w) * a_base_equity al
                   + realized + unrealized;
          market_value = (\<Sum>p\<leftarrow>owned. position_value p)
      in \<lparr>se_strategy = name,
          se_portfolio = \<lparr>pf_cash = equity - market_value, pf_positions = owned, pf_pending_value = 0\<rparr>,
          se_realized_pnl = realized, se_unrealized_pnl = unrealized\<rparr>)"

definition sleeve_equity ::
  "faults \<Rightarrow> storage \<Rightarrow> ledger_hook \<Rightarrow> ledger_hook \<Rightarrow> string \<Rightarrow> portfolio_state \<Rightarrow>
   (symbol, string) dict option \<Rightarrow> sleeve_book \<Rightarrow> py_error + sleeve_book \<times> sleeve_equity_book" where
  "sleeve_equity flt st eh ph name pf owners b =
     (case sb_allocation b of
        None \<Rightarrow> Inl (RuntimeError ''sleeve allocation not loaded'')
      | Some al \<Rightarrow>
          (case (case owners of Some o' \<Rightarrow> Inr (b, o') | None \<Rightarrow> sb_owners flt st eh ph (pf_positions pf) b) of
             Inl e \<Rightarrow> Inl e
           | Inr (b1, ow) \<Rightarrow>
               (case attempt flt (C_get_strategy_realized_pnl name)
                       (get_strategy_realized_pnl st name (a_created_at al) None) of
                  Inl e \<Rightarrow> Inl e
                | Inr realized \<Rightarrow>
                    Inr (b1, sleeve_book_of al name realized (owned_by ow name (pf_positions pf))))))"

definition sb_check_backstop :: "real \<Rightarrow> sleeve_book \<Rightarrow> engines \<Rightarrow> engines \<times> risk_result" where
  "sb_check_backstop v b engs =
     (case sb_backstop_engine b of
        None \<Rightarrow> (engs, approved)
      | Some r \<Rightarrow>
          (case check_backstop v (ss_backstop_max_drawdown_pct (sb_settings b)) (engs r) of
             (e, res) \<Rightarrow> (engs(r := e), res)))"

fun snapshot_loop ::
  "faults \<Rightarrow> instant \<Rightarrow> portfolio_state \<Rightarrow> (symbol, string) dict \<Rightarrow> string list \<Rightarrow> storage \<Rightarrow> sleeve_book \<Rightarrow>
   engines \<Rightarrow> sleeve_equity_book list \<Rightarrow> storage \<times> engines \<times> (py_error + sleeve_equity_book list)" where
  "snapshot_loop flt now pf owners [] st b engs books = (st, engs, Inr books)"
| "snapshot_loop flt now pf owners (name # names) st b engs books =
     (case sleeve_equity flt st None None name pf (Some owners) b of
        Inl e \<Rightarrow> (st, engs, Inl e)
      | Inr (b1, book) \<Rightarrow>
          let engs1 = (case map_of (sb_engines b) name of
                         None \<Rightarrow> engs
                       | Some r \<Rightarrow> engs(r := update_daily_value now (se_equity book) (engs r)));
              (st1, i) = save_sleeve_snapshot st now name (se_equity book) (pf_cash (se_portfolio book))
                           (se_equity book - pf_cash (se_portfolio book)) (se_realized_pnl book)
                           (se_unrealized_pnl book) (int (length (pf_positions (se_portfolio book))))
          in case attempt flt (C_save_sleeve_snapshot name) i of
               Inl e \<Rightarrow> (st, engs1, Inl e)
             | Inr _ \<Rightarrow> snapshot_loop flt now pf owners names st1 b1 engs1 (books @ [book]))"

definition record_snapshots ::
  "faults \<Rightarrow> instant \<Rightarrow> ledger_hook \<Rightarrow> ledger_hook \<Rightarrow> (py_error + portfolio_state) \<Rightarrow> storage \<Rightarrow>
   sleeve_book \<Rightarrow> engines \<Rightarrow> storage \<times> engines \<times> (py_error + sleeve_equity_book list)" where
  "record_snapshots flt now eh ph portfolio st b engs =
     (if sb_allocation b = None then (st, engs, Inr [])
      else case portfolio of
             Inl e \<Rightarrow> (st, engs, Inl e)
           | Inr pf \<Rightarrow>
               (case sb_owners flt st eh ph (pf_positions pf) b of
                  Inl e \<Rightarrow> (st, engs, Inl e)
                | Inr (b1, owners) \<Rightarrow> snapshot_loop flt now pf owners (sb_names b1) st b1 engs []))"

text \<open>\<^verbatim>\<open>restore\<close>: the peak is seeded before the daily baseline is read, so a failing second read
  keeps the seeded peak.\<close>

definition restore_engine ::
  "faults \<Rightarrow> storage \<Rightarrow> instant \<Rightarrow> instant option \<Rightarrow> string \<Rightarrow> risk_engine \<Rightarrow> risk_engine" where
  "restore_engine flt st now since name e =
     (let e1 =
        (case since of
           None \<Rightarrow> e
         | Some t \<Rightarrow>
             (case attempt flt (C_get_effective_sleeve_peak name) (get_effective_sleeve_peak st name t None) of
                Inl _ \<Rightarrow> e
              | Inr peak \<Rightarrow>
                  let e0 = seed_peak_equity peak e
                  in case attempt flt (C_get_first_sleeve_snapshot_of_day name)
                            (get_first_sleeve_snapshot_of_day st now name (Some t) None) of
                       Inr (Some row) \<Rightarrow> restore_daily_baseline now (sn_equity row) e0
                     | _ \<Rightarrow> e0))
      in rehydrate_loss_streak flt st (Some name) e1)"

definition sb_restore :: "faults \<Rightarrow> storage \<Rightarrow> instant \<Rightarrow> sleeve_book \<Rightarrow> engines \<Rightarrow> engines" where
  "sb_restore flt st now b engs =
     fold (\<lambda>(name, r) es. es(r := restore_engine flt st now (map_option a_created_at (sb_allocation b)) name (es r)))
       (sb_engines b) engs"

text \<open>\<^verbatim>\<open>apply_risk\<close>: an invalid combination raises; the engines before it have been updated.\<close>

fun apply_risk_loop ::
  "risk_settings \<Rightarrow> risk_settings \<Rightarrow> sleeve_book \<Rightarrow> (string \<times> engine_ref) list \<Rightarrow> engines \<Rightarrow>
   engines \<times> py_error option" where
  "apply_risk_loop base live b [] engs = (engs, None)"
| "apply_risk_loop base live b ((name, r) # rest) engs =
     (case sleeve_risk_settings base live (sl_risk (sb_spec b (Some name))) of
        Inl e \<Rightarrow> (engs, Some e)
      | Inr fresh \<Rightarrow> apply_risk_loop base live b rest (engs(r := (engs r)\<lparr>re_settings := fresh\<rparr>)))"

definition apply_risk ::
  "risk_settings \<Rightarrow> risk_settings \<Rightarrow> sleeve_book \<Rightarrow> engines \<Rightarrow> engines \<times> py_error option" where
  "apply_risk base live b engs = apply_risk_loop base live b (sb_engines b) engs"


section \<open>Lemmas\<close>

lemma se_equity_book:
  "se_equity (sleeve_book_of al name realized owned) =
     (case map_of (a_weights al) name of None \<Rightarrow> 0 | Some w \<Rightarrow> w) * a_base_equity al + realized
     + (\<Sum>p\<leftarrow>owned. pnl p)"
  by (simp add: se_equity_def sleeve_book_of_def total_value_def Let_def)

text \<open>Owned positions partition the book: summing over the sleeves counts every position once.\<close>

lemma sum_indicator:
  "distinct names \<Longrightarrow> n \<in> set names \<Longrightarrow> (\<Sum>x\<leftarrow>names. if x = n then v else 0) = (v :: real)"
proof (induction names)
  case (Cons x xs)
  show ?case
  proof (cases "x = n")
    case True
    with Cons.prems have "(\<Sum>y\<leftarrow>xs. if y = n then v else 0) = (\<Sum>y\<leftarrow>xs. 0)"
      by (intro arg_cong [where f = sum_list] map_cong) auto
    with True show ?thesis by simp
  next
    case False
    with Cons show ?thesis by simp
  qed
qed simp

lemma owned_by_Cons:
  "(\<Sum>p\<leftarrow>owned_by owners n (q # ps). f p) =
     (if p_quantity q > 0 \<and> map_of owners (p_symbol q) = Some n then f q else 0)
     + (\<Sum>p\<leftarrow>owned_by owners n ps. (f p :: real))"
  by (simp add: owned_by_def)

lemma owned_partition:
  assumes "distinct names"
    and "\<And>p. p \<in> set ps \<Longrightarrow> p_quantity p > 0 \<and> (\<exists>n\<in>set names. map_of owners (p_symbol p) = Some n)"
  shows "(\<Sum>n\<leftarrow>names. \<Sum>p\<leftarrow>owned_by owners n ps. f p) = (\<Sum>p\<leftarrow>ps. (f p :: real))"
  using assms(2)
proof (induction ps)
  case (Cons q ps)
  then obtain m where m: "p_quantity q > 0" "m \<in> set names" "map_of owners (p_symbol q) = Some m" by auto
  have "(\<Sum>n\<leftarrow>names. \<Sum>p\<leftarrow>owned_by owners n (q # ps). f p) =
      (\<Sum>n\<leftarrow>names. if n = m then f q else 0) + (\<Sum>n\<leftarrow>names. \<Sum>p\<leftarrow>owned_by owners n ps. f p)"
    unfolding owned_by_Cons m(3) using m(1) by (simp add: sum_list_addf eq_commute)
  with Cons sum_indicator [OF assms(1) m(2)] show ?case by simp
qed (simp add: owned_by_def)

lemma configured_weights_get:
  "distinct (sb_names b) \<Longrightarrow> spec \<in> set (ss_strategies (sb_settings b)) \<Longrightarrow>
   map_of (configured_weights b) (sl_name spec) = Some (case sl_weight spec of None \<Rightarrow> 0 | Some w \<Rightarrow> w)"
proof -
  let ?upd = "\<lambda>spec d. AList.update (sl_name spec) (case sl_weight spec of None \<Rightarrow> 0 | Some w \<Rightarrow> w) d"
  have other: "n \<notin> sl_name ` set specs \<Longrightarrow> map_of (fold ?upd specs d) n = map_of d n" for specs d n
    by (induction specs arbitrary: d) (auto simp: update_conv')
  have "distinct (map sl_name specs) \<Longrightarrow> spec \<in> set specs \<Longrightarrow>
      map_of (fold ?upd specs d) (sl_name spec) = Some (case sl_weight spec of None \<Rightarrow> 0 | Some w \<Rightarrow> w)"
    for specs d
    by (induction specs arbitrary: d) (auto simp: other update_conv')
  then show "distinct (sb_names b) \<Longrightarrow> spec \<in> set (ss_strategies (sb_settings b)) \<Longrightarrow> ?thesis"
    by (simp add: configured_weights_def sb_names_def)
qed

definition spec_weight :: "sleeve_spec \<Rightarrow> real" where
  "spec_weight spec = (case sl_weight spec of None \<Rightarrow> 0 | Some w \<Rightarrow> w)"

lemma weights_given:
  "\<forall>s\<in>set specs. sl_weight s \<noteq> None \<Longrightarrow>
   map (spec_weight \<circ> (\<lambda>s. if sl_weight s = None then f s else s)) specs =
     List.map_filter (\<lambda>w. w) (map sl_weight specs)"
  by (induction specs) (auto simp: spec_weight_def map_filter_simps)

lemma strategy_pnl_zero:
  assumes "\<And>r f. r \<in> set (db_orders (st_db st)) \<Longrightarrow> or_filled_at r = Some f \<Longrightarrow> f < t"
  shows "get_strategy_realized_pnl st name t None = 0"
proof -
  have "strategy_fills st name (Some t) None = []"
    using assms by (fastforce simp: strategy_fills_def filter_empty_conv split: option.splits)
  then show ?thesis by (simp add: get_strategy_realized_pnl_def map_filter_def)
qed

text \<open>Loading decision metadata changes nothing but the cache.\<close>

lemma load_meta_settings: "load_meta flt st ids b = Inr b' \<Longrightarrow> sb_settings b' = sb_settings b"
  by (auto simp: load_meta_def Let_def split: if_splits sum.splits)

lemma settings_get_name: "settings_get ss (Some n) = Some spec \<Longrightarrow> n \<in> sl_name ` set (ss_strategies ss)"
  by (auto simp: settings_get_def find_Some_iff)

lemma owner_scan_configured:
  "owner_scan b ids strat op = (strat', op') \<Longrightarrow>
   (\<And>n. strat = Some n \<Longrightarrow> n \<in> set (sb_names b)) \<Longrightarrow> strat' = Some n \<Longrightarrow> n \<in> set (sb_names b)"
proof (induction b ids strat op rule: owner_scan.induct)
  case (2 b i "is" strat op)
  obtain name ts where m: "meta_of b i = (name, ts)" by (cases "meta_of b i")
  show ?case
  proof (rule "2.IH" [OF m [symmetric] refl _ _ "2.prems"(3)])
    show "owner_scan b is (if strat = None \<and> settings_get (sb_settings b) name \<noteq> None then name else strat)
        (if op = None then ts else op) = (strat', op')"
      using "2.prems"(1) by (simp add: m)
    show "k \<in> set (sb_names b)"
      if "(if strat = None \<and> settings_get (sb_settings b) name \<noteq> None then name else strat) = Some k" for k
      using that "2.prems"(2) settings_get_name by (fastforce simp: sb_names_def split: if_splits)
  qed
qed simp

lemma py_or_mem: "(\<And>n. v = Some n \<Longrightarrow> n \<in> A) \<Longrightarrow> d \<in> A \<Longrightarrow> py_or v d \<in> A"
  by (auto simp: py_or_def split: option.splits)

lemma sb_default_mem: "ss_strategies (sb_settings b) \<noteq> [] \<Longrightarrow> sb_default b \<in> set (sb_names b)"
  by (simp add: sb_default_def sb_names_def)


text \<open>The two ways a symbol gets an owner: from the open lots of a held position, or from a
  working entry order of a flat symbol.\<close>

lemma ownership_held:
  assumes "sb_ownership flt st eh ph positions s b = Inr (b', owner)"
    and "\<exists>p\<in>set positions. p_symbol p = s \<and> 0 < p_quantity p"
    and "ss_strategies (sb_settings b) \<noteq> []"
  shows "\<exists>ow. owner = Some ow \<and> ow_strategy ow \<in> set (sb_names b)"
proof -
  let ?ids = "List.map_filter (\<lambda>i. i) (hook_ids eh s)"
  from assms(1,2) obtain b1 where b1: "load_meta flt st ?ids b = Inr b1"
    by (auto simp: sb_ownership_def Let_def split: sum.splits)
  note eq = load_meta_settings [OF b1]
  obtain strat opd where sc: "owner_scan b1 ?ids None None = (strat, opd)"
    by (cases "owner_scan b1 ?ids None None")
  have "Some \<lparr>ow_strategy = py_or strat (sb_default b1), ow_opened_at = opd\<rparr> = owner"
    using assms(1,2) b1 sc by (auto simp: sb_ownership_def Let_def)
  moreover have "py_or strat (sb_default b1) \<in> set (sb_names b)"
    using owner_scan_configured [OF sc] sb_default_mem [of b1] assms(3) eq
    by (intro py_or_mem) (simp_all add: sb_names_def)
  ultimately show ?thesis by auto
qed

lemma ownership_flat:
  assumes "sb_ownership flt st eh ph positions s b = Inr (b', Some ow)"
    and "\<not> (\<exists>p\<in>set positions. p_symbol p = s \<and> 0 < p_quantity p)"
    and "ss_strategies (sb_settings b) \<noteq> []"
  shows "ow_strategy ow \<in> set (sb_names b)"
proof -
  let ?ids = "List.map_filter (\<lambda>i. i) (hook_ids ph s)"
  from assms(1,2) obtain b1 where b1: "load_meta flt st ?ids b = Inr b1"
    by (auto simp: sb_ownership_def Let_def split: sum.splits if_splits)
  note eq = load_meta_settings [OF b1]
  define known where
    "known = find (\<lambda>n. settings_get (sb_settings b1) n \<noteq> None) (map (fst \<circ> meta_of b1) ?ids)"
  have "ow_strategy ow = py_or (case known of None \<Rightarrow> None | Some n \<Rightarrow> n) (sb_default b1)"
    using assms(1,2) b1 by (auto simp: sb_ownership_def Let_def known_def split: if_splits)
  also have "\<dots> \<in> set (sb_names b)"
    using sb_default_mem [of b1] assms(3) settings_get_name [of "sb_settings b1"] eq
    by (intro py_or_mem) (auto simp: known_def find_Some_iff sb_names_def split: option.splits)
  finally show ?thesis .
qed

section \<open>Properties\<close>

text \<open>Sleeve ownership is never an orphan: whatever the ledger hooks and the stored decisions
  say (unknown, renamed or missing sleeves included), a symbol with an open position has an
  owner, and every owner is one of the configured sleeves.\<close>

theorem ownership_is_configured:
  assumes "new_sleeve_book ss engs backstop = Inr b0" and "sb_settings b = ss"
    and "sb_ownership flt st entry_hook pending_hook positions s b = Inr (b', owner)"
  shows "(\<forall>ow. owner = Some ow \<longrightarrow> ow_strategy ow \<in> set (sb_names b))
    \<and> ((\<exists>p\<in>set positions. p_symbol p = s \<and> 0 < p_quantity p) \<longrightarrow> owner \<noteq> None)"
proof -
  have ne: "ss_strategies (sb_settings b) \<noteq> []"
    using assms(1,2) by (auto simp: new_sleeve_book_def split: if_splits)
  show ?thesis
  proof (cases "\<exists>p\<in>set positions. p_symbol p = s \<and> 0 < p_quantity p")
    case True
    from ownership_held [OF assms(3) this ne] show ?thesis by auto
  next
    case False
    from ownership_flat [OF _ False ne] assms(3) False show ?thesis by blast
  qed
qed

definition demo_spec :: "string \<Rightarrow> sleeve_spec" where
  "demo_spec name = \<lparr>sl_name = name, sl_timeframe = ''1h'', sl_playbook = ''swing'', sl_holding = [],
     sl_weight = Some (1/2), sl_risk = []\<rparr>"

definition demo_book :: sleeve_book where
  "demo_book = \<lparr>sb_settings = \<lparr>ss_enabled = True, ss_backstop_max_drawdown_pct = 1/5,
       ss_strategies = [demo_spec ''swing'', demo_spec ''pos'']\<rparr>,
     sb_decision_meta = [], sb_engines = [], sb_backstop_engine = None, sb_allocation = None\<rparr>"

definition demo_position :: position where
  "demo_position = \<lparr>p_symbol = ''BTC/EUR'', p_quantity = 2, p_avg_entry_price = 100,
     p_current_price = 110, p_side = LONG, p_stop_loss = None, p_take_profit = None\<rparr>"

theorem ownership_is_configured_witness:
  "\<exists>b' ow. sb_ownership no_faults demo_storage (Some (\<lambda>_. [Some 7])) None [demo_position] ''BTC/EUR'' demo_book
     = Inr (b', Some ow) \<and> ow_strategy ow \<in> {''swing'', ''pos''}"
proof -
  have n: "new_sleeve_book (sb_settings demo_book) [] None = Inr demo_book"
    by (simp add: new_sleeve_book_def demo_book_def)
  have e: "\<exists>b' owner. sb_ownership no_faults demo_storage (Some (\<lambda>_. [Some 7])) None [demo_position]
      ''BTC/EUR'' demo_book = Inr (b', owner)"
    by (simp add: sb_ownership_def load_meta_def demo_position_def attempt_def no_faults_def Let_def
        case_prod_beta)
  then obtain b' owner where e: "sb_ownership no_faults demo_storage (Some (\<lambda>_. [Some 7])) None
      [demo_position] ''BTC/EUR'' demo_book = Inr (b', owner)" by blast
  from ownership_is_configured [OF n refl e] e show ?thesis
    by (auto simp: demo_position_def demo_book_def sb_names_def demo_spec_def)
qed




text \<open>A sleeve's own risk block can never undo an operator's tightening: every limit that the
  live agent settings have moved away from the configured baseline bounds the sleeve's
  effective limit, whatever the sleeve overrides say.\<close>

theorem sleeve_limits_keep_tightening:
  assumes "sleeve_risk_settings base live overrides = Inr s"
  shows "(rs_max_position_pct live \<noteq> rs_max_position_pct base \<longrightarrow>
        rs_max_position_pct s \<le> rs_max_position_pct live)
    \<and> (rs_daily_loss_limit_pct live \<noteq> rs_daily_loss_limit_pct base \<longrightarrow>
        rs_daily_loss_limit_pct s \<le> rs_daily_loss_limit_pct live)
    \<and> (rs_max_drawdown_pct live \<noteq> rs_max_drawdown_pct base \<longrightarrow>
        rs_max_drawdown_pct s \<le> rs_max_drawdown_pct live)
    \<and> (rs_max_open_positions live \<noteq> rs_max_open_positions base \<longrightarrow>
        rs_max_open_positions s \<le> rs_max_open_positions live)
    \<and> (rs_min_confidence live \<noteq> rs_min_confidence base \<longrightarrow>
        rs_min_confidence live \<le> rs_min_confidence s)
    \<and> (rs_consecutive_losses_cooldown_minutes live \<noteq> rs_consecutive_losses_cooldown_minutes base \<longrightarrow>
        rs_consecutive_losses_cooldown_minutes live \<le> rs_consecutive_losses_cooldown_minutes s)"
  using assms
  by (auto simp: sleeve_risk_settings_def check_risk_settings_def Let_def cap_le_def cap_ge_def split: if_splits)

theorem sleeve_limits_keep_tightening_witness:
  "\<exists>s. sleeve_risk_settings default_risk_settings (default_risk_settings\<lparr>rs_max_position_pct := 5/100\<rparr>)
       [O_max_position_pct (50/100)] = Inr s \<and> rs_max_position_pct s \<le> 5/100"
proof -
  let ?live = "default_risk_settings\<lparr>rs_max_position_pct := 5/100\<rparr>"
  obtain s where "sleeve_risk_settings default_risk_settings ?live [O_max_position_pct (50/100)] = Inr s"
    by (simp add: sleeve_risk_settings_def check_risk_settings_def default_risk_settings_def Let_def)
  with sleeve_limits_keep_tightening [OF this] show ?thesis by (simp add: default_risk_settings_def)
qed

text \<open>Validated sleeve settings never hand out more capital than there is: every sleeve gets a
  weight, and the weights sum to at most one (up to the 1e-9 the validator allows).\<close>

theorem sleeve_weights_bounded:
  assumes "check_sleeves_settings ss = Inr ss'"
  shows "(\<forall>spec\<in>set (ss_strategies ss'). sl_weight spec \<noteq> None)
    \<and> (\<Sum>spec\<leftarrow>ss_strategies ss'. spec_weight spec) \<le> 1 + 1 / 10 ^ 9"
proof -
  let ?specs = "ss_strategies ss"
  have ss': "ss_strategies ss' = map (\<lambda>s. if sl_weight s = None
      then s\<lparr>sl_weight := Some (1 / real (length ?specs))\<rparr> else s) ?specs"
    using assms by (auto simp: check_sleeves_settings_def Let_def split: if_splits)
  have uniform: "(\<forall>s\<in>set ?specs. sl_weight s = None) \<or> (\<forall>s\<in>set ?specs. sl_weight s \<noteq> None)"
  proof (rule ccontr)
    assume "\<not> ?thesis"
    then have "?specs \<noteq> [] \<and> (\<exists>w\<in>set (map sl_weight ?specs). w \<noteq> None)
        \<and> (\<exists>w\<in>set (map sl_weight ?specs). w = None)"
      unfolding set_map bex_simps image_iff by (metis empty_iff list.set(1))
    with assms show False unfolding check_sleeves_settings_def Let_def by (simp split: if_splits)
  qed
  consider (none) "\<forall>s\<in>set ?specs. sl_weight s = None" | (all) "\<forall>s\<in>set ?specs. sl_weight s \<noteq> None" "?specs \<noteq> []"
    using uniform by (cases "?specs = []") auto
  then have "(\<Sum>spec\<leftarrow>ss_strategies ss'. spec_weight spec) \<le> 1 + 1 / 10 ^ 9"
  proof cases
    case none
    then have "map spec_weight (ss_strategies ss') = map (\<lambda>_. 1 / real (length ?specs)) ?specs"
      by (simp add: ss' spec_weight_def)
    then show ?thesis by (simp add: sum_list_triv)
  next
    case all
    then have "map spec_weight (ss_strategies ss') = List.map_filter (\<lambda>w. w) (map sl_weight ?specs)"
      unfolding ss' by (simp add: weights_given)
    moreover have "(\<Sum>w\<leftarrow>List.map_filter (\<lambda>w. w) (map sl_weight ?specs). w) \<le> 1 + 1 / 10 ^ 9"
      using assms all by (auto simp: check_sleeves_settings_def Let_def split: if_splits)
    ultimately show ?thesis by simp
  qed
  moreover have "\<forall>spec\<in>set (ss_strategies ss'). sl_weight spec \<noteq> None" by (auto simp: ss')
  ultimately show ?thesis by simp
qed

theorem sleeve_weights_bounded_witness:
  "\<exists>ss'. check_sleeves_settings (sb_settings demo_book) = Inr ss'
     \<and> (\<Sum>spec\<leftarrow>ss_strategies ss'. spec_weight spec) \<le> 1 + 1 / 10 ^ 9"
proof -
  obtain ss' where "check_sleeves_settings (sb_settings demo_book) = Inr ss'"
    by (simp add: check_sleeves_settings_def demo_book_def demo_spec_def Let_def map_filter_simps)
  with sleeve_weights_bounded [OF this] show ?thesis by blast
qed

text \<open>Pruning the order history takes realized PnL away from a sleeve's equity.\<close>

lemma prune_drops_sleeve_pnl:
  "let st = fst (save_order demo_storage 0 ''o1'' ''BTC/EUR'' ''sell'' 1 (Some 9) ''filled'' None (Some 0)
              (Some (-5)) (Some ''swing'') None None)
   in get_strategy_realized_pnl st ''swing'' 0 None = -5
      \<and> get_strategy_realized_pnl (fst (prune st (10 * day_us) 0 1)) ''swing'' 0 None = 0"
  by (simp add: save_order_def demo_storage_def empty_db_def prune_def get_strategy_realized_pnl_def
      strategy_fills_def scope_simps Let_def map_filter_simps)

end
