(* ===== verification/Decision_Pipeline.thy ===== *)
theory Decision_Pipeline
  imports Sleeves
begin

text \<open>
  One decision cycle: class \<^verbatim>\<open>DecisionPipeline\<close> of \<^verbatim>\<open>src/src/core/decision_pipeline.py\<close>.

  The state a cycle can change is the \<open>world\<close>: the pipeline's own attributes, the store of
  risk engines, the shared sleeve book, the executor and the storage. The executor is any
  record of operations (\<open>executor_ops\<close>), because the source swaps executors behind one
  protocol; \<open>paper_ops\<close> is the paper one. What a cycle receives from outside is the
  \<open>cycle_env\<close>: the market-data provider, the indicator computation, the LLM client
  (a function of everything the prompt is built from, which always answers), the
  market-context reader, which storage calls fail, the clock at each place it is read and
  the id the executor draws. Error and skip texts are constructors.
\<close>

record 'x executor_ops =
  ex_get_positions :: "'x \<Rightarrow> py_error + position list"
  ex_get_cash :: "'x \<Rightarrow> py_error + real"
  ex_pending_value :: "'x \<Rightarrow> (py_error + real option) option"
  ex_place_order :: "'x \<Rightarrow> order_request \<Rightarrow> 'x \<times> (py_error + order_result)"
  ex_update_price :: "('x \<Rightarrow> symbol \<Rightarrow> real \<Rightarrow> 'x) option"
  ex_working_order_sides :: "('x \<Rightarrow> symbol \<Rightarrow> py_error + order_side list option) option"
  ex_entry_decision_ids :: "('x \<Rightarrow> symbol \<Rightarrow> int option list) option"
  ex_pending_entry_decision_ids :: "('x \<Rightarrow> symbol \<Rightarrow> int option list) option"
  ex_attrs :: "'x \<Rightarrow> exec_attrs"

definition paper_ops :: "paper_executor executor_ops" where
  "paper_ops =
     \<lparr>ex_get_positions = (\<lambda>px. Inr (get_positions px)), ex_get_cash = (\<lambda>px. Inr (get_cash px)),
      ex_pending_value = (\<lambda>_. None), ex_place_order = place_order,
      ex_update_price = Some update_price, ex_working_order_sides = None,
      ex_entry_decision_ids = Some px_entry_decision_ids, ex_pending_entry_decision_ids = None,
      ex_attrs = px_attrs\<rparr>"

record llm_call_metrics =
  lm_latency_ms :: "real option"
  lm_prompt_tokens :: "int option"
  lm_completion_tokens :: "int option"

record prompt_input =
  pi_system_prompt :: string
  pi_snapshot :: market_snapshot
  pi_prior_decisions :: "decision_record list"
  pi_book :: book_context
  pi_context :: "symbol_context option"

record cycle_env =
  ce_fetch_snapshot :: "symbol \<Rightarrow> string \<Rightarrow> py_error + market_snapshot"
  ce_compute_indicators :: "ohlcv list \<Rightarrow> py_error + (string, real option) dict"
  ce_ask_trade_signal :: "prompt_input \<Rightarrow> trade_signal \<times> llm_call_metrics option"
  ce_context_reader :: "(symbol \<Rightarrow> instant \<Rightarrow> py_error + symbol_context) option"
  ce_faults :: faults
  ce_now_gate :: instant
  ce_now_row :: instant
  ce_now_order :: instant
  ce_now_outcome :: instant
  ce_order_id :: "nat \<Rightarrow> string"

datatype pipeline_error =
    FetchFailed py_error
  | NoMarketData
  | OwnershipReadFailed py_error
  | IndicatorsFailed py_error
  | PortfolioReadFailed py_error
  | RefusedWithoutPrice
  | ExecutionFailed py_error
  | ExitCloseFailed py_error

datatype skip_reason =
    HeldBySleeve string
  | AwaitingNewBar string instant
  | SideAlreadyWorking order_side
  | ExitAlreadyWorking

record pipeline_result =
  pr_symbol :: symbol
  pr_signal :: "trade_signal option"
  pr_risk_result :: "risk_result option"
  pr_order_result :: "order_result option"
  pr_snapshot :: "market_snapshot option"
  pr_error :: "pipeline_error option"
  pr_decision_id :: "int option"
  pr_auto_exit :: bool
  pr_exit_reason :: "string option"
  pr_skip_reason :: "skip_reason option"
  pr_strategy :: "string option"

definition empty_result :: "symbol \<Rightarrow> pipeline_result" where
  "empty_result s =
     \<lparr>pr_symbol = s, pr_signal = None, pr_risk_result = None, pr_order_result = None,
      pr_snapshot = None, pr_error = None, pr_decision_id = None, pr_auto_exit = False,
      pr_exit_reason = None, pr_skip_reason = None, pr_strategy = None\<rparr>"

definition pr_executed :: "pipeline_result \<Rightarrow> bool" where
  "pr_executed r = (case pr_order_result r of None \<Rightarrow> False | Some res \<Rightarrow> o_status res = FILLED)"

record pipeline =
  pl_system_prompt :: string
  pl_decision_history_limit :: int
  pl_decide_on_new_bar_only :: bool
  pl_last_decision_at :: "(symbol, instant) dict"
  pl_strategy :: "string option"
  pl_engine :: engine_ref

record 'x world =
  w_pipeline :: pipeline
  w_engines :: engines
  w_book :: "sleeve_book option"
  w_executor :: 'x
  w_storage :: "storage option"

definition set_decision_history_limit :: "int \<Rightarrow> pipeline \<Rightarrow> pipeline" where
  "set_decision_history_limit v p = p\<lparr>pl_decision_history_limit := max 0 v\<rparr>"

definition the_engine :: "'x world \<Rightarrow> risk_engine" where
  "the_engine w = w_engines w (pl_engine (w_pipeline w))"

definition the_settings :: "'x world \<Rightarrow> risk_settings" where
  "the_settings w = re_settings (the_engine w)"

definition last_close :: "market_snapshot \<Rightarrow> real" where
  "last_close snap = c_close (last (ms_candles snap))"

section \<open>Helpers of the cycle\<close>

definition order_working :: "'x executor_ops \<Rightarrow> 'x \<Rightarrow> symbol \<Rightarrow> order_side \<Rightarrow> bool" where
  "order_working ops x s side =
     (case ex_working_order_sides ops of
        None \<Rightarrow> False
      | Some hook \<Rightarrow> (case hook x s of Inr (Some sides) \<Rightarrow> side \<in> set sides | _ \<Rightarrow> False))"

definition outcome_engine :: "string option \<Rightarrow> 'x world \<Rightarrow> engine_ref" where
  "outcome_engine strategy w =
     (case w_book w of
        None \<Rightarrow> pl_engine (w_pipeline w)
      | Some b \<Rightarrow> (case sb_engine b strategy of None \<Rightarrow> pl_engine (w_pipeline w) | Some r \<Rightarrow> r))"

definition pl_record_outcome :: "instant \<Rightarrow> string option \<Rightarrow> bool \<Rightarrow> 'x world \<Rightarrow> 'x world" where
  "pl_record_outcome now strategy was_profitable w =
     (let r = outcome_engine strategy w
      in w\<lparr>w_engines := (w_engines w)(r := record_outcome now was_profitable (w_engines w r))\<rparr>)"

text \<open>The rule that follows every \<^verbatim>\<open>place_order\<close>: only a filled order with a realized PnL is an
  outcome.\<close>

definition note_fill :: "instant \<Rightarrow> string option \<Rightarrow> order_result \<Rightarrow> 'x world \<Rightarrow> 'x world" where
  "note_fill now strategy res w =
     (case o_realized_pnl res of
        Some v \<Rightarrow> if o_status res = FILLED then pl_record_outcome now strategy (v \<ge> 0) w else w
      | None \<Rightarrow> w)"

definition mark_positions :: "'x executor_ops \<Rightarrow> symbol \<Rightarrow> market_snapshot \<Rightarrow> 'x world \<Rightarrow> 'x world" where
  "mark_positions ops s snap w =
     (if ms_candles snap = [] then w
      else if last_close snap \<le> 0 then w
      else case ex_update_price ops of
             None \<Rightarrow> w
           | Some update \<Rightarrow> w\<lparr>w_executor := update (w_executor w) s (last_close snap)\<rparr>)"

definition entry_hook :: "'x executor_ops \<Rightarrow> 'x \<Rightarrow> ledger_hook" where
  "entry_hook ops x = map_option (\<lambda>f. f x) (ex_entry_decision_ids ops)"

definition pending_hook :: "'x executor_ops \<Rightarrow> 'x \<Rightarrow> ledger_hook" where
  "pending_hook ops x = map_option (\<lambda>f. f x) (ex_pending_entry_decision_ids ops)"

text \<open>The sleeve book reads through the storage it was built with; without one every lookup of a
  decision comes back empty.\<close>

definition book_storage :: "'x world \<Rightarrow> storage" where
  "book_storage w =
     (case w_storage w of Some st \<Rightarrow> st
      | None \<Rightarrow> \<lparr>st_db = empty_db, st_agent = None, st_venue = None\<rparr>)"

definition sleeve_ownership ::
  "'x executor_ops \<Rightarrow> cycle_env \<Rightarrow> symbol \<Rightarrow> 'x world \<Rightarrow>
   'x world \<times> ownership option \<times> pipeline_error option" where
  "sleeve_ownership ops env s w =
     (case w_book w of
        None \<Rightarrow> (w, None, None)
      | Some b \<Rightarrow>
          (case ex_get_positions ops (w_executor w) of
             Inl e \<Rightarrow> (w, None, Some (OwnershipReadFailed e))
           | Inr positions \<Rightarrow>
               (case sb_ownership (ce_faults env) (book_storage w) (entry_hook ops (w_executor w))
                       (pending_hook ops (w_executor w)) positions s b of
                  Inl e \<Rightarrow> (w, None, Some (OwnershipReadFailed e))
                | Inr (b1, ow) \<Rightarrow> (w\<lparr>w_book := Some b1\<rparr>, ow, None))))"

definition close_request ::
  "cycle_env \<Rightarrow> nat \<Rightarrow> symbol \<Rightarrow> position \<Rightarrow> real \<Rightarrow> order_request" where
  "close_request env k s p price =
     \<lparr>rq_symbol = s, rq_side = closing_side p, rq_quantity = p_quantity p, rq_price = Some price,
      rq_decision_id = None, rq_stop_loss = None, rq_take_profit = None,
      rq_order_id = ce_order_id env k, rq_now = ce_now_order env\<rparr>"

definition close_for_exit ::
  "'x executor_ops \<Rightarrow> cycle_env \<Rightarrow> symbol \<Rightarrow> market_snapshot \<Rightarrow> position \<Rightarrow> real \<Rightarrow> string \<Rightarrow> string option \<Rightarrow>
   'x world \<Rightarrow> 'x world \<times> pipeline_result" where
  "close_for_exit ops env s snap p mark why owner w =
     (let base = (empty_result s)\<lparr>pr_snapshot := Some snap, pr_auto_exit := True,
                                  pr_exit_reason := Some why\<rparr>
      in if order_working ops (w_executor w) s (closing_side p)
         then (w, base\<lparr>pr_skip_reason := Some ExitAlreadyWorking\<rparr>)
         else case ex_place_order ops (w_executor w) (close_request env 0 s p mark) of
                (x, Inl e) \<Rightarrow> (w\<lparr>w_executor := x\<rparr>, base\<lparr>pr_error := Some (ExitCloseFailed e)\<rparr>)
              | (x, Inr res) \<Rightarrow>
                  (note_fill (ce_now_outcome env) owner res (w\<lparr>w_executor := x\<rparr>),
                   base\<lparr>pr_order_result := Some res\<rparr>))"

definition check_exit_levels ::
  "'x executor_ops \<Rightarrow> cycle_env \<Rightarrow> symbol \<Rightarrow> market_snapshot \<Rightarrow> string option \<Rightarrow> 'x world \<Rightarrow>
   'x world \<times> pipeline_result option" where
  "check_exit_levels ops env s snap owner w =
     (if \<not> rs_enforce_exit_levels (the_settings w) \<or> ms_candles snap = [] then (w, None)
      else let mark = last_close snap
           in if mark \<le> 0 then (w, None)
              else case ex_get_positions ops (w_executor w) of
                     Inl e \<Rightarrow> (w, None)
                   | Inr positions \<Rightarrow>
                       (case find (\<lambda>p. p_symbol p = s \<and> p_quantity p > 0
                                       \<and> exit_level_breach p mark \<noteq> None) positions of
                          None \<Rightarrow> (w, None)
                        | Some p \<Rightarrow>
                            (case close_for_exit ops env s snap p mark
                                    (the (exit_level_breach p mark)) owner w of
                               (w1, r) \<Rightarrow> (w1, Some r))))"

definition check_time_stop ::
  "'x executor_ops \<Rightarrow> cycle_env \<Rightarrow> symbol \<Rightarrow> market_snapshot \<Rightarrow> ownership \<Rightarrow> 'x world \<Rightarrow>
   'x world \<times> pipeline_result option" where
  "check_time_stop ops env s snap ow w =
     (case w_book w of
        None \<Rightarrow> (w, None)
      | Some b \<Rightarrow>
          if \<not> time_stop_due b ow (ms_fetched_at snap) then (w, None)
          else let mark = (if ms_candles snap = [] then 0 else last_close snap)
               in if mark \<le> 0 then (w, None)
                  else case ex_get_positions ops (w_executor w) of
                         Inl e \<Rightarrow> (w, None)
                       | Inr positions \<Rightarrow>
                           (case find (\<lambda>p. p_symbol p = s \<and> p_quantity p > 0) positions of
                              None \<Rightarrow> (w, None)
                            | Some p \<Rightarrow>
                                (case close_for_exit ops env s snap p mark ''time_stop''
                                        (Some (ow_strategy ow)) w of
                                   (w1, r) \<Rightarrow> (w1, Some (r\<lparr>pr_strategy := Some (ow_strategy ow)\<rparr>)))))"


definition awaiting_new_bar ::
  "cycle_env \<Rightarrow> symbol \<Rightarrow> string \<Rightarrow> ohlcv list \<Rightarrow> 'x world \<Rightarrow> 'x world \<times> skip_reason option" where
  "awaiting_new_bar env s timeframe bars w =
     (if bars = [] then (w, None)
      else case bar_close_time (last bars) timeframe of
             None \<Rightarrow> (w, None)
           | Some bar_closed_at \<Rightarrow>
               let known = map_of (pl_last_decision_at (w_pipeline w)) s;
                   looked_up =
                     (case (known, w_storage w) of
                        (None, Some st) \<Rightarrow>
                          (case attempt (ce_faults env) C_get_recent_decisions
                                  (get_recent_decisions st (Some s) 1 False None (pl_strategy (w_pipeline w))) of
                             Inr (row # _) \<Rightarrow> Some (d_timestamp row)
                           | _ \<Rightarrow> None)
                      | _ \<Rightarrow> None);
                   w1 = (case looked_up of
                           None \<Rightarrow> w
                         | Some t \<Rightarrow> w\<lparr>w_pipeline := (w_pipeline w)\<lparr>pl_last_decision_at :=
                                        AList.update s t (pl_last_decision_at (w_pipeline w))\<rparr>\<rparr>)
               in case (case known of Some t \<Rightarrow> Some t | None \<Rightarrow> looked_up) of
                    None \<Rightarrow> (w1, None)
                  | Some t \<Rightarrow> (w1, if t \<ge> bar_closed_at then Some (AwaitingNewBar timeframe t) else None))"

definition decision_record_of :: "int list option \<Rightarrow> decision_row \<Rightarrow> decision_record" where
  "decision_record_of filled_ids row =
     \<lparr>dr_action = d_action row, dr_confidence = d_confidence row, dr_reasoning = d_reasoning row,
      dr_risk_verdict = d_risk_verdict row, dr_risk_reason = d_risk_reason row,
      dr_realized_pnl = d_realized_pnl row, dr_timestamp = Some (d_timestamp row),
      dr_filled = (case filled_ids of None \<Rightarrow> None | Some ids \<Rightarrow> Some (d_id row \<in> set ids))\<rparr>"

definition pl_recent_decisions ::
  "cycle_env \<Rightarrow> symbol \<Rightarrow> int option \<Rightarrow> 'x world \<Rightarrow> decision_record list" where
  "pl_recent_decisions env s limit w =
     (let n = (case limit of None \<Rightarrow> pl_decision_history_limit (w_pipeline w) | Some l \<Rightarrow> l)
      in if n \<le> 0 then []
         else case w_storage w of
                None \<Rightarrow> []
              | Some st \<Rightarrow>
                  (case attempt (ce_faults env) C_get_recent_decisions
                          (get_recent_decisions st (Some s) (nat n) False None (pl_strategy (w_pipeline w))) of
                     Inl e \<Rightarrow> []
                   | Inr rows \<Rightarrow>
                       let candidates = map d_id (filter (\<lambda>r. d_action r \<noteq> ''hold''
                                          \<and> d_risk_verdict r = ''approved'' \<and> d_id r \<noteq> 0) rows);
                           filled_ids =
                             (if candidates = [] then None
                              else case attempt (ce_faults env) C_get_filled_decision_ids
                                          (get_filled_decision_ids st candidates) of
                                     Inl e \<Rightarrow> None | Inr ids \<Rightarrow> Some ids)
                       in map (decision_record_of filled_ids) rows))"

definition read_context ::
  "cycle_env \<Rightarrow> symbol \<Rightarrow> market_snapshot \<Rightarrow> symbol_context option \<times> string option" where
  "read_context env s snap =
     (case ce_context_reader env of
        None \<Rightarrow> (None, None)
      | Some reader \<Rightarrow>
          (case reader s (ms_fetched_at snap) of
             Inr ctx \<Rightarrow> (Some ctx, None)
           | Inl e \<Rightarrow> (None, Some (case e of RuntimeError m \<Rightarrow> m | ExternalError m \<Rightarrow> m | _ \<Rightarrow> [])))) "

definition sleeve_portfolio ::
  "'x executor_ops \<Rightarrow> cycle_env \<Rightarrow> portfolio_state \<Rightarrow> 'x world \<Rightarrow>
   py_error + 'x world \<times> portfolio_state \<times> bool" where
  "sleeve_portfolio ops env pf w =
     (case (w_book w, pl_strategy (w_pipeline w)) of
        (Some b, Some strategy) \<Rightarrow>
          if \<not> per_sleeve_books b then Inr (w, pf, False)
          else (case sleeve_equity (ce_faults env) (book_storage w) (entry_hook ops (w_executor w))
                       (pending_hook ops (w_executor w)) strategy pf None b of
                  Inl e \<Rightarrow> Inl e
                | Inr (b1, book) \<Rightarrow> Inr (w\<lparr>w_book := Some b1\<rparr>, se_portfolio book, True))
      | _ \<Rightarrow> Inr (w, pf, False))"

definition get_portfolio_state :: "'x executor_ops \<Rightarrow> 'x \<Rightarrow> py_error + portfolio_state" where
  "get_portfolio_state ops x =
     read_portfolio (ex_get_positions ops x) (ex_get_cash ops x) (ex_pending_value ops x)"

definition pl_book_context ::
  "symbol \<Rightarrow> portfolio_state \<Rightarrow> ownership option \<Rightarrow> instant \<Rightarrow> 'x world \<Rightarrow> book_context" where
  "pl_book_context s pf ow now w =
     \<lparr>bc_position = find (\<lambda>p. p_symbol p = s \<and> p_quantity p > 0 \<and> p_side p = LONG) (pf_positions pf),
      bc_cash = pf_cash pf, bc_total_value = total_value pf,
      bc_max_position_pct = Some (rs_max_position_pct (the_settings w)),
      bc_strategy = pl_strategy (w_pipeline w),
      bc_max_holding_hours =
        (case w_book w of None \<Rightarrow> None
         | Some b \<Rightarrow> max_holding_hours (sb_spec b (pl_strategy (w_pipeline w)))),
      bc_held_hours =
        (case (w_book w, ow) of (Some b, Some own) \<Rightarrow> held_hours own now | _ \<Rightarrow> None)\<rparr>"

definition action_value :: "action \<Rightarrow> string" where
  "action_value a = (case a of A_BUY \<Rightarrow> ''buy'' | A_SELL \<Rightarrow> ''sell'' | A_HOLD \<Rightarrow> ''hold'')"

definition verdict_value :: "risk_verdict \<Rightarrow> string" where
  "verdict_value v = (case v of APPROVED \<Rightarrow> ''approved'' | REJECTED \<Rightarrow> ''rejected'')"

definition persist_decision ::
  "cycle_env \<Rightarrow> trade_signal \<Rightarrow> risk_result \<Rightarrow> market_snapshot \<Rightarrow> llm_call_metrics option \<Rightarrow> 'x world \<Rightarrow>
   'x world \<times> int option" where
  "persist_decision env sig res snap metrics w =
     (case w_storage w of
        None \<Rightarrow> (w, None)
      | Some st \<Rightarrow>
          let (st1, i) = save_llm_decision st (ce_now_row env) (sig_symbol sig)
                 (action_value (sig_action sig)) (sig_confidence sig) (sig_reasoning sig)
                 (sig_stop_loss sig) (sig_take_profit sig) (verdict_value (rr_verdict res)) (rr_reason res)
                 (sig_is_fallback sig) (case metrics of None \<Rightarrow> None | Some x \<Rightarrow> lm_latency_ms x)
                 (case metrics of None \<Rightarrow> None | Some x \<Rightarrow> lm_prompt_tokens x)
                 (case metrics of None \<Rightarrow> None | Some x \<Rightarrow> lm_completion_tokens x)
                 (pl_strategy (w_pipeline w))
          in case attempt (ce_faults env) C_save_llm_decision i of
               Inl e \<Rightarrow> (w, None)
             | Inr _ \<Rightarrow>
                 let st2 = fst (save_market_snapshot st1 (ce_now_row env) (ms_symbol snap)
                                  (ms_timeframe snap) (ms_candles snap) (ms_indicators snap))
                 in case attempt (ce_faults env) C_save_market_snapshot () of
                      Inl e \<Rightarrow> (w\<lparr>w_storage := Some st1\<rparr>, Some i)
                    | Inr _ \<Rightarrow> (w\<lparr>w_storage := Some st2\<rparr>, Some i))"


section \<open>The gate\<close>

definition set_engine :: "risk_engine \<Rightarrow> 'x world \<Rightarrow> 'x world" where
  "set_engine e w = w\<lparr>w_engines := (w_engines w)(pl_engine (w_pipeline w) := e)\<rparr>"

definition risk_gate ::
  "cycle_env \<Rightarrow> trade_signal \<Rightarrow> portfolio_state \<Rightarrow> portfolio_state \<Rightarrow> real option \<Rightarrow> real option \<Rightarrow>
   symbol_context option \<Rightarrow> string option \<Rightarrow> 'x world \<Rightarrow> 'x world \<times> risk_result" where
  "risk_gate env sig book pf planned_notional price ctx ctx_error w =
     (let (e1, r1) = evaluate (ce_now_gate env) sig book planned_notional price (the_engine w);
          w1 = set_engine e1 w;
          (w2, r2) = (case w_book w1 of
                        Some b \<Rightarrow>
                          if sig_action sig = A_BUY \<and> rr_verdict r1 = APPROVED
                          then (case sb_check_backstop (total_value pf) b (w_engines w1) of
                                  (engs, r) \<Rightarrow> (w1\<lparr>w_engines := engs\<rparr>, r))
                          else (w1, r1)
                      | None \<Rightarrow> (w1, r1))
      in if ce_context_reader env \<noteq> None \<and> sig_action sig = A_BUY \<and> rr_verdict r2 = APPROVED
         then (w2, check_event_guard (the_settings w2) sig ctx ctx_error)
         else (w2, r2))"

section \<open>Execution\<close>

definition entry_request ::
  "cycle_env \<Rightarrow> symbol \<Rightarrow> trade_signal \<Rightarrow> real \<Rightarrow> real \<Rightarrow> int option \<Rightarrow> order_request" where
  "entry_request env s sig qty price did =
     \<lparr>rq_symbol = s, rq_side = (if sig_action sig = A_BUY then S_BUY else S_SELL), rq_quantity = qty,
      rq_price = Some price, rq_decision_id = did, rq_stop_loss = sig_stop_loss sig,
      rq_take_profit = sig_take_profit sig, rq_order_id = ce_order_id env 0, rq_now = ce_now_order env\<rparr>"

definition execute_signal ::
  "'x executor_ops \<Rightarrow> cycle_env \<Rightarrow> symbol \<Rightarrow> trade_signal \<Rightarrow> real option \<Rightarrow> real \<Rightarrow> int option \<Rightarrow>
   pipeline_result \<Rightarrow> 'x world \<Rightarrow> 'x world \<times> pipeline_result" where
  "execute_signal ops env s sig planned price did base w =
     (let side = (if sig_action sig = A_BUY then S_BUY else S_SELL)
      in case planned of
           None \<Rightarrow> (w, base\<lparr>pr_error := Some RefusedWithoutPrice\<rparr>)
         | Some qty \<Rightarrow>
             if price = 0 then (w, base\<lparr>pr_error := Some RefusedWithoutPrice\<rparr>)
             else if order_working ops (w_executor w) s side
             then (w, base\<lparr>pr_skip_reason := Some (SideAlreadyWorking side)\<rparr>)
             else case ex_place_order ops (w_executor w) (entry_request env s sig qty price did) of
                    (x, Inl e) \<Rightarrow> (w\<lparr>w_executor := x\<rparr>, base\<lparr>pr_error := Some (ExecutionFailed e)\<rparr>)
                  | (x, Inr res) \<Rightarrow>
                      (note_fill (ce_now_outcome env) (pl_strategy (w_pipeline w)) res (w\<lparr>w_executor := x\<rparr>),
                       base\<lparr>pr_order_result := Some res\<rparr>))"

section \<open>The cycle\<close>

definition planned_quantity ::
  "'x executor_ops \<Rightarrow> trade_signal \<Rightarrow> portfolio_state \<Rightarrow> portfolio_state \<Rightarrow> bool \<Rightarrow> real \<Rightarrow> 'x world \<Rightarrow>
   py_error + real option" where
  "planned_quantity ops sig book pf is_sleeve price w =
     (if sig_action sig \<in> {A_BUY, A_SELL} \<and> price \<noteq> 0
      then case buy_cost_factor (ex_attrs ops (w_executor w)) of
             Inl e \<Rightarrow> Inl e
           | Inr factor \<Rightarrow>
               (case sizing_cost_model (ex_attrs ops (w_executor w)) of
                  Inl e \<Rightarrow> Inl e
                | Inr m \<Rightarrow> Inr (Some (calculate_quantity sig book (the_settings w) (Some price) factor
                                       (Some m) (if is_sleeve then Some (pf_cash pf) else None))))
      else Inr None)"

text \<open>Steps 5 and 6: size, gate, persist, execute.\<close>

definition decide_and_execute ::
  "'x executor_ops \<Rightarrow> cycle_env \<Rightarrow> symbol \<Rightarrow> market_snapshot \<Rightarrow> trade_signal \<Rightarrow> llm_call_metrics option \<Rightarrow>
   portfolio_state \<Rightarrow> portfolio_state \<Rightarrow> bool \<Rightarrow> symbol_context option \<Rightarrow> string option \<Rightarrow> 'x world \<Rightarrow>
   'x world \<times> (py_error + pipeline_result)" where
  "decide_and_execute ops env s snap sig metrics book pf is_sleeve ctx ctx_error w =
     (let price = last_close snap
      in case planned_quantity ops sig book pf is_sleeve price w of
           Inl e \<Rightarrow> (w, Inl e)
         | Inr planned \<Rightarrow>
             let (w1, res) = risk_gate env sig book pf (map_option (\<lambda>q. q * price) planned) (Some price)
                               ctx ctx_error w;
                 (w2, did) = persist_decision env sig res snap metrics w1;
                 w3 = (if sig_is_fallback sig then w2
                       else w2\<lparr>w_pipeline := (w_pipeline w2)\<lparr>pl_last_decision_at :=
                              AList.update s (ms_fetched_at snap) (pl_last_decision_at (w_pipeline w2))\<rparr>\<rparr>);
                 base = (empty_result s)\<lparr>pr_signal := Some sig, pr_risk_result := Some res,
                           pr_snapshot := Some snap, pr_decision_id := did,
                           pr_strategy := pl_strategy (w_pipeline w)\<rparr>
             in if rr_verdict res = REJECTED then (w3, Inr base)
                else if sig_action sig = A_HOLD then (w3, Inr base)
                else case execute_signal ops env s sig planned price did base w3 of
                       (w4, r) \<Rightarrow> (w4, Inr r))"

text \<open>Steps 2 to 4: indicators on the closed bars, the book, the context, the question.\<close>

definition ask_and_decide ::
  "'x executor_ops \<Rightarrow> cycle_env \<Rightarrow> symbol \<Rightarrow> ohlcv list \<Rightarrow> market_snapshot \<Rightarrow> ownership option \<Rightarrow> 'x world \<Rightarrow>
   'x world \<times> (py_error + pipeline_result)" where
  "ask_and_decide ops env s bars snap0 ow w =
     (let base = (empty_result s)\<lparr>pr_snapshot := Some snap0, pr_strategy := pl_strategy (w_pipeline w)\<rparr>
      in case ce_compute_indicators env bars of
           Inl e \<Rightarrow> (w, Inr (base\<lparr>pr_error := Some (IndicatorsFailed e)\<rparr>))
         | Inr ind \<Rightarrow>
             let snap = snap0\<lparr>ms_indicators := ind\<rparr>; base1 = base\<lparr>pr_snapshot := Some snap\<rparr>
             in case get_portfolio_state ops (w_executor w) of
                  Inl e \<Rightarrow> (w, Inr (base1\<lparr>pr_error := Some (PortfolioReadFailed e)\<rparr>))
                | Inr pf \<Rightarrow>
                    (case sleeve_portfolio ops env pf w of
                       Inl e \<Rightarrow> (w, Inr (base1\<lparr>pr_error := Some (PortfolioReadFailed e)\<rparr>))
                     | Inr (w1, book, is_sleeve) \<Rightarrow>
                         let prior = pl_recent_decisions env s None w1;
                             (ctx0, ctx_error) = read_context env s snap;
                             ctx = (case ctx0 of
                                      None \<Rightarrow> None
                                    | Some c \<Rightarrow> Some (c\<lparr>sc_entry_blackout :=
                                                  event_blackout_reason (the_settings w1) (Some c)\<rparr>));
                             (sig, metrics) = ce_ask_trade_signal env
                               \<lparr>pi_system_prompt = pl_system_prompt (w_pipeline w1), pi_snapshot = snap,
                                pi_prior_decisions = prior,
                                pi_book = pl_book_context s book ow (ms_fetched_at snap) w1,
                                pi_context = ctx\<rparr>
                         in decide_and_execute ops env s snap (sig\<lparr>sig_symbol := s\<rparr>) metrics book pf
                              is_sleeve ctx ctx_error w1))"

text \<open>Step 1d: bar timing, then the question.\<close>

definition bar_phase ::
  "'x executor_ops \<Rightarrow> cycle_env \<Rightarrow> symbol \<Rightarrow> string \<Rightarrow> market_snapshot \<Rightarrow> ownership option \<Rightarrow> 'x world \<Rightarrow>
   'x world \<times> (py_error + pipeline_result)" where
  "bar_phase ops env s timeframe snap ow w =
     (let bars = fst (split_forming (ms_candles snap) timeframe (ms_fetched_at snap))
      in case (if pl_decide_on_new_bar_only (w_pipeline w)
               then awaiting_new_bar env s timeframe bars w else (w, None)) of
           (w1, Some why) \<Rightarrow>
             (w1, Inr ((empty_result s)\<lparr>pr_snapshot := Some snap, pr_skip_reason := Some why,
                        pr_strategy := pl_strategy (w_pipeline w1)\<rparr>))
         | (w1, None) \<Rightarrow> ask_and_decide ops env s bars snap ow w1)"

text \<open>Step 1c': the sleeve's time stop and the symbol lock.\<close>

definition sleeve_phase ::
  "'x executor_ops \<Rightarrow> cycle_env \<Rightarrow> symbol \<Rightarrow> string \<Rightarrow> market_snapshot \<Rightarrow> ownership option \<Rightarrow>
   pipeline_error option \<Rightarrow> 'x world \<Rightarrow> 'x world \<times> (py_error + pipeline_result)" where
  "sleeve_phase ops env s timeframe snap ow ow_error w =
     (let base = (empty_result s)\<lparr>pr_snapshot := Some snap, pr_strategy := pl_strategy (w_pipeline w)\<rparr>
      in case ow_error of
           Some e \<Rightarrow> (w, Inr (base\<lparr>pr_error := Some e\<rparr>))
         | None \<Rightarrow>
             (case ow of
                None \<Rightarrow> bar_phase ops env s timeframe snap ow w
              | Some own \<Rightarrow>
                  (case check_time_stop ops env s snap own w of
                     (w1, Some r) \<Rightarrow> (w1, Inr r)
                   | (w1, None) \<Rightarrow>
                       if Some (ow_strategy own) \<noteq> pl_strategy (w_pipeline w1)
                       then (w1, Inr (base\<lparr>pr_skip_reason := Some (HeldBySleeve (ow_strategy own))\<rparr>))
                       else bar_phase ops env s timeframe snap ow w1)))"

definition pipeline_run ::
  "'x executor_ops \<Rightarrow> cycle_env \<Rightarrow> symbol \<Rightarrow> string \<Rightarrow> 'x world \<Rightarrow>
   'x world \<times> (py_error + pipeline_result)" where
  "pipeline_run ops env s timeframe w =
     (case ce_fetch_snapshot env s timeframe of
        Inl e \<Rightarrow> (w, Inr ((empty_result s)\<lparr>pr_error := Some (FetchFailed e)\<rparr>))
      | Inr snap \<Rightarrow>
          if ms_candles snap = [] then (w, Inr ((empty_result s)\<lparr>pr_error := Some NoMarketData\<rparr>))
          else (case sleeve_ownership ops env s (mark_positions ops s snap w) of
                  (w1, ow, ow_error) \<Rightarrow>
                    (case check_exit_levels ops env s snap (map_option ow_strategy ow) w1 of
                       (w2, Some r) \<Rightarrow> (w2, Inr (r\<lparr>pr_strategy := map_option ow_strategy ow\<rparr>))
                     | (w2, None) \<Rightarrow> sleeve_phase ops env s timeframe snap ow ow_error w2)))"

section \<open>Close all\<close>

text \<open>An exception of \<^verbatim>\<open>place_order\<close> leaves the loop; the orders already placed stay placed, and
  their results are lost to the caller.\<close>

fun close_all_loop ::
  "'x executor_ops \<Rightarrow> cycle_env \<Rightarrow> nat \<Rightarrow> (symbol, string) dict \<Rightarrow> position list \<Rightarrow>
   (symbol \<times> order_result) list \<Rightarrow> 'x world \<Rightarrow> 'x world \<times> (py_error + (symbol \<times> order_result) list)" where
  "close_all_loop ops env k owners [] done w = (w, Inr done)"
| "close_all_loop ops env k owners (p # ps) done w =
     (if p_quantity p \<le> 0 then close_all_loop ops env k owners ps done w
      else if p_current_price p \<le> 0 then close_all_loop ops env k owners ps done w
      else if order_working ops (w_executor w) (p_symbol p) (closing_side p)
      then close_all_loop ops env k owners ps done w
      else case ex_place_order ops (w_executor w) (close_request env k (p_symbol p) p (p_current_price p)) of
             (x, Inl e) \<Rightarrow> (w\<lparr>w_executor := x\<rparr>, Inl e)
           | (x, Inr res) \<Rightarrow>
               close_all_loop ops env (Suc k) owners ps (done @ [(p_symbol p, res)])
                 (note_fill (ce_now_outcome env) (map_of owners (p_symbol p)) res (w\<lparr>w_executor := x\<rparr>)))"

definition close_all_positions ::
  "'x executor_ops \<Rightarrow> cycle_env \<Rightarrow> 'x world \<Rightarrow> 'x world \<times> (py_error + (symbol \<times> order_result) list)" where
  "close_all_positions ops env w =
     (case ex_get_positions ops (w_executor w) of
        Inl e \<Rightarrow> (w, Inl e)
      | Inr positions \<Rightarrow>
          let (w1, owners) =
            (case w_book w of
               None \<Rightarrow> (w, [])
             | Some b \<Rightarrow>
                 (case sb_owners (ce_faults env) (book_storage w) (entry_hook ops (w_executor w))
                         (pending_hook ops (w_executor w)) positions b of
                    Inl e \<Rightarrow> (w, [])
                  | Inr (b1, os) \<Rightarrow> (w\<lparr>w_book := Some b1\<rparr>, os)))
          in close_all_loop ops env 0 owners positions [] w1)"

end
