(* ===== verification/Pipeline_Safety.thy ===== *)
theory Pipeline_Safety
  imports Decision_Pipeline
begin

text \<open>
  What a decision cycle may do to the executor: every order it sends is either a deterministic
  close of a held position or exactly the order the gate approved; exits are enforced without
  the LLM; a symbol of another sleeve and an already decided bar are left alone.

  To speak about the orders a cycle sends, \<open>logged\<close> wraps any executor so that it keeps the
  list of requests it has received. The locale \<open>closing_executor\<close> is the part of the executor
  protocol that exit enforcement and close-all rely on; it is interpreted on the paper
  executor.
\<close>

section \<open>Recording what is sent\<close>

definition logged :: "'x executor_ops \<Rightarrow> ('x \<times> order_request list) executor_ops" where
  "logged ops =
     \<lparr>ex_get_positions = (\<lambda>x. ex_get_positions ops (fst x)),
      ex_get_cash = (\<lambda>x. ex_get_cash ops (fst x)),
      ex_pending_value = (\<lambda>x. ex_pending_value ops (fst x)),
      ex_place_order = (\<lambda>x r. case ex_place_order ops (fst x) r of (y, out) \<Rightarrow> ((y, snd x @ [r]), out)),
      ex_update_price = map_option (\<lambda>f x s v. (f (fst x) s v, snd x)) (ex_update_price ops),
      ex_working_order_sides = map_option (\<lambda>f x s. f (fst x) s) (ex_working_order_sides ops),
      ex_entry_decision_ids = map_option (\<lambda>f x s. f (fst x) s) (ex_entry_decision_ids ops),
      ex_pending_entry_decision_ids = map_option (\<lambda>f x s. f (fst x) s) (ex_pending_entry_decision_ids ops),
      ex_attrs = (\<lambda>x. ex_attrs ops (fst x))\<rparr>"

abbreviation sent :: "('x \<times> order_request list) world \<Rightarrow> order_request list" where
  "sent w \<equiv> snd (w_executor w)"

named_theorems world_frame \<open>what a step leaves unchanged\<close>

lemma logged_place [simp]:
  "ex_place_order (logged ops) x r =
     (case ex_place_order ops (fst x) r of (y, out) \<Rightarrow> ((y, snd x @ [r]), out))"
  "ex_get_positions (logged ops) x = ex_get_positions ops (fst x)"
  by (simp_all add: logged_def)

lemma note_fill_frame [world_frame]:
  "w_executor (note_fill now strat res w) = w_executor w"
  "w_storage (note_fill now strat res w) = w_storage w"
  "w_pipeline (note_fill now strat res w) = w_pipeline w"
  by (auto simp: note_fill_def pl_record_outcome_def Let_def split: option.splits)

lemma mark_positions_frame [world_frame]:
  "sent (mark_positions (logged ops) s snap w) = sent w"
  "w_engines (mark_positions ops' s snap v) = w_engines v"
  "w_pipeline (mark_positions ops' s snap v) = w_pipeline v"
  "w_storage (mark_positions ops' s snap v) = w_storage v"
  "w_book (mark_positions ops' s snap v) = w_book v"
  by (auto simp: mark_positions_def logged_def split: option.splits)

lemma sleeve_ownership_frame [world_frame]:
  assumes "sleeve_ownership ops env s w = (w', ow, err)"
  shows "w_executor w' = w_executor w" "w_engines w' = w_engines w" "w_pipeline w' = w_pipeline w"
    "w_storage w' = w_storage w"
  using assms by (auto simp: sleeve_ownership_def split: option.splits sum.splits)

lemma check_exit_levels_None [world_frame]: "check_exit_levels ops env s snap owner w = (w', None) \<Longrightarrow> w' = w"
  by (auto simp: check_exit_levels_def Let_def split: if_splits sum.splits option.splits prod.splits)

lemma check_time_stop_None [world_frame]: "check_time_stop ops env s snap ow w = (w', None) \<Longrightarrow> w' = w"
  by (auto simp: check_time_stop_def Let_def split: if_splits sum.splits option.splits prod.splits)

lemma awaiting_new_bar_frame [world_frame]:
  assumes "awaiting_new_bar env s tf bars w = (w', waiting)"
  shows "w_executor w' = w_executor w" "w_engines w' = w_engines w" "w_storage w' = w_storage w"
    "pl_engine (w_pipeline w') = pl_engine (w_pipeline w)"
    "pl_strategy (w_pipeline w') = pl_strategy (w_pipeline w)" "w_book w' = w_book w"
  using assms
  by (auto simp: awaiting_new_bar_def Let_def split: if_splits option.splits sum.splits list.splits)

lemma sleeve_portfolio_frame [world_frame]:
  assumes "sleeve_portfolio ops env pf w = Inr (w', book, is_sleeve)"
  shows "w_executor w' = w_executor w" "w_engines w' = w_engines w" "w_pipeline w' = w_pipeline w"
    "w_storage w' = w_storage w"
  using assms by (auto simp: sleeve_portfolio_def split: option.splits sum.splits if_splits)

lemma risk_gate_frame [world_frame]:
  assumes "risk_gate env sig book pf n price ctx err w = (w', res)"
  shows "w_executor w' = w_executor w" "w_pipeline w' = w_pipeline w" "w_storage w' = w_storage w"
  using assms
  by (auto simp: risk_gate_def set_engine_def Let_def split: if_splits option.splits prod.splits)

lemma persist_decision_frame [world_frame]:
  assumes "persist_decision env sig res snap metrics w = (w', did)"
  shows "w_executor w' = w_executor w" "w_pipeline w' = w_pipeline w" "w_engines w' = w_engines w"
  using assms
  by (auto simp: persist_decision_def Let_def split: if_splits option.splits prod.splits sum.splits)

section \<open>Closing orders\<close>

text \<open>A deterministic close: the opposite side, the whole quantity, the mark.\<close>

lemma close_for_exit_sent:
  assumes "close_for_exit (logged ops) env s snap p mark why owner w = (w', r)"
  shows "pr_auto_exit r" "pr_signal r = None" "sent w' \<in> {sent w, sent w @ [close_request env 0 s p mark]}"
  using assms
  by (auto simp: close_for_exit_def Let_def empty_result_def world_frame
      split: if_splits prod.splits sum.splits)

definition exit_order :: "cycle_env \<Rightarrow> symbol \<Rightarrow> real \<Rightarrow> position list \<Rightarrow> order_request \<Rightarrow> bool" where
  "exit_order env s mark positions rq \<longleftrightarrow>
     (\<exists>p\<in>set positions. p_symbol p = s \<and> 0 < p_quantity p \<and> 0 < mark \<and> rq = close_request env 0 s p mark)"

lemma find_SomeD: "find P xs = Some x \<Longrightarrow> x \<in> set xs \<and> P x"
  by (auto simp: find_Some_iff)

definition closed_or_skipped ::
  "'x executor_ops \<Rightarrow> cycle_env \<Rightarrow> symbol \<Rightarrow> market_snapshot \<Rightarrow> ('x \<times> order_request list) world \<Rightarrow>
   ('x \<times> order_request list) world \<Rightarrow> pipeline_result \<Rightarrow> bool" where
  "closed_or_skipped ops env s snap w w' r \<longleftrightarrow>
     pr_auto_exit r \<and> pr_signal r = None \<and> (sent w' = sent w \<or> (\<exists>rq positions.
       ex_get_positions ops (fst (w_executor w)) = Inr positions \<and>
       sent w' = sent w @ [rq] \<and> exit_order env s (last_close snap) positions rq))"

lemma close_for_exit_closes:
  assumes "close_for_exit (logged ops) env s snap p (last_close snap) why owner w = (w', r)"
    and "ex_get_positions ops (fst (w_executor w)) = Inr positions" and "p \<in> set positions"
    and "p_symbol p = s" and "0 < p_quantity p" and "0 < last_close snap"
  shows "closed_or_skipped ops env s snap w w' r"
  using close_for_exit_sent [OF assms(1)] assms(2-6)
  by (auto simp: closed_or_skipped_def exit_order_def)

lemma check_exit_levels_sent:
  assumes "check_exit_levels (logged ops) env s snap owner w = (w', Some r)"
  shows "closed_or_skipped ops env s snap w w' r"
proof -
  from assms obtain positions p where "ex_get_positions ops (fst (w_executor w)) = Inr positions"
    and "find (\<lambda>p. p_symbol p = s \<and> 0 < p_quantity p \<and> exit_level_breach p (last_close snap) \<noteq> None) positions = Some p"
    and "close_for_exit (logged ops) env s snap p (last_close snap)
      (the (exit_level_breach p (last_close snap))) owner w = (w', r)" and "0 < last_close snap"
    by (auto simp: check_exit_levels_def Let_def split: if_splits sum.splits option.splits prod.splits)
  then show ?thesis by (intro close_for_exit_closes) (auto dest!: find_SomeD)
qed

lemma check_time_stop_sent:
  assumes "check_time_stop (logged ops) env s snap ow w = (w', Some r)"
  shows "closed_or_skipped ops env s snap w w' r"
proof -
  from assms obtain positions p r0 where "ex_get_positions ops (fst (w_executor w)) = Inr positions"
    and "find (\<lambda>p. p_symbol p = s \<and> 0 < p_quantity p) positions = Some p"
    and "close_for_exit (logged ops) env s snap p (last_close snap) ''time_stop'' (Some (ow_strategy ow)) w = (w', r0)"
    and "0 < last_close snap" and r: "r = r0\<lparr>pr_strategy := Some (ow_strategy ow)\<rparr>"
    by (auto simp: check_time_stop_def Let_def split: if_splits sum.splits option.splits prod.splits)
  then have "closed_or_skipped ops env s snap w w' r0" by (intro close_for_exit_closes) (auto dest!: find_SomeD)
  then show ?thesis by (simp add: closed_or_skipped_def r)
qed

section \<open>Gated orders\<close>

text \<open>The order that follows an approved signal: the planned quantity at the last close, linked to
  the persisted decision, and the very notional the gate evaluated.\<close>

definition gated_order ::
  "cycle_env \<Rightarrow> symbol \<Rightarrow> real \<Rightarrow> risk_engine \<Rightarrow> order_request \<Rightarrow> pipeline_result \<Rightarrow> bool" where
  "gated_order env s price e rq r \<longleftrightarrow>
     (\<exists>sig res q book. pr_signal r = Some sig \<and> sig_action sig \<noteq> A_HOLD \<and> sig_symbol sig = s
        \<and> pr_risk_result r = Some res \<and> rr_verdict res = APPROVED \<and> price \<noteq> 0
        \<and> rr_verdict (snd (evaluate (ce_now_gate env) sig book (Some (q * price)) (Some price) e)) = APPROVED
        \<and> rq = entry_request env s sig q price (pr_decision_id r))"

lemma risk_gate_approved:
  assumes "risk_gate env sig book pf n price ctx err w = (w', res)" and "rr_verdict res = APPROVED"
  shows "rr_verdict (snd (evaluate (ce_now_gate env) sig book n price (the_engine w))) = APPROVED"
proof (rule ccontr)
  let ?r = "snd (evaluate (ce_now_gate env) sig book n price (the_engine w))"
  assume "\<not> ?thesis"
  then have "res = ?r" using assms(1)
    by (auto simp: risk_gate_def Let_def split: option.splits prod.splits if_splits)
  with assms(2) \<open>\<not> ?thesis\<close> show False by simp
qed

lemma execute_signal_sent:
  assumes "execute_signal (logged ops) env s sig planned price did base w = (w', r)"
  shows "pr_signal r = pr_signal base" "pr_risk_result r = pr_risk_result base"
    "pr_decision_id r = pr_decision_id base" "pr_auto_exit r = pr_auto_exit base"
    "sent w' = sent w \<or> (\<exists>q. planned = Some q \<and> price \<noteq> 0 \<and> sent w' = sent w @ [entry_request env s sig q price did])"
  using assms
  by (auto simp: execute_signal_def Let_def world_frame split: if_splits option.splits prod.splits sum.splits)

lemma decide_and_execute_sent:
  assumes "decide_and_execute (logged ops) env s snap sig metrics book pf is_sleeve ctx err w = (w', out)"
    and "sig_symbol sig = s"
  shows "sent w' = sent w \<or> (\<exists>rq r. out = Inr r \<and> sent w' = sent w @ [rq]
    \<and> gated_order env s (last_close snap) (the_engine w) rq r)"
proof (cases "planned_quantity (logged ops) sig book pf is_sleeve (last_close snap) w")
  case (Inl e)
  with assms(1) show ?thesis by (auto simp: decide_and_execute_def)
next
  case (Inr planned)
  obtain w1 res where g: "risk_gate env sig book pf (map_option (\<lambda>q. q * last_close snap) planned)
      (Some (last_close snap)) ctx err w = (w1, res)"
    by (cases "risk_gate env sig book pf (map_option (\<lambda>q. q * last_close snap) planned)
      (Some (last_close snap)) ctx err w")
  obtain w2 did where d: "persist_decision env sig res snap metrics w1 = (w2, did)"
    by (cases "persist_decision env sig res snap metrics w1")
  define w3 where "w3 = (if sig_is_fallback sig then w2
     else w2\<lparr>w_pipeline := (w_pipeline w2)\<lparr>pl_last_decision_at :=
       AList.update s (ms_fetched_at snap) (pl_last_decision_at (w_pipeline w2))\<rparr>\<rparr>)"
  define base where "base = (empty_result s)\<lparr>pr_signal := Some sig, pr_risk_result := Some res,
     pr_snapshot := Some snap, pr_decision_id := did, pr_strategy := pl_strategy (w_pipeline w)\<rparr>"
  have w3: "sent w3 = sent w"
    using risk_gate_frame(1) [OF g] persist_decision_frame(1) [OF d] by (simp add: w3_def)
  obtain w4 r where x: "execute_signal (logged ops) env s sig planned (last_close snap) did base w3 = (w4, r)"
    by (cases "execute_signal (logged ops) env s sig planned (last_close snap) did base w3")
  have out: "(w', out) = (if rr_verdict res = REJECTED \<or> sig_action sig = A_HOLD then (w3, Inr base) else (w4, Inr r))"
    using assms(1) x unfolding decide_and_execute_def Let_def Inr sum.case g prod.case d
      w3_def [symmetric] base_def [symmetric] by (auto split: if_splits)
  show ?thesis
  proof (cases "rr_verdict res = REJECTED \<or> sig_action sig = A_HOLD \<or> sent w4 = sent w")
    case True
    with out w3 show ?thesis by (auto split: if_splits)
  next
    case False
    then have ok: "rr_verdict res = APPROVED" by (cases "rr_verdict res") auto
    from False execute_signal_sent(5) [OF x] w3 obtain q where q: "planned = Some q" "last_close snap \<noteq> 0"
      "sent w4 = sent w @ [entry_request env s sig q (last_close snap) did]" by auto
    have "gated_order env s (last_close snap) (the_engine w) (entry_request env s sig q (last_close snap) did) r"
      using risk_gate_approved [OF g ok] ok False q execute_signal_sent(1-3) [OF x] assms(2)
      by (auto simp: gated_order_def base_def)
    with False out q show ?thesis by auto
  qed
qed

text \<open>Either the cycle stops before the question, or it decides in a world that differs at most in
  the sleeve book's cache.\<close>

lemma ask_and_decide_cases:
  assumes "ask_and_decide ops env s bars snap ow w = (w', out)"
  obtains (stopped) r where "w' = w" "out = Inr r" "pr_signal r = None" "pr_order_result r = None"
  | (decided) ind pf w1 book is_sleeve sig metrics ctx err where
      "get_portfolio_state ops (w_executor w) = Inr pf"
      "sleeve_portfolio ops env pf w = Inr (w1, book, is_sleeve)" "sig_symbol sig = s"
      "decide_and_execute ops env s (snap\<lparr>ms_indicators := ind\<rparr>) sig metrics book pf is_sleeve ctx err w1 = (w', out)"
proof (cases "ce_compute_indicators env bars")
  case (Inl e)
  with assms show thesis by (intro stopped) (auto simp: ask_and_decide_def empty_result_def)
next
  case (Inr ind)
  note ind = Inr
  show thesis
  proof (cases "get_portfolio_state ops (w_executor w)")
    case (Inl e)
    with assms ind show thesis by (intro stopped) (auto simp: ask_and_decide_def empty_result_def Let_def)
  next
    case (Inr pf)
    note pf = Inr
    show thesis
    proof (cases "sleeve_portfolio ops env pf w")
      case (Inl e)
      with assms ind pf show thesis
        by (intro stopped) (auto simp: ask_and_decide_def empty_result_def Let_def)
    next
      case (Inr t)
      obtain w1 book b where t: "t = (w1, book, b)" by (cases t)
      define inp where "inp ctx = \<lparr>pi_system_prompt = pl_system_prompt (w_pipeline w1),
        pi_snapshot = snap\<lparr>ms_indicators := ind\<rparr>, pi_prior_decisions = pl_recent_decisions env s None w1,
        pi_book = pl_book_context s book ow (ms_fetched_at (snap\<lparr>ms_indicators := ind\<rparr>)) w1,
        pi_context = ctx\<rparr>" for ctx
      from assms ind pf Inr t obtain ctx err where
        "decide_and_execute ops env s (snap\<lparr>ms_indicators := ind\<rparr>)
          ((fst (ce_ask_trade_signal env (inp ctx)))\<lparr>sig_symbol := s\<rparr>)
          (snd (ce_ask_trade_signal env (inp ctx))) book pf b ctx err w1 = (w', out)"
        by (auto simp: ask_and_decide_def Let_def case_prod_beta inp_def)
      with pf Inr t show thesis by (intro decided) auto
    qed
  qed
qed

lemma ask_and_decide_sent:
  assumes "ask_and_decide (logged ops) env s bars snap ow w = (w', out)"
  shows "sent w' = sent w \<or> (\<exists>rq r. out = Inr r \<and> sent w' = sent w @ [rq]
    \<and> gated_order env s (last_close snap) (the_engine w) rq r)"
  using assms
proof (cases rule: ask_and_decide_cases)
  case (decided ind pf w1 book is_sleeve sig metrics ctx err)
  have "the_engine w1 = the_engine w" "sent w1 = sent w"
    "last_close (snap\<lparr>ms_indicators := ind\<rparr>) = last_close snap"
    using sleeve_portfolio_frame [OF decided(2)] by (simp_all add: the_engine_def last_close_def)
  with decide_and_execute_sent [OF decided(4,3)] show ?thesis by simp
qed simp

section \<open>The whole cycle\<close>

text \<open>What a phase that starts in \<open>w\<close> may have sent when it ends.\<close>

definition sends_allowed ::
  "'x executor_ops \<Rightarrow> cycle_env \<Rightarrow> symbol \<Rightarrow> market_snapshot \<Rightarrow> ('x \<times> order_request list) world \<Rightarrow>
   ('x \<times> order_request list) world \<times> (py_error + pipeline_result) \<Rightarrow> bool" where
  "sends_allowed ops env s snap w res \<longleftrightarrow>
     sent (fst res) = sent w \<or> (\<exists>rq r. snd res = Inr r \<and> sent (fst res) = sent w @ [rq]
       \<and> (pr_auto_exit r \<and> (\<exists>positions. ex_get_positions ops (fst (w_executor w)) = Inr positions
             \<and> exit_order env s (last_close snap) positions rq)
          \<or> gated_order env s (last_close snap) (the_engine w) rq r))"

lemma bar_phase_sent: "sends_allowed ops env s snap w (bar_phase (logged ops) env s tf snap ow w)"
proof -
  let ?bars = "fst (split_forming (ms_candles snap) tf (ms_fetched_at snap))"
  obtain w1 why where e: "(if pl_decide_on_new_bar_only (w_pipeline w)
      then awaiting_new_bar env s tf ?bars w else (w, None)) = (w1, why)" by force
  then have f: "sent w1 = sent w" "the_engine w1 = the_engine w"
    by (auto simp: the_engine_def awaiting_new_bar_frame split: if_splits)
  show ?thesis
    using ask_and_decide_sent [of ops env s ?bars snap ow w1] f
    by (cases why; cases "ask_and_decide (logged ops) env s ?bars snap ow w1")
      (auto simp: bar_phase_def sends_allowed_def Let_def e)
qed

lemma sleeve_phase_sent: "sends_allowed ops env s snap w (sleeve_phase (logged ops) env s tf snap ow err w)"
proof (cases err)
  case None
  show ?thesis
  proof (cases ow)
    case (Some own)
    obtain w1 r where t: "check_time_stop (logged ops) env s snap own w = (w1, r)"
      by (cases "check_time_stop (logged ops) env s snap own w")
    show ?thesis
    proof (cases r)
      case stopped: (Some r')
      with t check_time_stop_sent [of ops env s snap own w w1 r'] None Some show ?thesis
        by (auto simp: sleeve_phase_def sends_allowed_def closed_or_skipped_def Let_def)
    next
      case running: None
      then have "w1 = w" using t check_time_stop_None by blast
      with t running None Some bar_phase_sent [of ops env s snap w tf ow] show ?thesis
        by (simp add: sleeve_phase_def sends_allowed_def Let_def)
    qed
  qed (use None bar_phase_sent [of ops env s snap w tf ow] in \<open>simp add: sleeve_phase_def Let_def\<close>)
qed (simp add: sleeve_phase_def sends_allowed_def Let_def)

lemma pipeline_run_sent:
  assumes "ce_fetch_snapshot env s tf = Inr snap" and "ms_candles snap \<noteq> []"
  shows "sends_allowed ops env s snap (mark_positions (logged ops) s snap w)
    (pipeline_run (logged ops) env s tf w)"
proof -
  let ?w = "mark_positions (logged ops) s snap w"
  obtain w1 ow err where o1: "sleeve_ownership (logged ops) env s ?w = (w1, ow, err)"
    by (cases "sleeve_ownership (logged ops) env s ?w")
  note f = sleeve_ownership_frame [OF o1]
  obtain w2 r where c: "check_exit_levels (logged ops) env s snap (map_option ow_strategy ow) w1 = (w2, r)"
    by (cases "check_exit_levels (logged ops) env s snap (map_option ow_strategy ow) w1")
  have move: "sends_allowed ops env s snap w1 res \<Longrightarrow> sends_allowed ops env s snap ?w res" for res
    using f by (simp add: sends_allowed_def the_engine_def)
  show ?thesis
  proof (cases r)
    case None
    then have "w2 = w1" using c check_exit_levels_None by blast
    with assms o1 c None sleeve_phase_sent [of ops env s snap w1 tf ow err] show ?thesis
      by (simp add: pipeline_run_def move)
  next
    case (Some r')
    with c check_exit_levels_sent [of ops env s snap _ w1 w2 r'] have "closed_or_skipped ops env s snap w1 w2 r'"
      by simp
    with assms o1 c Some f show ?thesis
      by (auto simp: pipeline_run_def sends_allowed_def closed_or_skipped_def)
  qed
qed


section \<open>What the gate asks of an entry\<close>

lemma evaluate_settings [simp]: "re_settings (fst (evaluate now sig pf n c e)) = re_settings e"
  by (cases "sig_action sig") (simp_all add: evaluate_buy_state)

lemma check_backstop_settings: "re_settings (fst (check_backstop v l e)) = re_settings e"
  by (simp add: check_backstop_def Let_def)

lemma sb_check_backstop_settings:
  "re_settings (fst (sb_check_backstop v b engs) k) = re_settings (engs k)"
  by (auto simp: sb_check_backstop_def check_backstop_settings case_prod_beta split: option.splits)

lemma check_backstop_iff:
  "rr_verdict (snd (check_backstop v l e)) = APPROVED \<longleftrightarrow> v \<le> 0 \<or> drawdown (re_peak_equity e) v \<le> l"
  by (auto simp: check_backstop_def drawdown_def Let_def peak_or_noted)

section \<open>Exits\<close>

text \<open>The part of the executor protocol that closing relies on: positions can be read, a mark
  changes only the price of its symbol, and a closing order for a whole position fills and
  takes that position, and no other, off the book.\<close>

lemma filter_out_symbol:
  fixes p :: position
  assumes "distinct (map p_symbol (stay @ p # ps))"
  shows "filter (\<lambda>q. p_symbol q \<noteq> p_symbol p) (stay @ p # ps) = stay @ ps"
proof -
  have keep: "k \<notin> p_symbol ` set xs \<Longrightarrow> filter (\<lambda>q. p_symbol q \<noteq> k) xs = xs" for k and xs :: "position list"
    by (induction xs) auto
  have "p_symbol p \<notin> p_symbol ` set stay" "p_symbol p \<notin> p_symbol ` set ps" using assms by simp_all
  then show ?thesis by (simp add: keep)
qed

locale closing_executor =
  fixes ops :: "'x executor_ops"
    and ok :: "'x \<Rightarrow> bool"
    and positions :: "'x \<Rightarrow> position list"
  assumes read: "ok x \<Longrightarrow> ex_get_positions ops x = Inr (positions x)"
    and not_working: "ex_working_order_sides ops = None"
    and mark_ok: "ok x \<Longrightarrow> ex_update_price ops = Some f \<Longrightarrow> ok (f x s v)"
    and mark_positions_map: "ok x \<Longrightarrow> ex_update_price ops = Some f \<Longrightarrow>
      positions (f x s v) = map (\<lambda>p. if p_symbol p = s then p\<lparr>p_current_price := v\<rparr> else p) (positions x)"
    and close_fills: "ok x \<Longrightarrow> p \<in> set (positions x) \<Longrightarrow> 0 < p_quantity p \<Longrightarrow>
      \<exists>x' res. ex_place_order ops x (close_request env k (p_symbol p) p price) = (x', Inr res)
        \<and> o_status res = FILLED \<and> ok x'
        \<and> positions x' = filter (\<lambda>q. p_symbol q \<noteq> p_symbol p) (positions x)"
begin

lemma no_working_order [simp]: "\<not> order_working ops x s side"
  by (simp add: order_working_def not_working)

lemma mark_positions_executor:
  assumes "ok (w_executor w)"
  shows "ok (w_executor (mark_positions ops s snap w))"
    and "p \<in> set (positions (w_executor w)) \<Longrightarrow> \<exists>q\<in>set (positions (w_executor (mark_positions ops s snap w))).
      p_symbol q = p_symbol p \<and> p_quantity q = p_quantity p
      \<and> exit_level_breach q mark = exit_level_breach p mark"
proof -
  show "ok (w_executor (mark_positions ops s snap w))"
    using assms mark_ok by (auto simp: mark_positions_def split: option.splits)
  assume p: "p \<in> set (positions (w_executor w))"
  have "exit_level_breach (p\<lparr>p_current_price := v\<rparr>) mark = exit_level_breach p mark" for v
    by (simp add: exit_level_breach_def Let_def)
  then have same: "p_symbol q = p_symbol p \<and> p_quantity q = p_quantity p
      \<and> exit_level_breach q mark = exit_level_breach p mark"
    if "q = (if p_symbol p = s then p\<lparr>p_current_price := v\<rparr> else p)" for q v
    using that by simp
  show "\<exists>q\<in>set (positions (w_executor (mark_positions ops s snap w))).
      p_symbol q = p_symbol p \<and> p_quantity q = p_quantity p
      \<and> exit_level_breach q mark = exit_level_breach p mark"
  proof (cases "ex_update_price ops = None \<or> ms_candles snap = [] \<or> last_close snap \<le> 0")
    case True
    then have "w_executor (mark_positions ops s snap w) = w_executor w"
      by (auto simp: mark_positions_def)
    with p show ?thesis by (intro bexI [of _ p]) simp_all
  next
    case False
    then obtain f where f: "ex_update_price ops = Some f" by auto
    have "positions (w_executor (mark_positions ops s snap w)) =
        map (\<lambda>p. if p_symbol p = s then p\<lparr>p_current_price := last_close snap\<rparr> else p) (positions (w_executor w))"
      using False f mark_positions_map [OF assms f] by (simp add: mark_positions_def)
    with p show ?thesis
      by (intro bexI [of _ "if p_symbol p = s then p\<lparr>p_current_price := last_close snap\<rparr> else p"] same [OF refl])
        simp
  qed
qed

text \<open>A breached position of the symbol is closed by the check, whatever the trackers hold.\<close>

lemma exit_check_closes:
  assumes "ok (w_executor w)" and "rs_enforce_exit_levels (the_settings w)" and "ms_candles snap \<noteq> []"
    and "0 < last_close snap" and "p \<in> set (positions (w_executor w))" and "p_symbol p = s"
    and "0 < p_quantity p" and "exit_level_breach p (last_close snap) \<noteq> None"
  shows "\<exists>w' r res. check_exit_levels ops env s snap owner w = (w', Some r) \<and> pr_auto_exit r
    \<and> pr_signal r = None \<and> pr_order_result r = Some res \<and> o_status res = FILLED
    \<and> positions (w_executor w') = filter (\<lambda>q. p_symbol q \<noteq> s) (positions (w_executor w))"
proof -
  let ?P = "\<lambda>p. p_symbol p = s \<and> 0 < p_quantity p \<and> exit_level_breach p (last_close snap) \<noteq> None"
  have "find ?P (positions (w_executor w)) \<noteq> None"
    using assms(5-8) by (auto simp: find_None_iff)
  then obtain q where f: "find ?P (positions (w_executor w)) = Some q" by auto
  then have q: "q \<in> set (positions (w_executor w))" "p_symbol q = s" "0 < p_quantity q"
    by (auto dest: find_SomeD)
  from close_fills [OF assms(1) q(1,3), of env 0 "last_close snap"] q(2) obtain x' res where
    "ex_place_order ops (w_executor w) (close_request env 0 s q (last_close snap)) = (x', Inr res)"
    "o_status res = FILLED" "positions x' = filter (\<lambda>q. p_symbol q \<noteq> s) (positions (w_executor w))"
    by auto
  with f assms(2-4) read [OF assms(1)] show ?thesis
    by (simp add: check_exit_levels_def close_for_exit_def empty_result_def note_fill_frame Let_def)
qed

text \<open>Closing everything leaves exactly the positions that cannot be closed.\<close>

lemma close_all_loop_flattens:
  assumes "ok (w_executor w)" and "distinct (map p_symbol (positions (w_executor w)))"
    and "positions (w_executor w) = stay @ ps"
    and "\<And>p. p \<in> set ps \<Longrightarrow> 0 < p_quantity p \<and> 0 < p_current_price p"
  shows "\<exists>w' closed. close_all_loop ops env k owners ps done w = (w', Inr (done @ closed))
    \<and> ok (w_executor w') \<and> positions (w_executor w') = stay \<and> map fst closed = map p_symbol ps
    \<and> (\<forall>c\<in>set closed. o_status (snd c) = FILLED)"
  using assms
proof (induction ps arbitrary: k "done" w)
  case (Cons p ps)
  have p: "0 < p_quantity p" "0 < p_current_price p" "p \<in> set (positions (w_executor w))"
    using Cons.prems(3,4) by auto
  from close_fills [OF Cons.prems(1) p(3,1), of env k "p_current_price p"] obtain x' res where
    c: "ex_place_order ops (w_executor w) (close_request env k (p_symbol p) p (p_current_price p)) = (x', Inr res)"
    "o_status res = FILLED" "ok x'" "positions x' = filter (\<lambda>q. p_symbol q \<noteq> p_symbol p) (positions (w_executor w))"
    by auto
  have "filter (\<lambda>q. p_symbol q \<noteq> p_symbol p) (stay @ p # ps) = stay @ ps"
    using Cons.prems(2,3) by (intro filter_out_symbol) simp
  with c(4) Cons.prems(3) have x': "positions x' = stay @ ps" by simp
  let ?w = "note_fill (ce_now_outcome env) (map_of owners (p_symbol p)) res (w\<lparr>w_executor := x'\<rparr>)"
  have "\<exists>w' closed. close_all_loop ops env (Suc k) owners ps (done @ [(p_symbol p, res)]) ?w =
      (w', Inr ((done @ [(p_symbol p, res)]) @ closed))
    \<and> ok (w_executor w') \<and> positions (w_executor w') = stay \<and> map fst closed = map p_symbol ps
    \<and> (\<forall>c\<in>set closed. o_status (snd c) = FILLED)"
    using Cons.prems(2-4) c(3) x' by (intro Cons.IH) (auto simp: note_fill_frame)
  then obtain w' closed where "close_all_loop ops env (Suc k) owners ps (done @ [(p_symbol p, res)]) ?w =
      (w', Inr ((done @ [(p_symbol p, res)]) @ closed))"
    "ok (w_executor w')" "positions (w_executor w') = stay" "map fst closed = map p_symbol ps"
    "\<forall>c\<in>set closed. o_status (snd c) = FILLED" by blast
  with p c show ?case
    by (intro exI [of _ w'] exI [of _ "(p_symbol p, res) # closed"]) simp
qed simp

end


lemma positions_delete:
  assumes "\<forall>kp\<in>set d. position_ok kp"
  shows "map snd (AList.delete k d) = filter (\<lambda>q. p_symbol q \<noteq> k) (map snd d)"
  using assms by (induction d) (auto simp: position_ok_def)

lemma positions_update:
  assumes "dict_ok d" and "\<forall>kp\<in>set d. position_ok kp" and "map_of d k = Some p"
  shows "map snd (AList.update k (f p) d) = map (\<lambda>q. if p_symbol q = k then f q else q) (map snd d)"
  using assms
proof (induction d)
  case (Cons kp d)
  have "map (\<lambda>q. if p_symbol q = k then f q else q) (map snd d) = map snd d" if "fst kp = k"
    using Cons.prems(1,2) that by (intro map_idI) (fastforce simp: position_ok_def image_iff)
  with Cons show ?case by (cases kp) (auto simp: position_ok_def split: if_splits)
qed simp

lemma update_price_positions:
  assumes "px_ok px"
  shows "get_positions (update_price px s v) =
    map (\<lambda>p. if p_symbol p = s then p\<lparr>p_current_price := v\<rparr> else p) (get_positions px)"
proof (cases "map_of (px_positions px) s")
  case None
  have "p_symbol p \<noteq> s" if "p \<in> set (get_positions px)" for p
    using get_positions_get [OF assms that] None by auto
  with None show ?thesis by (auto simp: update_price_def intro!: map_idI [symmetric])
next
  case (Some p)
  have d: "dict_ok (px_positions px)" "\<forall>kp\<in>set (px_positions px). position_ok kp"
    using assms by (simp_all add: px_ok_def)
  from positions_update [OF d Some, of "p_current_price_update (\<lambda>_. v)"] Some show ?thesis
    by (simp add: update_price_def get_positions_def)
qed

lemma paper_close_fills:
  assumes ok: "px_ok px" and p: "p \<in> set (get_positions px)" and q: "0 < p_quantity p"
  shows "\<exists>px' res. place_order px (close_request env k (p_symbol p) p price) = (px', Inr res)
    \<and> o_status res = FILLED \<and> px_ok px'
    \<and> get_positions px' = filter (\<lambda>q. p_symbol q \<noteq> p_symbol p) (get_positions px)"
proof -
  let ?r = "close_request env k (p_symbol p) p price" and ?fp = "price * (1 - px_slippage_pct px)"
  note get = get_positions_get [OF ok p]
  note pk = px_okD(5) [OF ok get]
  have r: "rq_symbol ?r = p_symbol p" "rq_quantity ?r = p_quantity p" "rq_side ?r = S_SELL"
    using pk by (simp_all add: close_request_def closing_side_def)
  have held: "px_held px (p_symbol p) = p_quantity p" using get by (simp add: px_held_def)
  have eff: "effective_price px ?r = Some ?fp"
    using r by (simp add: effective_price_def close_request_def)
  have next_ok: "px_ok (fst (place_order px ?r))"
    by (rule place_order_step(1) [OF ok]) (use pk r in \<open>simp add: request_ok_def\<close>)
  have all: "\<forall>kp\<in>set (px_positions px). position_ok kp" using ok by (simp add: px_ok_def)
  from px_okD(1) [OF ok] show ?thesis
  proof (cases rule: execute_sell_cases [of px ?r ?fp])
    case refused
    with r held get show ?thesis by simp
  next
    case (fill pos)
    then have "snd (place_order px ?r) = Inr (filled_order ?r ?fp
        (Some (so_net_pnl (snd (on_sell (px_tracker px) (p_symbol p) (p_quantity p) ?fp
          (total_fee (live_cost_model px) (p_quantity p * ?fp))))))
        (so_closed_entries (snd (on_sell (px_tracker px) (p_symbol p) (p_quantity p) ?fp
          (total_fee (live_cost_model px) (p_quantity p * ?fp))))))"
      and "px_positions (fst (place_order px ?r)) = AList.delete (p_symbol p) (px_positions px)"
      using r held eff by (simp_all add: place_order_def del: on_sell_book)
    then show ?thesis
      using next_ok positions_delete [OF all, of "p_symbol p"]
      by (cases "place_order px ?r") (auto simp: get_positions_def filled_order_def)
  qed
qed

interpretation paper_exits: closing_executor paper_ops px_ok get_positions
  by unfold_locales
    (auto simp: paper_ops_def update_price_ok update_price_positions intro: paper_close_fills)


section \<open>When the LLM is asked\<close>

lemma close_for_exit_signal: "close_for_exit ops env s snap p mark why owner w = (w', r) \<Longrightarrow> pr_signal r = None"
  by (auto simp: close_for_exit_def Let_def empty_result_def split: if_splits prod.splits sum.splits)

lemma check_exit_levels_signal: "check_exit_levels ops env s snap owner w = (w', Some r) \<Longrightarrow> pr_signal r = None"
  by (auto simp: check_exit_levels_def Let_def dest: close_for_exit_signal
      split: if_splits sum.splits option.splits prod.splits)

lemma check_time_stop_signal: "check_time_stop ops env s snap ow w = (w', Some r) \<Longrightarrow> pr_signal r = None"
  by (auto simp: check_time_stop_def Let_def dest: close_for_exit_signal
      split: if_splits sum.splits option.splits prod.splits)

text \<open>The outcomes in which nobody was asked.\<close>

definition unasked :: "py_error + pipeline_result \<Rightarrow> bool" where
  "unasked out \<longleftrightarrow> (\<exists>r. out = Inr r \<and> pr_signal r = None)"

lemma unasked_simps [simp]: "unasked (Inr r) \<longleftrightarrow> pr_signal r = None"
  by (simp add: unasked_def)

lemma bar_phase_asked:
  assumes "bar_phase ops env s tf snap ow w = (w', out)" and "\<not> unasked out"
  obtains w1 where "(if pl_decide_on_new_bar_only (w_pipeline w)
      then awaiting_new_bar env s tf (fst (split_forming (ms_candles snap) tf (ms_fetched_at snap))) w
      else (w, None)) = (w1, None)"
    "ask_and_decide ops env s (fst (split_forming (ms_candles snap) tf (ms_fetched_at snap))) snap ow w1 = (w', out)"
proof -
  let ?bars = "fst (split_forming (ms_candles snap) tf (ms_fetched_at snap))"
  obtain w1 why where e: "(if pl_decide_on_new_bar_only (w_pipeline w)
      then awaiting_new_bar env s tf ?bars w else (w, None)) = (w1, why)" by force
  with assms have "why = None"
    by (cases why) (auto simp: bar_phase_def Let_def empty_result_def)
  with e assms(1) show thesis by (intro that) (auto simp: bar_phase_def Let_def)
qed

lemma sleeve_phase_asked:
  assumes "sleeve_phase ops env s tf snap ow err w = (w', out)" and "\<not> unasked out"
  shows "bar_phase ops env s tf snap ow w = (w', out)"
    and "ow = None \<or> map_option ow_strategy ow = pl_strategy (w_pipeline w)"
  using assms check_time_stop_None [of ops env s snap _ w] check_time_stop_signal [of ops env s snap _ w]
  by (auto simp: sleeve_phase_def Let_def empty_result_def split: option.splits prod.splits if_splits)

lemma pipeline_run_asked:
  assumes "pipeline_run ops env s tf w = (w', out)" and "\<not> unasked out"
  obtains snap ow err w1 where "ce_fetch_snapshot env s tf = Inr snap"
    "sleeve_ownership ops env s (mark_positions ops s snap w) = (w1, ow, err)"
    "ow = None \<or> map_option ow_strategy ow = pl_strategy (w_pipeline w1)"
    "bar_phase ops env s tf snap ow w1 = (w', out)"
proof -
  from assms obtain snap where snap: "ce_fetch_snapshot env s tf = Inr snap" "ms_candles snap \<noteq> []"
    by (auto simp: pipeline_run_def empty_result_def split: sum.splits if_splits)
  obtain w1 ow err where so: "sleeve_ownership ops env s (mark_positions ops s snap w) = (w1, ow, err)"
    by (cases "sleeve_ownership ops env s (mark_positions ops s snap w)")
  obtain w2 r where c: "check_exit_levels ops env s snap (map_option ow_strategy ow) w1 = (w2, r)"
    by (cases "check_exit_levels ops env s snap (map_option ow_strategy ow) w1")
  from assms snap so c have r: "r = None" by (cases r) (auto simp: pipeline_run_def dest: check_exit_levels_signal)
  then have "w2 = w1" using c check_exit_levels_None by blast
  with assms(1) snap so c r have "sleeve_phase ops env s tf snap ow err w1 = (w', out)"
    by (simp add: pipeline_run_def)
  from sleeve_phase_asked [OF this assms(2)] snap so show thesis by (intro that) auto
qed

lemma execute_signal_pipeline:
  "execute_signal ops env s sig planned price did base w = (w', r) \<Longrightarrow>
   w_pipeline w' = w_pipeline w \<and> w_storage w' = w_storage w \<and> pr_signal r = pr_signal base
   \<and> pr_risk_result r = pr_risk_result base \<and> pr_decision_id r = pr_decision_id base"
  by (auto simp: execute_signal_def Let_def note_fill_frame split: if_splits option.splits prod.splits sum.splits)

text \<open>What deciding leaves behind: the decision time of the symbol and the decision row.\<close>

lemma decide_and_execute_result:
  fixes w :: "'x world"
  assumes "decide_and_execute ops env s snap sig metrics book pf is_sleeve ctx err w = (w', Inr r)"
  obtains w1 w2 :: "'x world" and res did where "pr_signal r = Some sig" "pr_risk_result r = Some res" "pr_decision_id r = did"
    "w_storage w1 = w_storage w" "w_pipeline w1 = w_pipeline w"
    "persist_decision env sig res snap metrics w1 = (w2, did)"
    "w_storage w' = w_storage w2"
    "w_pipeline w' = (if sig_is_fallback sig then w_pipeline w
       else (w_pipeline w)\<lparr>pl_last_decision_at :=
         AList.update s (ms_fetched_at snap) (pl_last_decision_at (w_pipeline w))\<rparr>)"
proof -
  from assms obtain planned where planned: "planned_quantity ops sig book pf is_sleeve (last_close snap) w = Inr planned"
    by (auto simp: decide_and_execute_def Let_def split: sum.splits)
  obtain w1 res where g: "risk_gate env sig book pf (map_option (\<lambda>q. q * last_close snap) planned)
      (Some (last_close snap)) ctx err w = (w1, res)"
    by (cases "risk_gate env sig book pf (map_option (\<lambda>q. q * last_close snap) planned)
      (Some (last_close snap)) ctx err w")
  obtain w2 did where d: "persist_decision env sig res snap metrics w1 = (w2, did)"
    by (cases "persist_decision env sig res snap metrics w1")
  note f = risk_gate_frame [OF g] persist_decision_frame [OF d]
  show thesis
    by (rule that [where ?w1.0 = w1 and ?w2.0 = w2])
      (use assms planned g d f in \<open>auto simp: decide_and_execute_def Let_def empty_result_def
        dest!: execute_signal_pipeline split: if_splits prod.splits\<close>)
qed

lemma pipeline_run_decided:
  fixes w :: "'x world"
  assumes "pipeline_run ops env s tf w = (w', Inr r)" and "pr_signal r = Some sig"
    and "ce_fetch_snapshot env s tf = Inr snap"
  obtains w1 w2 w3 :: "'x world" and res snap' metrics where "pr_risk_result r = Some res" "sig_symbol sig = s"
    "w_storage w1 = w_storage w" "persist_decision env sig res snap' metrics w1 = (w2, pr_decision_id r)"
    "w_storage w' = w_storage w2" "pl_strategy (w_pipeline w1) = pl_strategy (w_pipeline w)"
    "w_pipeline w' = (if sig_is_fallback sig then w_pipeline w3
       else (w_pipeline w3)\<lparr>pl_last_decision_at :=
         AList.update s (ms_fetched_at snap) (pl_last_decision_at (w_pipeline w3))\<rparr>)"
    "pl_decide_on_new_bar_only (w_pipeline w3) = pl_decide_on_new_bar_only (w_pipeline w)"
proof -
  have "\<not> unasked (Inr r)" using assms(2) by simp
  then obtain ow err v1 where
    so: "sleeve_ownership ops env s (mark_positions ops s snap w) = (v1, ow, err)"
    and bar: "bar_phase ops env s tf snap ow v1 = (w', Inr r)"
    using assms(3) by (elim pipeline_run_asked [OF assms(1)]) auto
  note f1 = sleeve_ownership_frame [OF so]
  let ?bars = "fst (split_forming (ms_candles snap) tf (ms_fetched_at snap))"
  from bar_phase_asked [OF bar \<open>\<not> unasked (Inr r)\<close>] obtain v2 where
    aw: "(if pl_decide_on_new_bar_only (w_pipeline v1) then awaiting_new_bar env s tf ?bars v1 else (v1, None)) = (v2, None)"
    and ask: "ask_and_decide ops env s ?bars snap ow v2 = (w', Inr r)" by blast
  have f2: "w_storage v2 = w_storage v1" "pl_strategy (w_pipeline v2) = pl_strategy (w_pipeline v1)"
    using aw by (auto simp: awaiting_new_bar_frame split: if_splits)
  have f3: "pl_decide_on_new_bar_only (w_pipeline v2) = pl_decide_on_new_bar_only (w_pipeline v1)"
    using aw by (auto simp: awaiting_new_bar_def Let_def split: if_splits option.splits sum.splits list.splits)
  from ask show thesis
  proof (cases rule: ask_and_decide_cases)
    case (stopped r')
    with assms(2) show thesis by simp
  next
    case (decided ind pf v3 book is_sleeve sig' metrics ctx err')
    note f4 = sleeve_portfolio_frame [OF decided(2)]
    from decided(4) show thesis
    proof (cases rule: decide_and_execute_result)
      case (1 w1 w2 res did)
      with f1 f2 f3 f4 assms(2) decided(3) show thesis
        by (intro that [where ?w1.0 = w1 and ?w2.0 = w2 and ?w3.0 = v3 and res = res and metrics = metrics and snap' = "snap\<lparr>ms_indicators := ind\<rparr>"]) (auto simp: mark_positions_frame)
    qed
  qed
qed

section \<open>Properties\<close>


text \<open>C7: What an approved BUY has passed: with sleeves and market context on, the gate approves a
  BUY if and only if all seven entry rules hold on the sleeve's own book, the agent-wide
  backstop drawdown is not exceeded, and no event blackout applies (an unreadable context
  counts as a blackout).\<close>

theorem gate_approves_entry_iff:
  assumes "risk_gate env sig book pf planned price ctx ctx_error w = (w', res)" and "sig_action sig = A_BUY"
    and "w_book w = Some b" and "sb_backstop_engine b = Some k" and "k \<noteq> pl_engine (w_pipeline w)"
    and "ce_context_reader env \<noteq> None" and "rs_event_guard_enabled (the_settings w)"
  shows "rr_verdict res = APPROVED \<longleftrightarrow>
    entry_allowed (ce_now_gate env) sig book planned price (the_engine w)
    \<and> (total_value pf \<le> 0 \<or> drawdown (re_peak_equity (w_engines w k)) (total_value pf)
         \<le> ss_backstop_max_drawdown_pct (sb_settings b))
    \<and> ctx_error = None \<and> event_blackout_reason (the_settings w) ctx = None"
proof -
  let ?e = "evaluate (ce_now_gate env) sig book planned price (the_engine w)"
  let ?l = "ss_backstop_max_drawdown_pct (sb_settings b)"
  let ?bs = "check_backstop (total_value pf) ?l (w_engines w k)"
  let ?g = "check_event_guard (the_settings w) sig ctx ctx_error"
  have res: "res = (if rr_verdict (snd ?e) = APPROVED
      then if rr_verdict (snd ?bs) = APPROVED then ?g else snd ?bs else snd ?e)"
    using assms(1-6)
    by (auto simp: risk_gate_def Let_def set_engine_def sb_check_backstop_def case_prod_beta
        the_settings_def the_engine_def check_backstop_settings split: if_splits)
  have g: "rr_verdict ?g = APPROVED \<longleftrightarrow> ctx_error = None \<and> event_blackout_reason (the_settings w) ctx = None"
    using assms(2,7) by (auto simp: check_event_guard_def split: option.splits)
  show ?thesis unfolding res
    by (cases "rr_verdict (snd ?e)"; cases "rr_verdict (snd ?bs)")
      (simp_all add: g evaluate_buy_iff [OF assms(2), symmetric] check_backstop_iff [symmetric])
qed


definition demo_snapshot :: "real \<Rightarrow> instant \<Rightarrow> market_snapshot" where
  "demo_snapshot price now = \<lparr>ms_symbol = ''BTC/EUR'', ms_timeframe = ''1h'',
     ms_candles = [(demo_bar 0)\<lparr>c_close := price\<rparr>], ms_indicators = [], ms_fetched_at = now\<rparr>"

definition demo_env :: "real \<Rightarrow> instant \<Rightarrow> trade_signal \<Rightarrow> cycle_env" where
  "demo_env price now sig =
     \<lparr>ce_fetch_snapshot = (\<lambda>_ _. Inr (demo_snapshot price now)), ce_compute_indicators = (\<lambda>_. Inr []),
      ce_ask_trade_signal = (\<lambda>_. (sig, None)),
      ce_context_reader = Some (\<lambda>_ _. Inl (ExternalError ''down'')), ce_faults = no_faults,
      ce_now_gate = now, ce_now_row = now, ce_now_order = now, ce_now_outcome = now,
      ce_order_id = (\<lambda>_. ''paper-1'')\<rparr>"

definition demo_world :: "paper_executor \<Rightarrow> paper_executor world" where
  "demo_world px = \<lparr>w_pipeline = \<lparr>pl_system_prompt = [], pl_decision_history_limit = 5,
       pl_decide_on_new_bar_only = True, pl_last_decision_at = [], pl_strategy = None, pl_engine = 0\<rparr>,
     w_engines = (\<lambda>_. new_risk_engine default_risk_settings), w_book = None, w_executor = px,
     w_storage = Some demo_storage\<rparr>"

theorem gate_approves_entry_iff_witness:
  "rr_verdict (snd (risk_gate (demo_env 100 hour_us (demo_signal A_BUY)) (demo_signal A_BUY) demo_portfolio
     demo_portfolio None None None (Some ''down'')
     ((demo_world demo_paper)\<lparr>w_book := Some (demo_book\<lparr>sb_backstop_engine := Some 1\<rparr>)\<rparr>))) \<noteq> APPROVED"
proof -
  let ?b = "demo_book\<lparr>sb_backstop_engine := Some 1\<rparr>"
  let ?w = "(demo_world demo_paper)\<lparr>w_book := Some ?b\<rparr>"
  let ?g = "risk_gate (demo_env 100 hour_us (demo_signal A_BUY)) (demo_signal A_BUY) demo_portfolio
     demo_portfolio None None None (Some ''down'') ?w"
  have "?g = (fst ?g, snd ?g)" by simp
  from gate_approves_entry_iff [OF this, of ?b 1] show ?thesis
    by (simp add: demo_signal_def demo_world_def demo_env_def the_settings_def the_engine_def
        new_risk_engine_def default_risk_settings_def)
qed

text \<open>The paper book closes a breached position in the cycle that sees the breach.\<close>

lemma paper_breach_closes:
  assumes "px_ok (w_executor w)" and "w_book w = None" and "rs_enforce_exit_levels (the_settings w)"
    and "ce_fetch_snapshot env s tf = Inr snap" and "ms_candles snap \<noteq> []" and "0 < last_close snap"
    and "map_of (px_positions (w_executor w)) s = Some p" and "0 < p_quantity p"
    and "exit_level_breach p (last_close snap) \<noteq> None"
  shows "\<exists>w' r res. pipeline_run paper_ops env s tf w = (w', Inr r) \<and> pr_auto_exit r \<and> pr_signal r = None
    \<and> pr_order_result r = Some res \<and> o_status res = FILLED
    \<and> (\<forall>q\<in>set (get_positions (w_executor w')). p_symbol q \<noteq> s)"
proof -
  let ?w = "mark_positions paper_ops s snap w"
  have p: "p \<in> set (get_positions (w_executor w))" "p_symbol p = s"
    using assms(7) px_okD(5) [OF assms(1) assms(7)]
    by (force simp: get_positions_def dest: map_of_SomeD)+
  obtain q where q: "q \<in> set (get_positions (w_executor ?w))" "p_symbol q = s" "0 < p_quantity q"
      "exit_level_breach q (last_close snap) \<noteq> None"
    using paper_exits.mark_positions_executor(2) [OF assms(1) p(1), of s snap "last_close snap"] p(2) assms(8,9)
    by auto
  have so: "sleeve_ownership paper_ops env s ?w = (?w, None, None)"
    using assms(2) by (simp add: sleeve_ownership_def mark_positions_frame)
  have en: "rs_enforce_exit_levels (the_settings ?w)"
    using assms(3) by (simp add: the_settings_def the_engine_def mark_positions_frame)
  from paper_exits.exit_check_closes [OF paper_exits.mark_positions_executor(1) [OF assms(1)] en assms(5,6) q, of env None]
  obtain w' r res where "check_exit_levels paper_ops env s snap None ?w = (w', Some r)" "pr_auto_exit r"
    "pr_signal r = None" "pr_order_result r = Some res" "o_status res = FILLED"
    "get_positions (w_executor w') = filter (\<lambda>q. p_symbol q \<noteq> s) (get_positions (w_executor ?w))" by blast
  then show ?thesis using assms(4,5) so by (simp add: pipeline_run_def)
qed


definition demo_stop_paper :: paper_executor where
  "demo_stop_paper = fst (place_order (new_paper_executor 1000 0 (1/100) 0 0)
     ((buy_request ''BTC/EUR'' 2 100)\<lparr>rq_stop_loss := Some 90\<rparr>))"

lemma demo_stop_paper_facts:
  "px_ok demo_stop_paper"
  "map_of (px_positions demo_stop_paper) ''BTC/EUR'' =
     Some \<lparr>p_symbol = ''BTC/EUR'', p_quantity = 2, p_avg_entry_price = 100, p_current_price = 100,
       p_side = LONG, p_stop_loss = Some 90, p_take_profit = None\<rparr>"
proof -
  show "px_ok demo_stop_paper"
    unfolding demo_stop_paper_def
    by (rule place_order_step(1)) (simp_all add: new_paper_executor_ok request_ok_def buy_request_def)
  show "map_of (px_positions demo_stop_paper) ''BTC/EUR'' =
     Some \<lparr>p_symbol = ''BTC/EUR'', p_quantity = 2, p_avg_entry_price = 100, p_current_price = 100,
       p_side = LONG, p_stop_loss = Some 90, p_take_profit = None\<rparr>"
    by (simp add: demo_stop_paper_def place_order_def effective_price_def buy_request_def
        new_paper_executor_def execute_buy_def px_cost_model_def cost_model_from_attrs_def
        make_cost_model_def attr_or_zero_def total_fee_def commission_def bought_position_def Let_def)
qed






lemma demo_hold_asked:
  "\<exists>w' r. pipeline_run paper_ops (demo_env 100 hour_us (demo_signal A_HOLD)) ''BTC/EUR'' ''1h''
       (demo_world demo_stop_paper) = (w', Inr r)
     \<and> pr_signal r = Some (demo_signal A_HOLD)"
proof -
  let ?env = "demo_env 100 hour_us (demo_signal A_HOLD)" and ?snap = "demo_snapshot 100 hour_us"
  let ?w = "mark_positions paper_ops ''BTC/EUR'' ?snap (demo_world demo_stop_paper)"
  have ps: "get_positions (w_executor ?w) = [\<lparr>p_symbol = ''BTC/EUR'', p_quantity = 2, p_avg_entry_price = 100,
      p_current_price = 100, p_side = LONG, p_stop_loss = Some 90, p_take_profit = None\<rparr>]"
    by (simp add: mark_positions_def demo_snapshot_def last_close_def paper_ops_def demo_world_def
        update_price_def demo_stop_paper_def get_positions_def place_order_def effective_price_def buy_request_def
        new_paper_executor_def execute_buy_def px_cost_model_def cost_model_from_attrs_def
        make_cost_model_def attr_or_zero_def total_fee_def commission_def bought_position_def Let_def)
  have w: "w_book ?w = None" "w_pipeline ?w = w_pipeline (demo_world demo_stop_paper)"
    "w_storage ?w = Some demo_storage" "w_engines ?w = w_engines (demo_world demo_stop_paper)"
    by (simp_all add: mark_positions_frame demo_world_def)
  have c: "check_exit_levels paper_ops ?env ''BTC/EUR'' ?snap None ?w = (?w, None)"
    using ps by (simp add: check_exit_levels_def paper_ops_def exit_level_breach_def demo_snapshot_def last_close_def)
  have run: "pipeline_run paper_ops ?env ''BTC/EUR'' ''1h'' (demo_world demo_stop_paper) =
      bar_phase paper_ops ?env ''BTC/EUR'' ''1h'' ?snap None ?w"
    using c w by (simp add: pipeline_run_def demo_env_def sleeve_ownership_def sleeve_phase_def Let_def)
      (simp add: demo_snapshot_def)
  have a: "awaiting_new_bar ?env ''BTC/EUR'' ''1h'' (ms_candles ?snap) ?w = (?w, None)"
    using w by (simp add: awaiting_new_bar_def demo_snapshot_def demo_bar_def bar_close_time_def timeframe_1h
        demo_world_def demo_env_def attempt_def no_faults_def get_recent_decisions_def demo_storage_def
        empty_db_def desc_def)
  have b: "fst (split_forming (ms_candles ?snap) ''1h'' (ms_fetched_at ?snap)) = ms_candles ?snap"
    by (simp add: split_forming_def demo_snapshot_def demo_bar_def timeframe_1h)
  have "\<exists>w' r. ask_and_decide paper_ops ?env ''BTC/EUR'' (ms_candles ?snap) ?snap None ?w = (w', Inr r)
      \<and> pr_signal r = Some (demo_signal A_HOLD)"
    using w
    by (auto simp: ask_and_decide_def demo_env_def get_portfolio_state_def read_portfolio_def paper_ops_def
        sleeve_portfolio_def decide_and_execute_def planned_quantity_def demo_signal_def risk_gate_def
        empty_result_def Let_def case_prod_beta read_context_def split: prod.splits)
  then show ?thesis unfolding run bar_phase_def Let_def b using a w by (simp add: demo_world_def)
qed


end
