(* ===== verification/Agent.thy ===== *)
theory Agent
  imports Pipeline_Safety
begin

text \<open>
  The trading agent: class \<^verbatim>\<open>BaseTradingAgent\<close> of \<^verbatim>\<open>src/src/agents/base_agent.py\<close>. It runs the
  decision pipeline over the symbols (and, with sleeves, once per sleeve), obeys the operator's
  control row, polls venue orders left open, and persists what happened.

  The agent owns the parts that its pipelines share (engines, sleeve book, executor,
  storage); a pipeline keeps only its own attributes. A run builds the pipeline's \<open>world\<close>
  from them and takes it apart again afterwards. Storage calls fail as the
  step's \<open>ce_faults\<close> says, an alert channel as \<open>ae_alert_error\<close> says; alerts and the
  \<^verbatim>\<open>order_persist_failed\<close> audit line are kept as logs of the agent. The market-hours hooks
  of the subclasses and the applier of configuration overrides are parameters.
\<close>

datatype alert_kind = AL_error | AL_llm_unavailable | AL_risk_rejected | AL_exit_level | AL_order_filled

record sleeve_run =
  sr_name :: string
  sr_pipeline :: pipeline
  sr_timeframe :: string

record audit_line =
  au_order :: order_result
  au_decision_id :: "int option"
  au_strategy :: "string option"

record 'x agent =
  ag_pipeline :: pipeline
  ag_timeframe :: string
  ag_sleeve_runs :: "sleeve_run list"
  ag_symbols :: "symbol list"
  ag_control_agent :: string
  ag_risk_engine :: engine_ref
  ag_engines :: engines
  ag_book :: "sleeve_book option"
  ag_executor :: 'x
  ag_storage :: storage
  ag_applied_overrides_raw :: "string option"
  ag_persist_retries :: nat
  ag_stopping :: bool
  ag_cycle_locked :: bool
  ag_alerts :: "(alert_kind \<times> symbol option) list"
  ag_audit :: "audit_line list"

datatype cycle_fault =
    RunRaised py_error
  | RunReported pipeline_error
  | LlmFallback string

record agent_env =
  ae_control :: cycle_env
  ae_step :: "nat \<Rightarrow> cycle_env"
  ae_close_step :: "nat \<Rightarrow> cycle_env"
  ae_skip_cycle :: "string option"
  ae_skip_symbol :: "symbol \<Rightarrow> string option"
  ae_alert_error :: "py_error option"
  ae_error_text :: "symbol \<Rightarrow> string option \<Rightarrow> cycle_fault \<Rightarrow> string"

text \<open>The optional reconciliation hooks of a venue executor; the paper executor has none.\<close>

record 'x reconcile_ops =
  rx_reconcile :: "('x \<Rightarrow> 'x \<times> (py_error + order_result list)) option"
  rx_confirm :: "('x \<Rightarrow> string \<Rightarrow> 'x) option"
  rx_pending_decision_id :: "('x \<Rightarrow> string \<Rightarrow> int option) option"

definition paper_reconcile :: "paper_executor reconcile_ops" where
  "paper_reconcile = \<lparr>rx_reconcile = None, rx_confirm = None, rx_pending_decision_id = None\<rparr>"

section \<open>Small operations\<close>

definition set_symbols :: "symbol list \<Rightarrow> 'x agent \<Rightarrow> 'x agent" where
  "set_symbols ss ag = (if ss \<noteq> [] \<and> ss \<noteq> ag_symbols ag then ag\<lparr>ag_symbols := ss\<rparr> else ag)"

definition set_sleeves :: "sleeve_run list \<Rightarrow> sleeve_book \<Rightarrow> 'x agent \<Rightarrow> 'x agent" where
  "set_sleeves runs b ag = ag\<lparr>ag_sleeve_runs := runs, ag_book := Some b\<rparr>"

definition agent_stop :: "'x agent \<Rightarrow> 'x agent" where
  "agent_stop ag = ag\<lparr>ag_stopping := True\<rparr>"

text \<open>\<^verbatim>\<open>AlertManager.send\<close>: an alert that cannot be delivered raises.\<close>

definition send_alert ::
  "agent_env \<Rightarrow> alert_kind \<Rightarrow> symbol option \<Rightarrow> 'x agent \<Rightarrow> 'x agent \<times> py_error option" where
  "send_alert env k s ag =
     (case ae_alert_error env of
        Some e \<Rightarrow> (ag, Some e)
      | None \<Rightarrow> (ag\<lparr>ag_alerts := ag_alerts ag @ [(k, s)]\<rparr>, None))"

text \<open>The decision loops of a cycle, \<^verbatim>\<open>_runs()\<close>: the sleeves in their order, or the single pipeline.\<close>

definition run_slots :: "'x agent \<Rightarrow> nat option list" where
  "run_slots ag = (if ag_sleeve_runs ag = [] then [None] else map Some [0..<length (ag_sleeve_runs ag)])"

definition slot_name :: "'x agent \<Rightarrow> nat option \<Rightarrow> string option" where
  "slot_name ag slot = (case slot of None \<Rightarrow> None | Some i \<Rightarrow> Some (sr_name (ag_sleeve_runs ag ! i)))"

definition slot_timeframe :: "'x agent \<Rightarrow> nat option \<Rightarrow> string" where
  "slot_timeframe ag slot = (case slot of None \<Rightarrow> ag_timeframe ag | Some i \<Rightarrow> sr_timeframe (ag_sleeve_runs ag ! i))"

text \<open>The single pipeline is built without a sleeve book, a sleeve's pipeline with the shared one.\<close>

definition slot_world :: "'x agent \<Rightarrow> nat option \<Rightarrow> 'x world" where
  "slot_world ag slot =
     \<lparr>w_pipeline = (case slot of None \<Rightarrow> ag_pipeline ag | Some i \<Rightarrow> sr_pipeline (ag_sleeve_runs ag ! i)),
      w_engines = ag_engines ag,
      w_book = (case slot of None \<Rightarrow> None | Some i \<Rightarrow> ag_book ag),
      w_executor = ag_executor ag, w_storage = Some (ag_storage ag)\<rparr>"

definition absorb :: "nat option \<Rightarrow> 'x world \<Rightarrow> 'x agent \<Rightarrow> 'x agent" where
  "absorb slot w ag =
     (let ag1 = ag\<lparr>ag_engines := w_engines w, ag_executor := w_executor w,
                   ag_storage := (case w_storage w of None \<Rightarrow> ag_storage ag | Some st \<Rightarrow> st)\<rparr>
      in case slot of
           None \<Rightarrow> ag1\<lparr>ag_pipeline := w_pipeline w\<rparr>
         | Some i \<Rightarrow> ag1\<lparr>ag_book := w_book w,
             ag_sleeve_runs := (ag_sleeve_runs ag)[i := (ag_sleeve_runs ag ! i)\<lparr>sr_pipeline := w_pipeline w\<rparr>]\<rparr>)"

section \<open>Persistence\<close>

definition fee_field :: "order_result \<Rightarrow> real option \<Rightarrow> real option" where
  "fee_field res v = (if o_status res \<noteq> FILLED then None else v)"

text \<open>The row of an order result, as every writer of the agent builds it.\<close>

definition save_order_row ::
  "instant \<Rightarrow> order_result \<Rightarrow> instant option \<Rightarrow> int option \<Rightarrow> string option \<Rightarrow> storage \<Rightarrow>
   storage \<times> (py_error + int)" where
  "save_order_row now res filled_at did strategy st =
     save_order st now (o_order_id res) (o_symbol res) (side_value (o_side res)) (o_quantity res)
       (o_price res) (status_value (o_status res)) did
       (if o_status res = FILLED then filled_at else None)
       (if o_status res = FILLED then o_realized_pnl res else None) strategy
       (fee_field res (o_fee_base res)) (fee_field res (o_fee_quote res))"

fun save_order_attempts ::
  "cycle_env \<Rightarrow> nat \<Rightarrow> nat \<Rightarrow> order_result \<Rightarrow> int option \<Rightarrow> string option \<Rightarrow> storage \<Rightarrow> storage \<times> bool" where
  "save_order_attempts env k 0 res did strategy st = (st, False)"
| "save_order_attempts env k (Suc n) res did strategy st =
     (case ce_faults env (C_save_order k) of
        Some e \<Rightarrow> save_order_attempts env (Suc k) n res did strategy st
      | None \<Rightarrow>
          (case save_order_row (ce_now_row env) res
                  (Some (case o_filled_at res of None \<Rightarrow> ce_now_order env | Some t \<Rightarrow> t)) did strategy st of
             (st1, Inr i) \<Rightarrow> (st1, True)
           | (st1, Inl e) \<Rightarrow> save_order_attempts env (Suc k) n res did strategy st1))"

definition persist_order ::
  "agent_env \<Rightarrow> cycle_env \<Rightarrow> order_result \<Rightarrow> string option \<Rightarrow> int option \<Rightarrow> 'x agent \<Rightarrow> 'x agent" where
  "persist_order aenv env res strategy did ag =
     (case save_order_attempts env 1 (Suc (ag_persist_retries ag)) res did strategy (ag_storage ag) of
        (st, True) \<Rightarrow> ag\<lparr>ag_storage := st\<rparr>
      | (st, False) \<Rightarrow>
          fst (send_alert aenv AL_error (Some (o_symbol res))
            (ag\<lparr>ag_storage := st,
                ag_audit := ag_audit ag @ [\<lparr>au_order = res, au_decision_id = did, au_strategy = strategy\<rparr>]\<rparr>)))"

text \<open>Attribution of a close to the entry decisions; a failing write leaves the loop.\<close>

fun attribute_entries :: "cycle_env \<Rightarrow> closed_entry list \<Rightarrow> storage \<Rightarrow> storage \<times> py_error option" where
  "attribute_entries env [] st = (st, None)"
| "attribute_entries env (x # xs) st =
     (case ce_entry_decision_id x of
        None \<Rightarrow> attribute_entries env xs st
      | Some i \<Rightarrow>
          (case ce_faults env (C_add_realized_pnl i) of
             Some e \<Rightarrow> (st, Some e)
           | None \<Rightarrow> attribute_entries env xs (add_realized_pnl st i (ce_pnl x))))"

definition backfill_pnl :: "cycle_env \<Rightarrow> order_result \<Rightarrow> int option \<Rightarrow> storage \<Rightarrow> storage" where
  "backfill_pnl env res did st =
     (let own = (case (did, o_realized_pnl res) of
                   (Some i, Some v) \<Rightarrow>
                     if o_status res = FILLED
                     then (case ce_faults env C_set_realized_pnl of
                             Some e \<Rightarrow> (st, Some e) | None \<Rightarrow> (set_realized_pnl st i v, None))
                     else (st, None)
                 | _ \<Rightarrow> (st, None))
      in case own of
           (st1, Some e) \<Rightarrow> st1
         | (st1, None) \<Rightarrow> fst (attribute_entries env (o_closed_entries res) st1))"

definition persist_portfolio :: "'x executor_ops \<Rightarrow> cycle_env \<Rightarrow> 'x agent \<Rightarrow> 'x agent" where
  "persist_portfolio ops env ag =
     (case get_portfolio_state ops (ag_executor ag) of
        Inl e \<Rightarrow> ag
      | Inr pf \<Rightarrow>
          (case ce_faults env C_save_portfolio_snapshot of
             Some e \<Rightarrow> ag
           | None \<Rightarrow> ag\<lparr>ag_storage := fst (save_portfolio_snapshot (ag_storage ag) (ce_now_row env)
                            (pf_cash pf) (pf_positions pf) (total_value pf) (unrealized_pnl pf))\<rparr>))"

definition maybe_alert :: "agent_env \<Rightarrow> symbol \<Rightarrow> pipeline_result \<Rightarrow> 'x agent \<Rightarrow> 'x agent \<times> py_error option" where
  "maybe_alert env s r ag =
     (if pr_error r \<noteq> None then send_alert env AL_error (Some s) ag
      else if (case pr_signal r of None \<Rightarrow> False | Some sig \<Rightarrow> sig_is_fallback sig)
      then send_alert env AL_llm_unavailable (Some s) ag
      else if (case pr_risk_result r of None \<Rightarrow> False | Some x \<Rightarrow> rr_verdict x = REJECTED)
      then send_alert env AL_risk_rejected (Some s) ag
      else if pr_auto_exit r
      then if pr_order_result r = None \<and> pr_skip_reason r \<noteq> None then (ag, None)
           else send_alert env AL_exit_level (Some s) ag
      else if pr_executed r then send_alert env AL_order_filled (Some s) ag
      else (ag, None))"

definition update_daily :: "'x executor_ops \<Rightarrow> cycle_env \<Rightarrow> 'x agent \<Rightarrow> 'x agent" where
  "update_daily ops env ag =
     (case get_portfolio_state ops (ag_executor ag) of
        Inl e \<Rightarrow> ag
      | Inr pf \<Rightarrow>
          ag\<lparr>ag_engines := (ag_engines ag)(ag_risk_engine ag :=
               update_daily_value (ce_now_outcome env) (total_value pf) (ag_engines ag (ag_risk_engine ag)))\<rparr>)"

definition post_process ::
  "'x executor_ops \<Rightarrow> agent_env \<Rightarrow> cycle_env \<Rightarrow> symbol \<Rightarrow> pipeline_result \<Rightarrow> 'x agent \<Rightarrow> 'x agent" where
  "post_process ops aenv env s r ag =
     (let ag1 = update_daily ops env ag;
          ag2 = (case pr_order_result r of
                   None \<Rightarrow> ag1
                 | Some res \<Rightarrow>
                     let agp = persist_order aenv env res (pr_strategy r) (pr_decision_id r) ag1
                     in agp\<lparr>ag_storage := backfill_pnl env res (pr_decision_id r) (ag_storage agp)\<rparr>)
      in fst (maybe_alert aenv s r (persist_portfolio ops env ag2)))"

section \<open>Control plane\<close>

definition read_control :: "cycle_env \<Rightarrow> 'x agent \<Rightarrow> control_row option" where
  "read_control env ag =
     (case ce_faults env C_get_agent_control of
        Some e \<Rightarrow> None
      | None \<Rightarrow> get_agent_control (ag_storage ag) (ag_control_agent ag))"

definition record_health :: "cycle_env \<Rightarrow> string option \<Rightarrow> 'x agent \<Rightarrow> 'x agent" where
  "record_health env last_error ag =
     (case ce_faults env C_record_cycle_health of
        Some e \<Rightarrow> ag
      | None \<Rightarrow> ag\<lparr>ag_storage := record_cycle_health (ag_storage ag) (ce_now_row env) (ag_control_agent ag) last_error\<rparr>)"

fun post_process_closes ::
  "'x executor_ops \<Rightarrow> agent_env \<Rightarrow> nat \<Rightarrow> (symbol, string) dict \<Rightarrow> (symbol \<times> order_result) list \<Rightarrow>
   'x agent \<Rightarrow> 'x agent" where
  "post_process_closes ops env k owners [] ag = ag"
| "post_process_closes ops env k owners ((s, res) # rest) ag =
     post_process_closes ops env (Suc k) owners rest
       (post_process ops env (ae_close_step env k) s
          ((empty_result s)\<lparr>pr_order_result := Some res, pr_exit_reason := Some ''close_all'',
                            pr_strategy := map_of owners s\<rparr>) ag)"

text \<open>\<^verbatim>\<open>_close_all_positions\<close>: the owners are read before the close. When the close raises, what
  it had already filled is not post-processed.\<close>

definition close_owners ::
  "'x executor_ops \<Rightarrow> cycle_env \<Rightarrow> 'x agent \<Rightarrow> 'x agent \<times> (symbol, string) dict" where
  "close_owners ops env ag =
     (case ag_book ag of
        None \<Rightarrow> (ag, [])
      | Some b \<Rightarrow>
          (case ex_get_positions ops (ag_executor ag) of
             Inl e \<Rightarrow> (ag, [])
           | Inr ps \<Rightarrow>
               (case sb_owners (ce_faults env) (ag_storage ag) (entry_hook ops (ag_executor ag))
                       (pending_hook ops (ag_executor ag)) ps b of
                  Inl e \<Rightarrow> (ag, [])
                | Inr (b1, os) \<Rightarrow> (ag\<lparr>ag_book := Some b1\<rparr>, os))))"

definition agent_close_all ::
  "'x executor_ops \<Rightarrow> agent_env \<Rightarrow> 'x agent \<Rightarrow> 'x agent \<times> py_error option" where
  "agent_close_all ops env ag =
     (let (ag1, owners) = close_owners ops (ae_control env) ag;
          slot = (if ag_sleeve_runs ag1 = [] then None else Some 0);
          (w, out) = close_all_positions ops (ae_control env) (slot_world ag1 slot);
          ag2 = absorb slot w ag1
      in case out of
           Inl e \<Rightarrow> send_alert env AL_error None ag2
         | Inr closes \<Rightarrow> (post_process_closes ops env 0 owners closes ag2, None))"

definition apply_overrides ::
  "('x agent \<Rightarrow> string option \<Rightarrow> 'x agent \<times> py_error option) option \<Rightarrow> control_row \<Rightarrow> 'x agent \<Rightarrow> 'x agent" where
  "apply_overrides applier c ag =
     (let raw = (case ac_config_override c of None \<Rightarrow> None | Some x \<Rightarrow> if x = [] then None else Some x)
      in case applier of
           None \<Rightarrow> ag
         | Some f \<Rightarrow>
             if raw = ag_applied_overrides_raw ag then ag
             else (case f ag raw of
                     (ag1, Some e) \<Rightarrow> ag1
                   | (ag1, None) \<Rightarrow> ag1\<lparr>ag_applied_overrides_raw := raw\<rparr>))"

text \<open>\<^verbatim>\<open>_handle_control\<close>; the boolean says that the cycle ends here because the agent is paused.\<close>

definition handle_control ::
  "'x executor_ops \<Rightarrow> agent_env \<Rightarrow> ('x agent \<Rightarrow> string option \<Rightarrow> 'x agent \<times> py_error option) option \<Rightarrow>
   control_row \<Rightarrow> 'x agent \<Rightarrow> 'x agent \<times> (py_error + bool)" where
  "handle_control ops env applier c ag =
     (let cenv = ae_control env; ag1 = apply_overrides applier c ag;
          (ag2, err) = (if ac_close_all_requested c then agent_close_all ops env ag1 else (ag1, None))
      in case err of
           Some e \<Rightarrow> (ag2, Inl e)
         | None \<Rightarrow>
             let ag3 = (if ac_close_all_requested c
                        then (case ce_faults cenv C_request_close_all of
                                Some e \<Rightarrow> ag2
                              | None \<Rightarrow> ag2\<lparr>ag_storage := request_close_all (ag_storage ag2) (ce_now_row cenv)
                                                          (ag_control_agent ag2) False\<rparr>)
                        else ag2)
             in if ac_state c = ''paused'' then (record_health cenv None ag3, Inr True) else (ag3, Inr False))"

section \<open>Reconciliation\<close>

definition pending_id :: "'x reconcile_ops \<Rightarrow> 'x agent \<Rightarrow> order_result \<Rightarrow> int option" where
  "pending_id rops ag res =
     (case rx_pending_decision_id rops of None \<Rightarrow> None | Some f \<Rightarrow> f (ag_executor ag) (o_order_id res))"

definition book_strategy ::
  "cycle_env \<Rightarrow> int option \<Rightarrow> 'x agent \<Rightarrow> py_error + 'x agent \<times> string option" where
  "book_strategy env did ag =
     (case ag_book ag of
        None \<Rightarrow> Inr (ag, None)
      | Some b \<Rightarrow>
          (case strategy_of_decision (ce_faults env) (ag_storage ag) did b of
             Inl e \<Rightarrow> Inl e
           | Inr (b1, name) \<Rightarrow> Inr (ag\<lparr>ag_book := Some b1\<rparr>, Some name)))"

text \<open>The guarded part of one update: the status change, or the re-created row.\<close>

definition persist_reconciled ::
  "'x reconcile_ops \<Rightarrow> cycle_env \<Rightarrow> order_result \<Rightarrow> 'x agent \<Rightarrow> py_error + 'x agent" where
  "persist_reconciled rops env res ag =
     (let fl = (o_status res = FILLED);
          filled_at = (if fl \<and> o_filled_at res = None then Some (ce_now_order env) else o_filled_at res)
      in case ce_faults env (C_update_order_status (o_order_id res)) of
           Some e \<Rightarrow> Inl e
         | None \<Rightarrow>
             (case update_order_status (ag_storage ag) (o_order_id res) (status_value (o_status res)) (o_price res)
                     filled_at (if fl then o_realized_pnl res else None) (if fl then Some (o_quantity res) else None)
                     (fee_field res (o_fee_base res)) (fee_field res (o_fee_quote res)) of
                (st, True) \<Rightarrow> Inr (ag\<lparr>ag_storage := st\<rparr>)
              | (st, False) \<Rightarrow>
                  (case book_strategy env (pending_id rops ag res) (ag\<lparr>ag_storage := st\<rparr>) of
                     Inl e \<Rightarrow> Inl e
                   | Inr (ag1, strategy) \<Rightarrow>
                       (case ce_faults env (C_save_order 0) of
                          Some e \<Rightarrow> Inl e
                        | None \<Rightarrow>
                            (case save_order_row (ce_now_row env) res filled_at (pending_id rops ag res) strategy
                                    (ag_storage ag1) of
                               (st1, Inl e) \<Rightarrow> Inl e
                             | (st1, Inr i) \<Rightarrow> Inr (ag1\<lparr>ag_storage := st1\<rparr>))))))"

definition reconciled_outcome ::
  "'x reconcile_ops \<Rightarrow> cycle_env \<Rightarrow> order_result \<Rightarrow> 'x agent \<Rightarrow> py_error + 'x agent" where
  "reconciled_outcome rops env res ag =
     (case o_realized_pnl res of
        None \<Rightarrow> Inr ag
      | Some v \<Rightarrow>
          if o_status res \<noteq> FILLED then Inr ag
          else (case book_strategy env (pending_id rops ag res) ag of
                  Inl e \<Rightarrow> Inl e
                | Inr (ag1, strategy) \<Rightarrow>
                    let r = (case ag_book ag1 of
                               None \<Rightarrow> ag_risk_engine ag1
                             | Some b \<Rightarrow> (case sb_engine b strategy of None \<Rightarrow> ag_risk_engine ag1 | Some q \<Rightarrow> q))
                    in Inr (ag1\<lparr>ag_engines := (ag_engines ag1)(r :=
                         record_outcome (ce_now_outcome env) (v \<ge> 0) (ag_engines ag1 r))\<rparr>)))"

definition venue_exit :: "order_result \<Rightarrow> bool" where
  "venue_exit res = (case o_reason res of Some (OtherReason m) \<Rightarrow> take 6 m = ''venue '' | _ \<Rightarrow> False)"

text \<open>An error inside the guarded part skips the update, unconfirmed; an error of the attribution
  or of the outcome leaves the method.\<close>

fun reconcile_loop ::
  "'x reconcile_ops \<Rightarrow> agent_env \<Rightarrow> order_result list \<Rightarrow> bool \<Rightarrow> 'x agent \<Rightarrow> 'x agent \<times> (py_error + bool)" where
  "reconcile_loop rops env [] changed ag = (ag, Inr changed)"
| "reconcile_loop rops env (res # rest) changed ag =
     (let cenv = ae_control env
      in case persist_reconciled rops cenv res ag of
           Inl e \<Rightarrow> reconcile_loop rops env rest changed ag
         | Inr ag1 \<Rightarrow>
             (case attribute_entries cenv (o_closed_entries res) (ag_storage ag1) of
                (st, Some e) \<Rightarrow> (ag1\<lparr>ag_storage := st\<rparr>, Inl e)
              | (st, None) \<Rightarrow>
                  (case reconciled_outcome rops cenv res (ag1\<lparr>ag_storage := st\<rparr>) of
                     Inl e \<Rightarrow> (ag1\<lparr>ag_storage := st\<rparr>, Inl e)
                   | Inr ag2 \<Rightarrow>
                       let ag3 = (case rx_confirm rops of
                                    None \<Rightarrow> ag2
                                  | Some f \<Rightarrow> ag2\<lparr>ag_executor := f (ag_executor ag2) (o_order_id res)\<rparr>);
                           ag4 = (if venue_exit res then fst (send_alert env AL_exit_level (Some (o_symbol res)) ag3)
                                  else ag3)
                       in reconcile_loop rops env rest True ag4)))"

definition reconcile_orders ::
  "'x executor_ops \<Rightarrow> 'x reconcile_ops \<Rightarrow> agent_env \<Rightarrow> 'x agent \<Rightarrow> 'x agent \<times> py_error option" where
  "reconcile_orders ops rops env ag =
     (case rx_reconcile rops of
        None \<Rightarrow> (ag, None)
      | Some f \<Rightarrow>
          (case f (ag_executor ag) of
             (x, Inl e) \<Rightarrow> (ag\<lparr>ag_executor := x\<rparr>, None)
           | (x, Inr updates) \<Rightarrow>
               (case reconcile_loop rops env updates False (ag\<lparr>ag_executor := x\<rparr>) of
                  (ag1, Inl e) \<Rightarrow> (ag1, Some e)
                | (ag1, Inr True) \<Rightarrow> (persist_portfolio ops (ae_control env) ag1, None)
                | (ag1, Inr False) \<Rightarrow> (ag1, None))))"

section \<open>The cycle\<close>

definition run_slot ::
  "'x executor_ops \<Rightarrow> cycle_env \<Rightarrow> nat option \<Rightarrow> symbol \<Rightarrow> 'x agent \<Rightarrow> 'x agent \<times> (py_error + pipeline_result)" where
  "run_slot ops env slot s ag =
     (case pipeline_run ops env s (slot_timeframe ag slot) (slot_world ag slot) of
        (w, out) \<Rightarrow> (absorb slot w ag, out))"

definition result_fault :: "pipeline_result \<Rightarrow> cycle_fault option" where
  "result_fault r =
     (case pr_error r of
        Some e \<Rightarrow> Some (RunReported e)
      | None \<Rightarrow>
          (case pr_signal r of
             None \<Rightarrow> None
           | Some sig \<Rightarrow> if sig_is_fallback sig then Some (LlmFallback (sig_reasoning sig)) else None))"

fun cycle_runs ::
  "'x executor_ops \<Rightarrow> agent_env \<Rightarrow> nat \<Rightarrow> (symbol \<times> nat option) list \<Rightarrow> string option \<Rightarrow> pipeline_result list \<Rightarrow>
   'x agent \<Rightarrow> 'x agent \<times> string option \<times> pipeline_result list" where
  "cycle_runs ops env k [] err results ag = (ag, err, results)"
| "cycle_runs ops env k ((s, slot) # rest) err results ag =
     (let name = slot_name ag slot
      in case run_slot ops (ae_step env k) slot s ag of
           (ag1, Inl e) \<Rightarrow>
             cycle_runs ops env (Suc k) rest (Some (ae_error_text env s name (RunRaised e))) results ag1
         | (ag1, Inr r) \<Rightarrow>
             cycle_runs ops env (Suc k) rest
               (case result_fault r of None \<Rightarrow> err | Some f \<Rightarrow> Some (ae_error_text env s name f))
               (results @ [r]) (post_process ops env (ae_step env k) s r ag1))"

definition record_sleeve_snapshots :: "'x executor_ops \<Rightarrow> cycle_env \<Rightarrow> 'x agent \<Rightarrow> 'x agent" where
  "record_sleeve_snapshots ops env ag =
     (case ag_book ag of
        None \<Rightarrow> ag
      | Some b \<Rightarrow>
          if \<not> per_sleeve_books b then ag
          else (case record_snapshots (ce_faults env) (ce_now_row env) (entry_hook ops (ag_executor ag))
                       (pending_hook ops (ag_executor ag)) (get_portfolio_state ops (ag_executor ag))
                       (ag_storage ag) b (ag_engines ag) of
                  (st, engs, out) \<Rightarrow> ag\<lparr>ag_storage := st, ag_engines := engs\<rparr>))"

definition cycle_plan :: "agent_env \<Rightarrow> 'x agent \<Rightarrow> (symbol \<times> nat option) list" where
  "cycle_plan env ag =
     concat (map (\<lambda>s. if ae_skip_symbol env s = None then map (Pair s) (run_slots ag) else []) (ag_symbols ag))"

definition trade_cycle ::
  "'x executor_ops \<Rightarrow> 'x reconcile_ops \<Rightarrow> agent_env \<Rightarrow> 'x agent \<Rightarrow> 'x agent \<times> (py_error + pipeline_result list)" where
  "trade_cycle ops rops env ag =
     (case reconcile_orders ops rops env ag of
        (ag1, Some e) \<Rightarrow> (ag1, Inl e)
      | (ag1, None) \<Rightarrow>
          (case cycle_runs ops env 0 (cycle_plan env ag1) None [] ag1 of
             (ag2, err, results) \<Rightarrow>
               (record_health (ae_control env) err (record_sleeve_snapshots ops (ae_control env) ag2), Inr results)))"

definition run_cycle_body ::
  "'x executor_ops \<Rightarrow> 'x reconcile_ops \<Rightarrow> ('x agent \<Rightarrow> string option \<Rightarrow> 'x agent \<times> py_error option) option \<Rightarrow>
   agent_env \<Rightarrow> 'x agent \<Rightarrow> 'x agent \<times> (py_error + pipeline_result list)" where
  "run_cycle_body ops rops applier env ag =
     (case (case read_control (ae_control env) ag of
              None \<Rightarrow> (ag, Inr False)
            | Some c \<Rightarrow> handle_control ops env applier c ag) of
        (ag1, Inl e) \<Rightarrow> (ag1, Inl e)
      | (ag1, Inr True) \<Rightarrow> (ag1, Inr [])
      | (ag1, Inr False) \<Rightarrow>
          if ae_skip_cycle env \<noteq> None then (record_health (ae_control env) None ag1, Inr [])
          else trade_cycle ops rops env ag1)"

definition run_cycle ::
  "'x executor_ops \<Rightarrow> 'x reconcile_ops \<Rightarrow> ('x agent \<Rightarrow> string option \<Rightarrow> 'x agent \<times> py_error option) option \<Rightarrow>
   agent_env \<Rightarrow> 'x agent \<Rightarrow> 'x agent \<times> (py_error + pipeline_result list)" where
  "run_cycle ops rops applier env ag =
     (if ag_stopping ag \<or> ag_cycle_locked ag then (ag, Inr [])
      else case run_cycle_body ops rops applier env (ag\<lparr>ag_cycle_locked := True\<rparr>) of
             (ag1, out) \<Rightarrow> (ag1\<lparr>ag_cycle_locked := False\<rparr>, out))"

end
