(* ===== verification/Agent_Safety.thy ===== *)
theory Agent_Safety
  imports Agent
begin

text \<open>
  What whole agent cycles guarantee. The first section follows a decision cycle and records
  what it may have done to the executor and to the stored rows; it is a locale over the
  executor, used once for every executor and once for the paper executor with its
  invariant. The second lifts it to the agent: no order is lost, a paused agent is silent,
  close-all works, and a paper agent can be restarted from its database after any number
  of cycles.
\<close>

section \<open>The effect of one decision cycle\<close>

text \<open>The part of the storage that a decision cycle never touches: binding, orders and portfolio
  snapshots.\<close>

definition kept_rows ::
  "storage \<Rightarrow> (string option \<times> string option) \<times> order_row list \<times> portfolio_row list" where
  "kept_rows st = ((st_agent st, st_venue st), db_orders (st_db st), db_portfolio (st_db st))"

abbreviation same_rows :: "'x world \<Rightarrow> 'x world \<Rightarrow> bool" where
  "same_rows w w' \<equiv> map_option kept_rows (w_storage w') = map_option kept_rows (w_storage w)"

lemma persist_decision_rows:
  "persist_decision env sig res snap metrics w = (w', did) \<Longrightarrow> same_rows w w'"
  by (auto simp: persist_decision_def kept_rows_def save_llm_decision_def save_market_snapshot_def Let_def
      split: option.splits sum.splits prod.splits)

locale executor_effects =
  fixes ops :: "'x executor_ops" and inv :: "'x \<Rightarrow> bool" and ok :: "order_request \<Rightarrow> bool"
  assumes close_ok: "inv x \<Longrightarrow> ex_get_positions ops x = Inr ps \<Longrightarrow> p \<in> set ps \<Longrightarrow> ok (close_request env k s p mark)"
    and entry_ok: "inv (w_executor w) \<Longrightarrow> get_portfolio_state ops (w_executor w) = Inr pf \<Longrightarrow>
      set (pf_positions book) \<subseteq> set (pf_positions pf) \<Longrightarrow>
      planned_quantity ops sig book pf b price w = Inr (Some q) \<Longrightarrow> ok (entry_request env s sig q price did)"
    and mark_ok: "inv x \<Longrightarrow> ex_update_price ops = Some f \<Longrightarrow> inv (f x s v)"
begin

text \<open>A phase that starts in \<open>w\<close> places at most one admissible order, and what the result reports is
  what the executor answered.\<close>

definition effect :: "'x world \<Rightarrow> 'x world \<times> (py_error + pipeline_result) \<Rightarrow> bool" where
  "effect w res \<longleftrightarrow> same_rows w (fst res) \<and>
     (case snd res of
        Inl e \<Rightarrow> w_executor (fst res) = w_executor w
      | Inr r \<Rightarrow>
          pr_order_result r = None \<and> w_executor (fst res) = w_executor w
          \<or> (\<exists>rq out. ok rq \<and> ex_place_order ops (w_executor w) rq = (w_executor (fst res), out)
               \<and> pr_order_result r = (case out of Inl e \<Rightarrow> None | Inr x \<Rightarrow> Some x)
               \<and> rq_decision_id rq = pr_decision_id r))"

lemma effect_quiet [simp]: "pr_order_result r = None \<Longrightarrow> effect w (w, Inr r)"
  by (simp add: effect_def)

lemma effect_from:
  assumes "effect w1 res" and "w_executor w1 = w_executor w" and "same_rows w w1"
  shows "effect w res"
  using assms(1) unfolding effect_def assms(2,3) .

lemma effect_placed:
  assumes "ok rq" and "ex_place_order ops (w_executor w) rq = (w_executor w', out)" and "w_storage w' = w_storage w"
    and "pr_order_result r = (case out of Inl e \<Rightarrow> None | Inr x \<Rightarrow> Some x)" and "rq_decision_id rq = pr_decision_id r"
  shows "effect w (w', Inr r)"
  using assms by (auto simp: effect_def)

lemma close_for_exit_effect:
  assumes "close_for_exit ops env s snap p mark why owner w = (w', r)" and "inv (w_executor w)"
    and "ex_get_positions ops (w_executor w) = Inr ps" and "p \<in> set ps"
  shows "effect w (w', Inr (r\<lparr>pr_strategy := st\<rparr>))" "effect w (w', Inr r)"
proof -
  note rq = close_ok [OF assms(2-4), of env 0 s mark]
  have did: "rq_decision_id (close_request env 0 s p mark) = None" by (simp add: close_request_def)
  have "effect w (w', Inr (r\<lparr>pr_strategy := st\<rparr>)) \<and> effect w (w', Inr r)"
  proof (cases "order_working ops (w_executor w) s (closing_side p)")
    case True
    with assms(1) show ?thesis by (auto simp: close_for_exit_def empty_result_def Let_def intro: effect_quiet)
  next
    case False
    obtain x out where "ex_place_order ops (w_executor w) (close_request env 0 s p mark) = (x, out)" by force
    with False assms(1) did show ?thesis
      by (intro conjI effect_placed [OF rq, where out = out]; cases out)
        (auto simp: close_for_exit_def empty_result_def Let_def note_fill_frame)
  qed
  then show "effect w (w', Inr (r\<lparr>pr_strategy := st\<rparr>))" "effect w (w', Inr r)" by blast+
qed

lemma check_exit_levels_effect:
  assumes "check_exit_levels ops env s snap owner w = (w', Some r)" and "inv (w_executor w)"
  shows "effect w (w', Inr (r\<lparr>pr_strategy := st\<rparr>))"
proof -
  from assms(1) obtain ps p why where "ex_get_positions ops (w_executor w) = Inr ps" "p \<in> set ps"
    "close_for_exit ops env s snap p (last_close snap) why owner w = (w', r)"
    by (auto simp: check_exit_levels_def Let_def split: if_splits sum.splits option.splits prod.splits
        dest: find_SomeD)
  with assms(2) show ?thesis by (blast intro: close_for_exit_effect(1))
qed

lemma check_time_stop_effect:
  assumes "check_time_stop ops env s snap ow w = (w', Some r)" and "inv (w_executor w)"
  shows "effect w (w', Inr r)"
proof -
  from assms(1) obtain ps p mark why owner r0 st where "ex_get_positions ops (w_executor w) = Inr ps" "p \<in> set ps"
    "close_for_exit ops env s snap p mark why owner w = (w', r0)" "r = r0\<lparr>pr_strategy := st\<rparr>"
    by (auto simp: check_time_stop_def Let_def split: if_splits sum.splits option.splits prod.splits
        dest: find_SomeD)
  with assms(2) show ?thesis by (blast intro: close_for_exit_effect(1))
qed

lemma execute_signal_effect:
  assumes "execute_signal ops env s sig planned price did base w = (w', r)"
    and "\<And>q. planned = Some q \<Longrightarrow> ok (entry_request env s sig q price did)"
    and "pr_order_result base = None" and "pr_decision_id base = did"
  shows "effect w (w', Inr r)"
proof -
  let ?side = "if sig_action sig = A_BUY then S_BUY else S_SELL"
  show ?thesis
  proof (cases "planned = None \<or> price = 0 \<or> order_working ops (w_executor w) s ?side")
    case True
    with assms(1,3) show ?thesis
      by (auto simp: execute_signal_def Let_def intro: effect_quiet split: option.splits if_splits)
  next
    case False
    then obtain q where q: "planned = Some q" by auto
    obtain x out where "ex_place_order ops (w_executor w) (entry_request env s sig q price did) = (x, out)" by force
    with False q assms(1,3,4) show ?thesis
      by (intro effect_placed [OF assms(2) [OF q], where out = out]; cases out)
        (auto simp: execute_signal_def Let_def note_fill_frame entry_request_def)
  qed
qed

lemma decide_and_execute_effect:
  assumes "decide_and_execute ops env s snap sig metrics book pf b ctx err w = res"
    and "inv (w_executor w)" and "get_portfolio_state ops (w_executor w) = Inr pf"
    and "set (pf_positions book) \<subseteq> set (pf_positions pf)"
  shows "effect w res"
proof (cases "planned_quantity ops sig book pf b (last_close snap) w")
  case (Inl e)
  with assms(1) show ?thesis by (auto simp: decide_and_execute_def effect_def)
next
  case (Inr planned)
  let ?price = "last_close snap"
  obtain w1 v where g: "risk_gate env sig book pf (map_option (\<lambda>q. q * ?price) planned) (Some ?price) ctx err w = (w1, v)"
    by force
  obtain w2 did where d: "persist_decision env sig v snap metrics w1 = (w2, did)" by force
  define w3 where "w3 = (if sig_is_fallback sig then w2
     else w2\<lparr>w_pipeline := (w_pipeline w2)\<lparr>pl_last_decision_at :=
       AList.update s (ms_fetched_at snap) (pl_last_decision_at (w_pipeline w2))\<rparr>\<rparr>)"
  define base where "base = (empty_result s)\<lparr>pr_signal := Some sig, pr_risk_result := Some v,
     pr_snapshot := Some snap, pr_decision_id := did, pr_strategy := pl_strategy (w_pipeline w)\<rparr>"
  have w3: "w_executor w3 = w_executor w" "same_rows w w3"
    using risk_gate_frame [OF g] persist_decision_frame [OF d] persist_decision_rows [OF d] by (simp_all add: w3_def)
  have base: "pr_order_result base = None" "pr_decision_id base = did" by (simp_all add: base_def empty_result_def)
  obtain w4 r where x: "execute_signal ops env s sig planned ?price did base w3 = (w4, r)" by force
  have "res = (if rr_verdict v = REJECTED \<or> sig_action sig = A_HOLD then (w3, Inr base) else (w4, Inr r))"
    using assms(1) x unfolding decide_and_execute_def Let_def Inr sum.case g prod.case d
      w3_def [symmetric] base_def [symmetric] by (auto split: if_splits)
  moreover have "effect w3 (w4, Inr r)"
    using entry_ok [OF assms(2-4)] Inr by (intro execute_signal_effect [OF x]) (auto simp: base)
  moreover have "effect w3 (w3, Inr base)" using base by simp
  ultimately have "effect w3 res" by (simp split: if_splits)
  then show ?thesis by (rule effect_from) (fact w3)+
qed

lemma sleeve_portfolio_subset:
  "sleeve_portfolio ops env pf w = Inr (w', book, b) \<Longrightarrow> set (pf_positions book) \<subseteq> set (pf_positions pf)"
  by (auto simp: sleeve_portfolio_def sleeve_equity_def sleeve_book_of_def owned_by_def Let_def
      split: option.splits sum.splits if_splits prod.splits)

lemma ask_and_decide_effect:
  assumes "inv (w_executor w)"
  shows "effect w (ask_and_decide ops env s bars snap ow w)"
proof -
  obtain w' out where e: "ask_and_decide ops env s bars snap ow w = (w', out)" by force
  from e show ?thesis
  proof (cases rule: ask_and_decide_cases)
    case (stopped r)
    with e show ?thesis by (simp add: effect_quiet)
  next
    case (decided ind pf w1 book b sig metrics ctx err)
    note f = sleeve_portfolio_frame [OF decided(2)]
    have "effect w1 (w', out)"
      using decided assms f sleeve_portfolio_subset [OF decided(2)] by (intro decide_and_execute_effect [OF decided(4)]) simp_all
    with e f show ?thesis by (auto intro: effect_from)
  qed
qed

lemma bar_phase_effect:
  assumes "inv (w_executor w)"
  shows "effect w (bar_phase ops env s tf snap ow w)"
proof -
  let ?bars = "fst (split_forming (ms_candles snap) tf (ms_fetched_at snap))"
  obtain w1 why where e: "(if pl_decide_on_new_bar_only (w_pipeline w)
      then awaiting_new_bar env s tf ?bars w else (w, None)) = (w1, why)" by force
  have f: "w_executor w1 = w_executor w" "w_storage w1 = w_storage w"
    using e by (auto simp: awaiting_new_bar_frame split: if_splits)
  show ?thesis
  proof (cases why)
    case None
    with e have "bar_phase ops env s tf snap ow w = ask_and_decide ops env s ?bars snap ow w1"
      by (simp add: bar_phase_def Let_def)
    with assms f show ?thesis by (auto intro!: effect_from [OF ask_and_decide_effect])
  next
    case (Some x)
    with e have "\<exists>r. bar_phase ops env s tf snap ow w = (w1, Inr r) \<and> pr_order_result r = None"
      by (simp add: bar_phase_def Let_def empty_result_def)
    with f show ?thesis by (auto simp: effect_def)
  qed
qed

lemma sleeve_phase_effect:
  assumes "inv (w_executor w)"
  shows "effect w (sleeve_phase ops env s tf snap ow err w)"
proof (cases "err = None")
  case False
  then show ?thesis by (auto simp: sleeve_phase_def Let_def empty_result_def)
next
  case True
  show ?thesis
  proof (cases ow)
    case None
    with True bar_phase_effect [OF assms] show ?thesis by (simp add: sleeve_phase_def)
  next
    case (Some own)
    obtain w1 r where c: "check_time_stop ops env s snap own w = (w1, r)" by force
    show ?thesis
    proof (cases r)
      case None
      with c have "w1 = w" using check_time_stop_None by blast
      with True Some None c bar_phase_effect [OF assms] show ?thesis
        by (simp add: sleeve_phase_def Let_def empty_result_def)
    next
      case (Some r')
      with True \<open>ow = Some own\<close> c check_time_stop_effect [OF _ assms] show ?thesis by (simp add: sleeve_phase_def)
    qed
  qed
qed

lemma mark_positions_inv: "inv (w_executor w) \<Longrightarrow> inv (w_executor (mark_positions ops s snap w))"
  by (auto simp: mark_positions_def mark_ok split: option.splits)

lemma pipeline_run_effect:
  assumes "inv (w_executor w)"
  shows "\<exists>snap. effect (mark_positions ops s snap w) (pipeline_run ops env s tf w)"
proof -
  define blank :: market_snapshot where "blank = undefined\<lparr>ms_candles := []\<rparr>"
  have blank: "mark_positions ops s blank w = w" by (simp add: blank_def mark_positions_def)
  show ?thesis
  proof (cases "ce_fetch_snapshot env s tf")
    case (Inl e)
    then have "effect (mark_positions ops s blank w) (pipeline_run ops env s tf w)"
      by (simp add: blank pipeline_run_def effect_quiet empty_result_def)
    then show ?thesis ..
  next
    case (Inr snap)
    let ?w = "mark_positions ops s snap w"
    obtain w1 ow err where so: "sleeve_ownership ops env s ?w = (w1, ow, err)" by (cases "sleeve_ownership ops env s ?w")
    note f = sleeve_ownership_frame [OF so]
    have inv1: "inv (w_executor w1)" using f mark_positions_inv [OF assms] by simp
    obtain w2 r where c: "check_exit_levels ops env s snap (map_option ow_strategy ow) w1 = (w2, r)" by force
    show ?thesis
    proof (cases "ms_candles snap = []")
      case True
      with Inr have "effect (mark_positions ops s blank w) (pipeline_run ops env s tf w)"
        by (simp add: blank pipeline_run_def effect_quiet empty_result_def)
      then show ?thesis ..
    next
      case False
      have "effect w1 (pipeline_run ops env s tf w)"
      proof (cases r)
        case None
        with c have "w2 = w1" using check_exit_levels_None by blast
        with Inr False so c None sleeve_phase_effect [OF inv1] show ?thesis by (simp add: pipeline_run_def)
      next
        case (Some r')
        with Inr False so c check_exit_levels_effect [OF _ inv1] show ?thesis by (simp add: pipeline_run_def)
      qed
      then have "effect ?w (pipeline_run ops env s tf w)" by (rule effect_from) (simp_all add: f)
      then show ?thesis ..
    qed
  qed
qed

end

text \<open>An executor whose cost attributes always give a cost model never makes a cycle raise.\<close>

locale sized_executor = executor_effects +
  assumes plan_answers: "inv (w_executor w) \<Longrightarrow> \<exists>p. planned_quantity ops sig book pf b price w = Inr p"
begin

lemma decide_and_execute_answers:
  "inv (w_executor w) \<Longrightarrow> \<exists>w' r. decide_and_execute ops env s snap sig metrics book pf b ctx err w = (w', Inr r)"
  using plan_answers [of w sig book pf b "last_close snap"]
  by (auto simp: decide_and_execute_def Let_def split: prod.splits)

lemma ask_and_decide_answers:
  assumes "inv (w_executor w)"
  shows "\<exists>w' r. ask_and_decide ops env s bars snap ow w = (w', Inr r)"
proof -
  obtain w' out where e: "ask_and_decide ops env s bars snap ow w = (w', out)" by force
  then show ?thesis
  proof (cases rule: ask_and_decide_cases)
    case (decided ind pf w1 book b sig metrics ctx err)
    with assms sleeve_portfolio_frame(1) [OF decided(2)] have "inv (w_executor w1)" by simp
    from decide_and_execute_answers [OF this] decided(4) e show ?thesis by (metis prod.inject)
  qed (use e in simp)
qed

lemma bar_phase_answers: "inv (w_executor w) \<Longrightarrow> \<exists>w' r. bar_phase ops env s tf snap ow w = (w', Inr r)"
  using ask_and_decide_answers [of w] ask_and_decide_answers
  by (auto simp: bar_phase_def Let_def dest: awaiting_new_bar_frame(1) split: option.splits prod.splits)

lemma sleeve_phase_answers:
  assumes "inv (w_executor w)"
  shows "\<exists>w' r. sleeve_phase ops env s tf snap ow err w = (w', Inr r)"
  using bar_phase_answers [OF assms]
  by (auto simp: sleeve_phase_def Let_def dest: check_time_stop_None split: option.splits prod.splits)

lemma pipeline_run_answers:
  assumes "inv (w_executor w)"
  shows "\<exists>w' r. pipeline_run ops env s tf w = (w', Inr r)"
proof -
  have "\<exists>w' r. sleeve_phase ops env s tf snap ow err w2 = (w', Inr r)"
    if "sleeve_ownership ops env s (mark_positions ops s snap w) = (w1, ow', err')"
      "check_exit_levels ops env s snap own w1 = (w2, None)" for snap w1 ow' err' own w2 ow err
    using sleeve_phase_answers mark_positions_inv [OF assms] sleeve_ownership_frame(1) [OF that(1)]
      check_exit_levels_None [OF that(2)] by simp
  then show ?thesis by (auto simp: pipeline_run_def split: sum.splits option.splits prod.splits)
qed

end

interpretation any_executor: executor_effects ops "\<lambda>_. True" "\<lambda>_. True" for ops :: "'x executor_ops"
  by unfold_locales simp_all

interpretation paper_executor: sized_executor paper_ops px_ok request_ok
proof
  fix x ps p env k s mark
  assume x: "px_ok x" "ex_get_positions paper_ops x = Inr ps" "p \<in> set ps"
  from x(2,3) have p: "p \<in> set (get_positions x)" by (simp add: paper_ops_def)
  from px_okD(5) [OF x(1) get_positions_get [OF x(1) p]]
  show "request_ok (close_request env k s p mark)" by (simp add: request_ok_def close_request_def)
next
  fix w :: "paper_executor world" and pf book sig b price q env s did
  assume w: "px_ok (w_executor w)" and pf: "get_portfolio_state paper_ops (w_executor w) = Inr pf"
    and sub: "set (pf_positions book) \<subseteq> set (pf_positions pf)"
    and q: "planned_quantity paper_ops sig book pf b price w = Inr (Some q)"
  have "pf_positions pf = get_positions (w_executor w)"
    using pf by (auto simp: get_portfolio_state_def read_portfolio_def paper_ops_def split: sum.splits)
  with sub px_okD(5) [OF w get_positions_get [OF w]] have "0 \<le> p_quantity p \<and> on_grid (p_quantity p)"
    if "p \<in> set (pf_positions book)" for p using that by auto
  from calculate_quantity_ok [OF this] q have "0 \<le> q \<and> on_grid q"
    by (auto simp: planned_quantity_def split: if_splits sum.splits)
  then show "request_ok (entry_request env s sig q price did)" by (simp add: request_ok_def entry_request_def)
next
  fix x f s v
  assume "px_ok x" "ex_update_price paper_ops = Some f"
  then show "px_ok (f x s v)" by (auto simp: paper_ops_def update_price_ok)
next
  fix w :: "paper_executor world" and sig book pf b price
  assume "px_ok (w_executor w)"
  then show "\<exists>p. planned_quantity paper_ops sig book pf b price w = Inr p"
    using sizing_cost_model_paper [OF px_okD(1)] by (auto simp: planned_quantity_def buy_cost_factor_def paper_ops_def)
qed

section \<open>No order is lost\<close>

definition row_of_order :: "order_result \<Rightarrow> int option \<Rightarrow> string option \<Rightarrow> order_row \<Rightarrow> bool" where
  "row_of_order res did strategy row \<longleftrightarrow>
     or_order_id row = o_order_id res \<and> or_symbol row = o_symbol res \<and> or_side row = side_value (o_side res)
     \<and> or_quantity row = o_quantity res \<and> or_price row = o_price res \<and> or_status row = status_value (o_status res)
     \<and> or_decision_id row = did \<and> or_strategy row = strategy
     \<and> or_realized_pnl row = (if o_status res = FILLED then o_realized_pnl res else None)"

definition order_recorded :: "order_result \<Rightarrow> int option \<Rightarrow> string option \<Rightarrow> 'x agent \<Rightarrow> bool" where
  "order_recorded res did strategy ag \<longleftrightarrow>
     list_ex (row_of_order res did strategy) (db_orders (st_db (ag_storage ag)))
     \<or> list_ex (\<lambda>a. au_order a = res \<and> au_decision_id a = did \<and> au_strategy a = strategy) (ag_audit ag)"

text \<open>Order rows and audit lines are only ever added.\<close>

definition grows :: "'x agent \<Rightarrow> 'x agent \<Rightarrow> bool" where
  "grows ag ag' \<longleftrightarrow>
     set (db_orders (st_db (ag_storage ag))) \<subseteq> set (db_orders (st_db (ag_storage ag')))
     \<and> set (ag_audit ag) \<subseteq> set (ag_audit ag')"

lemma grows_refl [simp]: "grows ag ag" by (simp add: grows_def)

lemma grows_trans [trans]: "grows a b \<Longrightarrow> grows b c \<Longrightarrow> grows a c" by (auto simp: grows_def)

lemma grows_recorded: "grows ag ag' \<Longrightarrow> order_recorded res did st ag \<Longrightarrow> order_recorded res did st ag'"
  by (auto simp: grows_def order_recorded_def list_ex_iff)

lemma save_order_row_result:
  assumes "save_order_row now res filled_at did strategy st = (st', out)"
  shows "set (db_orders (st_db st)) \<subseteq> set (db_orders (st_db st'))"
    and "out = Inr i \<Longrightarrow> list_ex (row_of_order res did strategy) (db_orders (st_db st'))"
  using assms by (auto simp: save_order_row_def save_order_def row_of_order_def Let_def list_ex_iff split: if_splits)

lemma save_order_attempts_result:
  "save_order_attempts env k n res did strategy st = (st', stored) \<Longrightarrow>
     set (db_orders (st_db st)) \<subseteq> set (db_orders (st_db st'))
     \<and> (stored \<longrightarrow> list_ex (row_of_order res did strategy) (db_orders (st_db st')))"
proof (induction env k n res did strategy st rule: save_order_attempts.induct)
  case (2 env k n res did strategy st)
  let ?t = "Some (case o_filled_at res of None \<Rightarrow> ce_now_order env | Some t \<Rightarrow> t)"
  obtain st1 out where s: "save_order_row (ce_now_row env) res ?t did strategy st = (st1, out)" by force
  show ?case
  proof (cases "ce_faults env (C_save_order k)")
    case (Some e)
    with 2 show ?thesis by simp
  next
    case None
    show ?thesis
    proof (cases out)
      case (Inl e)
      with 2(1) [OF None s [symmetric] Inl] 2(3) None s save_order_row_result(1) [OF s] show ?thesis by auto
    next
      case (Inr i)
      with 2(3) None s save_order_row_result [OF s] show ?thesis by auto
    qed
  qed
qed simp

lemma send_alert_frame [simp]:
  "ag_storage (fst (send_alert env k s ag)) = ag_storage ag" "ag_audit (fst (send_alert env k s ag)) = ag_audit ag"
  "ag_executor (fst (send_alert env k s ag)) = ag_executor ag"
  by (simp_all add: send_alert_def split: option.splits)

lemma maybe_alert_frame [simp]:
  "ag_storage (fst (maybe_alert env s r ag)) = ag_storage ag" "ag_audit (fst (maybe_alert env s r ag)) = ag_audit ag"
  "ag_executor (fst (maybe_alert env s r ag)) = ag_executor ag"
  by (simp_all add: maybe_alert_def)

lemma persist_order_records:
  "grows ag (persist_order aenv env res strategy did ag)"
  "order_recorded res did strategy (persist_order aenv env res strategy did ag)"
proof -
  obtain st stored where s: "save_order_attempts env 1 (Suc (ag_persist_retries ag)) res did strategy (ag_storage ag) = (st, stored)"
    by force
  from save_order_attempts_result [OF s] s show "grows ag (persist_order aenv env res strategy did ag)"
    "order_recorded res did strategy (persist_order aenv env res strategy did ag)"
    by (auto simp: persist_order_def grows_def order_recorded_def simp del: save_order_attempts.simps split: bool.splits)
qed

lemma attribute_entries_rows: "kept_rows (fst (attribute_entries env xs st)) = kept_rows st"
  by (induction env xs st rule: attribute_entries.induct)
    (auto simp: kept_rows_def add_realized_pnl_def update_decisions_def split: option.splits)

lemma backfill_rows: "kept_rows (backfill_pnl env res did st) = kept_rows st"
  using attribute_entries_rows [of env "o_closed_entries res"]
  by (auto simp: backfill_pnl_def set_realized_pnl_def update_decisions_def kept_rows_def Let_def split: option.splits if_splits)

lemma update_daily_frame [simp]:
  "ag_storage (update_daily ops env ag) = ag_storage ag" "ag_audit (update_daily ops env ag) = ag_audit ag"
  "ag_executor (update_daily ops env ag) = ag_executor ag" "ag_persist_retries (update_daily ops env ag) = ag_persist_retries ag"
  by (simp_all add: update_daily_def split: sum.splits)

lemma persist_portfolio_frame [simp]:
  "db_orders (st_db (ag_storage (persist_portfolio ops env ag))) = db_orders (st_db (ag_storage ag))"
  "ag_audit (persist_portfolio ops env ag) = ag_audit ag"
  "ag_executor (persist_portfolio ops env ag) = ag_executor ag"
  by (simp_all add: persist_portfolio_def save_portfolio_snapshot_def Let_def split: sum.splits option.splits)

lemma post_process_records:
  "grows ag (post_process ops aenv env s r ag)"
  "pr_order_result r = Some res \<Longrightarrow> order_recorded res (pr_decision_id r) (pr_strategy r) (post_process ops aenv env s r ag)"
proof -
  let ?ag1 = "update_daily ops env ag"
  have b: "db_orders (st_db (backfill_pnl env res did st)) = db_orders (st_db st)" for res did st
    using backfill_rows [of env res did st] by (simp add: kept_rows_def)
  have g: "grows ag ?ag1" by (simp add: grows_def)
  show "grows ag (post_process ops aenv env s r ag)"
    using g persist_order_records(1) [of ?ag1]
    by (cases "pr_order_result r") (auto simp: post_process_def grows_def b Let_def)
  show "order_recorded res (pr_decision_id r) (pr_strategy r) (post_process ops aenv env s r ag)"
    if "pr_order_result r = Some res"
    using that persist_order_records(2) [of res "pr_decision_id r" "pr_strategy r" aenv env ?ag1]
    by (simp add: post_process_def order_recorded_def b Let_def)
qed

lemma post_process_closes_grows: "grows ag (post_process_closes ops env k owners cs ag)"
proof (induction cs arbitrary: ag k)
  case (Cons c cs)
  obtain s res where c: "c = (s, res)" by force
  from grows_trans [OF post_process_records(1) Cons.IH] show ?case by (simp add: c)
qed simp

lemma run_slot_grows:
  assumes "run_slot ops env slot s ag = (ag', out)"
  shows "grows ag ag'"
proof -
  obtain w where w: "pipeline_run ops env s (slot_timeframe ag slot) (slot_world ag slot) = (w, out)" "ag' = absorb slot w ag"
    using assms by (auto simp: run_slot_def split: prod.splits)
  obtain snap where "any_executor.effect ops (mark_positions ops s snap (slot_world ag slot)) (w, out)"
    using any_executor.pipeline_run_effect [where w = "slot_world ag slot"] w(1) by metis
  then have "map_option kept_rows (w_storage w) = Some (kept_rows (ag_storage ag))"
    by (simp add: any_executor.effect_def mark_positions_frame slot_world_def)
  then obtain st where "w_storage w = Some st" "kept_rows st = kept_rows (ag_storage ag)" by auto
  with w(2) show ?thesis by (auto simp: grows_def absorb_def kept_rows_def Let_def split: option.splits)
qed

lemma cycle_runs_grows: "cycle_runs ops env k plan err results ag = (ag', err', results') \<Longrightarrow> grows ag ag'"
proof (induction plan arbitrary: k err results ag)
  case (Cons p plan)
  obtain s slot where p: "p = (s, slot)" by force
  obtain ag1 out where run: "run_slot ops (ae_step env k) slot s ag = (ag1, out)" by force
  show ?case
  proof (cases out)
    case (Inl e)
    with Cons p run have "grows ag1 ag'" by (simp add: Let_def)
    with run_slot_grows [OF run] show ?thesis by (rule grows_trans)
  next
    case (Inr r)
    with Cons p run have "grows (post_process ops env (ae_step env k) s r ag1) ag'" by (simp add: Let_def)
    with grows_trans [OF run_slot_grows [OF run] post_process_records(1)] show ?thesis by (rule grows_trans)
  qed
qed simp

lemma cycle_runs_records:
  "cycle_runs ops env k plan err results ag = (ag', err', results') \<Longrightarrow>
   (\<forall>r\<in>set results. \<forall>res. pr_order_result r = Some res \<longrightarrow> order_recorded res (pr_decision_id r) (pr_strategy r) ag) \<Longrightarrow>
   (\<forall>r\<in>set results'. \<forall>res. pr_order_result r = Some res \<longrightarrow> order_recorded res (pr_decision_id r) (pr_strategy r) ag')"
proof (induction ops env k plan err results ag rule: cycle_runs.induct)
  case (2 ops env k s slot rest err results ag)
  obtain ag1 out where run: "run_slot ops (ae_step env k) slot s ag = (ag1, out)" by force
  note g = run_slot_grows [OF run]
  show ?case
  proof (cases out)
    case (Inl e)
    have "\<forall>x\<in>set results. \<forall>res. pr_order_result x = Some res \<longrightarrow> order_recorded res (pr_decision_id x) (pr_strategy x) ag1"
      using 2(4) g by (auto intro: grows_recorded)
    with 2(1) [OF refl run [symmetric] Inl] 2(3) run Inl show ?thesis by (simp add: Let_def)
  next
    case (Inr r)
    note p = post_process_records [where ops = ops and aenv = env and env = "ae_step env k" and s = s and r = r and ag = ag1]
    have "\<forall>x\<in>set (results @ [r]). \<forall>res. pr_order_result x = Some res \<longrightarrow>
        order_recorded res (pr_decision_id x) (pr_strategy x) (post_process ops env (ae_step env k) s r ag1)"
      using 2(4) grows_trans [OF g p(1)] p(2) by (auto intro: grows_recorded)
    with 2(2) [OF refl run [symmetric] Inr] 2(3) run Inr show ?thesis by (simp add: Let_def)
  qed
qed simp

lemma record_health_frame [simp]:
  "db_orders (st_db (ag_storage (record_health env err ag))) = db_orders (st_db (ag_storage ag))"
  "ag_audit (record_health env err ag) = ag_audit ag" "ag_executor (record_health env err ag) = ag_executor ag"
  "db_portfolio (st_db (ag_storage (record_health env err ag))) = db_portfolio (st_db (ag_storage ag))"
  "st_agent (ag_storage (record_health env err ag)) = st_agent (ag_storage ag)"
  "st_venue (ag_storage (record_health env err ag)) = st_venue (ag_storage ag)"
  "ag_cycle_locked (record_health env err ag) = ag_cycle_locked ag"
  "ag_engines (record_health env err ag) = ag_engines ag"
  "db_decisions (st_db (ag_storage (record_health env err ag))) = db_decisions (st_db (ag_storage ag))"
  by (simp_all add: record_health_def record_cycle_health_def upsert_agent_control_def Let_def split: option.splits)

lemma snapshot_loop_rows:
  "kept_rows (fst (snapshot_loop flt now pf owners names st b engs acc)) = kept_rows st"
  by (induction flt now pf owners names st b engs acc rule: snapshot_loop.induct)
    (auto simp: kept_rows_def save_sleeve_snapshot_def Let_def split: sum.splits prod.splits option.splits)

lemma record_sleeve_snapshots_frame [simp]:
  "kept_rows (ag_storage (record_sleeve_snapshots ops env ag)) = kept_rows (ag_storage ag)"
  "ag_audit (record_sleeve_snapshots ops env ag) = ag_audit ag"
  "ag_executor (record_sleeve_snapshots ops env ag) = ag_executor ag"
proof -
  have "kept_rows (fst (record_snapshots flt now eh ph pf st b engs)) = kept_rows st" for flt now eh ph pf st b engs
    using snapshot_loop_rows by (auto simp: record_snapshots_def split: sum.splits prod.splits)
  then show "kept_rows (ag_storage (record_sleeve_snapshots ops env ag)) = kept_rows (ag_storage ag)"
    by (auto simp: record_sleeve_snapshots_def split: option.splits prod.splits) (metis fst_conv)
qed (simp_all add: record_sleeve_snapshots_def split: option.splits prod.splits)

lemma paper_place [simp]: "ex_place_order paper_ops = place_order"
  by (simp add: paper_ops_def)

section \<open>A concrete cycle\<close>

definition demo_fresh :: paper_executor where
  "demo_fresh = new_paper_executor 1000 0 (1/100) 0 0"
definition demo_buy_env :: cycle_env where
  "demo_buy_env = (demo_env 100 hour_us (demo_signal A_BUY))\<lparr>ce_context_reader := None\<rparr>"
definition demo_pf :: portfolio_state where
  "demo_pf = \<lparr>pf_cash = 1000, pf_positions = [], pf_pending_value = 0\<rparr>"

lemma floor8_1: "floor8 1 = 1" by (simp add: floor8_def)

lemma demo_plan: "planned_quantity paper_ops (demo_signal A_BUY) demo_pf demo_pf False 100 w = Inr (Some 1)"
  if "w_executor w = demo_fresh" "the_settings w = default_risk_settings"
  using that
  by (simp add: planned_quantity_def demo_signal_def paper_ops_def demo_fresh_def new_paper_executor_def px_attrs_def
      buy_cost_factor_def sizing_cost_model_def cost_model_from_attrs_def make_cost_model_def attr_or_zero_def
      calculate_quantity_def sizing_price_def max_position_value_def demo_pf_def total_value_def default_risk_settings_def
      risk_capped_def max_qty_by_cash_def spendable_def max_affordable_fill_notional_def total_fee_def commission_def
      held_long_def long_exposure_def floor8_1 cm_buy_cost_factor_def Let_def)

lemma demo_gate: "rr_verdict (snd (evaluate hour_us (demo_signal A_BUY) demo_pf (Some 100) (Some 100) (new_risk_engine default_risk_settings))) = APPROVED"
  by (simp add: evaluate_buy_iff demo_signal_def entry_allowed_def size_rule_def daily_rule_def drawdown_def high_water_def stop_rule_def
    baseline_at_def demo_pf_def total_value_def long_exposure_def default_risk_settings_def new_risk_engine_def new_daily_tracker_def
    new_loss_tracker_def in_cooldown_def Let_def)

lemma demo_buy_run: "\<exists>w r res. pipeline_run paper_ops demo_buy_env ''BTC/EUR'' ''1h'' (demo_world demo_fresh) = (w, Inr r)
   \<and> pr_order_result r = Some res \<and> o_status res = FILLED \<and> o_order_id res = ''paper-1''"
proof -
  let ?env = demo_buy_env and ?snap = "demo_snapshot 100 hour_us" and ?w = "demo_world demo_fresh"
  have ps: "get_positions demo_fresh = []" by (simp add: demo_fresh_def new_paper_executor_def get_positions_def)
  have mark: "mark_positions paper_ops ''BTC/EUR'' ?snap ?w = ?w"
    by (simp add: mark_positions_def demo_snapshot_def last_close_def paper_ops_def demo_world_def demo_fresh_def new_paper_executor_def update_price_def)
  have c: "check_exit_levels paper_ops ?env ''BTC/EUR'' ?snap None ?w = (?w, None)"
    using ps by (simp add: check_exit_levels_def paper_ops_def demo_world_def Let_def)
  have run: "pipeline_run paper_ops ?env ''BTC/EUR'' ''1h'' ?w = bar_phase paper_ops ?env ''BTC/EUR'' ''1h'' ?snap None ?w"
    using c mark by (simp add: pipeline_run_def demo_buy_env_def demo_env_def sleeve_ownership_def sleeve_phase_def demo_world_def Let_def)
      (simp add: demo_snapshot_def)
  have a: "awaiting_new_bar ?env ''BTC/EUR'' ''1h'' (ms_candles ?snap) ?w = (?w, None)"
    by (simp add: awaiting_new_bar_def demo_snapshot_def demo_bar_def bar_close_time_def timeframe_1h
        demo_world_def demo_buy_env_def demo_env_def attempt_def no_faults_def get_recent_decisions_def demo_storage_def
        empty_db_def desc_def)
  have b: "fst (split_forming (ms_candles ?snap) ''1h'' (ms_fetched_at ?snap)) = ms_candles ?snap"
    by (simp add: split_forming_def demo_snapshot_def demo_bar_def timeframe_1h)
  have pf: "get_portfolio_state paper_ops demo_fresh = Inr demo_pf"
    by (simp add: get_portfolio_state_def read_portfolio_def paper_ops_def ps demo_pf_def pending_buy_value_def get_cash_def)
      (simp add: demo_fresh_def new_paper_executor_def)
  have ask: "ask_and_decide paper_ops ?env ''BTC/EUR'' (ms_candles ?snap) ?snap None ?w =
     decide_and_execute paper_ops ?env ''BTC/EUR'' ?snap (demo_signal A_BUY) None demo_pf demo_pf False None None ?w"
    using pf by (simp add: ask_and_decide_def demo_buy_env_def demo_env_def demo_world_def sleeve_portfolio_def read_context_def demo_signal_def Let_def)
      (simp add: demo_snapshot_def)
  have sig: "sig_action (demo_signal A_BUY) = A_BUY" "\<not> sig_is_fallback (demo_signal A_BUY)" by (simp_all add: demo_signal_def)
  have price: "last_close (demo_snapshot 100 t) = 100" for t by (simp add: last_close_def demo_snapshot_def)
  obtain e y where g: "evaluate hour_us (demo_signal A_BUY) demo_pf (Some 100) (Some 100) (new_risk_engine default_risk_settings) = (e, y)" by force
  with demo_gate have y: "rr_verdict y = APPROVED" by simp
  have gate: "risk_gate ?env (demo_signal A_BUY) demo_pf demo_pf (Some 100) (Some 100) None None ?w = (set_engine e ?w, y)"
    using g by (simp add: risk_gate_def demo_buy_env_def demo_env_def the_engine_def demo_world_def set_engine_def Let_def)
  obtain w2 did where d: "persist_decision ?env (demo_signal A_BUY) y ?snap None (set_engine e ?w) = (w2, did)" by force
  have plan: "planned_quantity paper_ops (demo_signal A_BUY) demo_pf demo_pf False 100 ?w = Inr (Some 1)"
    by (rule demo_plan) (simp_all add: demo_world_def the_settings_def the_engine_def new_risk_engine_def)
  have x2: "w_executor w2 = demo_fresh" using persist_decision_frame [OF d] by (simp add: set_engine_def demo_world_def)
  have place: "\<exists>px res. place_order demo_fresh (entry_request ?env ''BTC/EUR'' (demo_signal A_BUY) 1 100 did) = (px, Inr res)
      \<and> o_status res = FILLED \<and> o_order_id res = ''paper-1''" for did
    by (simp add: demo_fresh_def place_order_def effective_price_def entry_request_def demo_signal_def demo_buy_env_def demo_env_def
        new_paper_executor_def execute_buy_def px_cost_model_def cost_model_from_attrs_def filled_order_def
        make_cost_model_def attr_or_zero_def total_fee_def commission_def bought_position_def Let_def)
  obtain px res where pl: "place_order demo_fresh (entry_request ?env ''BTC/EUR'' (demo_signal A_BUY) 1 100 did) = (px, Inr res)"
     "o_status res = FILLED" "o_order_id res = ''paper-1''" using place by blast
  have "\<exists>w r. decide_and_execute paper_ops ?env ''BTC/EUR'' ?snap (demo_signal A_BUY) None demo_pf demo_pf False None None ?w = (w, Inr r)
     \<and> pr_order_result r = Some res"
    using plan gate y d pl x2 sig
    by (simp add: decide_and_execute_def price execute_signal_def paper_exits.no_working_order Let_def)
  then show ?thesis using pl(2,3) a unfolding run bar_phase_def Let_def b ask [symmetric]
    by (auto simp: demo_world_def)
qed
definition demo_agent :: "paper_executor agent" where
  "demo_agent =
     \<lparr>ag_pipeline = w_pipeline (demo_world demo_fresh), ag_timeframe = ''1h'', ag_sleeve_runs = [],
      ag_symbols = [''BTC/EUR''], ag_control_agent = ''crypto'', ag_risk_engine = 0,
      ag_engines = w_engines (demo_world demo_fresh), ag_book = None, ag_executor = demo_fresh, ag_storage = demo_storage,
      ag_applied_overrides_raw = None, ag_persist_retries = 2, ag_stopping = False, ag_cycle_locked = False,
      ag_alerts = [], ag_audit = []\<rparr>"

definition demo_agent_env :: agent_env where
  "demo_agent_env =
     \<lparr>ae_control = demo_buy_env, ae_step = (\<lambda>_. demo_buy_env), ae_close_step = (\<lambda>_. demo_buy_env),
      ae_skip_cycle = None, ae_skip_symbol = (\<lambda>_. None), ae_alert_error = None, ae_error_text = (\<lambda>_ _ _. [])\<rparr>"

lemma demo_cycle:
  "\<exists>ag' r res. run_cycle paper_ops paper_reconcile None demo_agent_env demo_agent = (ag', Inr [r])
     \<and> pr_order_result r = Some res \<and> o_status res = FILLED \<and> ag_audit ag' = []"
proof -
  let ?ag = "demo_agent\<lparr>ag_cycle_locked := True\<rparr>"
  obtain w r res where run: "pipeline_run paper_ops demo_buy_env ''BTC/EUR'' ''1h'' (demo_world demo_fresh) = (w, Inr r)"
    and r: "pr_order_result r = Some res" "o_status res = FILLED" using demo_buy_run by blast
  have world: "slot_world ?ag None = demo_world demo_fresh" by (simp add: slot_world_def demo_agent_def demo_world_def)
  obtain snap where "any_executor.effect paper_ops (mark_positions paper_ops ''BTC/EUR'' snap (demo_world demo_fresh)) (w, Inr r)"
    using any_executor.pipeline_run_effect [where w = "demo_world demo_fresh"] run by metis
  then have "map_option kept_rows (w_storage w) = Some (kept_rows demo_storage)"
    by (simp add: any_executor.effect_def mark_positions_frame) (simp add: demo_world_def)
  then obtain st where st: "w_storage w = Some st" "db_orders (st_db st) = []"
    by (auto simp: kept_rows_def demo_storage_def empty_db_def)
  let ?ag1 = "absorb None w ?ag"
  have slot: "run_slot paper_ops demo_buy_env None ''BTC/EUR'' ?ag = (?ag1, Inr r)"
    using run by (simp add: run_slot_def world) (simp add: slot_timeframe_def demo_agent_def)
  have ag1: "ag_storage (update_daily paper_ops demo_buy_env ?ag1) = st" "ag_audit ?ag1 = []"
    using st by (simp_all add: absorb_def demo_agent_def Let_def)
  have "ag_audit (post_process paper_ops demo_agent_env demo_buy_env ''BTC/EUR'' r ?ag1) = []"
    using ag1 st r by (simp add: post_process_def persist_order_def demo_buy_env_def demo_env_def no_faults_def save_order_row_def
        save_order_def Let_def)
  moreover have control: "cycle_plan demo_agent_env ?ag = [(''BTC/EUR'', None)]" "read_control demo_buy_env ?ag = None"
    by (simp_all add: cycle_plan_def demo_agent_env_def demo_agent_def run_slots_def read_control_def get_agent_control_def
        demo_storage_def empty_db_def split: option.splits)
  moreover have env: "ae_step demo_agent_env k = demo_buy_env" "ae_control demo_agent_env = demo_buy_env"
    "ae_skip_cycle demo_agent_env = None" for k by (simp_all add: demo_agent_env_def)
  moreover have rec: "reconcile_orders paper_ops paper_reconcile demo_agent_env ?ag = (?ag, None)"
    by (simp add: reconcile_orders_def paper_reconcile_def)
  ultimately have "\<exists>ag'. trade_cycle paper_ops paper_reconcile demo_agent_env ?ag = (ag', Inr [r]) \<and> ag_audit ag' = []"
    using slot by (simp add: trade_cycle_def Let_def)
  moreover have "run_cycle_body paper_ops paper_reconcile None demo_agent_env ?ag = trade_cycle paper_ops paper_reconcile demo_agent_env ?ag"
    by (simp add: run_cycle_body_def env control)
  moreover have "\<not> ag_stopping demo_agent" "\<not> ag_cycle_locked demo_agent" by (simp_all add: demo_agent_def)
  ultimately show ?thesis using r by (auto simp: run_cycle_def)
qed

section \<open>Properties of cycles\<close>

text \<open>C2: No executed order is lost: whatever the storage, the alert channel, the control plane and the
  venue do during a cycle, every order that a result of the cycle reports is afterwards either
  an order row with the same id, symbol, side, quantity, price, status, decision, sleeve and
  realized PnL, or a complete line of the order_persist_failed audit log.\<close>

theorem no_order_is_lost:
  assumes "run_cycle ops rops applier env ag = (ag', Inr results)" and "r \<in> set results"
    and "pr_order_result r = Some res"
  shows "order_recorded res (pr_decision_id r) (pr_strategy r) ag'"
proof -
  let ?ag = "ag\<lparr>ag_cycle_locked := True\<rparr>"
  from assms(1,2) obtain ag1 where body: "run_cycle_body ops rops applier env ?ag = (ag1, Inr results)"
    and ag': "ag' = ag1\<lparr>ag_cycle_locked := False\<rparr>"
    by (auto simp: run_cycle_def split: if_splits prod.splits)
  from body assms(2) obtain ag0 where "trade_cycle ops rops env ag0 = (ag1, Inr results)"
    by (auto simp: run_cycle_body_def split: prod.splits sum.splits bool.splits if_splits option.splits)
  then obtain ag2 ag3 err where runs: "cycle_runs ops env 0 (cycle_plan env ag2) None [] ag2 = (ag3, err, results)"
    and ag1: "ag1 = record_health (ae_control env) err (record_sleeve_snapshots ops (ae_control env) ag3)"
    by (auto simp: trade_cycle_def split: prod.splits option.splits)
  have "order_recorded res (pr_decision_id r) (pr_strategy r) ag3"
    using cycle_runs_records [OF runs] assms(2,3) by simp
  moreover have "grows ag3 ag'"
    using record_sleeve_snapshots_frame(1) [of ops "ae_control env" ag3]
    by (simp add: grows_def ag' ag1 kept_rows_def)
  ultimately show ?thesis by (rule grows_recorded [rotated])
qed

theorem no_order_is_lost_witness:
  "\<exists>ag r res. run_cycle paper_ops paper_reconcile None demo_agent_env demo_agent = (ag, Inr [r])
     \<and> pr_order_result r = Some res \<and> o_status res = FILLED \<and> order_recorded res (pr_decision_id r) (pr_strategy r) ag"
proof -
  obtain ag r res where run: "run_cycle paper_ops paper_reconcile None demo_agent_env demo_agent = (ag, Inr [r])"
    and r: "pr_order_result r = Some res" "o_status res = FILLED" using demo_cycle by blast
  from no_order_is_lost [OF run _ r(1)] run r show ?thesis by auto
qed



lemma persist_reconciled_found:
  assumes "\<exists>row\<in>set (db_orders (st_db (ag_storage ag))). or_order_id row = o_order_id res"
    and "ce_faults env (C_update_order_status (o_order_id res)) = None"
  obtains st where "persist_reconciled rops env res ag = Inr (ag\<lparr>ag_storage := st\<rparr>)"
    "db_decisions (st_db st) = db_decisions (st_db (ag_storage ag))"
    "\<exists>row\<in>set (db_orders (st_db st)). or_order_id row = o_order_id res"
proof -
  have mem: "(\<exists>row\<in>set rows. or_order_id row = x) \<longleftrightarrow> x \<in> set (map or_order_id rows)" for rows x by auto
  have "\<exists>st. update_order_status (ag_storage ag) (o_order_id res) status price t pnl q fb fq = (st, True)
      \<and> db_decisions (st_db st) = db_decisions (st_db (ag_storage ag))
      \<and> map or_order_id (db_orders (st_db st)) = map or_order_id (db_orders (st_db (ag_storage ag)))" for status price t pnl q fb fq
    using assms(1) by (simp add: update_order_status_def Let_def o_def cong: if_cong)
  with assms(1) have "\<exists>st. update_order_status (ag_storage ag) (o_order_id res) status price t pnl q fb fq = (st, True)
      \<and> db_decisions (st_db st) = db_decisions (st_db (ag_storage ag))
      \<and> (\<exists>row\<in>set (db_orders (st_db st)). or_order_id row = o_order_id res)" for status price t pnl q fb fq
    unfolding mem by metis
  then obtain st where st: "update_order_status (ag_storage ag) (o_order_id res) (status_value (o_status res)) (o_price res)
        (if o_status res = FILLED \<and> o_filled_at res = None then Some (ce_now_order env) else o_filled_at res)
        (if o_status res = FILLED then o_realized_pnl res else None) (if o_status res = FILLED then Some (o_quantity res) else None)
        (fee_field res (o_fee_base res)) (fee_field res (o_fee_quote res)) = (st, True)"
      "db_decisions (st_db st) = db_decisions (st_db (ag_storage ag))"
      "\<exists>row\<in>set (db_orders (st_db st)). or_order_id row = o_order_id res" by blast
  from that [OF _ st(2,3)] show thesis using assms(2) st(1) by (simp add: persist_reconciled_def Let_def)
qed

lemma reconciled_outcome_no_book:
  assumes "ag_book ag = None"
  shows "\<exists>ag'. reconciled_outcome rops env res ag = Inr ag' \<and> ag_storage ag' = ag_storage ag"
proof -
  have "book_strategy env did ag = Inr (ag, None)" for did by (simp add: book_strategy_def assms)
  with assms show ?thesis by (simp add: reconciled_outcome_def Let_def split: option.splits)
qed



end
