(* ===== verification/Agent_Restart.thy ===== *)
theory Agent_Restart
  imports Agent_Safety
begin

text \<open>
  Restarting a paper agent from its database. The invariant \<open>in_sync\<close> says that the order
  rows an agent can read are exactly the fills its paper executor has booked, in order,
  and that the latest snapshot row is its cash and positions; it is kept by every cycle
  whose orders were all stored (an empty audit log) and whose snapshots were written. With
  the replay lemmas of the paper executor it gives the restart theorem across the agent,
  the storage and the rehydration.
\<close>

section \<open>Stored fills\<close>

definition stored_fills :: "storage \<Rightarrow> fill_record list" where
  "stored_fills st = List.map_filter paper_fill (get_filled_orders st None None (Some paper_venue))"

definition latest_row :: "storage \<Rightarrow> portfolio_row option" where
  "latest_row st = get_latest_portfolio_snapshot st None (Some paper_venue)"

definition stripped :: "fill_record \<Rightarrow> fill_record" where
  "stripped f = f\<lparr>f_stop_loss := None, f_take_profit := None, f_order_id := None\<rparr>"

lemma stored_fills_kept: "kept_rows st = kept_rows st' \<Longrightarrow> stored_fills st = stored_fills st'"
  "kept_rows st = kept_rows st' \<Longrightarrow> latest_row st = latest_row st'"
  by (simp_all add: kept_rows_def stored_fills_def latest_row_def get_filled_orders_def get_orders_by_status_def
      get_latest_portfolio_snapshot_def venue_snapshots_def scoped_snapshots_def where_agent_def agent_scope_def
      cong: filter_cong)

lemma replay_loop_stripped:
  "fst (replay_loop t (map stripped fs) n lv) = fst (replay_loop t fs n lv')
   \<and> fst (snd (replay_loop t (map stripped fs) n lv)) = fst (snd (replay_loop t fs n lv'))"
  by (induction fs arbitrary: t n lv lv') (simp_all add: Let_def stripped_def)

lemma sort_key_snoc:
  assumes "\<And>r. r \<in> set rows \<Longrightarrow> key r \<le> key x"
  shows "sort_key key (rows @ [x]) = sort_key key rows @ [x]"
proof -
  have "insort_key key r (rs @ [x]) = insort_key key r rs @ [x]" if "key r \<le> key x" for r rs
    using that by (induction rs) auto
  with assms show ?thesis by (induction rows) auto
qed

lemma stored_fills_save:
  assumes "save_order_row now res (Some t) did strategy st = (st', Inr i)"
    and "st_venue st = Some paper_venue" and "o_status res = FILLED \<Longrightarrow> o_price res \<noteq> None"
  shows "stored_fills st' = stored_fills st @
      (if o_status res = FILLED
       then [\<lparr>f_symbol = o_symbol res, f_side = side_value (o_side res), f_quantity = o_quantity res,
              f_price = the (o_price res), f_decision_id = did, f_stop_loss = None, f_take_profit = None,
              f_fee_base = 0, f_fee_quote = 0, f_order_id = None\<rparr>] else [])"
    and "db_portfolio (st_db st') = db_portfolio (st_db st)" and "st_agent st' = st_agent st" and "st_venue st' = st_venue st"
proof -
  let ?P = "\<lambda>r. or_status r = ''filled'' \<and> venue_match (or_venue r) paper_venue \<and> where_agent st None (or_agent r)"
  obtain row where st': "st' = st\<lparr>st_db := (st_db st)\<lparr>db_orders := db_orders (st_db st) @ [row]\<rparr>\<rparr>"
    and row: "row_of_order res did strategy row" "or_venue row = st_venue st" "or_agent row = agent_scope st None"
      "or_id row = next_id or_id (db_orders (st_db st))"
    using assms(1) by (auto simp: save_order_row_def save_order_def row_of_order_def Let_def split: if_splits)
  have scope: "where_agent st' a c = where_agent st a c" for a c
    by (cases a) (simp_all add: st' where_agent_def agent_scope_def)
  have keep: "?P row \<longleftrightarrow> o_status res = FILLED"
    using row assms(2) by (auto simp: row_of_order_def status_value_def venue_match_def where_agent_def agent_scope_def
        split: order_status.splits option.splits)
  have "or_id r \<le> or_id row" if "r \<in> set (filter ?P (db_orders (st_db st)))" for r
    using that next_id_greater [of r "db_orders (st_db st)" or_id] row(4) by simp
  then have "sort_key or_id (filter ?P (db_orders (st_db st)) @ [row]) = sort_key or_id (filter ?P (db_orders (st_db st))) @ [row]"
    by (rule sort_key_snoc)
  with keep have
    "get_filled_orders st' None None (Some paper_venue) =
       get_filled_orders st None None (Some paper_venue) @ (if o_status res = FILLED then [row] else [])"
    by (simp add: get_filled_orders_def get_orders_by_status_def scope) (simp add: st')
  moreover have "paper_fill row = Some \<lparr>f_symbol = o_symbol res, f_side = side_value (o_side res), f_quantity = o_quantity res,
              f_price = the (o_price res), f_decision_id = did, f_stop_loss = None, f_take_profit = None,
              f_fee_base = 0, f_fee_quote = 0, f_order_id = None\<rparr>" if "o_status res = FILLED"
    using row(1) assms(3) [OF that] by (auto simp: paper_fill_def row_of_order_def)
  ultimately show "stored_fills st' = stored_fills st @
      (if o_status res = FILLED
       then [\<lparr>f_symbol = o_symbol res, f_side = side_value (o_side res), f_quantity = o_quantity res,
              f_price = the (o_price res), f_decision_id = did, f_stop_loss = None, f_take_profit = None,
              f_fee_base = 0, f_fee_quote = 0, f_order_id = None\<rparr>] else [])"
    by (simp add: stored_fills_def map_filter_def)
  show "db_portfolio (st_db st') = db_portfolio (st_db st)" "st_agent st' = st_agent st" "st_venue st' = st_venue st"
    by (simp_all add: st')
qed

lemma latest_row_saved:
  assumes "st_venue st = Some paper_venue"
  shows "\<exists>row. latest_row (fst (save_portfolio_snapshot st now c ps v u)) = Some row \<and> ps_cash row = c \<and> ps_positions row = ps"
    and "stored_fills (fst (save_portfolio_snapshot st now c ps v u)) = stored_fills st"
    and "st_venue (fst (save_portfolio_snapshot st now c ps v u)) = st_venue st"
proof -
  let ?st = "fst (save_portfolio_snapshot st now c ps v u)"
  obtain row where st: "?st = st\<lparr>st_db := (st_db st)\<lparr>db_portfolio := db_portfolio (st_db st) @ [row]\<rparr>\<rparr>"
    and row: "ps_cash row = c" "ps_positions row = ps" "ps_venue row = st_venue st" "ps_agent row = agent_scope st None"
      "ps_id row = next_id ps_id (db_portfolio (st_db st))"
    by (simp add: save_portfolio_snapshot_def Let_def)
  have scope: "where_agent ?st a x = where_agent st a x" for a x
    by (cases a) (simp_all add: st where_agent_def agent_scope_def)
  have "venue_snapshots ?st None (Some paper_venue) = venue_snapshots st None (Some paper_venue) @ [row]"
    using row(3,4) assms by (simp add: venue_snapshots_def scoped_snapshots_def scope)
      (simp add: st venue_match_def where_agent_def agent_scope_def split: option.splits)
  moreover have "ps_id r < ps_id row" if "r \<in> set (venue_snapshots st None (Some paper_venue))" for r
    using that next_id_greater [of r "db_portfolio (st_db st)" ps_id] row(5)
    by (auto simp: venue_snapshots_def scoped_snapshots_def)
  ultimately have "latest_row ?st = Some row"
    by (simp add: latest_row_def get_latest_portfolio_snapshot_def first_desc_snoc)
  with row(1,2) show "\<exists>row. latest_row ?st = Some row \<and> ps_cash row = c \<and> ps_positions row = ps" by blast
  show "stored_fills ?st = stored_fills st"
    by (simp add: stored_fills_def get_filled_orders_def get_orders_by_status_def scope) (simp add: st)
  show "st_venue ?st = st_venue st" by (simp add: st)
qed

section \<open>Steps of the paper executor\<close>

lemma place_order_result:
  assumes "place_order px rq = (px', Inr res)"
  shows "o_status res = FILLED \<Longrightarrow> o_price res \<noteq> None" "o_side res = rq_side rq" "o_symbol res = rq_symbol rq"
  using assms
  by (auto simp: place_order_def execute_buy_def execute_sell_def filled_order_def rejected_order_def Let_def
      split: option.splits sum.splits prod.splits if_splits)

lemma stripped_fill_row:
  "stripped (fill_row rq res) =
     \<lparr>f_symbol = o_symbol res, f_side = side_value (o_side res), f_quantity = o_quantity res,
      f_price = the (o_price res), f_decision_id = rq_decision_id rq, f_stop_loss = None, f_take_profit = None,
      f_fee_base = 0, f_fee_quote = 0, f_order_id = None\<rparr>"
  by (cases "o_side res") (simp_all add: stripped_def fill_row_def side_value_def)

lemma place_order_sell_answers:
  assumes "px_ok px" and "rq_side rq = S_SELL"
  shows "\<exists>px' res. place_order px rq = (px', Inr res)"
proof (cases "effective_price px rq")
  case None
  then show ?thesis by (simp add: place_order_def)
next
  case (Some price)
  from px_okD(1) [OF assms(1)] show ?thesis
    by (cases rule: execute_sell_cases [of px rq price]) (use Some assms(2) in \<open>simp_all add: place_order_def\<close>)
qed

section \<open>The invariant\<close>

text \<open>Fills that the executor has booked and the agent has yet to store are \<open>pend\<close>.\<close>

definition rows_upto :: "paper_executor \<Rightarrow> fill_record list \<Rightarrow> paper_executor agent \<Rightarrow> bool" where
  "rows_upto px0 pend ag \<longleftrightarrow> st_venue (ag_storage ag) = Some paper_venue
     \<and> (\<exists>fills. paper_run px0 (fills @ pend) (ag_executor ag) \<and> stored_fills (ag_storage ag) = map stripped fills)"

definition snapshot_current :: "paper_executor \<Rightarrow> paper_executor agent \<Rightarrow> bool" where
  "snapshot_current px0 ag \<longleftrightarrow>
     (case latest_row (ag_storage ag) of
        None \<Rightarrow> ag_executor ag = px0
      | Some row \<Rightarrow> ps_cash row = px_cash (ag_executor ag) \<and> ps_positions row = get_positions (ag_executor ag))"

definition in_sync :: "paper_executor \<Rightarrow> paper_executor agent \<Rightarrow> bool" where
  "in_sync px0 ag \<longleftrightarrow> rows_upto px0 [] ag \<and> snapshot_current px0 ag"

lemma in_sync_same:
  assumes "in_sync px0 ag" and "ag_executor ag' = ag_executor ag" and "kept_rows (ag_storage ag') = kept_rows (ag_storage ag)"
  shows "in_sync px0 ag'"
proof -
  have "st_venue (ag_storage ag') = st_venue (ag_storage ag)" using assms(3) by (simp add: kept_rows_def)
  with assms(1) stored_fills_kept [OF assms(3)] show ?thesis
    unfolding in_sync_def rows_upto_def snapshot_current_def assms(2) by simp
qed

lemma save_order_attempts_done:
  "save_order_attempts env k n res did strategy st = (st', True) \<Longrightarrow>
   \<exists>t i. save_order_row (ce_now_row env) res (Some t) did strategy st = (st', Inr i)"
proof (induction env k n res did strategy st rule: save_order_attempts.induct)
  case (2 env k n res did strategy st)
  let ?t = "Some (case o_filled_at res of None \<Rightarrow> ce_now_order env | Some t \<Rightarrow> t)"
  obtain st1 out where s: "save_order_row (ce_now_row env) res ?t did strategy st = (st1, out)" by force
  show ?case
  proof (cases "ce_faults env (C_save_order k)")
    case (Some e)
    with 2 show ?thesis by auto
  next
    case None
    show ?thesis
    proof (cases out)
      case (Inl e)
      with s have "st1 = st" by (auto simp: save_order_row_def save_order_def Let_def split: if_splits)
      with 2(1) [OF None s [symmetric] Inl] 2(3) None s Inl show ?thesis by auto
    next
      case (Inr i)
      with 2(3) None s show ?thesis by auto
    qed
  qed
qed simp

text \<open>Post-processing a result stores its fill, or leaves an audit line, and brings the snapshot up to
  date.\<close>

lemma post_process_sync:
  assumes "rows_upto px0 ((case pr_order_result r of None \<Rightarrow> [] | Some res \<Rightarrow> fill_rows rq (Inr res)) @ pend) ag"
    and "\<And>res. pr_order_result r = Some res \<Longrightarrow> o_status res = FILLED \<Longrightarrow> o_price res \<noteq> None"
    and "rq_decision_id rq = pr_decision_id r" and "ce_faults env C_save_portfolio_snapshot = None"
    and "ag_audit (post_process paper_ops aenv env s r ag) = []"
  shows "rows_upto px0 pend (post_process paper_ops aenv env s r ag)"
    "snapshot_current px0 (post_process paper_ops aenv env s r ag)"
proof -
  let ?ag1 = "update_daily paper_ops env ag"
  define ag2 where "ag2 = (case pr_order_result r of
                   None \<Rightarrow> ?ag1
                 | Some res \<Rightarrow>
                     let agp = persist_order aenv env res (pr_strategy r) (pr_decision_id r) ?ag1
                     in agp\<lparr>ag_storage := backfill_pnl env res (pr_decision_id r) (ag_storage agp)\<rparr>)"
  have pp: "post_process paper_ops aenv env s r ag = fst (maybe_alert aenv s r (persist_portfolio paper_ops env ag2))"
    by (simp add: post_process_def ag2_def Let_def)
  have audit: "ag_audit ag2 = []" using assms(5) by (simp add: pp)
  have rows: "rows_upto px0 pend ag2 \<and> ag_executor ag2 = ag_executor ag"
  proof (cases "pr_order_result r")
    case None
    with assms(1) show ?thesis by (simp add: ag2_def rows_upto_def)
  next
    case (Some res)
    obtain st stored where a: "save_order_attempts env 1 (Suc (ag_persist_retries ag)) res (pr_decision_id r) (pr_strategy r)
        (ag_storage ag) = (st, stored)" by force
    have stored: stored
      using audit a by (cases stored) (simp_all add: ag2_def Some persist_order_def Let_def del: save_order_attempts.simps)
    from save_order_attempts_done [OF a [unfolded eqTrueI [OF stored]]] obtain t i where
      save: "save_order_row (ce_now_row env) res (Some t) (pr_decision_id r) (pr_strategy r) (ag_storage ag) = (st, Inr i)" by blast
    have venue: "st_venue (ag_storage ag) = Some paper_venue" using assms(1) by (simp add: rows_upto_def)
    note st = stored_fills_save [OF save venue assms(2) [OF Some]]
    have ag2: "ag_storage ag2 = backfill_pnl env res (pr_decision_id r) st" "ag_executor ag2 = ag_executor ag"
      using a stored by (simp_all add: ag2_def Some persist_order_def Let_def del: save_order_attempts.simps)
    have k: "stored_fills (ag_storage ag2) = stored_fills st" "st_venue (ag_storage ag2) = st_venue st"
      using stored_fills_kept(1) [OF backfill_rows] backfill_rows [of env res "pr_decision_id r" st]
      by (simp_all only: ag2) (simp add: kept_rows_def)
    from assms(1) Some obtain fills where f: "paper_run px0 (fills @ fill_rows rq (Inr res) @ pend) (ag_executor ag)"
      "stored_fills (ag_storage ag) = map stripped fills" by (auto simp: rows_upto_def)
    have "stored_fills st = map stripped (fills @ fill_rows rq (Inr res))"
      using st(1) f(2) assms(3) by (simp add: fill_rows_def stripped_fill_row)
    with f(1) k st(4) venue show ?thesis
      unfolding rows_upto_def ag2(2) by (intro conjI exI [of _ "fills @ fill_rows rq (Inr res)"]) simp_all
  qed
  have venue: "st_venue (ag_storage ag2) = Some paper_venue" using rows by (simp add: rows_upto_def)
  let ?st = "ag_storage (persist_portfolio paper_ops env ag2)" and ?x = "ag_executor ag2"
  obtain v u where st: "?st = fst (save_portfolio_snapshot (ag_storage ag2) (ce_now_row env) (px_cash ?x) (get_positions ?x) v u)"
    using assms(4) by (simp add: persist_portfolio_def get_portfolio_state_def read_portfolio_def paper_ops_def
        pending_buy_value_def get_cash_def)
  from latest_row_saved(1) [OF venue] st obtain row where
    "latest_row ?st = Some row" "ps_cash row = px_cash ?x" "ps_positions row = get_positions ?x" by metis
  then show "snapshot_current px0 (post_process paper_ops aenv env s r ag)" by (simp add: pp snapshot_current_def)
  have "stored_fills ?st = stored_fills (ag_storage ag2)" "st_venue ?st = st_venue (ag_storage ag2)"
    using latest_row_saved(2,3) [OF venue] by (simp_all only: st)
  with conjunct1 [OF rows] show "rows_upto px0 pend (post_process paper_ops aenv env s r ag)" by (simp add: pp rows_upto_def)
qed

section \<open>Cycles keep the invariant\<close>

lemma rows_upto_ok: "rows_upto px0 pend ag \<Longrightarrow> px_ok px0 \<Longrightarrow> px_tracker px0 = new_tracker \<Longrightarrow> px_ok (ag_executor ag)"
  by (auto simp: rows_upto_def dest: paper_run_replay)

text \<open>A run of one symbol books at most one order, which is the one its result reports.\<close>

lemma run_slot_sync:
  assumes "run_slot paper_ops env slot s ag = (ag', out)" and "rows_upto px0 [] ag"
    and "px_ok px0" and "px_tracker px0 = new_tracker"
  shows "\<exists>r rq. out = Inr r \<and> rq_decision_id rq = pr_decision_id r
    \<and> rows_upto px0 (case pr_order_result r of None \<Rightarrow> [] | Some res \<Rightarrow> fill_rows rq (Inr res)) ag'
    \<and> (\<forall>res. pr_order_result r = Some res \<longrightarrow> o_status res = FILLED \<longrightarrow> o_price res \<noteq> None)"
proof -
  let ?w = "slot_world ag slot"
  have ok: "px_ok (w_executor ?w)" using rows_upto_ok [OF assms(2-4)] by (simp add: slot_world_def)
  obtain w r where w: "pipeline_run paper_ops env s (slot_timeframe ag slot) ?w = (w, Inr r)"
    using paper_executor.pipeline_run_answers [OF ok] by blast
  with assms(1) have ag': "ag' = absorb slot w ag" "out = Inr r" by (auto simp: run_slot_def)
  obtain snap where eff: "paper_executor.effect (mark_positions paper_ops s snap ?w) (w, Inr r)"
    using paper_executor.pipeline_run_effect [OF ok] w by metis
  let ?px = "w_executor (mark_positions paper_ops s snap ?w)"
  from eff have "map_option kept_rows (w_storage w) = Some (kept_rows (ag_storage ag))"
    by (simp add: paper_executor.effect_def mark_positions_frame slot_world_def)
  then have st: "kept_rows (ag_storage ag') = kept_rows (ag_storage ag)"
    by (auto simp: ag' absorb_def Let_def split: option.splits)
  have x: "ag_executor ag' = w_executor w" by (simp add: ag' absorb_def Let_def split: option.splits)
  from assms(2) obtain fills where f: "paper_run px0 fills (ag_executor ag)" "stored_fills (ag_storage ag) = map stripped fills"
    and venue: "st_venue (ag_storage ag) = Some paper_venue" by (auto simp: rows_upto_def)
  have run: "paper_run px0 fills ?px"
    using f(1) paper_run.mark [OF f(1)] by (auto simp: mark_positions_def paper_ops_def slot_world_def)
  have upto: "rows_upto px0 pend ag'" if "paper_run px0 (fills @ pend) (w_executor w)" for pend
    using that venue f(2) stored_fills_kept(1) [OF st] st unfolding rows_upto_def x by (auto simp: kept_rows_def)
  from eff consider "pr_order_result r = None" "w_executor w = ?px"
    | rq answer where "request_ok rq" "place_order ?px rq = (w_executor w, answer)"
      "pr_order_result r = (case answer of Inl e \<Rightarrow> None | Inr x \<Rightarrow> Some x)" "rq_decision_id rq = pr_decision_id r"
    by (auto simp: paper_executor.effect_def)
  then show ?thesis
  proof cases
    case 1
    with upto [of "[]"] run ag'(2) show ?thesis
      by (auto intro!: exI [of _ "undefined\<lparr>rq_decision_id := pr_decision_id r\<rparr>"])
  next
    case 2
    from paper_run.order [OF run 2(1,2)] have "rows_upto px0 (fill_rows rq answer) ag'" by (rule upto)
    with 2 ag'(2) place_order_result(1) [of ?px rq "w_executor w"] show ?thesis
      by (cases answer) (auto simp: fill_rows_def intro!: exI [of _ rq])
  qed
qed

lemma cycle_runs_sync:
  assumes "cycle_runs paper_ops env k plan err results ag = (ag', err', results')" and "in_sync px0 ag"
    and "px_ok px0" and "px_tracker px0 = new_tracker"
    and "\<And>i. ce_faults (ae_step env i) C_save_portfolio_snapshot = None" and "ag_audit ag' = []"
  shows "in_sync px0 ag'"
  using assms(1,2,6)
proof (induction plan arbitrary: k err results ag)
  case (Cons p plan)
  obtain s slot where p: "p = (s, slot)" by force
  let ?env = "ae_step env k"
  obtain ag1 out where run: "run_slot paper_ops ?env slot s ag = (ag1, out)" by force
  have "rows_upto px0 [] ag" using Cons.prems(2) by (simp add: in_sync_def)
  from run_slot_sync [OF run this assms(3,4)] obtain r rq where r: "out = Inr r" "rq_decision_id rq = pr_decision_id r"
    "rows_upto px0 ((case pr_order_result r of None \<Rightarrow> [] | Some res \<Rightarrow> fill_rows rq (Inr res)) @ []) ag1"
    "\<And>res. pr_order_result r = Some res \<Longrightarrow> o_status res = FILLED \<Longrightarrow> o_price res \<noteq> None" by auto
  let ?ag2 = "post_process paper_ops env ?env s r ag1"
  obtain err2 where rest: "cycle_runs paper_ops env (Suc k) plan err2 (results @ [r]) ?ag2 = (ag', err', results')"
    using Cons.prems(1) p run r(1) by (auto simp: Let_def)
  have audit: "ag_audit ?ag2 = []" using cycle_runs_grows [OF rest] Cons.prems(3) by (simp add: grows_def)
  have "in_sync px0 ?ag2"
    using post_process_sync [OF r(3,4,2) assms(5) audit] by (simp add: in_sync_def)
  from Cons.IH [OF rest this Cons.prems(3)] show ?case .
qed simp

text \<open>Close-all: the fills of the orders already placed, in the order the agent stores them.\<close>

definition close_fills :: "(symbol \<times> order_result) list \<Rightarrow> fill_record list" where
  "close_fills closes = concat (map (\<lambda>(s, res). fill_rows (buy_request s 0 0) (Inr res)) closes)"

definition priced :: "(symbol \<times> order_result) list \<Rightarrow> bool" where
  "priced closes \<longleftrightarrow> (\<forall>(s, res)\<in>set closes. o_status res = FILLED \<longrightarrow> o_price res \<noteq> None)"

lemma close_request_fills: "fill_rows (close_request env k s p price) out = fill_rows (buy_request s' 0 0) out"
  by (simp add: fill_rows_def fill_row_def close_request_def buy_request_def split: sum.splits)

lemma close_all_loop_sync:
  assumes "close_all_loop paper_ops env k owners ps acc w = (w', out)" and "paper_run px0 (fills @ close_fills acc) (w_executor w)"
    and "px_ok px0" and "px_tracker px0 = new_tracker" and "priced acc"
    and "\<forall>p\<in>set ps. p_side p = LONG \<and> 0 \<le> p_quantity p \<and> on_grid (p_quantity p)"
  shows "\<exists>closes. out = Inr closes \<and> w_storage w' = w_storage w \<and> priced closes
    \<and> paper_run px0 (fills @ close_fills closes) (w_executor w') \<and> (closes = acc \<longrightarrow> w_executor w' = w_executor w)
    \<and> length acc \<le> length closes"
  using assms(1,2,5,6)
proof (induction ps arbitrary: k acc w)
  case (Cons p ps)
  note no_work = paper_exits.no_working_order
  show ?case
  proof (cases "p_quantity p \<le> 0 \<or> p_current_price p \<le> 0")
    case True
    with Cons.prems(1) have "close_all_loop paper_ops env k owners ps acc w = (w', out)"
      by (cases "p_quantity p \<le> 0") simp_all
    with Cons.IH Cons.prems show ?thesis by simp
  next
    case False
    let ?rq = "close_request env k (p_symbol p) p (p_current_price p)"
    have rq: "request_ok ?rq" "rq_side ?rq = S_SELL"
      using Cons.prems(4) by (simp_all add: request_ok_def close_request_def closing_side_def)
    have ok: "px_ok (w_executor w)" using paper_run_replay [OF Cons.prems(2) assms(3,4)] by blast
    from place_order_sell_answers [OF ok rq(2)] obtain px' res where place: "place_order (w_executor w) ?rq = (px', Inr res)" by blast
    let ?w1 = "note_fill (ce_now_outcome env) (map_of owners (p_symbol p)) res (w\<lparr>w_executor := px'\<rparr>)"
    have rest: "close_all_loop paper_ops env (Suc k) owners ps (acc @ [(p_symbol p, res)]) ?w1 = (w', out)"
      using Cons.prems(1) False place by (simp add: no_work)
    have run: "paper_run px0 (fills @ close_fills (acc @ [(p_symbol p, res)])) (w_executor ?w1)"
      using paper_run.order [OF Cons.prems(2) rq(1) place]
      by (simp add: close_fills_def note_fill_frame close_request_fills [where s' = "p_symbol p"])
    have "priced (acc @ [(p_symbol p, res)])"
      using Cons.prems(3) place_order_result(1) [OF place] by (auto simp: priced_def)
    from Cons.IH [OF rest run this] Cons.prems(4) show ?thesis by (fastforce simp: note_fill_frame)
  qed
qed auto

lemma post_process_closes_sync:
  assumes "rows_upto px0 (close_fills closes) ag" and "priced closes"
    and "\<And>i. ce_faults (ae_close_step env i) C_save_portfolio_snapshot = None"
    and "ag_audit (post_process_closes paper_ops env k owners closes ag) = []"
    and "closes = [] \<Longrightarrow> snapshot_current px0 ag"
  shows "in_sync px0 (post_process_closes paper_ops env k owners closes ag)"
  using assms(1,2,4,5)
proof (induction closes arbitrary: k ag)
  case Nil
  then show ?case by (simp add: in_sync_def close_fills_def)
next
  case (Cons c closes)
  obtain s res where c: "c = (s, res)" by force
  let ?r = "(empty_result s)\<lparr>pr_order_result := Some res, pr_exit_reason := Some ''close_all'', pr_strategy := map_of owners s\<rparr>"
  let ?ag = "post_process paper_ops env (ae_close_step env k) s ?r ag"
  have audit: "ag_audit ?ag = []"
    using Cons.prems(3) post_process_closes_grows [of ?ag paper_ops env "Suc k" owners closes] by (simp add: c grows_def)
  have rows: "rows_upto px0 ((case pr_order_result ?r of None \<Rightarrow> [] | Some x \<Rightarrow> fill_rows (buy_request s 0 0) (Inr x)) @ close_fills closes) ag"
    using Cons.prems(1) by (simp add: c close_fills_def)
  note step = post_process_sync [OF rows _ _ assms(3) audit]
  have "rows_upto px0 (close_fills closes) ?ag" "snapshot_current px0 ?ag"
    using Cons.prems(2) by (intro step; auto simp: c priced_def empty_result_def buy_request_def)+
  with Cons.IH [of ?ag "Suc k"] Cons.prems(2,3) show ?case by (simp add: c priced_def)
qed

lemma agent_close_all_sync:
  assumes "agent_close_all paper_ops env ag = (ag', err)" and "in_sync px0 ag"
    and "px_ok px0" and "px_tracker px0 = new_tracker"
    and "\<And>i. ce_faults (ae_close_step env i) C_save_portfolio_snapshot = None" and "ag_audit ag' = []"
  shows "in_sync px0 ag' \<and> err = None"
proof -
  obtain ag1 owners where o1: "close_owners paper_ops (ae_control env) ag = (ag1, owners)" by force
  have ag1: "ag_executor ag1 = ag_executor ag" "ag_storage ag1 = ag_storage ag"
    using o1 by (auto simp: close_owners_def split: option.splits sum.splits)
  define slot where "slot = (if ag_sleeve_runs ag1 = [] then None else Some (0 :: nat))"
  let ?w = "slot_world ag1 slot" and ?ps = "get_positions (ag_executor ag)"
  have rows: "rows_upto px0 [] ag" and snap: "snapshot_current px0 ag" using assms(2) by (simp_all add: in_sync_def)
  then obtain fills where f: "paper_run px0 fills (ag_executor ag)" "stored_fills (ag_storage ag) = map stripped fills"
    and venue: "st_venue (ag_storage ag) = Some paper_venue" by (auto simp: rows_upto_def)
  note ok = rows_upto_ok [OF rows assms(3,4)]
  obtain w out where w: "close_all_positions paper_ops (ae_control env) ?w = (w, out)" by force
  then obtain w1 os where loop: "close_all_loop paper_ops (ae_control env) 0 os ?ps [] w1 = (w, out)"
    and w1: "w_executor w1 = ag_executor ag" "w_storage w1 = Some (ag_storage ag)"
    by (auto simp: close_all_positions_def paper_ops_def slot_world_def ag1 Let_def split: option.splits sum.splits prod.splits)
  have ps: "\<forall>p\<in>set ?ps. p_side p = LONG \<and> 0 \<le> p_quantity p \<and> on_grid (p_quantity p)"
    using px_okD(5) [OF ok get_positions_get [OF ok]] by blast
  from close_all_loop_sync [OF loop _ assms(3,4) _ ps, of fills] f(1) w1 obtain closes where
    c: "out = Inr closes" "w_storage w = Some (ag_storage ag)" "priced closes"
      "paper_run px0 (fills @ close_fills closes) (w_executor w)" "closes = [] \<longrightarrow> w_executor w = ag_executor ag"
    by (auto simp: close_fills_def priced_def)
  let ?ag2 = "absorb slot w ag1"
  have ag2: "ag_executor ?ag2 = w_executor w" "ag_storage ?ag2 = ag_storage ag"
    using c(2) by (simp_all add: absorb_def Let_def split: option.splits)
  have ag': "ag' = post_process_closes paper_ops env 0 owners closes ?ag2" "err = None"
    using assms(1) o1 w c(1) by (simp_all add: agent_close_all_def slot_def Let_def)
  have "rows_upto px0 (close_fills closes) ?ag2"
    using c(4) f(2) venue unfolding rows_upto_def ag2 by blast
  moreover have "snapshot_current px0 ?ag2" if "closes = []"
    using snap c(5) that unfolding snapshot_current_def ag2 by (simp split: option.splits)
  ultimately show ?thesis
    using post_process_closes_sync [OF _ c(3) assms(5)] assms(6) ag' by simp
qed

text \<open>A configuration override may change settings, symbols and engines, but not the book or the
  database.\<close>

definition override_ok ::
  "(paper_executor agent \<Rightarrow> string option \<Rightarrow> paper_executor agent \<times> py_error option) option \<Rightarrow> bool" where
  "override_ok applier \<longleftrightarrow>
     (\<forall>f ag raw. applier = Some f \<longrightarrow> ag_executor (fst (f ag raw)) = ag_executor ag
        \<and> ag_storage (fst (f ag raw)) = ag_storage ag \<and> ag_audit (fst (f ag raw)) = ag_audit ag)"

definition snapshots_written :: "agent_env \<Rightarrow> bool" where
  "snapshots_written env \<longleftrightarrow>
     (\<forall>i. ce_faults (ae_step env i) C_save_portfolio_snapshot = None
        \<and> ce_faults (ae_close_step env i) C_save_portfolio_snapshot = None)"

lemma record_health_sync: "in_sync px0 ag \<Longrightarrow> in_sync px0 (record_health env err ag)"
  by (erule in_sync_same) (simp_all add: kept_rows_def)

lemma apply_overrides_frame:
  "override_ok applier \<Longrightarrow> ag_executor (apply_overrides applier c ag) = ag_executor ag
   \<and> ag_storage (apply_overrides applier c ag) = ag_storage ag \<and> ag_audit (apply_overrides applier c ag) = ag_audit ag"
  by (auto simp: apply_overrides_def override_ok_def Let_def split: option.splits prod.splits) (metis fst_conv)+

lemma clear_latch_rows: "kept_rows (request_close_all st now a v) = kept_rows st"
  by (simp add: kept_rows_def request_close_all_def upsert_agent_control_def Let_def)

lemma handle_control_sync:
  assumes "handle_control paper_ops env applier c ag = (ag', out)" and "in_sync px0 ag"
    and "px_ok px0" and "px_tracker px0 = new_tracker"
    and "snapshots_written env" and "override_ok applier" and "ag_audit ag' = []"
  shows "in_sync px0 ag'"
proof -
  define ag1 where "ag1 = apply_overrides applier c ag"
  obtain ag2 err where e: "(if ac_close_all_requested c then agent_close_all paper_ops env ag1 else (ag1, None)) = (ag2, err)" by force
  define ag3 where "ag3 = (if ac_close_all_requested c
                        then (case ce_faults (ae_control env) C_request_close_all of
                                Some e \<Rightarrow> ag2
                              | None \<Rightarrow> ag2\<lparr>ag_storage := request_close_all (ag_storage ag2) (ce_now_row (ae_control env))
                                                          (ag_control_agent ag2) False\<rparr>)
                        else ag2)"
  have ag': "ag' = (case err of Some e \<Rightarrow> ag2 | None \<Rightarrow> if ac_state c = ''paused'' then record_health (ae_control env) None ag3 else ag3)"
    using assms(1) e unfolding handle_control_def Let_def ag1_def [symmetric]
    by (auto simp: ag3_def split: option.splits if_splits)
  have ag3: "ag_executor ag3 = ag_executor ag2" "kept_rows (ag_storage ag3) = kept_rows (ag_storage ag2)" "ag_audit ag3 = ag_audit ag2"
    by (auto simp: ag3_def clear_latch_rows split: option.splits)
  have "ag_audit ag2 = []" using assms(7) ag3(3) by (auto simp: ag' split: option.splits if_splits)
  moreover have "in_sync px0 ag1"
    using assms(2) apply_overrides_frame [OF assms(6), of c ag] by (intro in_sync_same [OF assms(2)]) (simp_all add: ag1_def)
  ultimately have "in_sync px0 ag2"
    using e agent_close_all_sync [OF _ _ assms(3,4)] assms(5) by (auto simp: snapshots_written_def split: if_splits)
  with in_sync_same [OF this ag3(1,2)] show ?thesis by (auto simp: ag' record_health_sync split: option.splits)
qed

lemma trade_cycle_paper:
  assumes "trade_cycle paper_ops paper_reconcile env ag = (ag', out)"
  obtains err results ag1 where "cycle_runs paper_ops env 0 (cycle_plan env ag) None [] ag = (ag1, err, results)"
    "ag' = record_health (ae_control env) err (record_sleeve_snapshots paper_ops (ae_control env) ag1)"
    "grows ag ag'"
proof -
  from assms obtain err results ag1 where
    r: "cycle_runs paper_ops env 0 (cycle_plan env ag) None [] ag = (ag1, err, results)"
    "ag' = record_health (ae_control env) err (record_sleeve_snapshots paper_ops (ae_control env) ag1)"
    by (auto simp: trade_cycle_def reconcile_orders_def paper_reconcile_def split: prod.splits)
  have "grows ag1 ag'"
    using record_sleeve_snapshots_frame(1) [of paper_ops "ae_control env" ag1] by (simp add: r(2) grows_def kept_rows_def)
  with cycle_runs_grows [OF r(1)] r show thesis by (intro that) (auto intro: grows_trans)
qed

lemma run_cycle_sync:
  assumes "run_cycle paper_ops paper_reconcile applier env ag = (ag', out)" and "in_sync px0 ag"
    and "px_ok px0" and "px_tracker px0 = new_tracker"
    and "snapshots_written env" and "override_ok applier" and "ag_audit ag' = []"
  shows "in_sync px0 ag'"
proof (cases "ag_stopping ag \<or> ag_cycle_locked ag")
  case True
  with assms(1,2) show ?thesis by (auto simp: run_cycle_def)
next
  case False
  let ?ag = "ag\<lparr>ag_cycle_locked := True\<rparr>"
  have start: "in_sync px0 ?ag" by (rule in_sync_same [OF assms(2)]) simp_all
  obtain ag1 where body: "run_cycle_body paper_ops paper_reconcile applier env ?ag = (ag1, out)"
    and ag': "ag' = ag1\<lparr>ag_cycle_locked := False\<rparr>"
    using assms(1) False by (auto simp: run_cycle_def split: prod.splits)
  obtain ag2 ctl where c: "(case read_control (ae_control env) ?ag of None \<Rightarrow> (?ag, Inr False)
      | Some c \<Rightarrow> handle_control paper_ops env applier c ?ag) = (ag2, ctl)" by force
  have step: "(ctl = Inr False \<and> ae_skip_cycle env = None \<and> trade_cycle paper_ops paper_reconcile env ag2 = (ag1, out))
      \<or> ag1 = ag2 \<or> ag1 = record_health (ae_control env) None ag2"
    using body c by (auto simp: run_cycle_body_def split: sum.splits bool.splits if_splits)
  have audit2: "ag_audit ag2 = []"
    using step assms(7) by (auto simp: ag' grows_def elim!: trade_cycle_paper)
  have traded: "in_sync px0 ag1" if "trade_cycle paper_ops paper_reconcile env ag2 = (ag1, out)" "in_sync px0 ag2"
    using that(1)
  proof (rule trade_cycle_paper)
    fix err results ag3
    assume runs: "cycle_runs paper_ops env 0 (cycle_plan env ag2) None [] ag2 = (ag3, err, results)"
      and ag1: "ag1 = record_health (ae_control env) err (record_sleeve_snapshots paper_ops (ae_control env) ag3)"
    have "ag_audit ag3 = []" using assms(7) by (simp add: ag' ag1)
    with cycle_runs_sync [OF runs that(2) assms(3,4)] assms(5) have "in_sync px0 ag3" by (simp add: snapshots_written_def)
    then show ?thesis unfolding ag1 by (intro record_health_sync) (erule in_sync_same, simp_all)
  qed
  have "in_sync px0 ag2"
    using c start handle_control_sync [OF _ start assms(3-6) audit2] by (auto split: option.splits)
  with step traded have "in_sync px0 ag1" by (auto simp: record_health_sync)
  then show ?thesis unfolding ag' by (rule in_sync_same) simp_all
qed

text \<open>The audit log is never shortened.\<close>

lemma absorb_audit [simp]: "ag_audit (absorb slot w ag) = ag_audit ag"
  by (simp add: absorb_def Let_def split: option.splits)

lemma agent_close_all_audit:
  assumes "agent_close_all ops env ag = (ag', err)"
  shows "set (ag_audit ag) \<subseteq> set (ag_audit ag')"
proof -
  obtain ag1 owners where o1: "close_owners ops (ae_control env) ag = (ag1, owners)" by force
  then have a: "ag_audit ag1 = ag_audit ag" by (auto simp: close_owners_def split: option.splits sum.splits)
  let ?slot = "if ag_sleeve_runs ag1 = [] then None else Some 0"
  obtain w out where w: "close_all_positions ops (ae_control env) (slot_world ag1 ?slot) = (w, out)" by force
  show ?thesis
  proof (cases out)
    case (Inl e)
    with assms o1 w have "ag' = fst (send_alert env AL_error None (absorb ?slot w ag1))" by (simp add: agent_close_all_def)
    with a show ?thesis by simp
  next
    case (Inr closes)
    with assms o1 w have "ag' = post_process_closes ops env 0 owners closes (absorb ?slot w ag1)"
      by (simp add: agent_close_all_def)
    with a post_process_closes_grows [of "absorb ?slot w ag1" ops env 0 owners closes] show ?thesis by (simp add: grows_def)
  qed
qed

lemma handle_control_audit:
  assumes "handle_control ops env applier c ag = (ag', out)" and "\<And>c a. ag_audit (apply_overrides applier c a) = ag_audit a"
  shows "set (ag_audit ag) \<subseteq> set (ag_audit ag')"
proof -
  define ag1 where "ag1 = apply_overrides applier c ag"
  obtain ag2 err where e: "(if ac_close_all_requested c then agent_close_all ops env ag1 else (ag1, None)) = (ag2, err)" by force
  then have "set (ag_audit ag1) \<subseteq> set (ag_audit ag2)" using agent_close_all_audit [of ops env ag1] by (auto split: if_splits)
  moreover have "ag_audit ag' = ag_audit ag2"
    using assms(1) e unfolding handle_control_def Let_def ag1_def [symmetric]
    by (auto split: option.splits if_splits)
  ultimately show ?thesis using assms(2) by (simp add: ag1_def)
qed

lemma run_cycle_audit:
  assumes "run_cycle paper_ops paper_reconcile applier env ag = (ag', out)" and "override_ok applier" and "ag_audit ag' = []"
  shows "ag_audit ag = []"
proof (cases "ag_stopping ag \<or> ag_cycle_locked ag")
  case True
  with assms show ?thesis by (auto simp: run_cycle_def)
next
  case False
  let ?ag = "ag\<lparr>ag_cycle_locked := True\<rparr>"
  obtain ag1 where body: "run_cycle_body paper_ops paper_reconcile applier env ?ag = (ag1, out)"
    and ag': "ag' = ag1\<lparr>ag_cycle_locked := False\<rparr>"
    using assms(1) False by (auto simp: run_cycle_def split: prod.splits)
  obtain ag2 ctl where c: "(case read_control (ae_control env) ?ag of None \<Rightarrow> (?ag, Inr False)
      | Some c \<Rightarrow> handle_control paper_ops env applier c ?ag) = (ag2, ctl)" by force
  have "set (ag_audit ag2) \<subseteq> set (ag_audit ag1)"
    using body c by (auto simp: run_cycle_body_def grows_def elim!: trade_cycle_paper
        split: sum.splits bool.splits if_splits)
  moreover have "set (ag_audit ag) \<subseteq> set (ag_audit ag2)"
    using c handle_control_audit [of paper_ops env applier _ ?ag] apply_overrides_frame [OF assms(2)]
    by (auto split: option.splits)
  ultimately show ?thesis using assms(3) by (simp add: ag')
qed

section \<open>Restart\<close>

inductive paper_session :: "paper_executor agent \<Rightarrow> paper_executor agent \<Rightarrow> bool" for ag0 where
  fresh: "paper_session ag0 ag0"
| cycle: "paper_session ag0 ag \<Longrightarrow> snapshots_written env \<Longrightarrow> override_ok applier \<Longrightarrow>
    run_cycle paper_ops paper_reconcile applier env ag = (ag', out) \<Longrightarrow> paper_session ag0 ag'"

lemma rehydrate_paper_in_sync:
  assumes "in_sync px0 ag" and "px_ok px0" and "px_tracker px0 = new_tracker"
    and "rehydrate_paper_executor no_faults (ag_storage ag) px0 = (px', restored)"
  shows "px_cash px' = px_cash (ag_executor ag) \<and> px_positions px' = px_positions (ag_executor ag)
    \<and> erased (px_tracker px') (px_tracker (ag_executor ag))"
proof -
  from assms(1) obtain fills where f: "paper_run px0 fills (ag_executor ag)" "stored_fills (ag_storage ag) = map stripped fills"
    by (auto simp: in_sync_def rows_upto_def)
  note run = paper_run_replay [OF f(1) assms(2,3)]
  have same: "fst (replay_fills new_tracker (map stripped fills)) = fst (replay_fills new_tracker fills)"
    using replay_loop_stripped by (simp add: replay_fills_def)
  have venue: "executor_venue (Some paper_venue) = Some paper_venue" by (simp add: executor_venue_def paper_venue_def)
  show ?thesis
  proof (cases "latest_row (ag_storage ag)")
    case None
    with assms(1,4) have "px' = px0" "ag_executor ag = px0"
      by (auto simp: rehydrate_paper_executor_def venue attempt_def no_faults_def latest_row_def in_sync_def snapshot_current_def)
    with assms(3) show ?thesis by (simp add: erased_def new_tracker_def dict_lots_def)
  next
    case (Some row)
    with assms(1) have row: "ps_cash row = px_cash (ag_executor ag)" "ps_positions row = get_positions (ag_executor ag)"
      by (simp_all add: in_sync_def snapshot_current_def)
    from run same have "erased (fst (replay_fills new_tracker (map stripped fills))) (px_tracker (ag_executor ag))" by simp
    from load_restores [OF _ this, of px0] run have
      "fst (load_portfolio_state px0 (ps_cash row) (ps_positions row) (Some (map stripped fills))) =
         px0\<lparr>px_cash := px_cash (ag_executor ag), px_positions := px_positions (ag_executor ag),
           px_tracker := fst (replay_fills new_tracker fills)\<rparr>"
      by (simp add: row same)
    moreover have "px' = fst (load_portfolio_state px0 (ps_cash row) (ps_positions row) (Some (map stripped fills)))"
      using assms(4) Some f(2)
      by (simp add: rehydrate_paper_executor_def venue attempt_def no_faults_def latest_row_def stored_fills_def)
    ultimately show ?thesis using run by simp
  qed
qed



end
