(* ===== verification/Screener.thy ===== *)
theory Screener
  imports Candles "HOL-Library.Char_ord" "HOL-Library.List_Lexorder" "HOL-Library.Product_Lexorder"
begin

text \<open>
  The deterministic market screener, \<^verbatim>\<open>src/src/analysis/screener.py\<close>: the liquidity floor, the
  metrics of a symbol from its closed daily bars, the volatility band with the momentum ranking,
  and the reordering by news mentions.

  Strings are compared by code point and tuples lexicographically, as in Python; a descending key is the
  negated number. \<^verbatim>\<open>sorted\<close> and \<^verbatim>\<open>list.sort\<close> are stable, as \<^const>\<open>sort_key\<close> is.
\<close>

record screen_metrics =
  sm_momentum :: real
  sm_daily_volatility :: real
  sm_volume_spike :: "real option"

record screened_symbol =
  ss_symbol :: symbol
  ss_quote_volume_24h :: real
  ss_metrics :: screen_metrics
  ss_rank :: int
  ss_news_mentions :: int

section \<open>Operations\<close>

definition liquid_volume :: "real \<Rightarrow> symbol \<times> real option \<Rightarrow> (symbol \<times> real) option" where
  "liquid_volume floor_volume p =
     (case snd p of
        None \<Rightarrow> None
      | Some v \<Rightarrow> if v > 0 \<and> v \<ge> floor_volume then Some (fst p, v) else None)"

definition filter_by_liquidity :: "(symbol, real option) dict \<Rightarrow> real \<Rightarrow> (symbol \<times> real) list" where
  "filter_by_liquidity quote_volumes floor_volume =
     sort_key (\<lambda>p. (- snd p, fst p)) (List.map_filter (liquid_volume floor_volume) quote_volumes)"

text \<open>\<^verbatim>\<open>xs[-n:]\<close> for a positive \<open>n\<close>.\<close>

definition last_n :: "int \<Rightarrow> 'a list \<Rightarrow> 'a list" where
  "last_n n xs = drop (length xs - nat n) xs"

definition mean :: "real list \<Rightarrow> real" where
  "mean xs = sum_list xs / real (length xs)"

definition pstdev :: "real list \<Rightarrow> real" where
  "pstdev xs = sqrt (mean (map (\<lambda>x. (x - mean xs)\<^sup>2) xs))"

text \<open>The close-to-close returns over consecutive bars whose earlier close is positive.\<close>

fun pair_returns :: "real list \<Rightarrow> real list" where
  "pair_returns (earlier # later # xs) =
     (if earlier > 0 then [later / earlier - 1] else []) @ pair_returns (later # xs)"
| "pair_returns _ = []"

definition volume_spike :: "int \<Rightarrow> real list \<Rightarrow> real option" where
  "volume_spike lookback_days volumes =
     (if length volumes < 3 then None
      else let recent = butlast (last_n (lookback_days + 1) volumes);
               prior = (if recent = [] then butlast volumes else recent)
           in if mean prior > 0 then Some (last volumes / mean prior) else None)"

definition compute_screen_metrics :: "ohlcv list \<Rightarrow> int \<Rightarrow> int \<Rightarrow> py_error + screen_metrics option" where
  "compute_screen_metrics candles momentum_days lookback_days =
     (if momentum_days < 1 \<or> lookback_days < 2 then Inl ValueError
      else let window = last_n (lookback_days + 1) (map c_close candles)
           in if int (length window) < momentum_days + 2 then Inr None
              else let reference = window ! (length window - nat (momentum_days + 1))
                   in if reference \<le> 0 then Inr None
                      else let returns = pair_returns window
                           in if length returns < 2 then Inr None
                              else Inr (Some \<lparr>sm_momentum = last window / reference - 1,
                                             sm_daily_volatility = pstdev returns,
                                             sm_volume_spike = volume_spike lookback_days (map c_volume candles)\<rparr>))"

definition prioritize_mentioned ::
  "screened_symbol list \<Rightarrow> (symbol, int) dict \<Rightarrow> int \<Rightarrow> screened_symbol list" where
  "prioritize_mentioned ranked mentions min_mentions =
     sort_key (\<lambda>c. ss_news_mentions c < min_mentions)
       (map (\<lambda>c. c\<lparr>ss_news_mentions := (case map_of mentions (ss_symbol c) of None \<Rightarrow> 0 | Some n \<Rightarrow> n)\<rparr>) ranked)"

definition in_band :: "real \<Rightarrow> real option \<Rightarrow> screen_metrics \<Rightarrow> bool" where
  "in_band lower upper_bound m \<longleftrightarrow>
     \<not> sm_daily_volatility m < lower
     \<and> (case upper_bound of None \<Rightarrow> True | Some u \<Rightarrow> \<not> sm_daily_volatility m > u)"

definition rank_key :: "screened_symbol \<Rightarrow> real \<times> real \<times> symbol" where
  "rank_key c = (- sm_momentum (ss_metrics c), - ss_quote_volume_24h c, ss_symbol c)"

definition new_screened :: "symbol \<times> real \<times> screen_metrics \<Rightarrow> screened_symbol" where
  "new_screened = (\<lambda>(s, v, m). \<lparr>ss_symbol = s, ss_quote_volume_24h = v, ss_metrics = m, ss_rank = 0,
                                ss_news_mentions = 0\<rparr>)"

fun number_ranks :: "int \<Rightarrow> screened_symbol list \<Rightarrow> screened_symbol list" where
  "number_ranks position [] = []"
| "number_ranks position (c # cs) = c\<lparr>ss_rank := position\<rparr> # number_ranks (position + 1) cs"

definition rank_candidates ::
  "(symbol \<times> real \<times> screen_metrics) list \<Rightarrow> real \<Rightarrow> real option \<Rightarrow> screened_symbol list" where
  "rank_candidates candidates min_volatility max_volatility =
     number_ranks 1 (sort_key rank_key (map new_screened
       (filter (\<lambda>(s, v, m). in_band min_volatility max_volatility m) candidates)))"

section \<open>Lemmas\<close>

lemma length_number_ranks [simp]: "length (number_ranks n cs) = length cs"
  by (induction cs arbitrary: n) auto

lemma nth_number_ranks:
  "i < length cs \<Longrightarrow> number_ranks n cs ! i = (cs ! i)\<lparr>ss_rank := n + int i\<rparr>"
proof (induction cs arbitrary: n i)
  case (Cons c cs)
  then show ?case by (cases i) (auto simp: algebra_simps)
qed simp

lemma map_number_ranks:
  "(\<And>c r. f (c\<lparr>ss_rank := r\<rparr>) = f c) \<Longrightarrow> map f (number_ranks n cs) = map f cs"
  by (induction cs arbitrary: n) auto

lemma rank_key_rank [simp]: "rank_key (c\<lparr>ss_rank := r\<rparr>) = rank_key c"
  by (simp add: rank_key_def)

definition triple_of :: "screened_symbol \<Rightarrow> symbol \<times> real \<times> screen_metrics" where
  "triple_of c = (ss_symbol c, ss_quote_volume_24h c, ss_metrics c)"

lemma triple_of_new [simp]: "triple_of (new_screened t) = t"
  by (cases t) (simp add: triple_of_def new_screened_def)

lemma mset_rank_candidates:
  "mset (map triple_of (rank_candidates cands lo hi)) = mset (filter (\<lambda>(s, v, m). in_band lo hi m) cands)"
proof -
  have "map triple_of (rank_candidates cands lo hi) =
      map triple_of (sort_key rank_key (map new_screened (filter (\<lambda>(s, v, m). in_band lo hi m) cands)))"
    unfolding rank_candidates_def by (rule map_number_ranks) (simp add: triple_of_def)
  then have "mset (map triple_of (rank_candidates cands lo hi)) =
      image_mset triple_of (mset (map new_screened (filter (\<lambda>(s, v, m). in_band lo hi m) cands)))"
    by simp
  also have "\<dots> = mset (filter (\<lambda>(s, v, m). in_band lo hi m) cands)"
    by (simp add: image_mset.compositionality comp_def flip: mset_map)
  finally show ?thesis .
qed

lemma sorted_rank_candidates: "sorted (map rank_key (rank_candidates cands lo hi))"
  by (simp add: rank_candidates_def map_number_ranks)

lemma set_prioritize_mentioned:
  "c \<in> set (prioritize_mentioned ranked mentions n) \<Longrightarrow> triple_of c \<in> triple_of ` set ranked"
  by (auto simp: prioritize_mentioned_def triple_of_def image_iff)

lemma filter_by_liquidity_floor:
  "(s, v) \<in> set (filter_by_liquidity volumes fl) \<Longrightarrow> 0 < v \<and> fl \<le> v \<and> (s, Some v) \<in> set volumes"
  by (auto simp: filter_by_liquidity_def liquid_volume_def map_filter_def split: option.splits if_splits)

lemma map_rank_candidates: "map ss_rank (rank_candidates cands lo hi) = [1..int (length (rank_candidates cands lo hi))]"
  by (rule nth_equalityI) (simp_all add: rank_candidates_def nth_number_ranks)

text \<open>Sorting by a boolean key moves the false ones ahead and keeps both groups in order.\<close>

lemma insort_key_true: "f x \<Longrightarrow> \<forall>y\<in>set ys. \<not> f y \<Longrightarrow> insort_key f x (ys @ zs) = ys @ insort_key f x zs"
  by (induction ys) auto

lemma sort_key_bool: "sort_key f xs = filter (\<lambda>x. \<not> f x) xs @ filter f xs"
proof (induction xs)
  case (Cons x xs)
  show ?case
  proof (cases "f x")
    case True
    have "insort_key f x ys = x # ys" if "\<forall>y\<in>set ys. f y" for ys using that True by (cases ys) auto
    with True Cons show ?thesis by (simp add: insort_key_true)
  next
    case False
    have "insort_key f x ys = x # ys" for ys using False by (cases ys) auto
    with False Cons show ?thesis by simp
  qed
qed simp

section \<open>Properties\<close>

text \<open>The screener ranks exactly what passed the volatility band: the ranked list is a permutation
  of the candidates in the band, it is sorted by descending momentum with ties broken by descending
  volume and then by symbol, and its ranks are 1, 2, 3 and so on.\<close>

theorem ranking_is_sorted_permutation:
  "sorted (map rank_key (rank_candidates cands lo hi))
   \<and> mset (map triple_of (rank_candidates cands lo hi)) = mset (filter (\<lambda>(s, v, m). in_band lo hi m) cands)
   \<and> map ss_rank (rank_candidates cands lo hi) = [1..int (length (rank_candidates cands lo hi))]"
  using sorted_rank_candidates [of cands lo hi] mset_rank_candidates [of cands lo hi]
    map_rank_candidates [of cands lo hi] by simp

text \<open>News mentions only reorder: the prioritized list is the mentioned candidates followed by the
  others, both in screener order, and no candidate is added, dropped or altered but for its count.\<close>

theorem mentions_only_reorder:
  fixes mentions :: "(symbol, int) dict"
  defines "cnt s \<equiv> (case map_of mentions s of None \<Rightarrow> 0 | Some n \<Rightarrow> n)"
  shows "map triple_of (prioritize_mentioned ranked mentions k) =
     map triple_of (filter (\<lambda>c. cnt (ss_symbol c) \<ge> k) ranked @ filter (\<lambda>c. cnt (ss_symbol c) < k) ranked)"
  by (simp add: prioritize_mentioned_def sort_key_bool cnt_def triple_of_def comp_def filter_map not_less)

end
