(* ===== verification/Baselines.thy ===== *)
theory Baselines
  imports Screener
begin

text \<open>
  The reference strategies of \<^verbatim>\<open>src/src/analysis/baselines.py\<close> (buy and hold, moving-average crossover,
  cash) and the per-sleeve performance numbers of \<^verbatim>\<open>src/src/core/performance.py\<close>.

  The crossover slides two window sums along the closes; its reference definition recomputes both
  averages at every bar. \<^verbatim>\<open>float("-inf")\<close> as the first peak is \<^const>\<open>None\<close>.
\<close>

section \<open>Reference strategies\<close>

definition closes :: "ohlcv list \<Rightarrow> real list" where
  "closes candles = filter (\<lambda>c. c > 0) (map c_close candles)"

definition buy_and_hold_return :: "ohlcv list \<Rightarrow> real \<Rightarrow> real option" where
  "buy_and_hold_return candles cost_pct =
     (let cs = closes candles
      in if length cs < 2 then None else Some (last cs / hd cs * (1 - cost_pct)\<^sup>2 - 1))"

record crossover_state =
  cx_equity :: real
  cx_invested :: bool
  cx_fast_sum :: real
  cx_slow_sum :: real

text \<open>One bar of the loop: slide the windows, trade on a changed signal, earn the next bar.\<close>

definition crossover_bar :: "real list \<Rightarrow> nat \<Rightarrow> nat \<Rightarrow> real \<Rightarrow> nat \<Rightarrow> crossover_state \<Rightarrow> crossover_state" where
  "crossover_bar cs fast slow cost_pct i s =
     (let fs = (if i \<ge> slow then cx_fast_sum s + (cs ! i - cs ! (i - fast)) else cx_fast_sum s);
          ss = (if i \<ge> slow then cx_slow_sum s + (cs ! i - cs ! (i - slow)) else cx_slow_sum s);
          want = (fs / real fast > ss / real slow);
          e1 = (if want \<noteq> cx_invested s then cx_equity s * (1 - cost_pct) else cx_equity s);
          e2 = (if want then e1 * (cs ! (i + 1) / cs ! i) else e1)
      in \<lparr>cx_equity = e2, cx_invested = want, cx_fast_sum = fs, cx_slow_sum = ss\<rparr>)"

definition crossover_start :: "real list \<Rightarrow> nat \<Rightarrow> nat \<Rightarrow> crossover_state" where
  "crossover_start cs fast slow =
     \<lparr>cx_equity = 1, cx_invested = False,
      cx_fast_sum = sum_list (take fast (drop (slow - fast) cs)), cx_slow_sum = sum_list (take slow cs)\<rparr>"

definition ma_crossover_return :: "ohlcv list \<Rightarrow> int \<Rightarrow> int \<Rightarrow> real \<Rightarrow> py_error + real option" where
  "ma_crossover_return candles fast slow cost_pct =
     (if \<not> (0 < fast \<and> fast < slow) then Inl ValueError
      else let cs = closes candles; f = nat fast; l = nat slow
           in if length cs < l + 1 then Inr None
              else let s = fold (crossover_bar cs f l cost_pct) [l - 1..<length cs - 1] (crossover_start cs f l)
                   in Inr (Some ((if cx_invested s then cx_equity s * (1 - cost_pct) else cx_equity s) - 1)))"

definition equal_weight :: "real option list \<Rightarrow> real option" where
  "equal_weight returns =
     (let usable = List.map_filter id returns
      in if usable = [] then None else Some (sum_list usable / real (length usable)))"

text \<open>The default windows are valid, so the crossover of \<^verbatim>\<open>baseline_returns\<close> never raises.\<close>

definition crossover_20_50 :: "real \<Rightarrow> ohlcv list \<Rightarrow> real option" where
  "crossover_20_50 cost_pct candles =
     (case ma_crossover_return candles 20 50 cost_pct of Inl e \<Rightarrow> None | Inr r \<Rightarrow> r)"

definition baseline_returns :: "(symbol, ohlcv list) dict \<Rightarrow> real \<Rightarrow> (string, real option) dict" where
  "baseline_returns candles_by_symbol cost_pct =
     (let series = map snd candles_by_symbol
      in [(''buy_and_hold'', equal_weight (map (\<lambda>c. buy_and_hold_return c cost_pct) series)),
          (''ma_crossover_20_50'', equal_weight (map (crossover_20_50 cost_pct) series)),
          (''cash'', Some 0)])"

text \<open>\<^verbatim>\<open>max(usable, key=...)\<close>: the first of the largest.\<close>

fun first_max :: "(string \<times> real) list \<Rightarrow> (string \<times> real) option" where
  "first_max [] = None"
| "first_max (x # xs) =
     (case first_max xs of None \<Rightarrow> Some x | Some y \<Rightarrow> if snd y > snd x then Some y else Some x)"

definition best_baseline :: "(string, real option) dict \<Rightarrow> (string \<times> real) option" where
  "best_baseline baselines =
     first_max (List.map_filter (\<lambda>(name, v). map_option (Pair name) v) baselines)"

section \<open>Drawdown\<close>

definition drawdown_point :: "real \<Rightarrow> real option \<times> real \<Rightarrow> real option \<times> real" where
  "drawdown_point v s =
     (let peak = (case fst s of None \<Rightarrow> v | Some p \<Rightarrow> max p v)
      in (Some peak, if peak > 0 then max (snd s) ((peak - v) / peak) else snd s))"

text \<open>\<^verbatim>\<open>max_drawdown\<close> of \<^verbatim>\<open>backtester.py\<close>, and the variant of \<^verbatim>\<open>performance.py\<close> that wants two points.\<close>

definition max_drawdown :: "real list \<Rightarrow> real" where
  "max_drawdown vs = snd (fold drawdown_point vs (None, 0))"

definition max_drawdown_fraction :: "real list \<Rightarrow> real option" where
  "max_drawdown_fraction vs =
     (if length vs < 2 then None else Some (snd (fold drawdown_point vs (None, 0))))"

section \<open>Sleeve performance\<close>

record perf_order =
  fo_symbol :: symbol
  fo_side :: string
  fo_quantity :: "real option"
  fo_filled_at :: "instant option"
  fo_realized_pnl :: "real option"

type_synonym holding_lot = "real \<times> instant"

text \<open>The consuming loop of one closing fill: the remaining lots, the weighted hours, the quantity.\<close>

fun consume_holding ::
  "instant \<Rightarrow> holding_lot list \<Rightarrow> real \<Rightarrow> real \<Rightarrow> real \<Rightarrow> holding_lot list \<times> real \<times> real" where
  "consume_holding now [] remaining weighted consumed = ([], weighted, consumed)"
| "consume_holding now ((q, t) # book) remaining weighted consumed =
     (if remaining > eps12
      then let taken = min q remaining;
               weighted' = weighted + taken * of_int (now - t) / of_int second_us / 3600;
               consumed' = consumed + taken
           in if q - taken \<le> eps12 then consume_holding now book (remaining - taken) weighted' consumed'
              else ((q - taken, t) # book, weighted', consumed')
      else ((q, t) # book, weighted, consumed))"

definition book_of :: "symbol \<Rightarrow> (symbol, holding_lot list) dict \<Rightarrow> holding_lot list" where
  "book_of s lots = (case map_of lots s of None \<Rightarrow> [] | Some b \<Rightarrow> b)"

definition holding_step ::
  "perf_order \<Rightarrow> (symbol, holding_lot list) dict \<times> real list \<Rightarrow> (symbol, holding_lot list) dict \<times> real list" where
  "holding_step ord s =
     (let qty = (case fo_quantity ord of None \<Rightarrow> 0 | Some q \<Rightarrow> q); (lots, hours) = s
      in case fo_filled_at ord of
           None \<Rightarrow> s
         | Some now \<Rightarrow>
             if qty \<le> 0 then s
             else if fo_side ord = ''buy''
             then (AList.update (fo_symbol ord) (book_of (fo_symbol ord) lots @ [(qty, now)]) lots, hours)
             else (case consume_holding now (book_of (fo_symbol ord) lots) qty 0 0 of
                     (book, weighted, consumed) \<Rightarrow>
                       (AList.update (fo_symbol ord) book lots,
                        if consumed > 0 \<and> fo_realized_pnl ord \<noteq> None then hours @ [weighted / consumed] else hours)))"

definition holding_hours :: "perf_order list \<Rightarrow> real list" where
  "holding_hours orders = snd (fold holding_step orders ([], []))"

record sleeve_performance =
  sp_strategy :: string
  sp_closed_trades :: nat
  sp_wins :: nat
  sp_losses :: nat
  sp_realized_pnl :: real
  sp_win_rate :: "real option"
  sp_profit_factor :: "real option"
  sp_avg_win :: "real option"
  sp_avg_loss :: "real option"
  sp_avg_holding_hours :: "real option"
  sp_max_drawdown_pct :: "real option"

definition average :: "real list \<Rightarrow> real option" where
  "average xs = (if xs = [] then None else Some (sum_list xs / real (length xs)))"

definition sale_outcomes :: "perf_order list \<Rightarrow> real list" where
  "sale_outcomes orders =
     List.map_filter (\<lambda>ord. if fo_side ord = ''sell'' then fo_realized_pnl ord else None) orders"

definition compute_sleeve_performance :: "string \<Rightarrow> perf_order list \<Rightarrow> real list \<Rightarrow> sleeve_performance" where
  "compute_sleeve_performance strategy orders equity =
     (let outcomes = sale_outcomes orders;
          wins = filter (\<lambda>p. p > 0) outcomes; losses = filter (\<lambda>p. p < 0) outcomes;
          gross_loss = - sum_list losses
      in \<lparr>sp_strategy = strategy, sp_closed_trades = length outcomes, sp_wins = length wins,
          sp_losses = length losses, sp_realized_pnl = sum_list outcomes,
          sp_win_rate = (if outcomes = [] then None else Some (real (length wins) / real (length outcomes))),
          sp_profit_factor = (if gross_loss > 0 then Some (sum_list wins / gross_loss) else None),
          sp_avg_win = average wins, sp_avg_loss = average losses,
          sp_avg_holding_hours = average (holding_hours orders),
          sp_max_drawdown_pct = max_drawdown_fraction equity\<rparr>)"

section \<open>The crossover recomputed bar by bar\<close>

definition window_sum :: "real list \<Rightarrow> nat \<Rightarrow> nat \<Rightarrow> real" where
  "window_sum cs k i = (\<Sum>j\<in>{Suc i - k..<Suc i}. cs ! j)"

text \<open>The signal after bar \<open>i\<close> closed: the average of the last \<open>fast\<close> closes against that of the last \<open>slow\<close>.\<close>

definition wants_long :: "real list \<Rightarrow> nat \<Rightarrow> nat \<Rightarrow> nat \<Rightarrow> bool" where
  "wants_long cs fast slow i \<longleftrightarrow> window_sum cs fast i / real fast > window_sum cs slow i / real slow"

fun switches :: "bool list \<Rightarrow> nat" where
  "switches (a # b # bs) = (if a \<noteq> b then 1 else 0) + switches (b # bs)"
| "switches _ = 0"

definition crossover_reference :: "real list \<Rightarrow> nat \<Rightarrow> nat \<Rightarrow> real \<Rightarrow> real" where
  "crossover_reference cs fast slow cost_pct =
     (let bars = [slow - 1..<length cs - 1]; wants = map (wants_long cs fast slow) bars
      in (\<Prod>i\<leftarrow>bars. if wants_long cs fast slow i then cs ! (i + 1) / cs ! i else 1)
         * (1 - cost_pct) ^ switches (False # wants @ [False]) - 1)"

lemma window_sum_slide:
  assumes "0 < k" and "k \<le> i"
  shows "window_sum cs k i = window_sum cs k (i - 1) + (cs ! i - cs ! (i - k))"
proof -
  have "{i - k..<i} = insert (i - k) {Suc i - k..<i}" using assms by auto
  then have "window_sum cs k (i - 1) = cs ! (i - k) + (\<Sum>j\<in>{Suc i - k..<i}. cs ! j)"
    using assms by (simp add: window_sum_def)
  moreover have "{Suc i - k..<Suc i} = insert i {Suc i - k..<i}" using assms by auto
  ultimately show ?thesis by (simp add: window_sum_def)
qed

lemma window_sum_list:
  assumes "k \<le> Suc i" and "i < length cs"
  shows "sum_list (take k (drop (Suc i - k) cs)) = window_sum cs k i"
proof -
  have "sum_list (take k (drop (Suc i - k) cs)) = (\<Sum>j\<in>{0..<k}. cs ! (j + (Suc i - k)))"
  proof -
    have len: "length (take k (drop (Suc i - k) cs)) = k" using assms by auto
    show ?thesis unfolding sum_list_sum_nth len using assms by (intro sum.cong) (simp_all add: add.commute)
  qed
  also have "\<dots> = (\<Sum>j\<in>{0 + (Suc i - k)..<k + (Suc i - k)}. cs ! j)"
    by (rule sum.shift_bounds_nat_ivl [symmetric])
  finally show ?thesis using assms by (simp add: window_sum_def)
qed

lemma switches_snoc: "switches (bs @ [b]) = (if bs = [] \<or> last bs = b then 0 else 1) + switches bs"
  by (induction bs rule: switches.induct) auto

text \<open>The state of the loop before bar \<open>m\<close>, recomputed.\<close>

definition gains :: "real list \<Rightarrow> nat \<Rightarrow> nat \<Rightarrow> nat list \<Rightarrow> real" where
  "gains cs fast slow bars = (\<Prod>i\<leftarrow>bars. if wants_long cs fast slow i then cs ! (i + 1) / cs ! i else 1)"

definition position_path :: "real list \<Rightarrow> nat \<Rightarrow> nat \<Rightarrow> nat list \<Rightarrow> bool list" where
  "position_path cs fast slow bars = False # map (wants_long cs fast slow) bars"

definition crossover_before :: "real list \<Rightarrow> nat \<Rightarrow> nat \<Rightarrow> real \<Rightarrow> nat \<Rightarrow> crossover_state" where
  "crossover_before cs fast slow cost_pct m =
     \<lparr>cx_equity = gains cs fast slow [slow - 1..<m]
                  * (1 - cost_pct) ^ switches (position_path cs fast slow [slow - 1..<m]),
      cx_invested = last (position_path cs fast slow [slow - 1..<m]),
      cx_fast_sum = window_sum cs fast (max (slow - 1) (m - 1)),
      cx_slow_sum = window_sum cs slow (max (slow - 1) (m - 1))\<rparr>"

lemma window_step:
  assumes "0 < k" "k \<le> slow" "slow - 1 \<le> n"
  shows "(if slow \<le> n then window_sum cs k (max (slow - 1) (n - 1)) + (cs ! n - cs ! (n - k))
      else window_sum cs k (max (slow - 1) (n - 1))) = window_sum cs k n"
proof (cases "slow \<le> n")
  case True
  then have "max (slow - 1) (n - 1) = n - 1" by simp
  with True assms window_sum_slide [of k n cs] show ?thesis by simp
next
  case False
  then have "max (slow - 1) (n - 1) = n" using assms by linarith
  with False show ?thesis by simp
qed

lemma position_path_snoc:
  "position_path cs fast slow (bars @ [n]) = position_path cs fast slow bars @ [wants_long cs fast slow n]"
  by (simp add: position_path_def)

lemma position_path_nonempty [simp]: "position_path cs fast slow bars \<noteq> []"
  by (simp add: position_path_def)

lemma crossover_bar_step:
  assumes "0 < fast" "fast < slow" "slow - 1 \<le> n"
  shows "crossover_bar cs fast slow cost_pct n (crossover_before cs fast slow cost_pct n)
    = crossover_before cs fast slow cost_pct (Suc n)"
proof -
  let ?s = "crossover_before cs fast slow cost_pct n" and ?t = "crossover_before cs fast slow cost_pct (Suc n)"
  let ?p = "position_path cs fast slow [slow - 1..<n]" and ?w = "wants_long cs fast slow n"
  have fs: "(if slow \<le> n then cx_fast_sum ?s + (cs ! n - cs ! (n - fast)) else cx_fast_sum ?s)
      = window_sum cs fast n" and
    ss: "(if slow \<le> n then cx_slow_sum ?s + (cs ! n - cs ! (n - slow)) else cx_slow_sum ?s)
      = window_sum cs slow n"
    using window_step [of fast slow n cs] window_step [of slow slow n cs] assms
    by (simp_all only: crossover_before_def crossover_state.simps)
  have want: "(window_sum cs fast n / real fast > window_sum cs slow n / real slow) = ?w"
    by (simp add: wants_long_def)
  have up: "[slow - 1..<Suc n] = [slow - 1..<n] @ [n]" using assms by simp
  have path: "last (position_path cs fast slow [slow - 1..<Suc n]) = ?w"
    "switches (position_path cs fast slow [slow - 1..<Suc n]) = (if last ?p = ?w then 0 else 1) + switches ?p"
    unfolding up position_path_snoc by (simp_all add: switches_snoc)
  have gain: "gains cs fast slow [slow - 1..<Suc n] =
      gains cs fast slow [slow - 1..<n] * (if ?w then cs ! (n + 1) / cs ! n else 1)"
    unfolding up by (simp add: gains_def)
  have mx: "max (slow - 1) (Suc n - 1) = n" using assms by simp
  show ?thesis
    unfolding crossover_bar_def fs ss want Let_def
    by (simp only: crossover_before_def crossover_state.simps path gain mx) auto
qed

lemma crossover_fold:
  assumes "0 < fast" "fast < slow" "slow \<le> length cs" "slow - 1 \<le> m"
  shows "fold (crossover_bar cs fast slow cost_pct) [slow - 1..<m] (crossover_start cs fast slow) =
     crossover_before cs fast slow cost_pct m"
  using assms(4)
proof (induction m rule: dec_induct)
  case base
  have "Suc (slow - 1) = slow" using assms by simp
  with assms window_sum_list [of fast "slow - 1" cs] window_sum_list [of slow "slow - 1" cs]
  show ?case by (simp add: crossover_start_def crossover_before_def gains_def position_path_def)
next
  case (step n)
  then show ?case using crossover_bar_step [of fast slow n cs cost_pct] assms by simp
qed

lemma crossover_is_reference:
  assumes "0 < fast" "fast < slow" "nat slow < length (closes candles)"
  shows "ma_crossover_return candles fast slow cost_pct =
    Inr (Some (crossover_reference (closes candles) (nat fast) (nat slow) cost_pct))"
proof -
  let ?cs = "closes candles" let ?bars = "[nat slow - 1..<length ?cs - 1]"
  let ?p = "position_path ?cs (nat fast) (nat slow) ?bars"
  have sw: "switches (?p @ [False]) = (if last ?p then 1 else 0) + switches ?p"
    by (simp add: switches_snoc)
  have path: "False # map (wants_long ?cs (nat fast) (nat slow)) ?bars @ [False] = ?p @ [False]"
    by (simp add: position_path_def)
  have "fold (crossover_bar ?cs (nat fast) (nat slow) cost_pct) ?bars (crossover_start ?cs (nat fast) (nat slow)) =
      crossover_before ?cs (nat fast) (nat slow) cost_pct (length ?cs - 1)"
    using assms by (intro crossover_fold) linarith+
  then show ?thesis
    unfolding ma_crossover_return_def crossover_reference_def Let_def path sw
    using assms by (simp add: crossover_before_def gains_def)
qed

section \<open>The drawdown as the largest relative fall\<close>

definition is_fall :: "real list \<Rightarrow> real \<Rightarrow> bool" where
  "is_fall vs x \<longleftrightarrow> (\<exists>i j. i \<le> j \<and> j < length vs \<and> 0 < vs ! i \<and> x = (vs ! i - vs ! j) / vs ! i)"

lemma drawdown_peak:
  "fst (fold drawdown_point vs (None, 0)) = (if vs = [] then None else Some (Max (set vs)))"
proof (induction vs rule: rev_induct)
  case (snoc v vs)
  then show ?case by (simp add: drawdown_point_def Let_def max.commute split: if_splits)
qed simp

lemma max_drawdown_snoc:
  "max_drawdown (vs @ [v]) =
     (let peak = Max (set (vs @ [v])) in if peak > 0 then max (max_drawdown vs) ((peak - v) / peak) else max_drawdown vs)"
  using drawdown_peak [of vs]
  by (simp add: max_drawdown_def drawdown_point_def Let_def max.commute split: if_splits)

lemma is_fall_snoc:
  "is_fall (vs @ [v]) x \<longleftrightarrow> is_fall vs x \<or> (\<exists>p\<in>set (vs @ [v]). 0 < p \<and> x = (p - v) / p)"
proof
  assume "is_fall (vs @ [v]) x"
  then obtain i j where ij: "i \<le> j" "j < Suc (length vs)" "0 < (vs @ [v]) ! i"
      "x = ((vs @ [v]) ! i - (vs @ [v]) ! j) / (vs @ [v]) ! i"
    by (auto simp: is_fall_def)
  show "is_fall vs x \<or> (\<exists>p\<in>set (vs @ [v]). 0 < p \<and> x = (p - v) / p)"
  proof (cases "j = length vs")
    case True
    have "(vs @ [v]) ! i \<in> set (vs @ [v])" using ij(1) True by (intro nth_mem) simp
    with ij True show ?thesis by (auto simp only: nth_append_length)
  next
    case False
    with ij have "i < length vs" "j < length vs" by simp_all
    with ij have "is_fall vs x" unfolding is_fall_def by (intro exI [of _ i] exI [of _ j]) (simp add: nth_append)
    then show ?thesis ..
  qed
next
  assume "is_fall vs x \<or> (\<exists>p\<in>set (vs @ [v]). 0 < p \<and> x = (p - v) / p)"
  then show "is_fall (vs @ [v]) x"
  proof
    assume "is_fall vs x"
    then obtain i j where "i \<le> j" "j < length vs" "0 < vs ! i" "x = (vs ! i - vs ! j) / vs ! i"
      by (auto simp: is_fall_def)
    then show ?thesis unfolding is_fall_def by (intro exI [of _ i] exI [of _ j]) (simp add: nth_append)
  next
    assume "\<exists>p\<in>set (vs @ [v]). 0 < p \<and> x = (p - v) / p"
    then obtain p where p: "p \<in> set (vs @ [v])" "0 < p" "x = (p - v) / p" by blast
    from p(1) obtain i where "i < length (vs @ [v])" "(vs @ [v]) ! i = p" by (auto simp only: in_set_conv_nth)
    with p show ?thesis unfolding is_fall_def
      by (intro exI [of _ i] exI [of _ "length vs"]) simp
  qed
qed

lemma fall_le_fall_from_peak:
  fixes p q v :: real
  assumes "0 < p" "p \<le> q" "0 \<le> v"
  shows "(p - v) / p \<le> (q - v) / q"
proof -
  have "v / q \<le> v / p" using assms by (intro divide_left_mono) simp_all
  moreover have "(p - v) / p = 1 - v / p" "(q - v) / q = 1 - v / q" using assms by (simp_all add: diff_divide_distrib)
  ultimately show ?thesis by simp
qed

lemma max_drawdown_falls:
  assumes "\<forall>v\<in>set vs. 0 \<le> v"
  shows "(\<forall>x. is_fall vs x \<longrightarrow> x \<le> max_drawdown vs) \<and> (max_drawdown vs = 0 \<or> is_fall vs (max_drawdown vs))
    \<and> 0 \<le> max_drawdown vs"
  using assms
proof (induction vs rule: rev_induct)
  case Nil
  then show ?case by (simp add: max_drawdown_def is_fall_def)
next
  case (snoc v vs)
  let ?q = "Max (set (vs @ [v]))"
  have q: "?q \<in> set (vs @ [v])" "\<And>p. p \<in> set (vs @ [v]) \<Longrightarrow> p \<le> ?q"
    by (rule Max_in, simp, simp) (rule Max_ge, simp_all)
  have IH: "(\<forall>x. is_fall vs x \<longrightarrow> x \<le> max_drawdown vs) \<and> (max_drawdown vs = 0 \<or> is_fall vs (max_drawdown vs))
    \<and> 0 \<le> max_drawdown vs" using snoc by simp
  show ?case
  proof (cases "?q > 0")
    case True
    then have dd: "max_drawdown (vs @ [v]) = max (max_drawdown vs) ((?q - v) / ?q)"
      unfolding max_drawdown_snoc Let_def by (rule if_P)
    have up: "x \<le> max_drawdown (vs @ [v])" if x: "is_fall (vs @ [v]) x" for x
    proof -
      from x consider "is_fall vs x" | p where "p \<in> set (vs @ [v])" "0 < p" "x = (p - v) / p"
        unfolding is_fall_snoc by blast
      then show ?thesis
      proof cases
        case 1
        with IH show ?thesis unfolding dd by (simp add: le_max_iff_disj)
      next
        case 2
        then have "x \<le> (?q - v) / ?q" using q(2) snoc.prems by (auto intro!: fall_le_fall_from_peak)
        then show ?thesis unfolding dd by (simp add: le_max_iff_disj)
      qed
    qed
    have "is_fall (vs @ [v]) ((?q - v) / ?q)" unfolding is_fall_snoc using q(1) True by blast
    moreover have "is_fall vs (max_drawdown vs) \<Longrightarrow> is_fall (vs @ [v]) (max_drawdown vs)"
      by (subst is_fall_snoc) (rule disjI1)
    ultimately show ?thesis using up IH unfolding dd by (auto simp: max_def)
  next
    case False
    then have dd: "max_drawdown (vs @ [v]) = max_drawdown vs"
      unfolding max_drawdown_snoc Let_def by (rule if_not_P)
    have "is_fall (vs @ [v]) x \<longleftrightarrow> is_fall vs x" for x
      unfolding is_fall_snoc using False q(2) by (meson less_le_trans)
    with IH show ?thesis unfolding dd by simp
  qed
qed

section \<open>Properties\<close>

text \<open>The sliding crossover is the plain one: with valid windows and more than \<open>slow\<close> positive closes,
  the returned figure is the product of the next-bar returns of the bars whose average of the last
  \<open>fast\<close> closes exceeds that of the last \<open>slow\<close> (both recomputed from scratch, on closes up to that
  bar only), times one cost factor per change of position, the final exit to cash included, minus one.\<close>

theorem crossover_matches_recomputed:
  assumes "0 < fast" "fast < slow" "nat slow < length (closes candles)"
  shows "ma_crossover_return candles fast slow cost_pct =
    Inr (Some (crossover_reference (closes candles) (nat fast) (nat slow) cost_pct))"
  using assms by (rule crossover_is_reference)

theorem crossover_matches_recomputed_witness:
  "ma_crossover_return [demo_bar 0, demo_bar 1, demo_bar 2] 1 2 (1 / 10) =
    Inr (Some (crossover_reference [1, 1, 1] 1 2 (1 / 10)))"
  using crossover_matches_recomputed [of 1 2 "[demo_bar 0, demo_bar 1, demo_bar 2]" "1 / 10"]
  by (simp add: closes_def demo_bar_def)

text \<open>The reported drawdown is the largest relative fall: on a curve of non-negative values it bounds
  the fall from any earlier positive value to any later one, it is zero or such a fall itself, and it
  lies between 0 and 1.\<close>

theorem max_drawdown_is_largest_fall:
  assumes "\<forall>v\<in>set vs. 0 \<le> v"
  shows "(\<forall>x. is_fall vs x \<longrightarrow> x \<le> max_drawdown vs)
    \<and> (max_drawdown vs = 0 \<or> is_fall vs (max_drawdown vs)) \<and> 0 \<le> max_drawdown vs \<and> max_drawdown vs \<le> 1"
proof -
  have "x \<le> 1" if "is_fall vs x" for x
  proof -
    from that obtain i j where ij: "j < length vs" "0 < vs ! i" "x = (vs ! i - vs ! j) / vs ! i"
      by (auto simp: is_fall_def)
    then have "0 \<le> vs ! j" using assms by simp
    with ij show ?thesis by (simp add: pos_divide_le_eq)
  qed
  with max_drawdown_falls [OF assms] show ?thesis by auto
qed

theorem max_drawdown_is_largest_fall_witness:
  "3 / 5 \<le> max_drawdown [10, 4, 8] \<and> max_drawdown [10, 4, 8] \<le> 1"
proof -
  have "is_fall [10, 4, 8] (3 / 5)"
    unfolding is_fall_def by (intro exI [of _ 0] exI [of _ 1]) simp
  moreover have "\<forall>v\<in>set [10, 4, 8 :: real]. 0 \<le> v" by simp
  note max_drawdown_is_largest_fall [OF this]
  ultimately show ?thesis by blast
qed

end
