(* ===== verification/Watchlist.thy ===== *)
theory Watchlist
  imports Screener Rehydration
begin

text \<open>
  The dynamic watchlist, \<^verbatim>\<open>src/src/core/watchlist.py\<close>, with its settings of
  \<^verbatim>\<open>src/src/core/config.py\<close>: the core symbols always trade, at most \<^verbatim>\<open>max_dynamic_symbols\<close>
  screened ones are added with a time to live, a held symbol is never dropped.

  The market-data provider, the venue's list of tradable symbols and the news counter are the
  fields of \<open>watchlist_deps\<close>; each may be missing or raise. A storage error is injected
  through the fault function. Symbols are ASCII, so \<^verbatim>\<open>str.upper\<close> maps \<^verbatim>\<open>a..z\<close> only.
\<close>

section \<open>Settings\<close>

record news_mention_settings =
  nm_enabled :: bool
  nm_lookback_hours :: real
  nm_min_mentions :: int

record watchlist_settings =
  wl_enabled :: bool
  wl_refresh_minutes :: int
  wl_max_dynamic_symbols :: int
  wl_ttl_hours :: real
  wl_min_quote_volume_24h :: real
  wl_momentum_days :: int
  wl_lookback_days :: int
  wl_min_daily_volatility :: real
  wl_max_daily_volatility :: "real option"
  wl_max_candidates :: int
  wl_exclude_symbols :: "symbol list"
  wl_news_mentions :: news_mention_settings

definition upper_char :: "char \<Rightarrow> char" where
  "upper_char c = (let n = of_char c :: nat in if 97 \<le> n \<and> n \<le> 122 then char_of (n - 32) else c)"

definition upper :: "string \<Rightarrow> string" where
  "upper s = map upper_char s"

definition check_news_mention_settings :: "news_mention_settings \<Rightarrow> py_error + news_mention_settings" where
  "check_news_mention_settings c =
     (if nm_lookback_hours c \<le> 0 then Inl ValueError
      else if nm_min_mentions c < 1 then Inl ValueError else Inr c)"

definition check_watchlist_settings :: "watchlist_settings \<Rightarrow> py_error + watchlist_settings" where
  "check_watchlist_settings raw =
     (let c = raw\<lparr>wl_exclude_symbols := map upper (wl_exclude_symbols raw)\<rparr>
      in if wl_refresh_minutes c < 1 then Inl ValueError
         else if wl_max_dynamic_symbols c < 1 then Inl ValueError
         else if wl_ttl_hours c \<le> 0 then Inl ValueError
         else if wl_momentum_days c < 1 then Inl ValueError
         else if wl_lookback_days c < wl_momentum_days c + 2 then Inl ValueError
         else if wl_min_daily_volatility c < 0 then Inl ValueError
         else if (case wl_max_daily_volatility c of None \<Rightarrow> False | Some u \<Rightarrow> u < wl_min_daily_volatility c)
         then Inl ValueError
         else if wl_max_candidates c < 1 then Inl ValueError
         else Inr c)"

section \<open>The manager\<close>

text \<open>Why a refresh aborted: one constructor per \<^verbatim>\<open>WatchlistRefreshFailed\<close> message.\<close>

datatype refresh_failure =
    StorageReadFailed py_error
  | NoQuoteVolumes
  | QuoteVolumesNotAMapping
  | NoFetchSnapshot
  | ScreenerPassFailed py_error
  | EntryWriteFailed py_error

record watchlist_deps =
  wd_quote_volumes :: "(string option \<Rightarrow> py_error + (symbol, real option) dict option) option"
  wd_snapshot :: "(symbol \<Rightarrow> string \<Rightarrow> py_error + market_snapshot) option"
  wd_tradable_symbols :: "(py_error + symbol list) option"
  wd_mention_counter :: "(symbol list \<Rightarrow> instant \<Rightarrow> py_error + (symbol, int) dict) option"
  wd_faults :: faults
  wd_added_at :: instant

record watchlist_manager =
  wm_config :: watchlist_settings
  wm_component :: string
  wm_quote_currency :: "string option"

record refresh_result =
  wr_symbols :: "symbol list"
  wr_dynamic :: "symbol list"
  wr_added :: "symbol list"
  wr_expired_deleted :: nat
  wr_candidates_evaluated :: nat

abbreviation screener_timeframe :: string where "screener_timeframe \<equiv> ''1d''"

text \<open>\<^verbatim>\<open>list(dict.fromkeys(xs))\<close>: the first occurrence of each symbol, in order.\<close>

definition dedupe :: "'a list \<Rightarrow> 'a list" where
  "dedupe xs = rev (remdups (rev xs))"

text \<open>The metrics of one liquid candidate; anything it raises skips the candidate.\<close>

definition candidate_metrics ::
  "watchlist_settings \<Rightarrow> (symbol \<Rightarrow> string \<Rightarrow> py_error + market_snapshot) \<Rightarrow> instant \<Rightarrow> symbol \<times> real \<Rightarrow>
   (symbol \<times> real \<times> screen_metrics) option" where
  "candidate_metrics cfg fetch now = (\<lambda>(s, v).
     (case fetch s screener_timeframe of
        Inl e \<Rightarrow> None
      | Inr snap \<Rightarrow>
          (case compute_screen_metrics (fst (split_forming (ms_candles snap) screener_timeframe now))
                  (wl_momentum_days cfg) (wl_lookback_days cfg) of
             Inr (Some m) \<Rightarrow> Some (s, v, m)
           | _ \<Rightarrow> None)))"

definition liquid_candidates ::
  "watchlist_settings \<Rightarrow> symbol list \<Rightarrow> symbol list option \<Rightarrow> (symbol, real option) dict \<Rightarrow>
   (symbol \<times> real) list" where
  "liquid_candidates cfg excluded tradable volumes =
     take (nat (wl_max_candidates cfg))
       (filter (\<lambda>(s, v). upper s \<notin> upper ` set excluded
                 \<and> (case tradable of None \<Rightarrow> True | Some ts \<Rightarrow> upper s \<in> upper ` set ts))
         (filter_by_liquidity volumes (wl_min_quote_volume_24h cfg)))"

definition screen ::
  "watchlist_manager \<Rightarrow> watchlist_deps \<Rightarrow> symbol list \<Rightarrow> symbol list \<Rightarrow> instant \<Rightarrow>
   refresh_failure + screened_symbol list" where
  "screen wm d core held now =
     (let cfg = wm_config wm
      in case wd_quote_volumes d of
           None \<Rightarrow> Inl NoQuoteVolumes
         | Some fetch_volumes \<Rightarrow>
             (case fetch_volumes (wm_quote_currency wm) of
                Inl e \<Rightarrow> Inl (ScreenerPassFailed e)
              | Inr None \<Rightarrow> Inl QuoteVolumesNotAMapping
              | Inr (Some volumes) \<Rightarrow>
                  (case wd_tradable_symbols d of
                     Some (Inl e) \<Rightarrow> Inl (ScreenerPassFailed e)
                   | whitelist \<Rightarrow>
                       let liquid = liquid_candidates cfg (wl_exclude_symbols cfg @ core @ held)
                             (case whitelist of Some (Inr ts) \<Rightarrow> Some ts | _ \<Rightarrow> None) volumes
                       in case wd_snapshot d of
                            None \<Rightarrow> Inl NoFetchSnapshot
                          | Some fetch \<Rightarrow>
                              Inr (rank_candidates (List.map_filter (candidate_metrics cfg fetch now) liquid)
                                     (wl_min_daily_volatility cfg) (wl_max_daily_volatility cfg)))))"

definition manager_prioritize ::
  "watchlist_manager \<Rightarrow> watchlist_deps \<Rightarrow> screened_symbol list \<Rightarrow> instant \<Rightarrow> screened_symbol list" where
  "manager_prioritize wm d ranked now =
     (case wd_mention_counter d of
        None \<Rightarrow> ranked
      | Some counter \<Rightarrow>
          if ranked = [] then ranked
          else (case counter (map ss_symbol ranked) now of
                  Inl e \<Rightarrow> ranked
                | Inr mentions \<Rightarrow>
                    prioritize_mentioned ranked mentions (nm_min_mentions (wl_news_mentions (wm_config wm)))))"

definition entry_meta :: "screened_symbol \<Rightarrow> (string, real option) dict" where
  "entry_meta c =
     [(''quote_volume_24h'', Some (ss_quote_volume_24h c)), (''rank'', Some (of_int (ss_rank c))),
      (''momentum'', Some (sm_momentum (ss_metrics c))),
      (''daily_volatility'', Some (sm_daily_volatility (ss_metrics c))),
      (''volume_spike'', sm_volume_spike (ss_metrics c)),
      (''news_mentions'', Some (of_int (ss_news_mentions c)))]"

text \<open>The loop over the candidates; an entry written before an error stays written.\<close>

fun add_entries ::
  "watchlist_manager \<Rightarrow> watchlist_deps \<Rightarrow> instant \<Rightarrow> symbol list \<Rightarrow> screened_symbol list \<Rightarrow> int \<Rightarrow>
   symbol list \<Rightarrow> symbol list \<Rightarrow> storage \<Rightarrow> storage \<times> (py_error + symbol list \<times> symbol list)" where
  "add_entries wm d expires_at core [] slots dynamic added st = (st, Inr (dynamic, added))"
| "add_entries wm d expires_at core (c # cs) slots dynamic added st =
     (if slots \<le> 0 then (st, Inr (dynamic, added))
      else if ss_symbol c \<in> set core \<or> ss_symbol c \<in> set dynamic
      then add_entries wm d expires_at core cs slots dynamic added st
      else case wd_faults d (C_upsert_watchlist_entry (ss_symbol c)) of
             Some e \<Rightarrow> (st, Inl e)
           | None \<Rightarrow>
               (case upsert_watchlist_entry st (wd_added_at d) (ss_symbol c) expires_at
                       (Some (wm_component wm)) ''screener'' (entry_meta c) of
                  Inl e \<Rightarrow> (st, Inl e)
                | Inr st1 \<Rightarrow> add_entries wm d expires_at core cs (slots - 1)
                    (dynamic @ [ss_symbol c]) (added @ [ss_symbol c]) st1))"

definition ttl :: "watchlist_settings \<Rightarrow> timedelta" where
  "ttl cfg = round (wl_ttl_hours cfg * of_int hour_us)"

definition refresh ::
  "watchlist_manager \<Rightarrow> watchlist_deps \<Rightarrow> symbol list \<Rightarrow> symbol list \<Rightarrow> instant \<Rightarrow> storage \<Rightarrow>
   storage \<times> (refresh_failure + refresh_result)" where
  "refresh wm d core_symbols held_symbols now st =
     (let core = dedupe core_symbols; held = dedupe held_symbols; who = Some (wm_component wm)
      in case wd_faults d C_delete_expired_watchlist_entries of
           Some e \<Rightarrow> (st, Inl (StorageReadFailed e))
         | None \<Rightarrow>
             let (st1, expired) = delete_expired_watchlist_entries st now who
             in case wd_faults d C_get_active_watchlist of
                  Some e \<Rightarrow> (st1, Inl (StorageReadFailed e))
                | None \<Rightarrow>
                    let active = map wl_symbol (get_active_watchlist st1 now who)
                    in case screen wm d core held now of
                         Inl f \<Rightarrow> (st1, Inl f)
                       | Inr found \<Rightarrow>
                           let ranked = manager_prioritize wm d found now;
                               slots = wl_max_dynamic_symbols (wm_config wm) - int (length active)
                           in case (if slots > 0 \<and> ranked \<noteq> []
                                    then add_entries wm d (now + ttl (wm_config wm)) core ranked slots active [] st1
                                    else (st1, Inr (active, []))) of
                                (st2, Inl e) \<Rightarrow> (st2, Inl (EntryWriteFailed e))
                              | (st2, Inr (dynamic, added)) \<Rightarrow>
                                  (st2, Inr \<lparr>wr_symbols = dedupe (core @ dynamic @ held), wr_dynamic = dynamic,
                                             wr_added = added, wr_expired_deleted = expired,
                                             wr_candidates_evaluated = length found\<rparr>))"

section \<open>Lemmas\<close>

lemma set_dedupe [simp]: "set (dedupe xs) = set xs"
  by (simp add: dedupe_def)

lemma distinct_dedupe [simp]: "distinct (dedupe xs)"
  by (simp add: dedupe_def)

lemma dedupe_id: "distinct xs \<Longrightarrow> dedupe xs = xs"
  by (simp add: dedupe_def distinct_remdups_id)

lemma dedupe_snoc: "dedupe (xs @ [x]) = (if x \<in> set xs then dedupe xs else dedupe xs @ [x])"
  by (simp add: dedupe_def)

lemma dedupe_append_prefix: "\<exists>zs. dedupe (xs @ ys) = dedupe xs @ zs"
proof (induction ys rule: rev_induct)
  case (snoc y ys)
  then obtain zs where "dedupe (xs @ ys) = dedupe xs @ zs" by blast
  then have "dedupe (xs @ ys @ [y]) = dedupe xs @ (if y \<in> set (xs @ ys) then zs else zs @ [y])"
    using dedupe_snoc [of "xs @ ys" y] by simp
  then show ?case by blast
qed simp

text \<open>The rows of one component, and the rows of everybody else.\<close>

definition own_entries :: "string \<Rightarrow> storage \<Rightarrow> symbol list" where
  "own_entries who st = map wl_symbol (filter (\<lambda>r. wl_agent r = Some who) (db_watchlist (st_db st)))"

definition foreign_entries :: "string \<Rightarrow> storage \<Rightarrow> watchlist_row list" where
  "foreign_entries who st = filter (\<lambda>r. wl_agent r \<noteq> Some who) (db_watchlist (st_db st))"

lemma where_component: "where_agent st (Some who) = (\<lambda>c. c = Some who)"
  by (simp add: where_agent_def agent_scope_def fun_eq_iff)

lemma delete_expired_entries:
  assumes "delete_expired_watchlist_entries st now (Some who) = (st1, k)"
  shows "mset (own_entries who st1) = mset (map wl_symbol (get_active_watchlist st1 now (Some who)))"
    and "length (own_entries who st1) \<le> length (own_entries who st)"
    and "distinct (own_entries who st) \<Longrightarrow> distinct (own_entries who st1)"
    and "foreign_entries who st1 = foreign_entries who st"
proof -
  let ?keep = "\<lambda>r. \<not> (wl_expires_at r \<le> now \<and> wl_agent r = Some who)"
  let ?rows = "db_watchlist (st_db st)"
  have rows: "db_watchlist (st_db st1) = filter ?keep ?rows"
    using assms by (auto simp: delete_expired_watchlist_entries_def where_component Let_def)
  have same: "filter (\<lambda>r. now < wl_expires_at r \<and> wl_agent r = Some who) (filter ?keep rs)
      = filter (\<lambda>r. wl_agent r = Some who) (filter ?keep rs)" for rs
    by (induction rs) auto
  have "length (filter (\<lambda>r. wl_agent r = Some who) (filter ?keep rs))
      \<le> length (filter (\<lambda>r. wl_agent r = Some who) rs)" for rs
    by (induction rs) auto
  then show "length (own_entries who st1) \<le> length (own_entries who st)"
    by (simp only: own_entries_def rows length_map)
  show "mset (own_entries who st1) = mset (map wl_symbol (get_active_watchlist st1 now (Some who)))"
    by (simp only: own_entries_def rows get_active_watchlist_def where_component mset_map mset_sort same)
  have "filter (\<lambda>r. wl_agent r = Some who) (filter ?keep ?rows) =
      filter ?keep (filter (\<lambda>r. wl_agent r = Some who) ?rows)"
    by (simp only: filter_filter conj_commute)
  then show "distinct (own_entries who st) \<Longrightarrow> distinct (own_entries who st1)"
    by (simp only: own_entries_def rows distinct_map_filter)
  have "filter (\<lambda>r. wl_agent r \<noteq> Some who) (filter ?keep rs) = filter (\<lambda>r. wl_agent r \<noteq> Some who) rs" for rs
    by (induction rs) auto
  then show "foreign_entries who st1 = foreign_entries who st"
    by (simp only: foreign_entries_def rows)
qed

lemma upsert_fresh:
  assumes "s \<notin> set (own_entries who st)"
    and "upsert_watchlist_entry st t s ex (Some who) src meta = out"
  obtains st1 where "out = Inr st1" "own_entries who st1 = own_entries who st @ [s]"
    "foreign_entries who st1 = foreign_entries who st"
proof -
  have none: "filter (\<lambda>r. wl_symbol r = s \<and> wl_agent r = Some who) (db_watchlist (st_db st)) = []"
    using assms(1) by (auto simp: own_entries_def filter_empty_conv)
  with assms(2) show thesis
    by (intro that [of "projr out"])
      (auto simp: upsert_watchlist_entry_def agent_scope_def own_entries_def foreign_entries_def Let_def)
qed

lemma add_entries_effect:
  assumes "add_entries wm d ex core cs slots dynamic added st = (st', out)"
    and "mset (own_entries (wm_component wm) st) = mset dynamic"
  shows "int (length (own_entries (wm_component wm) st')) \<le> int (length dynamic) + max 0 slots
    \<and> (distinct dynamic \<longrightarrow> distinct (own_entries (wm_component wm) st'))
    \<and> foreign_entries (wm_component wm) st' = foreign_entries (wm_component wm) st
    \<and> (\<forall>dyn' added'. out = Inr (dyn', added') \<longrightarrow>
         mset (own_entries (wm_component wm) st') = mset dyn'
         \<and> (\<exists>new. dyn' = dynamic @ new \<and> added' = added @ new \<and> (\<forall>s\<in>set new. s \<in> ss_symbol ` set cs)))"
  using assms
proof (induction cs arbitrary: slots dynamic added st)
  case Nil
  then show ?case
    using mset_eq_length [OF Nil(2)] mset_eq_imp_distinct_iff [OF Nil(2)] by auto
next
  case (Cons c cs)
  note eqs = mset_eq_length [OF Cons.prems(2)] mset_eq_imp_distinct_iff [OF Cons.prems(2)]
    mset_eq_setD [OF Cons.prems(2)]
  consider (stop) "slots \<le> 0" | (skip) "0 < slots" "ss_symbol c \<in> set core \<or> ss_symbol c \<in> set dynamic"
    | (fault) e where "0 < slots" "ss_symbol c \<notin> set core" "ss_symbol c \<notin> set dynamic"
        "wd_faults d (C_upsert_watchlist_entry (ss_symbol c)) = Some e"
    | (fresh) "0 < slots" "ss_symbol c \<notin> set core" "ss_symbol c \<notin> set dynamic"
        "wd_faults d (C_upsert_watchlist_entry (ss_symbol c)) = None"
    by (cases "wd_faults d (C_upsert_watchlist_entry (ss_symbol c))") (fastforce simp: not_le)+
  then show ?case
  proof cases
    case stop
    with Cons.prems eqs show ?thesis by auto
  next
    case skip
    with Cons.prems(1) have "add_entries wm d ex core cs slots dynamic added st = (st', out)" by auto
    from Cons.IH [OF this Cons.prems(2)] show ?thesis by fastforce
  next
    case fault
    with Cons.prems eqs show ?thesis by auto
  next
    case fresh
    from fresh(3) eqs have "ss_symbol c \<notin> set (own_entries (wm_component wm) st)" by simp
    then obtain st1 where st1: "upsert_watchlist_entry st (wd_added_at d) (ss_symbol c) ex
          (Some (wm_component wm)) ''screener'' (entry_meta c) = Inr st1"
      and own: "own_entries (wm_component wm) st1 = own_entries (wm_component wm) st @ [ss_symbol c]"
      and foreign: "foreign_entries (wm_component wm) st1 = foreign_entries (wm_component wm) st"
      by (rule upsert_fresh) auto
    have step: "add_entries wm d ex core cs (slots - 1) (dynamic @ [ss_symbol c]) (added @ [ss_symbol c]) st1
        = (st', out)"
      using Cons.prems(1) fresh st1 by simp
    have "mset (own_entries (wm_component wm) st1) = mset (dynamic @ [ss_symbol c])"
      using own Cons.prems(2) by simp
    from Cons.IH [OF step this] show ?thesis using fresh foreign by fastforce
  qed
qed

text \<open>What a symbol must satisfy to be added: a measured volume above the floor, not excluded, held or
  core, on the venue's list when there is one, and metrics of closed bars inside the volatility band.\<close>

definition eligible ::
  "watchlist_manager \<Rightarrow> watchlist_deps \<Rightarrow> symbol list \<Rightarrow> symbol list \<Rightarrow> instant \<Rightarrow> symbol \<Rightarrow> bool" where
  "eligible wm d core held now s \<longleftrightarrow>
     (\<exists>fetch_volumes volumes v fetch snap m.
        wd_quote_volumes d = Some fetch_volumes
        \<and> fetch_volumes (wm_quote_currency wm) = Inr (Some volumes)
        \<and> (s, Some v) \<in> set volumes \<and> 0 < v \<and> wl_min_quote_volume_24h (wm_config wm) \<le> v
        \<and> upper s \<notin> upper ` (set (wl_exclude_symbols (wm_config wm)) \<union> set core \<union> set held)
        \<and> (\<forall>ts. wd_tradable_symbols d = Some (Inr ts) \<longrightarrow> upper s \<in> upper ` set ts)
        \<and> wd_snapshot d = Some fetch \<and> fetch s screener_timeframe = Inr snap
        \<and> compute_screen_metrics (fst (split_forming (ms_candles snap) screener_timeframe now))
             (wl_momentum_days (wm_config wm)) (wl_lookback_days (wm_config wm)) = Inr (Some m)
        \<and> in_band (wl_min_daily_volatility (wm_config wm)) (wl_max_daily_volatility (wm_config wm)) m)"

lemma candidate_metricsD:
  assumes "candidate_metrics cfg fetch now p = Some t"
  obtains v m snap where "p = (fst t, v)" "t = (fst t, v, m)" "fetch (fst t) screener_timeframe = Inr snap"
    "compute_screen_metrics (fst (split_forming (ms_candles snap) screener_timeframe now))
       (wl_momentum_days cfg) (wl_lookback_days cfg) = Inr (Some m)"
  using assms by (auto simp: candidate_metrics_def split: prod.splits sum.splits option.splits)

lemma set_rank_candidates:
  "c \<in> set (rank_candidates cands lo hi) \<Longrightarrow>
     triple_of c \<in> set cands \<and> in_band lo hi (ss_metrics c)"
proof -
  assume "c \<in> set (rank_candidates cands lo hi)"
  then have "triple_of c \<in> set (map triple_of (rank_candidates cands lo hi))" by simp
  also have "\<dots> = set (filter (\<lambda>(s, v, m). in_band lo hi m) cands)"
    using arg_cong [where f = set_mset, OF mset_rank_candidates [of cands lo hi]] by simp
  finally show ?thesis by (simp add: triple_of_def)
qed

lemma liquid_candidatesD:
  assumes "(s, v) \<in> set (liquid_candidates cfg excluded tradable volumes)"
  shows "(s, Some v) \<in> set volumes \<and> 0 < v \<and> wl_min_quote_volume_24h cfg \<le> v
    \<and> upper s \<notin> upper ` set excluded \<and> (\<forall>ts. tradable = Some ts \<longrightarrow> upper s \<in> upper ` set ts)"
proof -
  from assms have "(s, v) \<in> set (filter_by_liquidity volumes (wl_min_quote_volume_24h cfg))"
    and "upper s \<notin> upper ` set excluded \<and> (case tradable of None \<Rightarrow> True | Some ts \<Rightarrow> upper s \<in> upper ` set ts)"
    unfolding liquid_candidates_def by (auto dest: in_set_takeD)
  with filter_by_liquidity_floor show ?thesis by (auto split: option.splits)
qed

lemma screen_eligible:
  assumes "screen wm d core held now = Inr found" and "c \<in> set found"
  shows "eligible wm d core held now (ss_symbol c)"
proof -
  let ?cfg = "wm_config wm"
  from assms(1) obtain fv volumes fetch ts where fv: "wd_quote_volumes d = Some fv"
      "fv (wm_quote_currency wm) = Inr (Some volumes)" "wd_snapshot d = Some fetch"
    and ts: "\<And>xs. wd_tradable_symbols d = Some (Inr xs) \<Longrightarrow> ts = Some xs"
    and found: "found = rank_candidates (List.map_filter (candidate_metrics ?cfg fetch now)
        (liquid_candidates ?cfg (wl_exclude_symbols ?cfg @ core @ held) ts volumes))
        (wl_min_daily_volatility ?cfg) (wl_max_daily_volatility ?cfg)"
    unfolding screen_def Let_def by (auto split: option.splits sum.splits)
  from set_rank_candidates assms(2) found obtain p where
      p: "p \<in> set (liquid_candidates ?cfg (wl_exclude_symbols ?cfg @ core @ held) ts volumes)"
      "candidate_metrics ?cfg fetch now p = Some (triple_of c)"
    and band: "in_band (wl_min_daily_volatility ?cfg) (wl_max_daily_volatility ?cfg) (ss_metrics c)"
    by (fastforce simp: map_filter_def)
  from p(2) obtain v m snap where m: "p = (ss_symbol c, v)" "ss_metrics c = m"
      "fetch (ss_symbol c) screener_timeframe = Inr snap"
      "compute_screen_metrics (fst (split_forming (ms_candles snap) screener_timeframe now))
         (wl_momentum_days ?cfg) (wl_lookback_days ?cfg) = Inr (Some m)"
    by (rule candidate_metricsD) (auto simp: triple_of_def)
  from liquid_candidatesD [OF p(1) [unfolded m(1)]]
  have "(ss_symbol c, Some v) \<in> set volumes \<and> 0 < v \<and> wl_min_quote_volume_24h ?cfg \<le> v
     \<and> upper (ss_symbol c) \<notin> upper ` (set (wl_exclude_symbols ?cfg) \<union> set core \<union> set held)
     \<and> (\<forall>xs. ts = Some xs \<longrightarrow> upper (ss_symbol c) \<in> upper ` set xs)" by (auto simp: image_Un)
  with fv ts m band show ?thesis unfolding eligible_def by blast
qed

lemma manager_prioritize_symbols:
  "c \<in> set (manager_prioritize wm d ranked now) \<Longrightarrow> ss_symbol c \<in> ss_symbol ` set ranked"
  using set_prioritize_mentioned
  by (fastforce simp: manager_prioritize_def triple_of_def split: option.splits sum.splits if_splits)

lemma eligible_dedupe: "eligible wm d (dedupe core) (dedupe held) now s = eligible wm d core held now s"
  by (simp add: eligible_def)

text \<open>One refresh, whatever its outcome, in terms of the component's rows.\<close>

lemma refresh_effect:
  assumes "refresh wm d core held now st = (st', out)"
  shows "int (length (own_entries (wm_component wm) st'))
      \<le> max (int (length (own_entries (wm_component wm) st))) (wl_max_dynamic_symbols (wm_config wm))"
    and "distinct (own_entries (wm_component wm) st) \<Longrightarrow> distinct (own_entries (wm_component wm) st')"
    and "foreign_entries (wm_component wm) st' = foreign_entries (wm_component wm) st"
    and "out = Inr r \<Longrightarrow> mset (own_entries (wm_component wm) st') = mset (wr_dynamic r)
      \<and> wr_symbols r = dedupe (dedupe core @ wr_dynamic r @ dedupe held)
      \<and> (\<forall>s\<in>set (wr_added r). eligible wm d core held now s)"
proof -
  let ?who = "wm_component wm"
  let ?n = "\<lambda>s. int (length (own_entries ?who s))"
  let ?goal = "?n st' \<le> max (?n st) (wl_max_dynamic_symbols (wm_config wm))
      \<and> (distinct (own_entries ?who st) \<longrightarrow> distinct (own_entries ?who st'))
      \<and> foreign_entries ?who st' = foreign_entries ?who st
      \<and> (out = Inr r \<longrightarrow> mset (own_entries ?who st') = mset (wr_dynamic r)
           \<and> wr_symbols r = dedupe (dedupe core @ wr_dynamic r @ dedupe held)
           \<and> (\<forall>s\<in>set (wr_added r). eligible wm d core held now s))"
  obtain st1 k where del: "delete_expired_watchlist_entries st now (Some ?who) = (st1, k)" by fastforce
  note own = delete_expired_entries [OF del]
  let ?active = "map wl_symbol (get_active_watchlist st1 now (Some ?who))"
  have "?goal"
  proof (cases "\<exists>f. out = Inl f \<and> st' \<in> {st, st1}")
    case True
    with own show ?thesis by auto
  next
    case False
    with assms del obtain found st2 res where found: "screen wm d (dedupe core) (dedupe held) now = Inr found"
      and res: "(if wl_max_dynamic_symbols (wm_config wm) - int (length ?active) > 0
              \<and> manager_prioritize wm d found now \<noteq> []
          then add_entries wm d (now + ttl (wm_config wm)) (dedupe core) (manager_prioritize wm d found now)
                 (wl_max_dynamic_symbols (wm_config wm) - int (length ?active)) ?active [] st1
          else (st1, Inr (?active, []))) = (st2, res)"
      and out: "st' = st2" "\<And>r. out = Inr r \<Longrightarrow> \<exists>dyn add. res = Inr (dyn, add) \<and> wr_dynamic r = dyn
            \<and> wr_added r = add \<and> wr_symbols r = dedupe (dedupe core @ dyn @ dedupe held)"
      unfolding refresh_def Let_def
      by (auto split: option.splits sum.splits prod.splits)
    have new: "\<forall>c\<in>set (manager_prioritize wm d found now). eligible wm d core held now (ss_symbol c)"
      using screen_eligible [OF found] manager_prioritize_symbols by (force simp: eligible_dedupe)
    show ?thesis
    proof (cases "wl_max_dynamic_symbols (wm_config wm) - int (length ?active) > 0
        \<and> manager_prioritize wm d found now \<noteq> []")
      case True
      with res have "add_entries wm d (now + ttl (wm_config wm)) (dedupe core) (manager_prioritize wm d found now)
                 (wl_max_dynamic_symbols (wm_config wm) - int (length ?active)) ?active [] st1 = (st2, res)" by simp
      from add_entries_effect [OF this own(1)] own True out new mset_eq_imp_distinct_iff [OF own(1)]
      show ?thesis by fastforce
    next
      case False
      with res have "st2 = st1" "res = Inr (?active, [])" by auto
      with own out(1) out(2) [of r] show ?thesis by auto
    qed
  qed
  then show "?n st' \<le> max (?n st) (wl_max_dynamic_symbols (wm_config wm))"
    "distinct (own_entries ?who st) \<Longrightarrow> distinct (own_entries ?who st')"
    "foreign_entries ?who st' = foreign_entries ?who st"
    "out = Inr r \<Longrightarrow> mset (own_entries ?who st') = mset (wr_dynamic r)
           \<and> wr_symbols r = dedupe (dedupe core @ wr_dynamic r @ dedupe held)
           \<and> (\<forall>s\<in>set (wr_added r). eligible wm d core held now s)"
    by blast+
qed

section \<open>Histories of refreshes\<close>

record refresh_pass =
  rp_deps :: watchlist_deps
  rp_core :: "symbol list"
  rp_held :: "symbol list"
  rp_now :: instant

text \<open>Any sequence of refreshes of one manager, each with its own world, failing or not.\<close>

definition run_passes :: "watchlist_manager \<Rightarrow> refresh_pass list \<Rightarrow> storage \<Rightarrow> storage" where
  "run_passes wm ps st = fold (\<lambda>p s. fst (refresh wm (rp_deps p) (rp_core p) (rp_held p) (rp_now p) s)) ps st"

lemma run_passes_entries:
  assumes "distinct (own_entries (wm_component wm) st)"
    and "int (length (own_entries (wm_component wm) st)) \<le> wl_max_dynamic_symbols (wm_config wm)"
  shows "distinct (own_entries (wm_component wm) (run_passes wm ps st))
    \<and> int (length (own_entries (wm_component wm) (run_passes wm ps st))) \<le> wl_max_dynamic_symbols (wm_config wm)
    \<and> foreign_entries (wm_component wm) (run_passes wm ps st) = foreign_entries (wm_component wm) st"
  using assms
proof (induction ps arbitrary: st)
  case Nil
  then show ?case by (simp add: run_passes_def)
next
  case (Cons p ps)
  obtain st1 out where pass: "refresh wm (rp_deps p) (rp_core p) (rp_held p) (rp_now p) st = (st1, out)"
    by fastforce
  with Cons.IH [of st1] refresh_effect [OF pass] Cons.prems show ?case by (simp add: run_passes_def)
qed

section \<open>Properties\<close>

text \<open>C24: A successful refresh never drops a core or a held symbol, puts the core symbols first, lists every
  symbol once, holds no more dynamic symbols than the cap (or than were stored before it), and every symbol
  it adds passed every filter: liquidity floor, exclusions, the venue's list and the volatility band.\<close>

theorem refresh_keeps_core_and_held:
  assumes "refresh wm d core held now st = (st', Inr r)"
  shows "set (wr_symbols r) = set core \<union> set held \<union> set (wr_dynamic r)
    \<and> distinct (wr_symbols r) \<and> take (length (dedupe core)) (wr_symbols r) = dedupe core
    \<and> int (length (wr_dynamic r)) \<le> max (int (length (own_entries (wm_component wm) st)))
                                       (wl_max_dynamic_symbols (wm_config wm))
    \<and> list_all (eligible wm d core held now) (wr_added r)"
proof -
  note eff = refresh_effect(4) [OF assms refl]
  let ?syms = "dedupe (dedupe core @ wr_dynamic r @ dedupe held)"
  have "length (wr_dynamic r) = length (own_entries (wm_component wm) st')"
    using eff mset_eq_length by metis
  moreover obtain zs where "?syms = dedupe (dedupe core) @ zs" using dedupe_append_prefix by metis
  then have "take (length (dedupe core)) ?syms = dedupe core" by (simp add: dedupe_id)
  moreover have "set ?syms = set core \<union> set held \<union> set (wr_dynamic r)" "distinct ?syms" by auto
  ultimately show ?thesis using eff refresh_effect(1) [OF assms] by (simp add: list_all_iff)
qed

definition demo_daily :: "int \<Rightarrow> real \<Rightarrow> ohlcv" where
  "demo_daily n p = \<lparr>c_timestamp = Some (n * day_us), c_open = p, c_high = p, c_low = p, c_close = p, c_volume = 10\<rparr>"

definition demo_watchlist_settings :: watchlist_settings where
  "demo_watchlist_settings =
     \<lparr>wl_enabled = True, wl_refresh_minutes = 360, wl_max_dynamic_symbols = 1, wl_ttl_hours = 96,
      wl_min_quote_volume_24h = 100, wl_momentum_days = 1, wl_lookback_days = 3, wl_min_daily_volatility = 0,
      wl_max_daily_volatility = Some 1, wl_max_candidates = 20, wl_exclude_symbols = [],
      wl_news_mentions = \<lparr>nm_enabled = False, nm_lookback_hours = 48, nm_min_mentions = 2\<rparr>\<rparr>"

definition demo_watchlist :: watchlist_manager where
  "demo_watchlist = \<lparr>wm_config = demo_watchlist_settings, wm_component = ''crypto'', wm_quote_currency = Some ''EUR''\<rparr>"

definition demo_watchlist_deps :: watchlist_deps where
  "demo_watchlist_deps =
     \<lparr>wd_quote_volumes = Some (\<lambda>q. Inr (Some [(''BTC'', Some 900), (''XRP'', Some 50), (''ETH'', Some 500)])),
      wd_snapshot = Some (\<lambda>s tf. Inr \<lparr>ms_symbol = s, ms_timeframe = tf,
          ms_candles = [demo_daily 0 1, demo_daily 1 2, demo_daily 2 4], ms_indicators = [], ms_fetched_at = 0\<rparr>),
      wd_tradable_symbols = None, wd_mention_counter = None, wd_faults = no_faults, wd_added_at = 3 * day_us\<rparr>"

definition demo_watchlist_storage :: storage where
  "demo_watchlist_storage = \<lparr>st_db = empty_db, st_agent = Some ''crypto'', st_venue = None\<rparr>"

definition demo_metrics :: screen_metrics where
  "demo_metrics = \<lparr>sm_momentum = 1, sm_daily_volatility = 0, sm_volume_spike = Some 1\<rparr>"

lemma timeframe_1d: "timeframe_delta ''1d'' = Some day_us"
  by code_simp

lemma demo_candle_metrics:
  "compute_screen_metrics (fst (split_forming [demo_daily 0 1, demo_daily 1 2, demo_daily 2 4] ''1d'' (3 * day_us)))
     1 3 = Inr (Some demo_metrics)"
  by (simp add: split_forming_def timeframe_1d demo_daily_def compute_screen_metrics_def last_n_def pstdev_def
      mean_def volume_spike_def demo_metrics_def Let_def)

lemma demo_screen:
  "screen demo_watchlist demo_watchlist_deps [''BTC''] [''SOL''] (3 * day_us)
     = Inr [\<lparr>ss_symbol = ''ETH'', ss_quote_volume_24h = 500, ss_metrics = demo_metrics, ss_rank = 1,
             ss_news_mentions = 0\<rparr>]"
proof -
  have "liquid_candidates demo_watchlist_settings ([] @ [''BTC''] @ [''SOL'']) None
      [(''BTC'', Some 900), (''XRP'', Some 50), (''ETH'', Some 500)] = [(''ETH'', 500)]"
    by (simp add: liquid_candidates_def filter_by_liquidity_def liquid_volume_def map_filter_def
        demo_watchlist_settings_def upper_def upper_char_def)
  then show ?thesis
    using demo_candle_metrics
    by (simp add: screen_def demo_watchlist_def demo_watchlist_deps_def demo_watchlist_settings_def
        candidate_metrics_def rank_candidates_def map_filter_def in_band_def demo_metrics_def new_screened_def Let_def)
qed

lemma demo_refresh:
  "\<exists>st' r. refresh demo_watchlist demo_watchlist_deps [''BTC''] [''SOL''] (3 * day_us) demo_watchlist_storage
     = (st', Inr r) \<and> wr_symbols r = [''BTC'', ''ETH'', ''SOL''] \<and> wr_added r = [''ETH'']"
proof -
  have none: "delete_expired_watchlist_entries demo_watchlist_storage (3 * day_us) (Some ''crypto'')
      = (demo_watchlist_storage, 0)"
    "get_active_watchlist demo_watchlist_storage (3 * day_us) (Some ''crypto'') = []"
    by (simp_all add: delete_expired_watchlist_entries_def get_active_watchlist_def demo_watchlist_storage_def
        empty_db_def Let_def)
  have deps: "wd_faults demo_watchlist_deps = no_faults" "wm_component demo_watchlist = ''crypto''"
    "wd_mention_counter demo_watchlist_deps = None" "wl_max_dynamic_symbols (wm_config demo_watchlist) = 1"
    by (simp_all add: demo_watchlist_def demo_watchlist_deps_def demo_watchlist_settings_def)
  have "''ETH'' \<notin> set (own_entries ''crypto'' demo_watchlist_storage)"
    by (simp add: own_entries_def demo_watchlist_storage_def empty_db_def)
  then obtain st1 where "upsert_watchlist_entry demo_watchlist_storage (wd_added_at demo_watchlist_deps) ''ETH''
      (3 * day_us + ttl (wm_config demo_watchlist)) (Some ''crypto'') ''screener''
      (entry_meta \<lparr>ss_symbol = ''ETH'', ss_quote_volume_24h = 500, ss_metrics = demo_metrics, ss_rank = 1,
             ss_news_mentions = 0\<rparr>) = Inr st1"
    by (rule upsert_fresh) auto
  then show ?thesis
    using demo_screen none deps
    by (simp add: refresh_def dedupe_def manager_prioritize_def no_faults_def)
qed

theorem refresh_keeps_core_and_held_witness:
  "\<exists>st' r. refresh demo_watchlist demo_watchlist_deps [''BTC''] [''SOL''] (3 * day_us) demo_watchlist_storage
       = (st', Inr r)
     \<and> wr_symbols r = [''BTC'', ''ETH'', ''SOL'']
     \<and> set (wr_symbols r) = set [''BTC''] \<union> set [''SOL''] \<union> set (wr_dynamic r)
     \<and> list_all (eligible demo_watchlist demo_watchlist_deps [''BTC''] [''SOL''] (3 * day_us)) (wr_added r)"
  using demo_refresh refresh_keeps_core_and_held by blast

text \<open>The cap holds for ever: from a store in which the component has at most \<open>max_dynamic_symbols\<close> distinct
  dynamic symbols, any sequence of refreshes (each with its own clock, feed, held positions and
  storage faults, failed ones included) leaves at most that many, all distinct, and never touches a row of
  another agent.\<close>

theorem watchlist_cap_holds:
  assumes "distinct (own_entries (wm_component wm) st)"
    and "int (length (own_entries (wm_component wm) st)) \<le> wl_max_dynamic_symbols (wm_config wm)"
  shows "distinct (own_entries (wm_component wm) (run_passes wm ps st))
    \<and> int (length (own_entries (wm_component wm) (run_passes wm ps st))) \<le> wl_max_dynamic_symbols (wm_config wm)
    \<and> foreign_entries (wm_component wm) (run_passes wm ps st) = foreign_entries (wm_component wm) st"
  using run_passes_entries [OF assms] .

theorem watchlist_cap_holds_witness:
  "length (own_entries ''crypto'' (run_passes demo_watchlist
     [\<lparr>rp_deps = demo_watchlist_deps, rp_core = [''BTC''], rp_held = [''SOL''], rp_now = 3 * day_us\<rparr>,
      \<lparr>rp_deps = demo_watchlist_deps, rp_core = [], rp_held = [], rp_now = 4 * day_us\<rparr>] demo_watchlist_storage)) \<le> 1"
  using watchlist_cap_holds [of demo_watchlist demo_watchlist_storage]
  by (simp add: demo_watchlist_def demo_watchlist_settings_def demo_watchlist_storage_def own_entries_def empty_db_def)

end
