(* ===== verification/Backtester.thy ===== *)
theory Backtester
  imports Baselines Watchlist
begin

text \<open>
  The decision-replay backtester, \<^verbatim>\<open>src/src/core/backtester.py\<close>: stored decisions are replayed over
  recorded candles through the live risk engine, the live sizing and the paper executor, on one
  timeline of candle and decision events.

  The object's attributes are the record \<open>backtester\<close>; \<open>TimelineClock\<close> is its field \<open>bt_clock\<close>.
  The order ids and fill times that \<^verbatim>\<open>uuid4\<close> and the wall clock give the executor are the
  argument \<open>replay_env\<close>, indexed by event. An exception ends the replay. In the report, dates are
  instants instead of ISO strings; \<^verbatim>\<open>round\<close> is the exact half-to-even rounding.
\<close>

record replay_decision =
  rd_timestamp :: instant
  rd_symbol :: symbol
  rd_action :: string
  rd_confidence :: real
  rd_stop_loss :: "real option"
  rd_take_profit :: "real option"

record symbol_stats =
  ys_trades :: nat
  ys_wins :: nat
  ys_losses :: nat
  ys_realized_pnl :: real

record backtester =
  bt_clock :: "instant option"
  bt_engine :: risk_engine
  bt_settings :: risk_settings
  bt_executor :: paper_executor
  bt_initial_cash :: real
  bt_baseline_cost_pct :: real
  bt_wins :: nat
  bt_losses :: nat
  bt_win_amounts :: "real list"
  bt_loss_amounts :: "real list"
  bt_auto_exits :: nat
  bt_risk_rejected :: nat
  bt_holds :: nat
  bt_per_symbol :: "(symbol, symbol_stats) dict"
  bt_last_close :: "(symbol, real) dict"
  bt_events :: "market_event list option"
  bt_guard_since :: "instant option"
  bt_event_blocked :: nat

record replay_env =
  bx_order_id :: "nat \<Rightarrow> string"
  bx_wall :: "nat \<Rightarrow> instant"

section \<open>Construction and the clock\<close>

definition new_backtester ::
  "risk_settings \<Rightarrow> real \<Rightarrow> real \<Rightarrow> real \<Rightarrow> real \<Rightarrow> real \<Rightarrow> market_event list option \<Rightarrow> instant option \<Rightarrow> backtester" where
  "new_backtester settings initial_cash fee_pct slippage_pct min_commission fx_fee_pct evs guard_since =
     \<lparr>bt_clock = None, bt_engine = new_risk_engine settings, bt_settings = settings,
      bt_executor = new_paper_executor initial_cash slippage_pct fee_pct min_commission fx_fee_pct,
      bt_initial_cash = initial_cash, bt_baseline_cost_pct = fee_pct + slippage_pct + fx_fee_pct,
      bt_wins = 0, bt_losses = 0, bt_win_amounts = [], bt_loss_amounts = [], bt_auto_exits = 0,
      bt_risk_rejected = 0, bt_holds = 0, bt_per_symbol = [], bt_last_close = [],
      bt_events = map_option (sort_key ev_at) evs, bt_guard_since = guard_since, bt_event_blocked = 0\<rparr>"

definition timeline_now :: "instant \<Rightarrow> backtester \<Rightarrow> instant" where
  "timeline_now wall bt = (case bt_clock bt of None \<Rightarrow> wall | Some t \<Rightarrow> t)"

section \<open>The timeline\<close>

datatype timeline_event = Candle_event symbol ohlcv | Decision_event replay_decision

definition candle_event_at :: "timedelta option \<Rightarrow> symbol \<Rightarrow> ohlcv \<Rightarrow> (instant \<times> nat \<times> timeline_event) option" where
  "candle_event_at bar s c =
     (case c_timestamp c of
        None \<Rightarrow> None
      | Some opened \<Rightarrow>
          if c_close c \<le> 0 then None
          else Some ((case bar of None \<Rightarrow> opened | Some d \<Rightarrow> opened + d), 0, Candle_event s c))"

definition keyed_timeline ::
  "replay_decision list \<Rightarrow> (symbol, ohlcv list) dict \<Rightarrow> string \<Rightarrow> (instant \<times> nat \<times> timeline_event) list" where
  "keyed_timeline decisions candles_by_symbol timeframe =
     sort_key (\<lambda>(ts, k, e). (ts, k))
       (concat (map (\<lambda>(s, cs). List.map_filter (candle_event_at (timeframe_delta timeframe) s) cs) candles_by_symbol)
        @ map (\<lambda>d. (rd_timestamp d, 1, Decision_event d)) decisions)"

definition build_timeline ::
  "replay_decision list \<Rightarrow> (symbol, ohlcv list) dict \<Rightarrow> string \<Rightarrow> (instant \<times> timeline_event) list" where
  "build_timeline decisions candles_by_symbol timeframe =
     map (\<lambda>(ts, k, e). (ts, e)) (keyed_timeline decisions candles_by_symbol timeframe)"

section \<open>Event handling\<close>

definition bt_portfolio :: "backtester \<Rightarrow> portfolio_state" where
  "bt_portfolio bt =
     \<lparr>pf_cash = get_cash (bt_executor bt), pf_positions = get_positions (bt_executor bt), pf_pending_value = 0\<rparr>"

definition mark_price :: "backtester \<Rightarrow> symbol \<Rightarrow> real option" where
  "mark_price bt s =
     (case find (\<lambda>p. p_symbol p = s) (get_positions (bt_executor bt)) of
        Some p \<Rightarrow> if p_current_price p > 0 then Some (p_current_price p) else map_of (bt_last_close bt) s
      | None \<Rightarrow> map_of (bt_last_close bt) s)"

definition record_closed_trade :: "symbol \<Rightarrow> real \<Rightarrow> backtester \<Rightarrow> backtester" where
  "record_closed_trade s v bt =
     (let old = (case map_of (bt_per_symbol bt) s of
                   None \<Rightarrow> \<lparr>ys_trades = 0, ys_wins = 0, ys_losses = 0, ys_realized_pnl = 0\<rparr> | Some y \<Rightarrow> y);
          y = old\<lparr>ys_trades := ys_trades old + 1, ys_realized_pnl := ys_realized_pnl old + v\<rparr>
      in if v \<ge> 0
         then bt\<lparr>bt_per_symbol := AList.update s (y\<lparr>ys_wins := ys_wins y + 1\<rparr>) (bt_per_symbol bt),
                 bt_wins := bt_wins bt + 1, bt_win_amounts := bt_win_amounts bt @ [v]\<rparr>
         else bt\<lparr>bt_per_symbol := AList.update s (y\<lparr>ys_losses := ys_losses y + 1\<rparr>) (bt_per_symbol bt),
                 bt_losses := bt_losses bt + 1, bt_loss_amounts := bt_loss_amounts bt @ [v]\<rparr>)"

definition replay_request ::
  "replay_env \<Rightarrow> nat \<Rightarrow> trade_signal \<Rightarrow> order_side \<Rightarrow> real \<Rightarrow> real \<Rightarrow> order_request" where
  "replay_request env k sig side qty price =
     \<lparr>rq_symbol = sig_symbol sig, rq_side = side, rq_quantity = qty, rq_price = Some price,
      rq_decision_id = None, rq_stop_loss = sig_stop_loss sig, rq_take_profit = sig_take_profit sig,
      rq_order_id = bx_order_id env k, rq_now = bx_wall env k\<rparr>"

definition bt_fill ::
  "replay_env \<Rightarrow> nat \<Rightarrow> trade_signal \<Rightarrow> order_side \<Rightarrow> real \<Rightarrow> real \<Rightarrow> backtester \<Rightarrow> backtester \<times> py_error option" where
  "bt_fill env k sig side qty price bt =
     (case place_order (bt_executor bt) (replay_request env k sig side qty price) of
        (px, Inl e) \<Rightarrow> (bt\<lparr>bt_executor := px\<rparr>, Some e)
      | (px, Inr res) \<Rightarrow>
          let bt1 = bt\<lparr>bt_executor := px\<rparr>
          in (case (o_status res, o_realized_pnl res) of
                (FILLED, Some v) \<Rightarrow>
                  let bt2 = record_closed_trade (sig_symbol sig) v bt1
                  in bt2\<lparr>bt_engine := record_outcome (timeline_now (bx_wall env k) bt2) (v \<ge> 0) (bt_engine bt2)\<rparr>
              | _ \<Rightarrow> bt1, None))"

definition on_candle ::
  "replay_env \<Rightarrow> nat \<Rightarrow> symbol \<Rightarrow> ohlcv \<Rightarrow> backtester \<Rightarrow> backtester \<times> py_error option" where
  "on_candle env k s c bt =
     (if c_close c \<le> 0 then (bt, None)
      else let bt1 = bt\<lparr>bt_last_close := AList.update s (c_close c) (bt_last_close bt),
                        bt_executor := update_price (bt_executor bt) s (c_close c)\<rparr>
           in if \<not> rs_enforce_exit_levels (bt_settings bt1) then (bt1, None)
              else case find (\<lambda>p. p_symbol p = s \<and> p_quantity p > 0) (get_positions (bt_executor bt1)) of
                     None \<Rightarrow> (bt1, None)
                   | Some p \<Rightarrow>
                       (case exit_level_breach p (c_close c) of
                          None \<Rightarrow> (bt1, None)
                        | Some why \<Rightarrow>
                            bt_fill env k
                              \<lparr>sig_symbol = s, sig_action = A_SELL, sig_confidence = 0,
                               sig_reasoning = ''replay exit level: '' @ why, sig_stop_loss = None,
                               sig_take_profit = None, sig_timestamp = bx_wall env k, sig_is_fallback = False\<rparr>
                              S_SELL (p_quantity p) (c_close c)
                              (bt1\<lparr>bt_auto_exits := bt_auto_exits bt1 + 1\<rparr>)))"

definition parse_action :: "string \<Rightarrow> py_error + action" where
  "parse_action a =
     (if a = ''buy'' then Inr A_BUY else if a = ''sell'' then Inr A_SELL
      else if a = ''hold'' then Inr A_HOLD else Inl ValueError)"

definition base_asset :: "symbol \<Rightarrow> symbol" where
  "base_asset s = upper (strip (takeWhile (\<lambda>c. c \<noteq> CHR ''/'') s))"

abbreviation event_lookback :: timedelta where "event_lookback \<equiv> 2 * day_us"

definition event_context :: "replay_decision \<Rightarrow> backtester \<Rightarrow> symbol_context option" where
  "event_context d bt =
     (case bt_events bt of
        None \<Rightarrow> None
      | Some evs \<Rightarrow>
          if rd_action d \<noteq> ''buy'' then None
          else let ts = rd_timestamp d; asset = base_asset (rd_symbol d)
               in if (case bt_guard_since bt of None \<Rightarrow> False | Some t \<Rightarrow> ts < t) then None
                  else Some \<lparr>sc_symbol = rd_symbol d, sc_now = ts, sc_lookahead_hours = 48, sc_sentiment = None,
                     sc_events = filter (\<lambda>e. ts - event_lookback \<le> ev_at e \<and> ev_at e \<le> ts + event_lookback
                       \<and> (ev_kind e = MACRO \<or> (ev_kind e = EARNINGS \<and> ev_asset e = Some asset))) evs,
                     sc_notices = filter (\<lambda>e. ev_kind e = DELISTING \<and> ev_asset e = Some asset
                       \<and> ev_at e \<le> ts + day_us) evs,
                     sc_card = None, sc_entry_blackout = None\<rparr>)"

definition order_side_of :: "action \<Rightarrow> order_side" where
  "order_side_of a = (if a = A_BUY then S_BUY else S_SELL)"

definition refuse :: "backtester \<Rightarrow> backtester" where
  "refuse bt = bt\<lparr>bt_risk_rejected := bt_risk_rejected bt + 1\<rparr>"

text \<open>The signal of a stored decision and its size; both may raise.\<close>

definition replay_signal :: "replay_env \<Rightarrow> nat \<Rightarrow> replay_decision \<Rightarrow> py_error + trade_signal" where
  "replay_signal env k d =
     (case parse_action (rd_action d) of
        Inl e \<Rightarrow> Inl e
      | Inr a \<Rightarrow> make_trade_signal (rd_symbol d) a (rd_confidence d) ''replay'' (rd_stop_loss d) (rd_take_profit d)
                   (bx_wall env k) False)"

definition replay_quantity :: "trade_signal \<Rightarrow> real \<Rightarrow> backtester \<Rightarrow> py_error + real" where
  "replay_quantity sig price bt =
     (case buy_cost_factor (px_attrs (bt_executor bt)) of
        Inl e \<Rightarrow> Inl e
      | Inr cf \<Rightarrow>
          (case px_cost_model (bt_executor bt) of
             Inl e \<Rightarrow> Inl e
           | Inr m \<Rightarrow> Inr (calculate_quantity sig (bt_portfolio bt) (bt_settings bt) (Some price) cf (Some m) None)))"

definition on_decision ::
  "replay_env \<Rightarrow> nat \<Rightarrow> replay_decision \<Rightarrow> backtester \<Rightarrow> backtester \<times> py_error option" where
  "on_decision env k d bt =
     (if rd_action d = ''hold'' then (bt\<lparr>bt_holds := bt_holds bt + 1\<rparr>, None)
      else case mark_price bt (rd_symbol d) of
             None \<Rightarrow> (refuse bt, None)
           | Some price \<Rightarrow>
               if price \<le> 0 then (refuse bt, None)
               else case replay_signal env k d of
                      Inl e \<Rightarrow> (bt, Some e)
                    | Inr sig \<Rightarrow>
                        (case replay_quantity sig price bt of
                           Inl e \<Rightarrow> (bt, Some e)
                         | Inr qty \<Rightarrow>
                             let (eng, risk) = evaluate (timeline_now (bx_wall env k) bt) sig (bt_portfolio bt)
                                                 (Some (qty * price)) (Some price) (bt_engine bt);
                                 bt1 = bt\<lparr>bt_engine := eng\<rparr>
                             in if rr_verdict risk = REJECTED then (refuse bt1, None)
                                else case event_context d bt1 of
                                       Some ctx \<Rightarrow>
                                         if rr_verdict (check_event_guard (re_settings eng) sig (Some ctx) None) = REJECTED
                                         then ((refuse bt1)\<lparr>bt_event_blocked := bt_event_blocked bt1 + 1\<rparr>, None)
                                         else bt_fill env k sig (order_side_of (sig_action sig)) qty price bt1
                                     | None \<Rightarrow> bt_fill env k sig (order_side_of (sig_action sig)) qty price bt1))"

section \<open>The replay\<close>

definition bt_total_value :: "backtester \<Rightarrow> real" where
  "bt_total_value bt = total_value (bt_portfolio bt)"

definition replay_event ::
  "replay_env \<Rightarrow> nat \<Rightarrow> instant \<times> timeline_event \<Rightarrow> backtester \<Rightarrow> backtester \<times> (py_error + real)" where
  "replay_event env k ev bt =
     (let (ts, e) = ev;
          (bt1, err) = (case e of Candle_event s c \<Rightarrow> on_candle env k s c (bt\<lparr>bt_clock := Some ts\<rparr>)
                                | Decision_event d \<Rightarrow> on_decision env k d (bt\<lparr>bt_clock := Some ts\<rparr>))
      in case err of
           Some x \<Rightarrow> (bt1, Inl x)
         | None \<Rightarrow>
             let v = bt_total_value bt1
             in (bt1\<lparr>bt_engine := update_daily_value (timeline_now (bx_wall env k) bt1) v (bt_engine bt1)\<rparr>, Inr v))"

fun replay_events ::
  "replay_env \<Rightarrow> nat \<Rightarrow> (instant \<times> timeline_event) list \<Rightarrow> (instant \<times> real) list \<Rightarrow> backtester \<Rightarrow>
   backtester \<times> (py_error + (instant \<times> real) list)" where
  "replay_events env k [] curve bt = (bt, Inr curve)"
| "replay_events env k (ev # evs) curve bt =
     (case replay_event env k ev bt of
        (bt1, Inl e) \<Rightarrow> (bt1, Inl e)
      | (bt1, Inr v) \<Rightarrow> replay_events env (Suc k) evs (curve @ [(fst ev, v)]) bt1)"

definition dedupe_consecutive :: "(instant \<times> real) list \<Rightarrow> (instant \<times> real) list" where
  "dedupe_consecutive points =
     fold (\<lambda>p out. if out = [] \<or> \<bar>snd p - snd (last out)\<bar> > eps12 \<or> fst p \<noteq> fst (last out) then out @ [p] else out)
       points []"

section \<open>The report\<close>

definition periods_table :: "(string, real) dict" where
  "periods_table =
     [(''1m'', 525600), (''5m'', 105120), (''15m'', 35040), (''30m'', 17520), (''1h'', 8760), (''4h'', 2190),
      (''1d'', 365), (''1w'', 52)]"

definition estimate_periods_per_year :: "(instant \<times> real) list \<Rightarrow> real \<Rightarrow> real" where
  "estimate_periods_per_year points nominal =
     (if length points < 10 then nominal
      else let span_days = of_int (fst (last points) - fst (hd points)) / of_int second_us / 86400
           in if span_days \<le> 0 then nominal
              else let estimate = real (length points) / (span_days / (36525 / 100))
                   in if \<not> (nominal / 2 \<le> estimate \<and> estimate \<le> nominal * 2) then nominal else estimate)"

definition sharpe_ratio :: "real list \<Rightarrow> real \<Rightarrow> real" where
  "sharpe_ratio vs periods_per_year =
     (if length vs < 3 then 0
      else let returns = pair_returns vs
           in if length returns < 2 then 0
              else let m = mean returns;
                       var = sum_list (map (\<lambda>r. (r - m)\<^sup>2) returns) / real (length returns - 1);
                       std = sqrt var
                   in if std \<le> 1 / 10 ^ 15 then 0 else m / std * sqrt periods_per_year)"

text \<open>\<^verbatim>\<open>round(x, n)\<close>: to \<open>n\<close> decimals, ties to even.\<close>

definition round_half_even :: "real \<Rightarrow> int" where
  "round_half_even y =
     (let f = \<lfloor>y\<rfloor>; r = y - of_int f
      in if r < 1 / 2 then f else if r > 1 / 2 then f + 1 else if even f then f else f + 1)"

definition py_round :: "nat \<Rightarrow> real \<Rightarrow> real" where
  "py_round n x = of_int (round_half_even (x * 10 ^ n)) / 10 ^ n"

record backtest_report =
  rp_start :: "instant option"
  rp_end :: "instant option"
  rp_symbols :: "symbol list"
  rp_timeframe :: string
  rp_initial_cash :: real
  rp_final_equity :: real
  rp_total_return_pct :: real
  rp_max_drawdown_pct :: real
  rp_sharpe :: real
  rp_win_rate :: "real option"
  rp_avg_win :: "real option"
  rp_avg_loss :: "real option"
  rp_closed_trades :: nat
  rp_auto_exits :: nat
  rp_risk_rejected :: nat
  rp_holds :: nat
  rp_buy_and_hold_pct :: "(symbol, real) dict"
  rp_blended_buy_and_hold_pct :: "real option"
  rp_per_symbol :: "(symbol, symbol_stats) dict"
  rp_equity_curve :: "(instant \<times> real) list"
  rp_baselines_pct :: "(string, real option) dict"
  rp_best_baseline :: "string option"
  rp_beats_best_baseline :: "bool option"
  rp_event_guard :: bool
  rp_event_guard_since :: "instant option"
  rp_event_blocked :: nat

definition buy_hold_pct :: "(symbol, ohlcv list) dict \<Rightarrow> (symbol, real) dict" where
  "buy_hold_pct candles_by_symbol =
     List.map_filter (\<lambda>(s, cs).
       (let usable = closes cs
        in if length usable \<ge> 2 then Some (s, (last usable / hd usable - 1) * 100) else None)) candles_by_symbol"

definition build_report ::
  "(instant \<times> real) list \<Rightarrow> (symbol, ohlcv list) dict \<Rightarrow> string \<Rightarrow> backtester \<Rightarrow> backtest_report" where
  "build_report curve candles_by_symbol timeframe bt =
     (let final_equity = (if curve = [] then bt_initial_cash bt else snd (last curve));
          total_return = (if bt_initial_cash bt > 0
                          then (final_equity - bt_initial_cash bt) / bt_initial_cash bt * 100 else 0);
          nominal = (case map_of periods_table timeframe of None \<Rightarrow> 365 | Some x \<Rightarrow> x);
          closed = bt_wins bt + bt_losses bt;
          buy_hold = buy_hold_pct candles_by_symbol;
          bases = baseline_returns candles_by_symbol (bt_baseline_cost_pct bt);
          best = best_baseline bases
      in \<lparr>rp_start = (if curve = [] then None else Some (fst (hd curve))),
          rp_end = (if curve = [] then None else Some (fst (last curve))),
          rp_symbols = sort (map fst candles_by_symbol), rp_timeframe = timeframe,
          rp_initial_cash = bt_initial_cash bt, rp_final_equity = py_round 8 final_equity,
          rp_total_return_pct = py_round 6 total_return,
          rp_max_drawdown_pct = py_round 6 (max_drawdown (map snd curve) * 100),
          rp_sharpe = py_round 6 (sharpe_ratio (map snd curve) (estimate_periods_per_year curve nominal)),
          rp_win_rate = (if closed = 0 then None else Some (py_round 6 (real (bt_wins bt) / real closed))),
          rp_avg_win = map_option (py_round 8) (average (bt_win_amounts bt)),
          rp_avg_loss = map_option (py_round 8) (average (bt_loss_amounts bt)),
          rp_closed_trades = closed, rp_auto_exits = bt_auto_exits bt,
          rp_risk_rejected = bt_risk_rejected bt, rp_holds = bt_holds bt,
          rp_buy_and_hold_pct = map (\<lambda>(s, v). (s, py_round 6 v)) buy_hold,
          rp_blended_buy_and_hold_pct = map_option (py_round 6) (average (map snd buy_hold)),
          rp_per_symbol = map (\<lambda>(s, y). (s, y\<lparr>ys_realized_pnl := py_round 8 (ys_realized_pnl y)\<rparr>))
                            (sort_key fst (bt_per_symbol bt)),
          rp_equity_curve = map (\<lambda>(t, v). (t, py_round 8 v)) curve,
          rp_baselines_pct = map (\<lambda>(n, v). (n, map_option (\<lambda>x. py_round 6 (x * 100)) v)) bases,
          rp_best_baseline = map_option fst best,
          rp_beats_best_baseline = map_option (\<lambda>b. total_return > snd b * 100) best,
          rp_event_guard = (bt_events bt \<noteq> None), rp_event_guard_since = bt_guard_since bt,
          rp_event_blocked = bt_event_blocked bt\<rparr>)"

definition replay ::
  "replay_env \<Rightarrow> replay_decision list \<Rightarrow> (symbol, ohlcv list) dict \<Rightarrow> string \<Rightarrow> backtester \<Rightarrow>
   backtester \<times> (py_error + backtest_report)" where
  "replay env decisions candles_by_symbol timeframe bt =
     (let events = build_timeline decisions candles_by_symbol timeframe;
          curve0 = (if events = [] then [] else [(fst (hd events), bt_initial_cash bt)])
      in case replay_events env 0 events curve0 (bt\<lparr>bt_last_close := []\<rparr>) of
           (bt1, Inl e) \<Rightarrow> (bt1, Inl e)
         | (bt1, Inr curve) \<Rightarrow>
             (bt1, Inr (build_report (dedupe_consecutive curve) candles_by_symbol timeframe bt1)))"

section \<open>The books of a replay\<close>

definition bt_realized :: "backtester \<Rightarrow> real" where
  "bt_realized bt = sum_list (bt_win_amounts bt) + sum_list (bt_loss_amounts bt)"

text \<open>The statistics agree with each other.\<close>

definition stats_ok :: "backtester \<Rightarrow> bool" where
  "stats_ok bt \<longleftrightarrow> bt_wins bt = length (bt_win_amounts bt) \<and> bt_losses bt = length (bt_loss_amounts bt)
     \<and> (\<forall>v\<in>set (bt_win_amounts bt). 0 \<le> v) \<and> (\<forall>v\<in>set (bt_loss_amounts bt). v < 0)
     \<and> dict_ok (bt_per_symbol bt)
     \<and> dict_sum ys_realized_pnl (bt_per_symbol bt) = bt_realized bt
     \<and> dict_sum (\<lambda>y. real (ys_trades y)) (bt_per_symbol bt) = real (bt_wins bt + bt_losses bt)
     \<and> (\<forall>(s, y)\<in>set (bt_per_symbol bt). ys_trades y = ys_wins y + ys_losses y)"

text \<open>Money: what is in the book is the initial cash plus what the replay recorded as realized.\<close>

definition books_ok :: "backtester \<Rightarrow> bool" where
  "books_ok bt \<longleftrightarrow> px_ok (bt_executor bt) \<and> wealth (bt_executor bt) = bt_initial_cash bt + bt_realized bt
     \<and> stats_ok bt"

lemma record_closed_trade_frame [simp]:
  "bt_executor (record_closed_trade s v bt) = bt_executor bt"
  "bt_initial_cash (record_closed_trade s v bt) = bt_initial_cash bt"
  "bt_settings (record_closed_trade s v bt) = bt_settings bt"
  "bt_realized (record_closed_trade s v bt) = bt_realized bt + v"
  by (simp_all add: record_closed_trade_def bt_realized_def Let_def)

lemma record_closed_trade_stats:
  assumes "stats_ok bt"
  shows "stats_ok (record_closed_trade s v bt)"
proof -
  let ?old = "case map_of (bt_per_symbol bt) s of
      None \<Rightarrow> \<lparr>ys_trades = 0, ys_wins = 0, ys_losses = 0, ys_realized_pnl = 0\<rparr> | Some y \<Rightarrow> y"
  have ok: "dict_ok (bt_per_symbol bt)" using assms by (simp add: stats_ok_def)
  have old: "ys_trades ?old = ys_wins ?old + ys_losses ?old"
    using assms by (auto simp: stats_ok_def split: option.splits dest!: map_of_SomeD)
  have sums: "(case map_of (bt_per_symbol bt) s of None \<Rightarrow> 0 | Some w \<Rightarrow> ys_realized_pnl w) = ys_realized_pnl ?old"
    "(case map_of (bt_per_symbol bt) s of None \<Rightarrow> 0 | Some w \<Rightarrow> real (ys_trades w)) = real (ys_trades ?old)"
    by (simp_all split: option.splits)
  show ?thesis
    using assms ok old
    unfolding stats_ok_def record_closed_trade_def Let_def
    by (auto simp: dict_sum_update sums bt_realized_def set_update_value split: if_splits)
qed

lemma bt_fill_frame:
  "bt_initial_cash (fst (bt_fill env k sig side q price bt)) = bt_initial_cash bt"
  "bt_settings (fst (bt_fill env k sig side q price bt)) = bt_settings bt"
  by (simp_all add: bt_fill_def Let_def split: prod.splits sum.splits order_status.splits option.splits)

lemma bt_realized_frame [simp]:
  "bt_realized (bt\<lparr>bt_executor := px\<rparr>) = bt_realized bt" "bt_realized (bt\<lparr>bt_engine := e\<rparr>) = bt_realized bt"
  by (simp_all add: bt_realized_def)

lemma stats_ok_frame [simp]:
  "stats_ok (bt\<lparr>bt_executor := px\<rparr>) = stats_ok bt" "stats_ok (bt\<lparr>bt_engine := e\<rparr>) = stats_ok bt"
  "stats_ok (bt\<lparr>bt_clock := t\<rparr>) = stats_ok bt" "stats_ok (bt\<lparr>bt_last_close := d\<rparr>) = stats_ok bt"
  "stats_ok (bt\<lparr>bt_auto_exits := n\<rparr>) = stats_ok bt" "stats_ok (bt\<lparr>bt_holds := n\<rparr>) = stats_ok bt"
  "stats_ok (bt\<lparr>bt_risk_rejected := n\<rparr>) = stats_ok bt" "stats_ok (bt\<lparr>bt_event_blocked := n\<rparr>) = stats_ok bt"
  by (simp_all add: stats_ok_def bt_realized_def)

lemma books_ok_frame [simp]:
  "books_ok (bt\<lparr>bt_engine := e\<rparr>) = books_ok bt"
  "books_ok (bt\<lparr>bt_clock := t\<rparr>) = books_ok bt" "books_ok (bt\<lparr>bt_last_close := d\<rparr>) = books_ok bt"
  "books_ok (bt\<lparr>bt_auto_exits := n\<rparr>) = books_ok bt" "books_ok (bt\<lparr>bt_holds := n\<rparr>) = books_ok bt"
  "books_ok (bt\<lparr>bt_risk_rejected := n\<rparr>) = books_ok bt" "books_ok (bt\<lparr>bt_event_blocked := n\<rparr>) = books_ok bt"
  by (simp_all add: books_ok_def bt_realized_def)

lemma bt_fill_books:
  assumes "books_ok bt" and "0 \<le> q" and "on_grid q"
  shows "books_ok (fst (bt_fill env k sig side q price bt))"
proof -
  let ?r = "replay_request env k sig side q price"
  obtain px out where place: "place_order (bt_executor bt) ?r = (px, out)" by fastforce
  have "request_ok ?r" using assms by (simp add: request_ok_def replay_request_def)
  with assms(1) have step: "px_ok px" "wealth px = wealth (bt_executor bt) + reported out"
    using paper.step_ok [of "bt_executor bt" ?r] paper.step_worth [of "bt_executor bt" ?r] place
    by (simp_all add: books_ok_def)
  show ?thesis
  proof (cases out)
    case (Inl e)
    with step assms(1) place show ?thesis by (simp add: bt_fill_def books_ok_def)
  next
    case (Inr res)
    show ?thesis
    proof (cases "o_status res = FILLED \<and> o_realized_pnl res \<noteq> None")
      case True
      then obtain v where v: "o_realized_pnl res = Some v" by blast
      with True step assms(1) place Inr record_closed_trade_stats [of "bt\<lparr>bt_executor := px\<rparr>"]
      show ?thesis by (simp add: bt_fill_def books_ok_def reported_def Let_def)
    next
      case False
      then have "reported out = 0" using Inr by (auto simp: reported_def split: option.splits)
      moreover have "fst (bt_fill env k sig side q price bt) = bt\<lparr>bt_executor := px\<rparr>"
        using False place Inr by (auto simp: bt_fill_def Let_def split: order_status.splits option.splits)
      ultimately show ?thesis using step assms(1) by (simp add: books_ok_def)
    qed
  qed
qed

lemma wealth_update_price [simp]: "wealth (update_price px s v) = wealth px"
  by (simp add: update_price_def split: option.splits)

lemma on_candle_books:
  assumes "books_ok bt"
  shows "books_ok (fst (on_candle env k s c bt))"
proof -
  let ?bt1 = "bt\<lparr>bt_last_close := AList.update s (c_close c) (bt_last_close bt),
      bt_executor := update_price (bt_executor bt) s (c_close c)\<rparr>"
  have b1: "books_ok ?bt1"
    using assms update_price_ok [of "bt_executor bt"] by (simp add: books_ok_def bt_realized_def)
  then have px: "px_ok (bt_executor ?bt1)" by (simp add: books_ok_def)
  have q: "0 \<le> p_quantity p \<and> on_grid (p_quantity p)"
    if "find P (get_positions (bt_executor ?bt1)) = Some p" for P p
  proof -
    from that have "p \<in> set (get_positions (bt_executor ?bt1))" by (auto simp: find_Some_iff)
    from px_okD(5) [OF px get_positions_get [OF px this]] show ?thesis by simp
  qed
  show ?thesis
    unfolding on_candle_def Let_def
    using assms b1 q by (auto intro!: bt_fill_books split: option.splits)
qed

lemma replay_quantity_ok:
  assumes "px_ok (bt_executor bt)" and "replay_quantity sig price bt = Inr q"
  shows "0 \<le> q \<and> on_grid q"
proof -
  have "0 \<le> p_quantity p \<and> on_grid (p_quantity p)" if "p \<in> set (pf_positions (bt_portfolio bt))" for p
    using px_okD(5) [OF assms(1) get_positions_get [OF assms(1)]] that by (simp add: bt_portfolio_def)
  from calculate_quantity_ok [OF this] assms(2) show ?thesis
    by (auto simp: replay_quantity_def split: sum.splits)
qed

lemma on_decision_books:
  assumes "books_ok bt"
  shows "books_ok (fst (on_decision env k d bt))"
proof -
  have "px_ok (bt_executor bt)" using assms by (simp add: books_ok_def)
  note q = replay_quantity_ok [OF this]
  show ?thesis
    unfolding on_decision_def Let_def refuse_def
    using assms q by (auto intro!: bt_fill_books split: option.splits sum.splits prod.splits)
qed

lemma replay_event_books:
  assumes "books_ok bt"
  shows "books_ok (fst (replay_event env k ev bt))"
proof -
  obtain ts e where ev: "ev = (ts, e)" by (cases ev)
  let ?step = "case e of Candle_event s c \<Rightarrow> on_candle env k s c (bt\<lparr>bt_clock := Some ts\<rparr>)
      | Decision_event d \<Rightarrow> on_decision env k d (bt\<lparr>bt_clock := Some ts\<rparr>)"
  obtain bt1 err where step: "?step = (bt1, err)" by fastforce
  have "books_ok (fst ?step)"
    using assms by (cases e) (simp_all add: on_candle_books on_decision_books)
  with step show ?thesis by (cases err) (simp_all add: replay_event_def ev Let_def)
qed

lemma replay_events_books:
  "books_ok bt \<Longrightarrow> replay_events env k evs curve bt = (bt', out) \<Longrightarrow> books_ok bt'"
proof (induction evs arbitrary: k curve bt)
  case (Cons ev evs)
  obtain bt1 r where "replay_event env k ev bt = (bt1, r)" by fastforce
  with Cons replay_event_books [OF Cons.prems(1), of env k ev] show ?case by (cases r) auto
qed simp

lemma new_backtester_books:
  assumes "0 \<le> fee" "0 \<le> slip" "0 \<le> mc" "0 \<le> fx"
  shows "books_ok (new_backtester s cash fee slip mc fx evs since)"
  using assms
  by (simp add: books_ok_def new_backtester_def new_paper_executor_ok bt_realized_def stats_ok_def)

section \<open>The timeline is ordered\<close>

lemma keyed_timeline_sorted:
  "sorted (map (\<lambda>(ts, k, e). (ts, k)) (keyed_timeline ds cbs tf))"
  by (simp add: keyed_timeline_def)

lemma keyed_timeline_elem:
  assumes "(ts, k, e) \<in> set (keyed_timeline ds cbs tf)"
  shows "(case e of
      Candle_event s c \<Rightarrow> k = 0 \<and> 0 < c_close c \<and> (\<exists>cs. (s, cs) \<in> set cbs \<and> c \<in> set cs)
        \<and> (\<forall>d. timeframe_delta tf = Some d \<longrightarrow> bar_close_time c tf = Some ts)
    | Decision_event d \<Rightarrow> k = 1 \<and> d \<in> set ds \<and> rd_timestamp d = ts)"
  using assms
  by (auto simp: keyed_timeline_def map_filter_def candle_event_at_def bar_close_time_def
      split: option.splits if_splits)

lemma sorted_keys_nth:
  assumes "sorted (map key xs)" and "i \<le> j" and "j < length xs"
  shows "key (xs ! i) \<le> key (xs ! j)"
  using sorted_nth_mono [OF assms(1), of i j] assms(2,3) by simp

lemma build_timeline_nth:
  assumes "i < length (build_timeline ds cbs tf)"
  obtains k where "keyed_timeline ds cbs tf ! i = (fst (build_timeline ds cbs tf ! i), k, snd (build_timeline ds cbs tf ! i))"
    "(fst (build_timeline ds cbs tf ! i), k, snd (build_timeline ds cbs tf ! i)) \<in> set (keyed_timeline ds cbs tf)"
proof -
  have i: "i < length (keyed_timeline ds cbs tf)" using assms by (simp add: build_timeline_def)
  obtain ts k e where e: "keyed_timeline ds cbs tf ! i = (ts, k, e)" by (cases "keyed_timeline ds cbs tf ! i")
  with i have "build_timeline ds cbs tf ! i = (ts, e)" by (simp add: build_timeline_def)
  with e nth_mem [OF i] show thesis by (intro that [of k]) simp_all
qed

lemma decision_sees_closed_bars:
  assumes "timeframe_delta tf = Some dur"
    and "i < length (build_timeline ds cbs tf)" "build_timeline ds cbs tf ! i = (t, Decision_event d)"
    and "j < length (build_timeline ds cbs tf)" "build_timeline ds cbs tf ! j = (u, Candle_event s c)"
  shows "bar_close_time c tf = Some u \<and> rd_timestamp d = t \<and> (j < i \<longleftrightarrow> u \<le> t)"
proof -
  obtain k where k: "keyed_timeline ds cbs tf ! i = (t, k, Decision_event d)"
      "(t, k, Decision_event d) \<in> set (keyed_timeline ds cbs tf)"
    using build_timeline_nth [OF assms(2)] assms(3) by auto
  obtain l where l: "keyed_timeline ds cbs tf ! j = (u, l, Candle_event s c)"
      "(u, l, Candle_event s c) \<in> set (keyed_timeline ds cbs tf)"
    using build_timeline_nth [OF assms(4)] assms(5) by auto
  have len: "i < length (keyed_timeline ds cbs tf)" "j < length (keyed_timeline ds cbs tf)"
    using assms(2,4) by (simp_all add: build_timeline_def)
  note key = sorted_keys_nth [OF keyed_timeline_sorted [of ds cbs tf]]
  have kl: "k = 1" "l = 0" "rd_timestamp d = t" "bar_close_time c tf = Some u"
    using keyed_timeline_elem [OF k(2)] keyed_timeline_elem [OF l(2)] assms(1) by auto
  have "j \<noteq> i" using k(1) l(1) by auto
  then consider "j < i" | "i < j" by linarith
  then have "j < i \<longleftrightarrow> u \<le> t"
  proof cases
    case 1
    with key [of j i] len k(1) l(1) kl have "(u, 0 :: nat) \<le> (t, 1)" by simp
    with 1 show ?thesis by (auto simp: less_eq_prod_def)
  next
    case 2
    with key [of i j] len k(1) l(1) kl have "(t, 1 :: nat) \<le> (u, 0)" by simp
    with 2 show ?thesis by (auto simp: less_eq_prod_def)
  qed
  with kl show ?thesis by simp
qed

section \<open>Exit levels\<close>

lemma find_position:
  assumes "px_ok px" and "map_of (px_positions px) s = Some p" and "0 < p_quantity p"
  shows "find (\<lambda>p. p_symbol p = s \<and> p_quantity p > 0) (get_positions px) = Some p"
proof -
  have p: "p \<in> set (get_positions px)" "p_symbol p = s"
    using assms(2) px_okD(5) [OF assms(1,2)] by (force simp: get_positions_def dest: map_of_SomeD)+
  obtain q where q: "find (\<lambda>p. p_symbol p = s \<and> p_quantity p > 0) (get_positions px) = Some q"
    using p assms(3) find_None_iff [of "\<lambda>p. p_symbol p = s \<and> p_quantity p > 0" "get_positions px"] by fastforce
  then have "q \<in> set (get_positions px)" "p_symbol q = s" by (auto simp: find_Some_iff)
  with get_positions_get [OF assms(1)] assms(2) q show ?thesis by fastforce
qed

lemma full_sale_empties:
  assumes ok: "px_ok px" and p: "map_of (px_positions px) s = Some p"
    and r: "rq_symbol r = s" "rq_side r = S_SELL" "rq_quantity r = p_quantity p" "rq_price r = Some price"
  shows "\<exists>px' res. place_order px r = (px', Inr res) \<and> o_status res = FILLED \<and> map_of (px_positions px') s = None"
proof -
  have eff: "effective_price px r = Some (price * (1 - px_slippage_pct px))"
    using r by (simp add: effective_price_def)
  from px_okD(1) [OF ok] show ?thesis
  proof (cases rule: execute_sell_cases [of px r "price * (1 - px_slippage_pct px)"])
    case refused
    with r p show ?thesis by (simp add: px_held_def)
  next
    case (fill pos)
    have "px_held px (rq_symbol r) - rq_quantity r \<le> eps12" using r p by (simp add: px_held_def)
    with fill(4) r(1,2) eff show ?thesis
      by (simp add: place_order_def filled_order_def delete_conv' del: on_sell_book)
  qed
qed

lemma bt_fill_executor:
  assumes "place_order (bt_executor bt) (replay_request env k sig side q price) = (px, Inr res)"
  shows "bt_executor (fst (bt_fill env k sig side q price bt)) = px \<and> snd (bt_fill env k sig side q price bt) = None"
  using assms by (simp add: bt_fill_def Let_def split: order_status.splits option.splits)

lemma on_candle_exits:
  assumes ok: "px_ok (bt_executor bt)" and en: "rs_enforce_exit_levels (bt_settings bt)" and c: "0 < c_close c"
    and step: "on_candle env k s c bt = (bt', err)"
  shows "err = None \<and> (case map_of (px_positions (bt_executor bt')) s of None \<Rightarrow> True
     | Some p \<Rightarrow> p_quantity p = 0 \<or> exit_level_breach p (c_close c) = None)"
proof -
  let ?px = "update_price (bt_executor bt) s (c_close c)"
  let ?bt1 = "bt\<lparr>bt_last_close := AList.update s (c_close c) (bt_last_close bt), bt_executor := ?px\<rparr>"
  have px: "px_ok ?px" by (rule update_price_ok [OF ok])
  show ?thesis
  proof (cases "find (\<lambda>p. p_symbol p = s \<and> p_quantity p > 0) (get_positions ?px)")
    case None
    then have bt': "bt' = ?bt1" "err = None" using step en c by (simp_all add: on_candle_def Let_def)
    have "p_quantity p = 0" if "map_of (px_positions ?px) s = Some p" for p
      using find_position [OF px that] px_okD(5) [OF px that] None by fastforce
    with bt' show ?thesis by (auto split: option.splits)
  next
    case (Some p)
    then have p: "p \<in> set (get_positions ?px)" "p_symbol p = s" by (auto simp: find_Some_iff)
    then have m: "map_of (px_positions ?px) s = Some p" using get_positions_get [OF px p(1)] by simp
    show ?thesis
    proof (cases "exit_level_breach p (c_close c)")
      case None
      with Some step en c m show ?thesis by (auto simp: on_candle_def Let_def)
    next
      case (Some why)
      let ?sig = "\<lparr>sig_symbol = s, sig_action = A_SELL, sig_confidence = 0,
          sig_reasoning = ''replay exit level: '' @ why, sig_stop_loss = None, sig_take_profit = None,
          sig_timestamp = bx_wall env k, sig_is_fallback = False\<rparr>"
      let ?bt2 = "?bt1\<lparr>bt_auto_exits := bt_auto_exits ?bt1 + 1\<rparr>"
      let ?r = "replay_request env k ?sig S_SELL (p_quantity p) (c_close c)"
      have run: "(bt', err) = bt_fill env k ?sig S_SELL (p_quantity p) (c_close c) ?bt2"
        using Some \<open>find _ _ = Some p\<close> step en c by (simp add: on_candle_def Let_def)
      obtain px' res where "place_order ?px ?r = (px', Inr res)" "map_of (px_positions px') s = None"
        using full_sale_empties [OF px m, of ?r "c_close c"] by (auto simp: replay_request_def)
      then have "bt_executor (fst (bt', err)) = px' \<and> snd (bt', err) = None"
        unfolding run by (intro bt_fill_executor) simp
      with \<open>map_of (px_positions px') s = None\<close> show ?thesis by simp
    qed
  qed
qed

section \<open>Properties\<close>

text \<open>C22: No look-ahead in a replay: with a known timeframe, a candle event fires exactly when its bar
  closes, and a decision at time \<open>t\<close> comes after exactly those candle events whose bar had closed at or
  before \<open>t\<close>, so it never sees a later close.\<close>

theorem replay_sees_only_closed_bars:
  assumes "timeframe_delta tf = Some dur"
    and "i < length (build_timeline ds cbs tf)" "build_timeline ds cbs tf ! i = (t, Decision_event d)"
    and "j < length (build_timeline ds cbs tf)" "build_timeline ds cbs tf ! j = (u, Candle_event s c)"
  shows "bar_close_time c tf = Some u \<and> rd_timestamp d = t \<and> (j < i \<longleftrightarrow> u \<le> t)"
  using assms by (rule decision_sees_closed_bars)

definition demo_replay_decision :: "instant \<Rightarrow> string \<Rightarrow> replay_decision" where
  "demo_replay_decision t a =
     \<lparr>rd_timestamp = t, rd_symbol = ''BTC/EUR'', rd_action = a, rd_confidence = 1, rd_stop_loss = Some 4,
      rd_take_profit = None\<rparr>"

lemma demo_timeline:
  "build_timeline [demo_replay_decision day_us ''buy''] [(''BTC/EUR'', [demo_daily 1 6, demo_daily 0 5])] ''1d'' =
     [(day_us, Candle_event ''BTC/EUR'' (demo_daily 0 5)),
      (day_us, Decision_event (demo_replay_decision day_us ''buy'')),
      (2 * day_us, Candle_event ''BTC/EUR'' (demo_daily 1 6))]"
  by (simp add: build_timeline_def keyed_timeline_def timeframe_1d candle_event_at_def demo_daily_def
      map_filter_def demo_replay_decision_def less_eq_prod_def)

theorem replay_sees_only_closed_bars_witness:
  "bar_close_time (demo_daily 0 5) ''1d'' = Some day_us \<and> bar_close_time (demo_daily 1 6) ''1d'' = Some (2 * day_us)"
  using replay_sees_only_closed_bars [OF timeframe_1d, of 1 "[demo_replay_decision day_us ''buy'']"
      "[(''BTC/EUR'', [demo_daily 1 6, demo_daily 0 5])]" day_us "demo_replay_decision day_us ''buy''" 0 day_us]
    replay_sees_only_closed_bars [OF timeframe_1d, of 1 "[demo_replay_decision day_us ''buy'']"
      "[(''BTC/EUR'', [demo_daily 1 6, demo_daily 0 5])]" day_us "demo_replay_decision day_us ''buy''" 2 "2 * day_us"]
  unfolding demo_timeline by simp

text \<open>C23: The books of a replay balance: after replaying any decisions over any candles (also when an
  exception ends it), cash plus the cost basis of the open lots equals the initial cash plus the wins plus
  the losses recorded, every recorded win is non-negative and every loss negative, the per-symbol
  statistics add up to the totals, and the report's closed trades are the recorded ones.\<close>

theorem replay_books_balance:
  assumes "0 \<le> fee" "0 \<le> slip" "0 \<le> mc" "0 \<le> fx"
    and "replay env ds cbs tf (new_backtester settings cash fee slip mc fx evs since) = (bt, out)"
  shows "px_cash (bt_executor bt) + book_basis 1 (t_lots (px_tracker (bt_executor bt)))
      = bt_initial_cash bt + sum_list (bt_win_amounts bt) + sum_list (bt_loss_amounts bt)
    \<and> list_all (\<lambda>v. 0 \<le> v) (bt_win_amounts bt) \<and> list_all (\<lambda>v. v < 0) (bt_loss_amounts bt)
    \<and> dict_sum ys_realized_pnl (bt_per_symbol bt) = sum_list (bt_win_amounts bt) + sum_list (bt_loss_amounts bt)
    \<and> dict_sum (\<lambda>y. real (ys_trades y)) (bt_per_symbol bt)
        = real (length (bt_win_amounts bt) + length (bt_loss_amounts bt))
    \<and> (case out of Inl e \<Rightarrow> True
       | Inr rep \<Rightarrow> rp_closed_trades rep = length (bt_win_amounts bt) + length (bt_loss_amounts bt))"
proof -
  let ?bt0 = "(new_backtester settings cash fee slip mc fx evs since)\<lparr>bt_last_close := []\<rparr>"
  let ?evs = "build_timeline ds cbs tf"
  let ?c0 = "if ?evs = [] then [] else [(fst (hd ?evs), bt_initial_cash (new_backtester settings cash fee slip mc fx evs since))]"
  obtain b res where run: "replay_events env 0 ?evs ?c0 ?bt0 = (b, res)" by fastforce
  with assms(5) have b: "bt = b" and out: "out = Inr rep \<Longrightarrow> \<exists>curve. rep = build_report curve cbs tf bt" for rep
    by (cases res; auto simp: replay_def Let_def)+
  have "books_ok ?bt0" using new_backtester_books [OF assms(1-4)] by simp
  from replay_events_books [OF this run] b have books: "books_ok bt" by simp
  have "rp_closed_trades (build_report curve cbs tf bt) = bt_wins bt + bt_losses bt" for curve
    by (simp add: build_report_def Let_def)
  with books out show ?thesis
    by (auto simp: books_ok_def stats_ok_def wealth_def bt_realized_def list_all_iff split: sum.splits)
qed

definition demo_replay_env :: replay_env where
  "demo_replay_env = \<lparr>bx_order_id = \<lambda>k. replicate k CHR ''o'', bx_wall = \<lambda>k. 0\<rparr>"

theorem replay_books_balance_witness:
  "\<exists>bt out. replay demo_replay_env [demo_replay_decision day_us ''buy'', demo_replay_decision (2 * day_us) ''sell'']
       [(''BTC/EUR'', [demo_daily 0 5, demo_daily 1 6])] ''1d''
       (new_backtester default_risk_settings 1000 (1 / 1000) 0 0 0 None None) = (bt, out)
     \<and> px_cash (bt_executor bt) + book_basis 1 (t_lots (px_tracker (bt_executor bt)))
      = bt_initial_cash bt + sum_list (bt_win_amounts bt) + sum_list (bt_loss_amounts bt)"
  using replay_books_balance [of "1 / 1000" 0 0 0 demo_replay_env
      "[demo_replay_decision day_us ''buy'', demo_replay_decision (2 * day_us) ''sell'']"
      "[(''BTC/EUR'', [demo_daily 0 5, demo_daily 1 6])]" "''1d''" default_risk_settings 1000 None None]
  by (cases "replay demo_replay_env [demo_replay_decision day_us ''buy'', demo_replay_decision (2 * day_us) ''sell'']
       [(''BTC/EUR'', [demo_daily 0 5, demo_daily 1 6])] ''1d''
       (new_backtester default_risk_settings 1000 (1 / 1000) 0 0 0 None None)") auto

text \<open>A replay enforces exit levels like live trading: with the switch on, a candle never raises, and
  after it the symbol has no open position that its close puts beyond its stop loss or take profit.\<close>

theorem replay_enforces_exit_levels:
  assumes "px_ok (bt_executor bt)" and "rs_enforce_exit_levels (bt_settings bt)" and "0 < c_close c"
    and "on_candle env k s c bt = (bt', err)"
  shows "err = None \<and> (case map_of (px_positions (bt_executor bt')) s of None \<Rightarrow> True
     | Some p \<Rightarrow> p_quantity p = 0 \<or> exit_level_breach p (c_close c) = None)"
  using assms by (rule on_candle_exits)

definition demo_replay_book :: backtester where
  "demo_replay_book = (new_backtester default_risk_settings 1000 0 0 0 0 None None)
     \<lparr>bt_executor := fst (place_order (new_paper_executor 1000 0 0 0 0)
       ((buy_request ''BTC/EUR'' 2 5)\<lparr>rq_stop_loss := Some 4\<rparr>))\<rparr>"

lemma demo_replay_book_ok: "px_ok (bt_executor demo_replay_book)"
  unfolding demo_replay_book_def
  by (simp, rule place_order_step(1)) (simp_all add: new_paper_executor_ok request_ok_def buy_request_def)

theorem replay_enforces_exit_levels_witness:
  "\<exists>bt'. on_candle demo_replay_env 0 ''BTC/EUR'' (demo_daily 1 3) demo_replay_book = (bt', None)
     \<and> (case map_of (px_positions (bt_executor bt')) ''BTC/EUR'' of None \<Rightarrow> True
        | Some p \<Rightarrow> p_quantity p = 0 \<or> exit_level_breach p (c_close (demo_daily 1 3)) = None)"
proof -
  obtain bt' err where run: "on_candle demo_replay_env 0 ''BTC/EUR'' (demo_daily 1 3) demo_replay_book = (bt', err)"
    by fastforce
  have c: "c_close (demo_daily 1 3) = 3" by (simp add: demo_daily_def)
  have en: "rs_enforce_exit_levels (bt_settings demo_replay_book)"
    by (simp add: demo_replay_book_def new_backtester_def default_risk_settings_def)
  from replay_enforces_exit_levels [OF demo_replay_book_ok en _ run] run show ?thesis using c by simp
qed

end
