(* ===== verification/Json.thy ===== *)
theory Json
  imports Watchlist
begin

text \<open>
  Values a venue or a feed sends: decoded JSON, as Python sees it. A missing key reads as
  \<^verbatim>\<open>None\<close>, which is \<open>JNull\<close>, as \<^verbatim>\<open>dict.get\<close> does.

  What Python's \<^verbatim>\<open>float(text)\<close> and \<^verbatim>\<open>str(value)\<close> do to a text that is not a number, or to a
  value that is not a text, is the parameter \<open>builtins\<close>; no property depends on it.
\<close>

datatype json =
    JNull
  | JBool bool
  | JNum real
  | JStr string
  | JList "json list"
  | JDict "(string \<times> json) list"

type_synonym payload = "(string \<times> json) list"

record builtins =
  bi_float :: "string \<Rightarrow> real option"
  bi_str :: "json \<Rightarrow> string"

fun truthy :: "json \<Rightarrow> bool" where
  "truthy JNull = False"
| "truthy (JBool b) = b"
| "truthy (JNum x) = (x \<noteq> 0)"
| "truthy (JStr s) = (s \<noteq> [])"
| "truthy (JList xs) = (xs \<noteq> [])"
| "truthy (JDict d) = (d \<noteq> [])"

text \<open>\<^verbatim>\<open>a or b\<close>\<close>

definition json_or :: "json \<Rightarrow> json \<Rightarrow> json" where
  "json_or a b = (if truthy a then a else b)"

definition jget :: "string \<Rightarrow> payload \<Rightarrow> json" where
  "jget key d = (case map_of d key of None \<Rightarrow> JNull | Some v \<Rightarrow> v)"

text \<open>\<^verbatim>\<open>float(v)\<close>; \<^const>\<open>None\<close> is its \<^verbatim>\<open>TypeError\<close> or \<^verbatim>\<open>ValueError\<close>.\<close>

fun to_float :: "builtins \<Rightarrow> json \<Rightarrow> real option" where
  "to_float bi (JNum x) = Some x"
| "to_float bi (JBool b) = Some (if b then 1 else 0)"
| "to_float bi (JStr s) = bi_float bi s"
| "to_float bi _ = None"

fun to_str :: "builtins \<Rightarrow> json \<Rightarrow> string" where
  "to_str bi (JStr s) = s"
| "to_str bi v = bi_str bi v"

definition float_or_raise :: "builtins \<Rightarrow> json \<Rightarrow> py_error + real" where
  "float_or_raise bi v = (case to_float bi v of None \<Rightarrow> Inl ValueError | Some x \<Rightarrow> Inr x)"

abbreviation attribute_error :: py_error where
  "attribute_error \<equiv> ExternalError ''AttributeError''"

text \<open>\<^verbatim>\<open>(v or {})\<close> used as a dict: anything else that is truthy has no \<^verbatim>\<open>get\<close>.\<close>

definition dict_or_raise :: "json \<Rightarrow> py_error + payload" where
  "dict_or_raise v = (if \<not> truthy v then Inr [] else case v of JDict d \<Rightarrow> Inr d | _ \<Rightarrow> Inl attribute_error)"

text \<open>\<^verbatim>\<open>x if isinstance(x, dict) else {}\<close>\<close>

definition dict_else_empty :: "json \<Rightarrow> payload" where
  "dict_else_empty v = (case v of JDict d \<Rightarrow> d | _ \<Rightarrow> [])"

lemma json_or_simps [simp]: "json_or JNull b = b" "json_or (JNum 0) b = b" "truthy a \<Longrightarrow> json_or a b = a"
  by (simp_all add: json_or_def)

lemma jget_simps [simp]: "jget k [] = JNull" "jget k ((k', v) # d) = (if k' = k then v else jget k d)"
  by (simp_all add: jget_def)

end
