(* ===== verification/Venue_Orders.thy ===== *)
theory Venue_Orders
  imports Json
begin

text \<open>
  How a ccxt venue is spoken to: the order settings of \<^verbatim>\<open>src/src/core/config.py\<close>
  (\<^verbatim>\<open>VenueOrderSettings\<close>), the client the executor relies on, the reading of order
  payloads (\<^verbatim>\<open>src/src/execution/ccxt_executor.py\<close>) and the venue-side protective orders
  (\<^verbatim>\<open>src/src/execution/protective_orders.py\<close>).

  The venue is a state of an arbitrary type \<open>'v\<close>; every call of the client may change it and
  answers with a payload or an exception, so a theorem about the executor holds for every
  behaviour of the venue. Logging, and the set that only limits how often a placement
  failure is logged, are left out. Times of one call come from \<open>venue_env\<close>. The answers of
  \<^verbatim>\<open>create_order\<close> and \<^verbatim>\<open>fetch_order\<close> for an algo order are dictionaries (or empty), as ccxt documents;
  elsewhere a payload of another shape is handled as the source does.
\<close>

section \<open>Settings\<close>

record venue_order_settings =
  vs_entry_offset_pct :: real
  vs_exit_order_type :: string
  vs_exit_offset_pct :: real
  vs_order_ttl_seconds :: real
  vs_fill_confirm_delay_seconds :: real
  vs_protective_orders :: bool

definition default_venue_order_settings :: venue_order_settings where
  "default_venue_order_settings =
     \<lparr>vs_entry_offset_pct = 2 / 1000, vs_exit_order_type = ''market'', vs_exit_offset_pct = 5 / 1000,
      vs_order_ttl_seconds = 600, vs_fill_confirm_delay_seconds = 1, vs_protective_orders = False\<rparr>"

definition check_venue_order_settings :: "venue_order_settings \<Rightarrow> py_error + venue_order_settings" where
  "check_venue_order_settings s =
     (if vs_exit_order_type s \<notin> {''market'', ''limit''} then Inl ValueError
      else if \<not> (0 \<le> vs_entry_offset_pct s \<and> vs_entry_offset_pct s < 5 / 100) then Inl ValueError
      else if \<not> (0 \<le> vs_exit_offset_pct s \<and> vs_exit_offset_pct s < 5 / 100) then Inl ValueError
      else if vs_order_ttl_seconds s < 0 then Inl ValueError
      else if vs_fill_confirm_delay_seconds s < 0 then Inl ValueError
      else Inr s)"

section \<open>The client\<close>

text \<open>\<open>cl_fetch_order\<close> and \<open>cl_load_markets\<close> are optional attributes; the last argument of cancel and
  fetch says whether the order is an algo (trigger) order. The precision helpers answer
  \<^const>\<open>None\<close> when they raise.\<close>

record 'v ccxt_client =
  cl_create_order :: "'v \<Rightarrow> symbol \<Rightarrow> string \<Rightarrow> string \<Rightarrow> real \<Rightarrow> real option \<Rightarrow> payload \<Rightarrow> 'v \<times> (py_error + json)"
  cl_cancel_order :: "'v \<Rightarrow> string \<Rightarrow> symbol \<Rightarrow> bool \<Rightarrow> 'v \<times> (py_error + json)"
  cl_fetch_order :: "('v \<Rightarrow> string \<Rightarrow> symbol \<Rightarrow> bool \<Rightarrow> 'v \<times> (py_error + json)) option"
  cl_fetch_balance :: "'v \<Rightarrow> 'v \<times> (py_error + json)"
  cl_fetch_free_balance :: "'v \<Rightarrow> 'v \<times> (py_error + json)"
  cl_load_markets :: "('v \<Rightarrow> 'v \<times> (py_error + json)) option"
  cl_markets :: "'v \<Rightarrow> json"
  cl_amount_to_precision :: "('v \<Rightarrow> symbol \<Rightarrow> real \<Rightarrow> real option) option"
  cl_price_to_precision :: "('v \<Rightarrow> symbol \<Rightarrow> real \<Rightarrow> real option) option"
  cl_list_orders :: "'v \<Rightarrow> string \<Rightarrow> symbol \<Rightarrow> string \<Rightarrow> 'v \<times> (py_error + json)"
  cl_fetch_trading_fee :: "('v \<Rightarrow> symbol \<Rightarrow> 'v \<times> (py_error + json)) option"
  cl_builtins :: builtins

record venue_env =
  ve_now :: instant
  ve_reject_id :: string
  ve_client_id :: string

definition fetch_order :: "'v ccxt_client \<Rightarrow> 'v \<Rightarrow> string \<Rightarrow> symbol \<Rightarrow> bool \<Rightarrow> 'v \<times> (py_error + json)" where
  "fetch_order cl v oid s algo =
     (case cl_fetch_order cl of None \<Rightarrow> (v, Inl attribute_error) | Some f \<Rightarrow> f v oid s algo)"

section \<open>Order payloads\<close>

definition status_map :: "(string, order_status) dict" where
  "status_map =
     [(''closed'', FILLED), (''open'', PENDING), (''pending'', PENDING), (''canceled'', CANCELLED),
      (''cancelled'', CANCELLED), (''expired'', CANCELLED), (''rejected'', ORDER_REJECTED)]"

text \<open>\<^verbatim>\<open>symbol.split("/")\<close>, its base and quote halves.\<close>

definition base_currency :: "symbol \<Rightarrow> string" where
  "base_currency s = (if s = [] then [] else upper (strip (takeWhile (\<lambda>c. c \<noteq> CHR ''/'') s)))"

definition quote_part :: "symbol \<Rightarrow> string" where
  "quote_part s =
     (if CHR ''/'' \<in> set s
      then upper (takeWhile (\<lambda>c. c \<noteq> CHR ''/'') (tl (dropWhile (\<lambda>c. c \<noteq> CHR ''/'') s))) else [])"

definition fee_entries :: "payload \<Rightarrow> json list" where
  "fee_entries raw =
     (case jget ''fees'' raw of
        JList (x # xs) \<Rightarrow> x # xs
      | _ \<Rightarrow> (case jget ''fee'' raw of JDict d \<Rightarrow> [JDict d] | _ \<Rightarrow> []))"

definition fee_entry :: "builtins \<Rightarrow> symbol \<Rightarrow> json \<Rightarrow> real \<times> real \<Rightarrow> real \<times> real" where
  "fee_entry bi s e acc =
     (case e of
        JDict d \<Rightarrow>
          (case to_float bi (json_or (jget ''cost'' d) (JNum 0)) of
             None \<Rightarrow> acc
           | Some cost \<Rightarrow>
               if cost \<le> 0 then acc
               else let currency = upper (to_str bi (json_or (jget ''currency'' d) (JStr [])));
                        base = base_currency s; q = quote_part s
                    in if base \<noteq> [] \<and> currency = base then (fst acc + cost, snd acc)
                       else if q \<noteq> [] \<and> currency = q then (fst acc, snd acc + cost)
                       else acc)
      | _ \<Rightarrow> acc)"

definition fee_components :: "builtins \<Rightarrow> payload \<Rightarrow> symbol \<Rightarrow> real \<times> real" where
  "fee_components bi raw s = fold (fee_entry bi s) (fee_entries raw) (0, 0)"

definition none_if_zero :: "real \<Rightarrow> real option" where
  "none_if_zero x = (if x = 0 then None else Some x)"

definition reported_fees :: "builtins \<Rightarrow> payload \<Rightarrow> symbol \<Rightarrow> real option \<times> real option" where
  "reported_fees bi raw s = (let (b, q) = fee_components bi raw s in (none_if_zero b, none_if_zero q))"

definition partial_fill_reason :: reason where
  "partial_fill_reason = OtherReason ''partially filled; remainder cancelled at the venue''"

definition ttl_reason :: reason where
  "ttl_reason = OtherReason ''unfilled after order_ttl_seconds; cancelled at the venue''"

definition raw_status :: "builtins \<Rightarrow> payload \<Rightarrow> order_status" where
  "raw_status bi raw =
     (case jget ''status'' raw of
        JNull \<Rightarrow> PENDING
      | v \<Rightarrow> (case map_of status_map (to_str bi v) of None \<Rightarrow> PENDING | Some st \<Rightarrow> st))"

definition raw_filled :: "builtins \<Rightarrow> payload \<Rightarrow> real" where
  "raw_filled bi raw =
     (case to_float bi (json_or (jget ''filled'' raw) (JNum 0)) of None \<Rightarrow> 0 | Some x \<Rightarrow> x)"

definition resolve_status ::
  "builtins \<Rightarrow> payload \<Rightarrow> real \<Rightarrow> py_error + order_status \<times> real \<times> reason option" where
  "resolve_status bi raw requested =
     (let status = raw_status bi raw; filled = raw_filled bi raw;
          amount = float_or_raise bi (json_or (jget ''amount'' raw) (JNum requested))
      in if status = FILLED
         then (if filled \<noteq> 0 then Inr (FILLED, filled, None)
               else case amount of Inl e \<Rightarrow> Inl e | Inr a \<Rightarrow> Inr (FILLED, a, None))
         else if status \<in> {CANCELLED, ORDER_REJECTED} \<and> filled > 0
         then Inr (FILLED, filled, Some partial_fill_reason)
         else case amount of Inl e \<Rightarrow> Inl e | Inr a \<Rightarrow> Inr (status, a, None))"

definition parse_ms_timestamp :: "builtins \<Rightarrow> json \<Rightarrow> instant option" where
  "parse_ms_timestamp bi v =
     (case to_float bi v of None \<Rightarrow> None | Some ms \<Rightarrow> if ms \<le> 0 then None else Some (round (ms * 1000)))"

fun first_time :: "builtins \<Rightarrow> payload \<Rightarrow> string list \<Rightarrow> instant \<Rightarrow> instant" where
  "first_time bi raw [] now = now"
| "first_time bi raw (k # ks) now =
     (case parse_ms_timestamp bi (jget k raw) of Some t \<Rightarrow> t | None \<Rightarrow> first_time bi raw ks now)"

definition fill_time :: "builtins \<Rightarrow> payload \<Rightarrow> instant \<Rightarrow> instant" where
  "fill_time bi raw now =
     first_time bi raw [''lastTradeTimestamp'', ''lastUpdateTimestamp'', ''updated'', ''closedAt'', ''timestamp''] now"

definition extract_quote_balance :: "builtins \<Rightarrow> json \<Rightarrow> string \<Rightarrow> real" where
  "extract_quote_balance bi balance q =
     (case balance of
        JNum x \<Rightarrow> x
      | JBool b \<Rightarrow> (if b then 1 else 0)
      | JDict d \<Rightarrow>
          let entry = (case jget q d of
                         JNull \<Rightarrow> (case find (\<lambda>kv. upper (fst kv) = upper q) d of None \<Rightarrow> JNull | Some kv \<Rightarrow> snd kv)
                       | e \<Rightarrow> e)
          in (case entry of
                JNum x \<Rightarrow> x
              | JBool b \<Rightarrow> (if b then 1 else 0)
              | JDict e \<Rightarrow>
                  (case to_float bi (case map_of e ''free'' of
                                       Some f \<Rightarrow> f
                                     | None \<Rightarrow> (case map_of e ''total'' of Some t \<Rightarrow> t | None \<Rightarrow> JNum 0)) of
                     None \<Rightarrow> 0 | Some x \<Rightarrow> x)
              | _ \<Rightarrow> 0)
      | _ \<Rightarrow> 0)"

section \<open>Protective orders\<close>

record protective_order =
  pv_algo_id :: string
  pv_symbol :: symbol
  pv_quantity :: real
  pv_stop_loss :: "real option"
  pv_take_profit :: "real option"

record triggered =
  tr_symbol :: symbol
  tr_algo_id :: string
  tr_child_id :: string
  tr_side_hit :: string
  tr_child :: payload

type_synonym live_orders = "(symbol, protective_order) dict"

definition matches :: "protective_order \<Rightarrow> real \<Rightarrow> real option \<Rightarrow> real option \<Rightarrow> bool" where
  "matches ord q sl tp \<longleftrightarrow>
     \<bar>pv_quantity ord - q\<bar> \<le> eps12 \<and> pv_stop_loss ord = sl \<and> pv_take_profit ord = tp"

definition triggered_reason :: "triggered \<Rightarrow> reason" where
  "triggered_reason t =
     OtherReason (if tr_side_hit t = ''sl'' then ''venue stop-loss''
                  else if tr_side_hit t = ''tp'' then ''venue take-profit'' else ''venue protective order'')"

definition client_id_prefix :: string where
  "client_id_prefix = ''taprot''"

definition info_of :: "payload \<Rightarrow> payload" where
  "info_of raw = dict_else_empty (jget ''info'' raw)"

definition is_ours :: "builtins \<Rightarrow> payload \<Rightarrow> bool" where
  "is_ours bi raw =
     (let v = json_or (json_or (jget ''algoClOrdId'' (info_of raw)) (jget ''clientOrderId'' raw)) (JStr [])
      in take (length client_id_prefix) (to_str bi v) = client_id_prefix)"

definition algo_state :: "builtins \<Rightarrow> payload \<Rightarrow> string" where
  "algo_state bi raw = to_str bi (json_or (jget ''state'' (info_of raw)) (JStr []))"

definition first_of_list :: "json \<Rightarrow> json" where
  "first_of_list v =
     (case v of JList (x # xs) \<Rightarrow> x | JStr (c # cs) \<Rightarrow> JStr [c] | JDict ((k, x) # d) \<Rightarrow> JStr k | _ \<Rightarrow> JStr [])"

definition child_id :: "builtins \<Rightarrow> payload \<Rightarrow> string" where
  "child_id bi raw =
     to_str bi (json_or (json_or (jget ''ordId'' (info_of raw)) (first_of_list (jget ''ordIdList'' (info_of raw))))
       (JStr []))"

definition dead_states :: "string set" where
  "dead_states = {''canceled'', ''order_failed''}"

definition opt_param :: "string \<Rightarrow> real option \<Rightarrow> payload" where
  "opt_param k v = (case v of None \<Rightarrow> [] | Some x \<Rightarrow> [(k, JNum x)])"

text \<open>\<open>price\<close> is the executor's rounding of a price to the venue's tick.\<close>

definition protect_place ::
  "'v ccxt_client \<Rightarrow> ('v \<Rightarrow> symbol \<Rightarrow> real \<Rightarrow> real) \<Rightarrow> venue_env \<Rightarrow> symbol \<Rightarrow> real \<Rightarrow> real option \<Rightarrow> real option \<Rightarrow>
   'v \<Rightarrow> live_orders \<Rightarrow> 'v \<times> live_orders" where
  "protect_place cl price env s q sl tp v live =
     (let params = [(''tdMode'', JStr ''cash''), (''algoClOrdId'', JStr (client_id_prefix @ ve_client_id env))]
                   @ opt_param ''stopLossPrice'' (map_option (price v s) sl)
                   @ opt_param ''takeProfitPrice'' (map_option (price v s) tp);
          kind = (if sl \<noteq> None \<and> tp \<noteq> None then ''oco'' else ''conditional'')
      in case cl_create_order cl v s kind ''sell'' q None params of
           (v1, Inl e) \<Rightarrow> (v1, live)
         | (v1, Inr raw) \<Rightarrow>
             (v1, AList.update s \<lparr>pv_algo_id = to_str (cl_builtins cl) (json_or (jget ''id'' (dict_else_empty raw)) (JStr [])),
                pv_symbol = s, pv_quantity = q, pv_stop_loss = sl, pv_take_profit = tp\<rparr> live))"

definition protect_state :: "'v ccxt_client \<Rightarrow> protective_order \<Rightarrow> 'v \<Rightarrow> 'v \<times> string" where
  "protect_state cl ord v =
     (case fetch_order cl v (pv_algo_id ord) (pv_symbol ord) True of
        (v1, Inl e) \<Rightarrow> (v1, [])
      | (v1, Inr raw) \<Rightarrow> (v1, algo_state (cl_builtins cl) (dict_else_empty raw)))"

text \<open>The payload of the algo order, given or fetched; \<^const>\<open>None\<close> when the fetch raised.\<close>

definition check_algo :: "'v ccxt_client \<Rightarrow> protective_order \<Rightarrow> payload option \<Rightarrow> 'v \<Rightarrow> 'v \<times> payload option" where
  "check_algo cl ord given v =
     (case given of
        Some p \<Rightarrow> (v, Some p)
      | None \<Rightarrow> (case fetch_order cl v (pv_algo_id ord) (pv_symbol ord) True of
                  (v1, Inl e) \<Rightarrow> (v1, None) | (v1, Inr raw) \<Rightarrow> (v1, Some (dict_else_empty raw))))"

text \<open>The child's fill amount is parsed outside the guarded part, so an unreadable one raises.\<close>

definition protect_check ::
  "'v ccxt_client \<Rightarrow> protective_order \<Rightarrow> payload option \<Rightarrow> 'v \<Rightarrow> 'v \<times> (py_error + triggered option)" where
  "protect_check cl ord given v =
     (let bi = cl_builtins cl
      in case check_algo cl ord given v of
           (v1, None) \<Rightarrow> (v1, Inr None)
         | (v1, Some algo) \<Rightarrow>
             let cid = child_id bi algo
             in if algo_state bi algo \<noteq> ''effective'' \<or> cid = [] then (v1, Inr None)
                else case fetch_order cl v1 cid (pv_symbol ord) False of
                       (v2, Inl e) \<Rightarrow> (v2, Inr None)
                     | (v2, Inr (JDict child)) \<Rightarrow>
                         (case float_or_raise bi (json_or (jget ''filled'' child) (JNum 0)) of
                            Inl e \<Rightarrow> (v2, Inl e)
                          | Inr filled \<Rightarrow>
                              if filled = 0 then (v2, Inr None)
                              else (v2, Inr (Some
                                \<lparr>tr_symbol = pv_symbol ord, tr_algo_id = pv_algo_id ord, tr_child_id = cid,
                                 tr_side_hit = to_str bi (json_or (jget ''actualSide'' (info_of algo)) (JStr [])),
                                 tr_child = child\<rparr>)))
                     | (v2, Inr _) \<Rightarrow> (v2, Inr None))"

definition protect_cancel ::
  "'v ccxt_client \<Rightarrow> symbol \<Rightarrow> 'v \<Rightarrow> live_orders \<Rightarrow> ('v \<times> live_orders) \<times> (py_error + triggered option)" where
  "protect_cancel cl s v live =
     (case map_of live s of
        None \<Rightarrow> ((v, live), Inr None)
      | Some ord \<Rightarrow>
          let live1 = AList.delete s live
          in case cl_cancel_order cl v (pv_algo_id ord) s True of
               (v1, Inr ok) \<Rightarrow> ((v1, live1), Inr None)
             | (v1, Inl e) \<Rightarrow>
                 (case protect_check cl ord None v1 of
                    (v2, Inl e2) \<Rightarrow> ((v2, live1), Inl e2)
                  | (v2, Inr (Some t)) \<Rightarrow> ((v2, live1), Inr (Some t))
                  | (v2, Inr None) \<Rightarrow>
                      if map_of live1 (pv_symbol ord) \<noteq> None then ((v2, live1), Inr None)
                      else let (v3, state) = protect_state cl ord v2
                           in if state \<noteq> [] \<and> state \<notin> dead_states \<and> state \<noteq> ''effective''
                              then ((v3, AList.update s ord live1), Inr None)
                              else ((v3, live1), Inr None)))"

fun protect_poll ::
  "'v ccxt_client \<Rightarrow> (symbol \<times> protective_order) list \<Rightarrow> triggered list \<Rightarrow> 'v \<Rightarrow> live_orders \<Rightarrow>
   ('v \<times> live_orders) \<times> (py_error + triggered list)" where
  "protect_poll cl [] fired v live = ((v, live), Inr fired)"
| "protect_poll cl ((s, ord) # rest) fired v live =
     (let (v1, state) = protect_state cl ord v
      in if state = ''effective''
         then (case protect_check cl ord None v1 of
                 (v2, Inl e) \<Rightarrow> ((v2, live), Inl e)
               | (v2, Inr None) \<Rightarrow> protect_poll cl rest fired v2 live
               | (v2, Inr (Some t)) \<Rightarrow> protect_poll cl rest (fired @ [t]) v2 (AList.delete s live))
         else if state \<in> dead_states then protect_poll cl rest fired v1 (AList.delete s live)
         else protect_poll cl rest fired v1 live)"

text \<open>\<^verbatim>\<open>_listed\<close>: the dictionaries among what the two listings return.\<close>

definition listed_rows :: "json \<Rightarrow> payload list" where
  "listed_rows v =
     (case v of JList xs \<Rightarrow> List.map_filter (\<lambda>x. case x of JDict d \<Rightarrow> Some d | _ \<Rightarrow> None) xs | _ \<Rightarrow> [])"

fun protect_listed ::
  "'v ccxt_client \<Rightarrow> string \<Rightarrow> symbol \<Rightarrow> string list \<Rightarrow> payload list \<Rightarrow> 'v \<Rightarrow> 'v \<times> payload list" where
  "protect_listed cl meth s [] rows v = (v, rows)"
| "protect_listed cl meth s (kind # kinds) rows v =
     (case cl_list_orders cl v meth s kind of
        (v1, Inl e) \<Rightarrow> protect_listed cl meth s kinds rows v1
      | (v1, Inr listed) \<Rightarrow> protect_listed cl meth s kinds (rows @ listed_rows listed) v1)"

fun adopt_fired ::
  "'v ccxt_client \<Rightarrow> symbol \<Rightarrow> string list \<Rightarrow> payload list \<Rightarrow> triggered list \<Rightarrow> 'v \<Rightarrow> 'v \<times> (py_error + triggered list)" where
  "adopt_fired cl s known [] fired v = (v, Inr fired)"
| "adopt_fired cl s known (raw # rest) fired v =
     (let bi = cl_builtins cl; cid = child_id bi raw
      in if \<not> is_ours bi raw \<or> algo_state bi raw \<noteq> ''effective'' \<or> cid = [] \<or> cid \<in> set known
         then adopt_fired cl s known rest fired v
         else case protect_check cl \<lparr>pv_algo_id = to_str bi (json_or (jget ''id'' raw) (JStr [])), pv_symbol = s,
                     pv_quantity = 0, pv_stop_loss = None, pv_take_profit = None\<rparr> (Some raw) v of
                (v1, Inl e) \<Rightarrow> (v1, Inl e)
              | (v1, Inr None) \<Rightarrow> adopt_fired cl s known rest fired v1
              | (v1, Inr (Some t)) \<Rightarrow> adopt_fired cl s known rest (fired @ [t]) v1)"

fun adopt_cancel :: "'v ccxt_client \<Rightarrow> symbol \<Rightarrow> payload list \<Rightarrow> 'v \<Rightarrow> 'v" where
  "adopt_cancel cl s [] v = v"
| "adopt_cancel cl s (raw # rest) v =
     (if is_ours (cl_builtins cl) raw
      then adopt_cancel cl s rest (fst (cl_cancel_order cl v (to_str (cl_builtins cl) (jget ''id'' raw)) s True))
      else adopt_cancel cl s rest v)"

fun protect_adopt ::
  "'v ccxt_client \<Rightarrow> symbol list \<Rightarrow> string list \<Rightarrow> triggered list \<Rightarrow> 'v \<Rightarrow> 'v \<times> (py_error + triggered list)" where
  "protect_adopt cl [] known fired v = (v, Inr fired)"
| "protect_adopt cl (s # ss) known fired v =
     (let (v1, closed) = protect_listed cl ''fetch_closed_orders'' s [''oco'', ''conditional''] [] v
      in case adopt_fired cl s known closed fired v1 of
           (v2, Inl e) \<Rightarrow> (v2, Inl e)
         | (v2, Inr fired1) \<Rightarrow>
             let (v3, live) = protect_listed cl ''fetch_open_orders'' s [''oco'', ''conditional''] [] v2
             in protect_adopt cl ss known fired1 (adopt_cancel cl s live v3))"

end
