(* ===== verification/Ccxt_Executor.thy ===== *)
theory Ccxt_Executor
  imports Venue_Orders
begin

text \<open>
  The spot executor for a ccxt exchange, \<^verbatim>\<open>src/src/execution/ccxt_executor.py\<close>: venue orders from
  reference prices, the confirmation poll, the FIFO ledger fed by confirmed fills, the
  reconciliation of orders left open, and the protective orders kept in line with the ledger.

  \<open>ccxt\<close> is the object's attributes, with the venue's own state in \<open>cx_venue_state\<close>. An operation
  returns the executor afterwards and its answer or exception; what it had already done before
  an exception stays done.
\<close>

record venue_order =
  vo_symbol :: symbol
  vo_side :: order_side
  vo_quantity :: real
  vo_decision_id :: "int option"
  vo_stop_loss :: "real option"
  vo_take_profit :: "real option"
  vo_resolved :: "order_result option"
  vo_placed_at :: "instant option"
  vo_price :: "real option"

record 'v ccxt =
  cx_venue_state :: 'v
  cx_quote :: string
  cx_venue :: string
  cx_settings :: venue_order_settings
  cx_order_symbols :: "(string, symbol) dict"
  cx_open_orders :: "(string, venue_order) dict"
  cx_marks :: "(symbol, real) dict"
  cx_tracker :: tracker
  cx_exit_levels :: "(symbol, exit_levels) dict"
  cx_markets :: payload
  cx_protection :: "live_orders option"
  cx_known_order_ids :: "string list"

definition new_ccxt :: "'v \<Rightarrow> string \<Rightarrow> string \<Rightarrow> venue_order_settings \<Rightarrow> 'v ccxt" where
  "new_ccxt v q venue settings =
     \<lparr>cx_venue_state = v, cx_quote = q, cx_venue = venue, cx_settings = settings, cx_order_symbols = [],
      cx_open_orders = [], cx_marks = [], cx_tracker = new_tracker, cx_exit_levels = [], cx_markets = [],
      cx_protection = (if vs_protective_orders settings then Some [] else None), cx_known_order_ids = []\<rparr>"

definition buy_price_factor :: "'v ccxt \<Rightarrow> real" where
  "buy_price_factor x = 1 + vs_entry_offset_pct (cx_settings x)"

section \<open>Market metadata\<close>

text \<open>The markets are kept once found; a failing load leaves them unknown.\<close>

definition nonempty_dict :: "json \<Rightarrow> payload option" where
  "nonempty_dict v = (case v of JDict (kv # d) \<Rightarrow> Some (kv # d) | _ \<Rightarrow> None)"

definition ensure_markets :: "'v ccxt_client \<Rightarrow> 'v ccxt \<Rightarrow> 'v ccxt" where
  "ensure_markets cl x =
     (if cx_markets x \<noteq> [] then x
      else case nonempty_dict (cl_markets cl (cx_venue_state x)) of
             Some d \<Rightarrow> x\<lparr>cx_markets := d\<rparr>
           | None \<Rightarrow>
               (case cl_load_markets cl of
                  None \<Rightarrow> x
                | Some load \<Rightarrow>
                    (case load (cx_venue_state x) of
                       (v, Inl e) \<Rightarrow> x\<lparr>cx_venue_state := v\<rparr>
                     | (v, Inr loaded) \<Rightarrow>
                         (case nonempty_dict (cl_markets cl v) of
                            Some d \<Rightarrow> x\<lparr>cx_venue_state := v, cx_markets := d\<rparr>
                          | None \<Rightarrow> (case nonempty_dict loaded of
                                       Some d \<Rightarrow> x\<lparr>cx_venue_state := v, cx_markets := d\<rparr>
                                     | None \<Rightarrow> x\<lparr>cx_venue_state := v\<rparr>)))))"

definition min_amount :: "'v ccxt_client \<Rightarrow> 'v ccxt \<Rightarrow> symbol \<Rightarrow> real" where
  "min_amount cl x s =
     (case jget s (cx_markets x) of
        JDict m \<Rightarrow>
          (let amount = dict_else_empty (jget ''amount'' (dict_else_empty (jget ''limits'' m)))
           in case to_float (cl_builtins cl) (json_or (jget ''min'' amount) (JNum 0)) of
                None \<Rightarrow> 0 | Some v \<Rightarrow> v)
      | _ \<Rightarrow> 0)"

definition is_dust :: "'v ccxt_client \<Rightarrow> 'v ccxt \<Rightarrow> symbol \<Rightarrow> real \<Rightarrow> bool" where
  "is_dust cl x s q \<longleftrightarrow> q \<le> eps12 \<or> q < min_amount cl x s"

definition known_market :: "'v ccxt \<Rightarrow> symbol \<Rightarrow> bool" where
  "known_market x s \<longleftrightarrow> (case jget s (cx_markets x) of JDict m \<Rightarrow> True | _ \<Rightarrow> False)"

definition amount_to_precision :: "'v ccxt_client \<Rightarrow> 'v ccxt \<Rightarrow> symbol \<Rightarrow> real \<Rightarrow> real" where
  "amount_to_precision cl x s q =
     (case cl_amount_to_precision cl of
        None \<Rightarrow> q
      | Some convert \<Rightarrow>
          if \<not> known_market x s then q
          else case convert (cx_venue_state x) s q of None \<Rightarrow> 0 | Some r \<Rightarrow> r)"

definition price_to_precision :: "'v ccxt_client \<Rightarrow> 'v ccxt \<Rightarrow> 'v \<Rightarrow> symbol \<Rightarrow> real \<Rightarrow> real" where
  "price_to_precision cl x v s p =
     (case cl_price_to_precision cl of
        None \<Rightarrow> p
      | Some convert \<Rightarrow>
          if \<not> known_market x s then p
          else case convert v s p of None \<Rightarrow> p | Some r \<Rightarrow> r)"

definition write_off_dust :: "'v ccxt_client \<Rightarrow> symbol \<Rightarrow> 'v ccxt \<Rightarrow> 'v ccxt" where
  "write_off_dust cl s x =
     (let q = quantity (cx_tracker x) s
      in if 0 < q \<and> is_dust cl x s q
         then x\<lparr>cx_tracker := fst (discard (cx_tracker x) s), cx_exit_levels := AList.delete s (cx_exit_levels x)\<rparr>
         else x)"

section \<open>Booking fills\<close>

definition record_fill ::
  "'v ccxt_client \<Rightarrow> symbol \<Rightarrow> order_side \<Rightarrow> real \<Rightarrow> real \<Rightarrow> int option \<Rightarrow> payload \<Rightarrow> 'v ccxt \<Rightarrow>
   'v ccxt \<times> real option \<times> closed_entry list" where
  "record_fill cl s side filled price did raw x =
     (let (base_fee, quote_fee) = fee_components (cl_builtins cl) raw s;
          (t, outcome) = book_fill (cx_tracker x) s (side_value side) filled price base_fee quote_fee did;
          x1 = x\<lparr>cx_tracker := t\<rparr>
      in if side = S_BUY then (x1, None, [])
         else case outcome of
                None \<Rightarrow> (x1, None, [])
              | Some out \<Rightarrow> (write_off_dust cl s x1, Some (so_net_pnl out), so_closed_entries out))"

text \<open>An order result with the fill booked into it.\<close>

definition booked_result ::
  "'v ccxt_client \<Rightarrow> order_result \<Rightarrow> real \<Rightarrow> int option \<Rightarrow> payload \<Rightarrow> 'v ccxt \<Rightarrow> 'v ccxt \<times> order_result" where
  "booked_result cl res price did raw x =
     (let (fb, fq) = reported_fees (cl_builtins cl) raw (o_symbol res);
          (x1, v, entries) = record_fill cl (o_symbol res) (o_side res) (o_quantity res) price did raw x
      in (x1, res\<lparr>o_fee_base := fb, o_fee_quote := fq, o_realized_pnl := v, o_closed_entries := entries\<rparr>))"

definition plain_result ::
  "string \<Rightarrow> symbol \<Rightarrow> order_side \<Rightarrow> real \<Rightarrow> real option \<Rightarrow> order_status \<Rightarrow> instant option \<Rightarrow> reason option \<Rightarrow>
   order_result" where
  "plain_result oid s side q price status filled_at why =
     \<lparr>o_order_id = oid, o_symbol = s, o_side = side, o_quantity = q, o_price = price, o_status = status,
      o_filled_at = filled_at, o_reason = why, o_realized_pnl = None, o_closed_entries = [],
      o_fee_base = None, o_fee_quote = None\<rparr>"

text \<open>\<^verbatim>\<open>float(p) if p is not None else None\<close>\<close>

definition optional_float :: "builtins \<Rightarrow> json \<Rightarrow> py_error + real option" where
  "optional_float bi v =
     (if v = JNull then Inr None else case float_or_raise bi v of Inl e \<Rightarrow> Inl e | Inr p \<Rightarrow> Inr (Some p))"

section \<open>Working orders\<close>

definition working_order_sides :: "'v ccxt \<Rightarrow> symbol \<Rightarrow> order_side set" where
  "working_order_sides x s =
     set (List.map_filter (\<lambda>(oid, p). if vo_symbol p = s \<and> vo_resolved p = None then Some (vo_side p) else None)
       (cx_open_orders x))"

definition pending_entry_decision_ids :: "'v ccxt \<Rightarrow> symbol \<Rightarrow> int option list" where
  "pending_entry_decision_ids x s =
     List.map_filter (\<lambda>(oid, p). if vo_symbol p = s \<and> vo_side p = S_BUY \<and> vo_resolved p = None
       then Some (vo_decision_id p) else None) (cx_open_orders x)"

definition pending_decision_id :: "'v ccxt \<Rightarrow> string \<Rightarrow> int option" where
  "pending_decision_id x oid =
     (case map_of (cx_open_orders x) oid of None \<Rightarrow> None | Some p \<Rightarrow> vo_decision_id p)"

definition cx_pending_buy_value :: "'v ccxt \<Rightarrow> real" where
  "cx_pending_buy_value x =
     dict_sum (\<lambda>p. case vo_price p of
         None \<Rightarrow> 0
       | Some price \<Rightarrow> if vo_side p = S_BUY \<and> vo_resolved p = None then vo_quantity p * price else 0)
       (cx_open_orders x)"

definition cx_entry_decision_ids :: "'v ccxt \<Rightarrow> symbol \<Rightarrow> int option list" where
  "cx_entry_decision_ids x s = entry_decision_ids (cx_tracker x) s"

definition confirm_reconciled :: "string \<Rightarrow> 'v ccxt \<Rightarrow> 'v ccxt" where
  "confirm_reconciled oid x =
     (case map_of (cx_open_orders x) oid of
        None \<Rightarrow> x
      | Some p \<Rightarrow> if vo_resolved p = None then x
                  else x\<lparr>cx_open_orders := AList.delete oid (cx_open_orders x)\<rparr>)"

section \<open>Protective orders and the ledger\<close>

definition book_triggered ::
  "'v ccxt_client \<Rightarrow> venue_env \<Rightarrow> triggered \<Rightarrow> 'v ccxt \<Rightarrow> 'v ccxt \<times> py_error option" where
  "book_triggered cl env t x =
     (let bi = cl_builtins cl; raw = tr_child t; s = tr_symbol t; cid = tr_child_id t
      in if cid \<in> set (cx_known_order_ids x) then (x, None)
         else let x1 = x\<lparr>cx_known_order_ids := cid # cx_known_order_ids x\<rparr>
              in case float_or_raise bi (json_or (jget ''filled'' raw) (JNum 0)) of
                   Inl e \<Rightarrow> (x1, Some e)
                 | Inr filled \<Rightarrow>
                     (case optional_float bi (json_or (jget ''average'' raw) (jget ''price'' raw)) of
                        Inl e \<Rightarrow> (x1, Some e)
                      | Inr price \<Rightarrow>
                          let res = plain_result cid s S_SELL filled price FILLED
                                      (Some (fill_time bi raw (ve_now env))) (Some (triggered_reason t));
                              (x2, res1) = (case price of None \<Rightarrow> (x1, res)
                                                        | Some p \<Rightarrow> booked_result cl res p None raw x1);
                              x3 = (if quantity (cx_tracker x2) s \<le> 0
                                    then x2\<lparr>cx_exit_levels := AList.delete s (cx_exit_levels x2)\<rparr> else x2)
                          in (x3\<lparr>cx_order_symbols := AList.update cid s (cx_order_symbols x3),
                                 cx_open_orders := AList.update cid
                                   \<lparr>vo_symbol = s, vo_side = S_SELL, vo_quantity = filled, vo_decision_id = None,
                                    vo_stop_loss = None, vo_take_profit = None, vo_resolved = Some res1,
                                    vo_placed_at = None, vo_price = None\<rparr> (cx_open_orders x3)\<rparr>, None)))"

definition exit_levels_of :: "'v ccxt \<Rightarrow> symbol \<Rightarrow> exit_levels" where
  "exit_levels_of x s = (case map_of (cx_exit_levels x) s of None \<Rightarrow> (None, None) | Some l \<Rightarrow> l)"

text \<open>Withdrawing the protective order of a symbol through the executor.\<close>

definition cancel_protection ::
  "'v ccxt_client \<Rightarrow> symbol \<Rightarrow> live_orders \<Rightarrow> 'v ccxt \<Rightarrow> 'v ccxt \<times> (py_error + triggered option)" where
  "cancel_protection cl s live x =
     (case protect_cancel cl s (cx_venue_state x) live of
        ((v, live1), out) \<Rightarrow> (x\<lparr>cx_venue_state := v, cx_protection := Some live1\<rparr>, out))"

definition wanted_protection :: "'v ccxt_client \<Rightarrow> 'v ccxt \<Rightarrow> symbol \<Rightarrow> real \<times> bool" where
  "wanted_protection cl x s =
     (let q = amount_to_precision cl x s (quantity (cx_tracker x) s); (sl, tp) = exit_levels_of x s
      in (q, q > 0 \<and> \<not> is_dust cl x s q \<and> (sl \<noteq> None \<or> tp \<noteq> None)))"

definition place_protection ::
  "'v ccxt_client \<Rightarrow> venue_env \<Rightarrow> symbol \<Rightarrow> real \<Rightarrow> real option \<Rightarrow> real option \<Rightarrow> 'v ccxt \<Rightarrow> 'v ccxt" where
  "place_protection cl env s q sl tp x =
     (case cx_protection x of
        None \<Rightarrow> x
      | Some live \<Rightarrow>
          (case protect_place cl (price_to_precision cl x) env s q sl tp (cx_venue_state x) live of
             (v, live1) \<Rightarrow> x\<lparr>cx_venue_state := v, cx_protection := Some live1\<rparr>))"

text \<open>\<^verbatim>\<open>_sync_protection\<close> calls itself after a withdrawn order turned out to have fired; \<open>fuel\<close> bounds
  those calls, and one is enough because the withdrawn order is gone (lemma \<open>sync_fuel\<close> in
  \<open>Ccxt_Safety\<close>).\<close>

fun sync_protection ::
  "nat \<Rightarrow> 'v ccxt_client \<Rightarrow> venue_env \<Rightarrow> symbol \<Rightarrow> 'v ccxt \<Rightarrow> 'v ccxt \<times> py_error option" where
  "sync_protection fuel cl env s x =
     (case cx_protection x of
        None \<Rightarrow> (x, None)
      | Some live \<Rightarrow>
          if S_SELL \<in> working_order_sides x s then (x, None)
          else let (q, wanted) = wanted_protection cl x s; (sl, tp) = exit_levels_of x s
               in case map_of live s of
                    Some current \<Rightarrow>
                      if wanted \<and> matches current q sl tp then (x, None)
                      else (case cancel_protection cl s live x of
                              (x1, Inl e) \<Rightarrow> (x1, Some e)
                            | (x1, Inr None) \<Rightarrow> (if wanted then place_protection cl env s q sl tp x1 else x1, None)
                            | (x1, Inr (Some t)) \<Rightarrow>
                                (case book_triggered cl env t x1 of
                                   (x2, Some e) \<Rightarrow> (x2, Some e)
                                 | (x2, None) \<Rightarrow>
                                     (case fuel of 0 \<Rightarrow> (x2, None) | Suc n \<Rightarrow> sync_protection n cl env s x2)))
                  | None \<Rightarrow> (if wanted then place_protection cl env s q sl tp x else x, None))"

declare sync_protection.simps [simp del]

section \<open>Placing an order\<close>

definition order_terms ::
  "'v ccxt_client \<Rightarrow> 'v ccxt \<Rightarrow> symbol \<Rightarrow> order_side \<Rightarrow> real option \<Rightarrow> string \<times> real option" where
  "order_terms cl x s side price =
     (let cfg = cx_settings x; v = cx_venue_state x
      in case price of
           None \<Rightarrow> (''market'', None)
         | Some p \<Rightarrow>
             if side = S_SELL
             then if vs_exit_order_type cfg = ''market'' then (''market'', None)
                  else (''limit'', Some (price_to_precision cl x v s (p * (1 - vs_exit_offset_pct cfg))))
             else (''limit'', Some (price_to_precision cl x v s (p * (1 + vs_entry_offset_pct cfg)))))"

definition confirm_poll :: "'v ccxt_client \<Rightarrow> string \<Rightarrow> symbol \<Rightarrow> payload \<Rightarrow> 'v ccxt \<Rightarrow> 'v ccxt \<times> payload" where
  "confirm_poll cl oid s raw x =
     (case cl_fetch_order cl of
        None \<Rightarrow> (x, raw)
      | Some f \<Rightarrow>
          (case f (cx_venue_state x) oid s False of
             (v, Inr (JDict (kv # d))) \<Rightarrow> (x\<lparr>cx_venue_state := v\<rparr>, kv # d)
           | (v, _) \<Rightarrow> (x\<lparr>cx_venue_state := v\<rparr>, raw)))"

definition order_id_of :: "builtins \<Rightarrow> payload \<Rightarrow> py_error + string" where
  "order_id_of bi raw =
     (if truthy (jget ''id'' raw) then Inr (to_str bi (jget ''id'' raw))
      else case map_of raw ''info'' of
             None \<Rightarrow> Inr []
           | Some (JDict d) \<Rightarrow> Inr (to_str bi (json_or (jget ''id'' d) (JStr [])))
           | Some v \<Rightarrow> Inl attribute_error)"

definition refused_order :: "venue_env \<Rightarrow> symbol \<Rightarrow> order_side \<Rightarrow> real \<Rightarrow> real option \<Rightarrow> reason \<Rightarrow> order_result" where
  "refused_order env s side q price why =
     plain_result (''rejected-'' @ ve_reject_id env) s side q price ORDER_REJECTED None (Some why)"

text \<open>Before a SELL: the protective order is withdrawn, and booked if it had fired.\<close>

definition release_coins ::
  "'v ccxt_client \<Rightarrow> venue_env \<Rightarrow> symbol \<Rightarrow> order_side \<Rightarrow> 'v ccxt \<Rightarrow> 'v ccxt \<times> py_error option" where
  "release_coins cl env s side x =
     (case cx_protection x of
        None \<Rightarrow> (x, None)
      | Some live \<Rightarrow>
          if side \<noteq> S_SELL then (x, None)
          else case cancel_protection cl s live x of
                 (x1, Inl e) \<Rightarrow> (x1, Some e)
               | (x1, Inr None) \<Rightarrow> (x1, None)
               | (x1, Inr (Some t)) \<Rightarrow> book_triggered cl env t x1)"

text \<open>The amount that goes out, or why nothing does: a SELL never exceeds the ledger.\<close>

definition sendable_amount ::
  "'v ccxt_client \<Rightarrow> symbol \<Rightarrow> order_side \<Rightarrow> real \<Rightarrow> real \<Rightarrow> 'v ccxt \<Rightarrow> reason + real" where
  "sendable_amount cl s side q amount x =
     (let tracked = amount_to_precision cl x s (quantity (cx_tracker x) s);
          capped = (if side = S_SELL \<and> amount > tracked then tracked else amount)
      in if side = S_SELL \<and> tracked \<le> 0 then Inl (NoTrackedPosition s)
         else if capped \<le> 0 \<or> is_dust cl x s capped then Inl (BelowVenueMinimum q s)
         else Inr capped)"

definition or_real :: "real option \<Rightarrow> real option \<Rightarrow> json" where
  "or_real a b =
     (case a of
        Some v \<Rightarrow> if v \<noteq> 0 then JNum v else (case b of None \<Rightarrow> JNull | Some p \<Rightarrow> JNum p)
      | None \<Rightarrow> (case b of None \<Rightarrow> JNull | Some p \<Rightarrow> JNum p))"

definition or_real_option :: "real option \<Rightarrow> real option \<Rightarrow> real option" where
  "or_real_option a b = (case a of Some v \<Rightarrow> if v \<noteq> 0 then Some v else b | None \<Rightarrow> b)"

text \<open>What follows a resolved payload: the result, the ledger, the levels, the pending order.\<close>

definition settle_order ::
  "'v ccxt_client \<Rightarrow> venue_env \<Rightarrow> order_request \<Rightarrow> real \<Rightarrow> real option \<Rightarrow> string \<Rightarrow> payload \<Rightarrow>
   order_status \<times> real \<times> reason option \<Rightarrow> 'v ccxt \<Rightarrow> 'v ccxt \<times> (py_error + order_result)" where
  "settle_order cl env r amount limit_price oid raw resolution x =
     (let (status, filled, why) = resolution; bi = cl_builtins cl; s = rq_symbol r; side = rq_side r
      in case optional_float bi (json_or (jget ''average'' raw) (json_or (jget ''price'' raw) (or_real limit_price (rq_price r)))) of
           Inl e \<Rightarrow> (x, Inl e)
         | Inr fill_price \<Rightarrow>
             let res = plain_result oid s side filled fill_price status
                         (if status = FILLED then Some (fill_time bi raw (ve_now env)) else None) why
             in (case (status, fill_price) of
                   (FILLED, Some p) \<Rightarrow>
                     let (x1, res1) = booked_result cl res p (rq_decision_id r) raw x;
                         x2 = (if side = S_BUY
                               then x1\<lparr>cx_exit_levels := AList.update s (rq_stop_loss r, rq_take_profit r) (cx_exit_levels x1)\<rparr>
                               else x1);
                         x3 = (if quantity (cx_tracker x2) s \<le> 0
                               then x2\<lparr>cx_exit_levels := AList.delete s (cx_exit_levels x2)\<rparr> else x2)
                     in (case sync_protection 1 cl env s x3 of
                           (x4, Some e) \<Rightarrow> (x4, Inl e) | (x4, None) \<Rightarrow> (x4, Inr res1))
                 | (PENDING, _) \<Rightarrow>
                     (if oid = [] then x
                      else x\<lparr>cx_open_orders := AList.update oid
                        \<lparr>vo_symbol = s, vo_side = side, vo_quantity = amount, vo_decision_id = rq_decision_id r,
                         vo_stop_loss = rq_stop_loss r, vo_take_profit = rq_take_profit r, vo_resolved = None,
                         vo_placed_at = Some (ve_now env), vo_price = or_real_option limit_price (rq_price r)\<rparr>
                        (cx_open_orders x)\<rparr>, Inr res)
                 | _ \<Rightarrow> (x, Inr res)))"

definition send_order ::
  "'v ccxt_client \<Rightarrow> venue_env \<Rightarrow> order_request \<Rightarrow> real \<Rightarrow> 'v ccxt \<Rightarrow> 'v ccxt \<times> (py_error + order_result)" where
  "send_order cl env r amount x =
     (let s = rq_symbol r; bi = cl_builtins cl;
          (kind, limit_price) = order_terms cl x s (rq_side r) (rq_price r)
      in case cl_create_order cl (cx_venue_state x) s kind (side_value (rq_side r)) amount limit_price [] of
           (v, Inl e) \<Rightarrow> (x\<lparr>cx_venue_state := v\<rparr>, Inl e)
         | (v, Inr answer) \<Rightarrow>
             let x1 = x\<lparr>cx_venue_state := v\<rparr>
             in case dict_or_raise answer of
                  Inl e \<Rightarrow> (x1, Inl e)
                | Inr raw \<Rightarrow>
                    (case order_id_of bi raw of
                       Inl e \<Rightarrow> (x1, Inl e)
                     | Inr oid \<Rightarrow>
                         let x2 = x1\<lparr>cx_order_symbols := AList.update oid s (cx_order_symbols x1)\<rparr>
                         in case resolve_status bi raw amount of
                              Inl e \<Rightarrow> (x2, Inl e)
                            | Inr resolution \<Rightarrow>
                                if fst resolution = PENDING \<and> oid \<noteq> []
                                then (case confirm_poll cl oid s raw x2 of
                                        (x3, raw1) \<Rightarrow>
                                          (case resolve_status bi raw1 amount of
                                             Inl e \<Rightarrow> (x3, Inl e)
                                           | Inr resolution1 \<Rightarrow>
                                               settle_order cl env r amount limit_price oid raw1 resolution1 x3))
                                else settle_order cl env r amount limit_price oid raw resolution x2))"

definition cx_place_order ::
  "'v ccxt_client \<Rightarrow> venue_env \<Rightarrow> order_request \<Rightarrow> 'v ccxt \<Rightarrow> 'v ccxt \<times> (py_error + order_result)" where
  "cx_place_order cl env r x =
     (let x0 = ensure_markets cl x; s = rq_symbol r;
          amount = amount_to_precision cl x0 s (rq_quantity r)
      in case release_coins cl env s (rq_side r) x0 of
           (x1, Some e) \<Rightarrow> (x1, Inl e)
         | (x1, None) \<Rightarrow>
             (case sendable_amount cl s (rq_side r) (rq_quantity r) amount x1 of
                Inl why \<Rightarrow> (x1, Inr (refused_order env s (rq_side r) (rq_quantity r) (rq_price r) why))
              | Inr a \<Rightarrow> send_order cl env r a x1))"

section \<open>Restart\<close>

definition load_fills :: "fill_record list \<Rightarrow> 'v ccxt \<Rightarrow> 'v ccxt \<times> nat \<times> nat" where
  "load_fills fills x =
     (let (t, replayed, levels) = replay_fills new_tracker fills
      in (x\<lparr>cx_tracker := t, cx_exit_levels := levels,
            cx_known_order_ids := List.map_filter (\<lambda>f. case f_order_id f of
                None \<Rightarrow> None | Some oid \<Rightarrow> if oid = [] then None else Some oid) fills @ cx_known_order_ids x\<rparr>,
          replayed, length (symbols t)))"

definition load_pending :: "pending_order_record \<Rightarrow> 'v ccxt \<Rightarrow> 'v ccxt" where
  "load_pending p x =
     (if po_order_id p = [] then x
      else x\<lparr>cx_order_symbols := AList.update (po_order_id p) (po_symbol p) (cx_order_symbols x),
             cx_known_order_ids := po_order_id p # cx_known_order_ids x,
             cx_open_orders :=
               (case map_of (cx_open_orders x) (po_order_id p) of
                  Some old \<Rightarrow> cx_open_orders x
                | None \<Rightarrow> cx_open_orders x @ [(po_order_id p,
                    \<lparr>vo_symbol = po_symbol p, vo_side = po_side p, vo_quantity = po_quantity p,
                     vo_decision_id = po_decision_id p, vo_stop_loss = po_stop_loss p,
                     vo_take_profit = po_take_profit p, vo_resolved = None,
                     vo_placed_at = Some (po_placed_at p), vo_price = po_price p\<rparr>)])\<rparr>)"

definition load_pending_orders :: "pending_order_record list \<Rightarrow> 'v ccxt \<Rightarrow> 'v ccxt \<times> nat" where
  "load_pending_orders ps x = (let x1 = fold load_pending ps x in (x1, length (cx_open_orders x1)))"

fun sync_all :: "'v ccxt_client \<Rightarrow> venue_env \<Rightarrow> symbol list \<Rightarrow> 'v ccxt \<Rightarrow> 'v ccxt \<times> py_error option" where
  "sync_all cl env [] x = (x, None)"
| "sync_all cl env (s # ss) x =
     (case sync_protection 1 cl env s x of (x1, Some e) \<Rightarrow> (x1, Some e) | (x1, None) \<Rightarrow> sync_all cl env ss x1)"

fun book_all :: "'v ccxt_client \<Rightarrow> venue_env \<Rightarrow> triggered list \<Rightarrow> 'v ccxt \<Rightarrow> 'v ccxt \<times> py_error option" where
  "book_all cl env [] x = (x, None)"
| "book_all cl env (t # ts) x =
     (case book_triggered cl env t x of (x1, Some e) \<Rightarrow> (x1, Some e) | (x1, None) \<Rightarrow> book_all cl env ts x1)"

definition book_and_sync :: "'v ccxt_client \<Rightarrow> venue_env \<Rightarrow> triggered list \<Rightarrow> 'v ccxt \<Rightarrow> 'v ccxt \<times> py_error option" where
  "book_and_sync cl env fired x =
     (case book_all cl env fired x of
        (x1, Some e) \<Rightarrow> (x1, Some e)
      | (x1, None) \<Rightarrow> sync_all cl env (symbols (cx_tracker x1)) x1)"

definition restore_protection :: "'v ccxt_client \<Rightarrow> venue_env \<Rightarrow> 'v ccxt \<Rightarrow> 'v ccxt \<times> py_error option" where
  "restore_protection cl env x =
     (if cx_protection x = None then (x, None)
      else let x0 = ensure_markets cl x
           in case protect_adopt cl (symbols (cx_tracker x0)) (cx_known_order_ids x0) [] (cx_venue_state x0) of
                (v, Inl e) \<Rightarrow> (x0\<lparr>cx_venue_state := v\<rparr>, Some e)
              | (v, Inr fired) \<Rightarrow> book_and_sync cl env fired (x0\<lparr>cx_venue_state := v\<rparr>))"

definition watch_protection :: "'v ccxt_client \<Rightarrow> venue_env \<Rightarrow> 'v ccxt \<Rightarrow> 'v ccxt \<times> py_error option" where
  "watch_protection cl env x =
     (case cx_protection x of
        None \<Rightarrow> (x, None)
      | Some live \<Rightarrow>
          (case protect_poll cl live [] (cx_venue_state x) live of
             ((v, live1), Inl e) \<Rightarrow> (x\<lparr>cx_venue_state := v, cx_protection := Some live1\<rparr>, Some e)
           | ((v, live1), Inr fired) \<Rightarrow>
               book_and_sync cl env fired (x\<lparr>cx_venue_state := v, cx_protection := Some live1\<rparr>)))"

section \<open>Reconciliation\<close>

definition expired :: "venue_order_settings \<Rightarrow> venue_order \<Rightarrow> instant \<Rightarrow> bool" where
  "expired cfg p now \<longleftrightarrow> vs_order_ttl_seconds cfg > 0
     \<and> (case vo_placed_at p of None \<Rightarrow> False
        | Some t \<Rightarrow> of_int (now - t) / of_int second_us \<ge> vs_order_ttl_seconds cfg)"

definition cancel_stale :: "'v ccxt_client \<Rightarrow> string \<Rightarrow> venue_order \<Rightarrow> 'v \<Rightarrow> 'v \<times> payload option" where
  "cancel_stale cl oid p v =
     (let (v1, ignored) = cl_cancel_order cl v oid (vo_symbol p) False
      in case fetch_order cl v1 oid (vo_symbol p) False of
           (v2, Inr (JDict raw)) \<Rightarrow> (v2, Some raw)
         | (v2, _) \<Rightarrow> (v2, None))"

text \<open>What the venue says of one open order: \<^const>\<open>None\<close> to look again next cycle. An unreadable
  amount raises out of the loop.\<close>

definition poll_order ::
  "'v ccxt_client \<Rightarrow> venue_env \<Rightarrow> venue_order_settings \<Rightarrow>
   ('v \<Rightarrow> string \<Rightarrow> symbol \<Rightarrow> bool \<Rightarrow> 'v \<times> (py_error + json)) \<Rightarrow> string \<Rightarrow> venue_order \<Rightarrow> 'v \<Rightarrow>
   'v \<times> (py_error + (payload \<times> order_status \<times> real \<times> reason option) option)" where
  "poll_order cl env cfg fetch oid p v =
     (let bi = cl_builtins cl
      in case fetch v oid (vo_symbol p) False of
           (v1, Inl e) \<Rightarrow> (v1, Inr None)
         | (v1, Inr answer) \<Rightarrow>
             (case dict_or_raise answer of
                Inl e \<Rightarrow> (v1, Inl e)
              | Inr raw \<Rightarrow>
                  (case resolve_status bi raw (vo_quantity p) of
                     Inl e \<Rightarrow> (v1, Inl e)
                   | Inr (status, q, why) \<Rightarrow>
                       if status \<noteq> PENDING then (v1, Inr (Some (raw, status, q, why)))
                       else if \<not> expired cfg p (ve_now env) then (v1, Inr None)
                       else case cancel_stale cl oid p v1 of
                              (v2, None) \<Rightarrow> (v2, Inr None)
                            | (v2, Some final) \<Rightarrow>
                                (case resolve_status bi final (vo_quantity p) of
                                   Inl e \<Rightarrow> (v2, Inl e)
                                 | Inr (status2, q2, why2) \<Rightarrow>
                                     if status2 = PENDING then (v2, Inr None)
                                     else (v2, Inr (Some (final, status2, q2,
                                       if status2 = CANCELLED
                                       then Some (case why2 of None \<Rightarrow> ttl_reason | Some y \<Rightarrow> y) else why2)))))))"

text \<open>Booking the resolution of one order; it is remembered until the agent confirms it.\<close>

definition resolve_order ::
  "'v ccxt_client \<Rightarrow> venue_env \<Rightarrow> string \<Rightarrow> venue_order \<Rightarrow> payload \<times> order_status \<times> real \<times> reason option \<Rightarrow>
   'v ccxt \<Rightarrow> 'v ccxt \<times> (py_error + order_result)" where
  "resolve_order cl env oid p found x0 =
     (let (raw, status, q, why) = found; bi = cl_builtins cl; x = ensure_markets cl x0
      in case optional_float bi (json_or (jget ''average'' raw) (jget ''price'' raw)) of
           Inl e \<Rightarrow> (x, Inl e)
         | Inr fill_price \<Rightarrow>
             let res = plain_result oid (vo_symbol p) (vo_side p) q fill_price status
                         (if status = FILLED then Some (fill_time bi raw (ve_now env)) else None) why;
                 (x1, res1) = (case (status, fill_price) of
                     (FILLED, Some price) \<Rightarrow>
                       (case booked_result cl res price (vo_decision_id p) raw x of
                          (y, res1) \<Rightarrow>
                            (if vo_side p = S_BUY
                             then y\<lparr>cx_exit_levels :=
                                    AList.update (vo_symbol p) (vo_stop_loss p, vo_take_profit p) (cx_exit_levels y)\<rparr>
                             else y, res1))
                   | _ \<Rightarrow> (x, res));
                 x2 = x1\<lparr>cx_open_orders := AList.map_entry oid (\<lambda>q. q\<lparr>vo_resolved := Some res1\<rparr>) (cx_open_orders x1)\<rparr>
             in (case sync_protection 1 cl env (vo_symbol p) x2 of
                   (x3, Some e) \<Rightarrow> (x3, Inl e) | (x3, None) \<Rightarrow> (x3, Inr res1)))"

fun poll_orders ::
  "'v ccxt_client \<Rightarrow> venue_env \<Rightarrow> ('v \<Rightarrow> string \<Rightarrow> symbol \<Rightarrow> bool \<Rightarrow> 'v \<times> (py_error + json)) \<Rightarrow>
   (string \<times> venue_order) list \<Rightarrow> order_result list \<Rightarrow> 'v ccxt \<Rightarrow> 'v ccxt \<times> (py_error + order_result list)" where
  "poll_orders cl env fetch [] results x = (x, Inr results)"
| "poll_orders cl env fetch ((oid, p) # rest) results x =
     (if vo_resolved p \<noteq> None then poll_orders cl env fetch rest results x
      else case poll_order cl env (cx_settings x) fetch oid p (cx_venue_state x) of
             (v, Inl e) \<Rightarrow> (x\<lparr>cx_venue_state := v\<rparr>, Inl e)
           | (v, Inr None) \<Rightarrow> poll_orders cl env fetch rest results (x\<lparr>cx_venue_state := v\<rparr>)
           | (v, Inr (Some found)) \<Rightarrow>
               (case resolve_order cl env oid p found (x\<lparr>cx_venue_state := v\<rparr>) of
                  (x1, Inl e) \<Rightarrow> (x1, Inl e)
                | (x1, Inr res) \<Rightarrow> poll_orders cl env fetch rest (results @ [res]) x1))"

definition redelivered :: "'v ccxt \<Rightarrow> order_result list" where
  "redelivered x = List.map_filter (\<lambda>(oid, p). vo_resolved p) (cx_open_orders x)"

definition reconcile_open_orders ::
  "'v ccxt_client \<Rightarrow> venue_env \<Rightarrow> 'v ccxt \<Rightarrow> 'v ccxt \<times> (py_error + order_result list)" where
  "reconcile_open_orders cl env x0 =
     (case watch_protection cl env x0 of
        (x, Some e) \<Rightarrow> (x, Inl e)
      | (x, None) \<Rightarrow>
          if cx_open_orders x = [] then (x, Inr [])
          else if length (redelivered x) = length (cx_open_orders x) then (x, Inr (redelivered x))
          else case cl_fetch_order cl of
                 None \<Rightarrow> (x, Inr [])
               | Some fetch \<Rightarrow> poll_orders cl env fetch (cx_open_orders x) (redelivered x) x)"

section \<open>The book and the account\<close>

definition tradable_market :: "'v ccxt_client \<Rightarrow> 'v ccxt \<Rightarrow> json \<Rightarrow> bool" where
  "tradable_market cl x market =
     (let m = dict_else_empty market
      in truthy (jget ''spot'' m) \<and> jget ''active'' m \<noteq> JBool False
         \<and> upper (case map_of m ''quote'' of None \<Rightarrow> [] | Some q \<Rightarrow> to_str (cl_builtins cl) q) = upper (cx_quote x))"

definition tradable_symbols :: "'v ccxt_client \<Rightarrow> 'v ccxt \<Rightarrow> 'v ccxt \<times> (py_error + symbol list)" where
  "tradable_symbols cl x =
     (case cl_load_markets cl of
        None \<Rightarrow> (x, Inl attribute_error)
      | Some load \<Rightarrow>
          (case load (cx_venue_state x) of
             (v, Inl e) \<Rightarrow> (x\<lparr>cx_venue_state := v\<rparr>, Inl e)
           | (v, Inr answer) \<Rightarrow>
               (x\<lparr>cx_venue_state := v\<rparr>,
                case dict_or_raise answer of
                  Inl e \<Rightarrow> Inl e
                | Inr markets \<Rightarrow> Inr (map fst (filter (\<lambda>(s, m). tradable_market cl x m) markets)))))"

definition trading_fee :: "'v ccxt_client \<Rightarrow> symbol \<Rightarrow> 'v ccxt \<Rightarrow> 'v ccxt \<times> (string, real) dict option" where
  "trading_fee cl s x =
     (case cl_fetch_trading_fee cl of
        None \<Rightarrow> (x, None)
      | Some fetch \<Rightarrow>
          (case fetch (cx_venue_state x) s of
             (v, Inr (JDict fee)) \<Rightarrow>
               (let rates = List.map_filter (\<lambda>k. map_option (Pair k) (to_float (cl_builtins cl) (jget k fee)))
                              [''maker'', ''taker'']
                in (x\<lparr>cx_venue_state := v\<rparr>, if rates = [] then None else Some rates))
           | (v, _) \<Rightarrow> (x\<lparr>cx_venue_state := v\<rparr>, None)))"

definition cx_update_price :: "symbol \<Rightarrow> real \<Rightarrow> 'v ccxt \<Rightarrow> 'v ccxt" where
  "cx_update_price s p x = (if p > 0 then x\<lparr>cx_marks := AList.update s p (cx_marks x)\<rparr> else x)"

definition write_off_all :: "'v ccxt_client \<Rightarrow> 'v ccxt \<Rightarrow> 'v ccxt" where
  "write_off_all cl x = fold (write_off_dust cl) (symbols (cx_tracker x)) x"

text \<open>The venue's \<^verbatim>\<open>total\<close> per currency, when the balance read answered with one.\<close>

definition balance_totals :: "'v ccxt_client \<Rightarrow> 'v ccxt \<Rightarrow> 'v ccxt \<times> payload option" where
  "balance_totals cl x =
     (case cl_fetch_balance cl (cx_venue_state x) of
        (v, Inr (JDict d)) \<Rightarrow> (x\<lparr>cx_venue_state := v\<rparr>, case jget ''total'' d of JDict t \<Rightarrow> Some t | _ \<Rightarrow> None)
      | (v, _) \<Rightarrow> (x\<lparr>cx_venue_state := v\<rparr>, None))"

definition held_quantity :: "'v ccxt_client \<Rightarrow> payload option \<Rightarrow> 'v ccxt \<Rightarrow> symbol \<Rightarrow> real" where
  "held_quantity cl totals x s =
     (let q = quantity (cx_tracker x) s
      in case totals of
           None \<Rightarrow> q
         | Some t \<Rightarrow> (case to_float (cl_builtins cl) (jget (takeWhile (\<lambda>c. c \<noteq> CHR ''/'') s) t) of
                        None \<Rightarrow> q | Some held \<Rightarrow> min q held))"

definition ledger_position :: "'v ccxt_client \<Rightarrow> payload option \<Rightarrow> 'v ccxt \<Rightarrow> symbol \<Rightarrow> position option" where
  "ledger_position cl totals x s =
     (let q = held_quantity cl totals x s;
          avg = (case average_price (cx_tracker x) s of None \<Rightarrow> 0 | Some a \<Rightarrow> a);
          (sl, tp) = exit_levels_of x s
      in if is_dust cl x s q then None
         else Some \<lparr>p_symbol = s, p_quantity = q, p_avg_entry_price = avg,
                p_current_price = (case map_of (cx_marks x) s of None \<Rightarrow> avg | Some m \<Rightarrow> m),
                p_side = LONG, p_stop_loss = sl, p_take_profit = tp\<rparr>)"

definition cx_get_positions :: "'v ccxt_client \<Rightarrow> 'v ccxt \<Rightarrow> 'v ccxt \<times> position list" where
  "cx_get_positions cl x0 =
     (let x1 = write_off_all cl (ensure_markets cl x0); (x2, totals) = balance_totals cl x1
      in (x2, List.map_filter (ledger_position cl totals x2) (symbols (cx_tracker x2))))"

definition cx_cancel_order :: "'v ccxt_client \<Rightarrow> string \<Rightarrow> 'v ccxt \<Rightarrow> 'v ccxt \<times> bool" where
  "cx_cancel_order cl oid x =
     (case map_of (cx_order_symbols x) oid of
        None \<Rightarrow> (x, False)
      | Some s \<Rightarrow>
          (case cl_cancel_order cl (cx_venue_state x) oid s False of
             (v, Inl e) \<Rightarrow> (x\<lparr>cx_venue_state := v\<rparr>, False)
           | (v, Inr ok) \<Rightarrow>
               (x\<lparr>cx_venue_state := v, cx_open_orders := AList.delete oid (cx_open_orders x)\<rparr>, True)))"

definition cx_get_cash :: "'v ccxt_client \<Rightarrow> 'v ccxt \<Rightarrow> 'v ccxt \<times> (py_error + real)" where
  "cx_get_cash cl x =
     (case cl_fetch_free_balance cl (cx_venue_state x) of
        (v, Inl e) \<Rightarrow> (x\<lparr>cx_venue_state := v\<rparr>, Inl e)
      | (v, Inr balance) \<Rightarrow>
          (x\<lparr>cx_venue_state := v\<rparr>, Inr (extract_quote_balance (cl_builtins cl) balance (cx_quote x))))"

end
