(* ===== verification/Ccxt_Safety.thy ===== *)
theory Ccxt_Safety
  imports Ccxt_Executor
begin

text \<open>
  What the ccxt executor guarantees for every behaviour of the venue: nothing is sold beyond the
  ledger, a resolved order is delivered until the agent confirms it and its fill is booked
  once, what traded is never reported as merely cancelled, and a restart rebuilds the ledger.

  The locale \<open>venue_guard\<close> is the contract of a client that is only ever asked to sell within a
  bound; it is interpreted on a client that records its orders.
\<close>

section \<open>The ledger under a closing fill\<close>

lemma on_sell_ledger:
  assumes "book_wf (t_lots t)"
  shows "book_wf (t_lots (fst (on_sell t s q p f)))"
    and "quantity (fst (on_sell t s q p f)) s' \<le> quantity t s'"
proof -
  let ?g = "\<lambda>lot take. (p - l_price lot) * take"
  have eq: "t_lots (fst (on_sell t s q p f)) = fst (consume ?g (t_lots t) s q f)"
    by (simp add: on_sell_def split: prod.splits)
  have ok: "lots_ok (dict_lots (t_lots t) s)" using assms by simp
  show "book_wf (t_lots (fst (on_sell t s q p f)))"
  proof (cases "0 < q")
    case True
    with assms show ?thesis unfolding eq by (rule consume_wf)
  next
    case False
    then show ?thesis unfolding eq
      using assms ok by (auto simp: consume_def intro: book_wf_update book_wf_delete)
  qed
  show "quantity (fst (on_sell t s q p f)) s' \<le> quantity t s'"
  proof (cases "0 < q")
    case True
    have "0 \<le> min (max q 0) (lots_quantity (dict_lots (t_lots t) s))"
      using lots_quantity_nonneg [OF ok] by simp
    moreover have "lots_quantity (fst (consume_loop ?g q f q (dict_lots (t_lots t) s) 0 0 []))
        \<le> lots_quantity (dict_lots (t_lots t) s) - min (max q 0) (lots_quantity (dict_lots (t_lots t) s))"
      using consume_quantity [OF ok True, of ?g f q 0 0 "[]"] by (simp only: Let_def)
    ultimately have "lots_quantity (fst (consume_loop ?g q f q (dict_lots (t_lots t) s) 0 0 []))
        \<le> lots_quantity (dict_lots (t_lots t) s)" by linarith
    then show ?thesis by (simp add: quantity_def eq consume_lots del: on_sell_book)
  next
    case False
    then show ?thesis by (simp add: quantity_def eq consume_lots del: on_sell_book)
  qed
qed

lemma book_fill_sell:
  assumes "book_wf (t_lots t)"
  shows "book_wf (t_lots (fst (book_fill t s ''sell'' q p fb fq did)))
    \<and> quantity (fst (book_fill t s ''sell'' q p fb fq did)) s' \<le> quantity t s'"
proof -
  have "fst (book_fill t s ''sell'' q p fb fq did) =
      (if quantity t s \<le> 0 then t else fst (on_sell t s q p (fq + fb * p)))"
    by (simp add: book_fill_def split: prod.splits)
  then show ?thesis using assms on_sell_ledger [OF assms] by (simp del: on_sell_book)
qed

text \<open>The ledger of \<open>y\<close> is well formed and holds no more than that of \<open>x\<close>.\<close>

definition ledger_le :: "'v ccxt \<Rightarrow> 'v ccxt \<Rightarrow> bool" where
  "ledger_le y x \<longleftrightarrow> book_wf (t_lots (cx_tracker y))
     \<and> (\<forall>s. quantity (cx_tracker y) s \<le> quantity (cx_tracker x) s)"

lemma ledger_le_refl: "book_wf (t_lots (cx_tracker x)) \<Longrightarrow> ledger_le x x"
  by (simp add: ledger_le_def)

lemma ledger_le_trans: "ledger_le z y \<Longrightarrow> ledger_le y x \<Longrightarrow> ledger_le z x"
  unfolding ledger_le_def by (blast intro: order_trans)

lemma ledger_le_tracker: "cx_tracker y = cx_tracker x \<Longrightarrow> ledger_le y z = ledger_le x z"
  by (simp add: ledger_le_def)

lemma quantity_nonneg: "book_wf (t_lots t) \<Longrightarrow> 0 \<le> quantity t s"
  using lots_quantity_nonneg [OF book_wf_lots] by (simp add: quantity_def)

lemma write_off_dust_ledger:
  assumes "book_wf (t_lots (cx_tracker x))"
  shows "ledger_le (write_off_dust cl s x) x"
  using assms quantity_nonneg [OF assms]
  by (auto simp: write_off_dust_def ledger_le_def discard_def Let_def book_wf_delete quantity_def
      lots_quantity_def [of "[]"])

lemma write_off_dust_frame [simp]:
  "cx_venue_state (write_off_dust cl s x) = cx_venue_state x"
  "cx_protection (write_off_dust cl s x) = cx_protection x"
  "cx_open_orders (write_off_dust cl s x) = cx_open_orders x"
  "cx_known_order_ids (write_off_dust cl s x) = cx_known_order_ids x"
  "cx_markets (write_off_dust cl s x) = cx_markets x"
  by (simp_all add: write_off_dust_def Let_def)

lemma booked_result_frame [simp]:
  "cx_venue_state (fst (booked_result cl res p did raw x)) = cx_venue_state x"
  "cx_protection (fst (booked_result cl res p did raw x)) = cx_protection x"
  "cx_open_orders (fst (booked_result cl res p did raw x)) = cx_open_orders x"
  "cx_known_order_ids (fst (booked_result cl res p did raw x)) = cx_known_order_ids x"
  "cx_markets (fst (booked_result cl res p did raw x)) = cx_markets x"
  by (simp_all add: booked_result_def record_fill_def Let_def split: prod.splits option.splits)

lemma booked_result_ledger:
  assumes "book_wf (t_lots (cx_tracker x))" and "o_side res = S_SELL"
  shows "ledger_le (fst (booked_result cl res p did raw x)) x"
proof -
  obtain b q where fees: "fee_components (cl_builtins cl) raw (o_symbol res) = (b, q)" by fastforce
  obtain t out where fill: "book_fill (cx_tracker x) (o_symbol res) ''sell'' (o_quantity res) p b q did = (t, out)"
    by fastforce
  have le: "ledger_le (x\<lparr>cx_tracker := t\<rparr>) x"
    using book_fill_sell [OF assms(1), of "o_symbol res" "o_quantity res" p b q did] fill by (simp add: ledger_le_def)
  then have "ledger_le (write_off_dust cl (o_symbol res) (x\<lparr>cx_tracker := t\<rparr>)) x"
    by (intro ledger_le_trans [OF write_off_dust_ledger le]) (simp add: ledger_le_def)
  with le show ?thesis
    using assms(2) fees fill
    by (simp add: booked_result_def record_fill_def side_value_def Let_def split: option.splits prod.splits)
qed

lemma book_triggered_frame:
  assumes "book_triggered cl env t x = (y, err)"
  shows "cx_venue_state y = cx_venue_state x" "cx_protection y = cx_protection x" "cx_markets y = cx_markets x"
proof -
  have "cx_venue_state (fst (book_triggered cl env t x)) = cx_venue_state x
    \<and> cx_protection (fst (book_triggered cl env t x)) = cx_protection x
    \<and> cx_markets (fst (book_triggered cl env t x)) = cx_markets x"
    unfolding book_triggered_def Let_def
    by (simp split: sum.splits option.splits) (simp add: case_prod_beta)
  with assms show "cx_venue_state y = cx_venue_state x" "cx_protection y = cx_protection x"
    "cx_markets y = cx_markets x" by simp_all
qed

lemma book_triggered_ledger:
  assumes "book_wf (t_lots (cx_tracker x))" and "book_triggered cl env t x = (y, err)"
  shows "ledger_le y x"
proof -
  have sell: "o_side (plain_result i s S_SELL q pr st fa why) = S_SELL" for i s q pr st fa why
    by (simp add: plain_result_def)
  let ?x1 = "x\<lparr>cx_known_order_ids := tr_child_id t # cx_known_order_ids x\<rparr>"
  have "ledger_le (fst (booked_result cl (plain_result i s S_SELL q pr st fa why) p did raw ?x1)) x"
    for i s q pr st fa why p did raw
    using booked_result_ledger [of ?x1, OF _ sell] assms(1) by (simp add: ledger_le_def)
  moreover have "ledger_le x x" using assms(1) by (rule ledger_le_refl)
  ultimately have "ledger_le (fst (book_triggered cl env t x)) x"
    unfolding book_triggered_def Let_def
    by (simp add: case_prod_beta ledger_le_def split: sum.splits option.splits)
  with assms(2) show ?thesis by simp
qed

text \<open>How one call of \<^verbatim>\<open>_sync_protection\<close> can go.\<close>

lemma sync_cases:
  assumes "sync_protection n cl env s x = (y, err)"
  obtains (same) "y = x" "err = None"
  | (placed) q sl tp x1 where "q = fst (wanted_protection cl x s)"
      "x1 = x \<or> (\<exists>live. cx_protection x = Some live \<and> cancel_protection cl s live x = (x1, Inr None))"
      "y = place_protection cl env s q sl tp x1" "err = None"
  | (cancelled) live out where "cx_protection x = Some live" "cancel_protection cl s live x = (y, out)"
      "\<And>t. out \<noteq> Inr (Some t)"
  | (booked) live x1 t where "cx_protection x = Some live" "cancel_protection cl s live x = (x1, Inr (Some t))"
      "book_triggered cl env t x1 = (y, err)"
  | (again) live x1 t x2 m where "cx_protection x = Some live" "cancel_protection cl s live x = (x1, Inr (Some t))"
      "book_triggered cl env t x1 = (x2, None)" "n = Suc m" "sync_protection m cl env s x2 = (y, err)"
proof -
  obtain q wanted where w: "wanted_protection cl x s = (q, wanted)" by fastforce
  obtain sl tp where l: "exit_levels_of x s = (sl, tp)" by fastforce
  note eq = assms [unfolded sync_protection.simps [of n] w l]
  show thesis
  proof (cases "cx_protection x")
    case None
    with eq show thesis by (intro same) simp_all
  next
    case (Some live)
    show thesis
    proof (cases "S_SELL \<in> working_order_sides x s")
      case True
      with eq Some show thesis by (intro same) simp_all
    next
      case False
      show thesis
      proof (cases "map_of live s")
        case None
        show thesis
        proof (cases wanted)
          case True
          with eq Some False None w show thesis by (intro placed [of q x sl tp]) simp_all
        next
          case no: False
          with eq Some False None show thesis by (intro same) simp_all
        qed
      next
        fix current
        assume cur: "map_of live s = Some current"
        obtain x1 out where c: "cancel_protection cl s live x = (x1, out)" by fastforce
        show thesis
        proof (cases "wanted \<and> matches current q sl tp")
          case True
          with eq Some False cur show thesis by (intro same) simp_all
        next
          assume redo: "\<not> (wanted \<and> matches current q sl tp)"
          consider (fired) t where "out = Inr (Some t)" | (replace) "out = Inr None" "wanted"
            | (stop) "out = Inr None" "\<not> wanted" | (raised) e where "out = Inl e"
            by (cases out) fastforce+
          then show thesis
          proof cases
            case (fired t)
            obtain x2 e where b: "book_triggered cl env t x1 = (x2, e)" by fastforce
            show thesis
            proof (cases "e = None \<and> n \<noteq> 0")
              case True
              then obtain m where "n = Suc m" by (cases n) auto
              with eq Some False cur redo c fired b True show thesis by (intro again) simp_all
            next
              assume "\<not> (e = None \<and> n \<noteq> 0)"
              with eq Some False cur redo c fired b show thesis
                by (intro booked) (auto split: option.splits nat.splits)
            qed
          next
            case replace
            with eq Some False cur redo c w show thesis by (intro placed [of q x1 sl tp]) simp_all
          next
            case stop
            with eq Some False cur redo c show thesis by (intro cancelled [of live out]) simp_all
          next
            case (raised e)
            with eq Some False cur redo c show thesis by (intro cancelled [of live out]) simp_all
          qed
        qed
      qed
    qed
  qed
qed

text \<open>One recursive call is enough: the order that turned out to have fired is no longer live.\<close>

lemma cancel_protection_fired:
  assumes "cancel_protection cl s live x = (x1, Inr (Some t))"
  shows "cx_protection x1 = Some (AList.delete s live)"
  using assms
  by (auto simp: cancel_protection_def protect_cancel_def Let_def split: option.splits prod.splits sum.splits if_splits)

lemma sync_unprotected:
  assumes "cx_protection x = Some live" and "map_of live s = None"
  shows "sync_protection n cl env s x = sync_protection 0 cl env s x"
  using assms by (simp add: sync_protection.simps [of n] sync_protection.simps [of 0] split: prod.splits)

lemma sync_after_fired:
  assumes "cancel_protection cl s live x = (x1, Inr (Some t))" and "book_triggered cl env t x1 = (x2, err)"
  shows "sync_protection n cl env s x2 = sync_protection 0 cl env s x2"
  using cancel_protection_fired [OF assms(1)] book_triggered_frame(2) [OF assms(2)]
  by (intro sync_unprotected [where live = "AList.delete s live"]) (simp_all add: delete_conv)

lemma sync_fuel: "sync_protection (Suc n) cl env s x = sync_protection 1 cl env s x"
proof -
  obtain q wanted where w: "wanted_protection cl x s = (q, wanted)" by fastforce
  obtain sl tp where l: "exit_levels_of x s = (sl, tp)" by fastforce
  note eqs = sync_protection.simps [of "Suc n" cl env s x, unfolded w l]
    sync_protection.simps [of "Suc 0" cl env s x, unfolded w l]
  show ?thesis
  proof (cases "\<exists>live current x1 t x2. cx_protection x = Some live \<and> map_of live s = Some current
      \<and> cancel_protection cl s live x = (x1, Inr (Some t)) \<and> book_triggered cl env t x1 = (x2, None)")
    case True
    then obtain live current x1 t x2 where c: "cx_protection x = Some live" "map_of live s = Some current"
      "cancel_protection cl s live x = (x1, Inr (Some t))" "book_triggered cl env t x1 = (x2, None)" by blast
    from sync_after_fired [OF c(3,4)] have "sync_protection n cl env s x2 = sync_protection 0 cl env s x2" .
    with c eqs show ?thesis by simp
  next
    case False
    then show ?thesis unfolding One_nat_def eqs
      by (auto split: option.splits sum.splits prod.splits)
  qed
qed

section \<open>Selling within a bound\<close>

text \<open>\<open>inv\<close> is kept by every call of the client, provided it is asked to sell within \<open>bound\<close>.\<close>

locale venue_guard =
  fixes cl :: "'v ccxt_client" and inv :: "'v \<Rightarrow> bool" and bound :: "symbol \<Rightarrow> real"
  assumes create: "inv v \<Longrightarrow> (side = ''sell'' \<Longrightarrow> a \<le> bound s) \<Longrightarrow>
        inv (fst (cl_create_order cl v s kind side a p ps))"
    and cancel: "inv v \<Longrightarrow> inv (fst (cl_cancel_order cl v i s algo))"
    and fetch: "inv v \<Longrightarrow> cl_fetch_order cl = Some f \<Longrightarrow> inv (fst (f v i s algo))"
    and markets: "inv v \<Longrightarrow> cl_load_markets cl = Some g \<Longrightarrow> inv (fst (g v))"
    and rounds_down: "cl_amount_to_precision cl = Some h \<Longrightarrow> h v s q = Some r \<Longrightarrow> r \<le> q"
begin

lemma fetch_order_inv: "inv v \<Longrightarrow> inv (fst (fetch_order cl v i s algo))"
  using fetch by (simp add: fetch_order_def split: option.splits)

lemma protect_state_inv: "inv v \<Longrightarrow> inv (fst (protect_state cl ord v))"
  using fetch_order_inv [of v "pv_algo_id ord" "pv_symbol ord" True]
  by (auto simp: protect_state_def split: prod.splits sum.splits)

lemma check_algo_inv: "inv v \<Longrightarrow> inv (fst (check_algo cl ord given v))"
  using fetch_order_inv [of v "pv_algo_id ord" "pv_symbol ord" True]
  by (auto simp: check_algo_def split: prod.splits sum.splits option.splits)

lemma protect_check_inv:
  assumes "inv v"
  shows "inv (fst (protect_check cl ord given v))"
proof -
  obtain v1 algo where c: "check_algo cl ord given v = (v1, algo)" by fastforce
  with check_algo_inv [OF assms, of ord given] have v1: "inv v1" by simp
  show ?thesis
  proof (cases algo)
    case None
    with c v1 show ?thesis by (simp add: protect_check_def)
  next
    case (Some al)
    obtain v2 ans where f: "fetch_order cl v1 (child_id (cl_builtins cl) al) (pv_symbol ord) False = (v2, ans)"
      by fastforce
    with fetch_order_inv [OF v1, of "child_id (cl_builtins cl) al" "pv_symbol ord" False] have "inv v2" by simp
    with c v1 Some f show ?thesis by (simp add: protect_check_def Let_def split: sum.splits json.splits)
  qed
qed

lemma protect_cancel_inv:
  assumes "inv v"
  shows "inv (fst (fst (protect_cancel cl s v live)))"
proof (cases "map_of live s")
  case None
  with assms show ?thesis by (simp add: protect_cancel_def)
next
  case (Some ord)
  obtain v1 ans where c: "cl_cancel_order cl v (pv_algo_id ord) s True = (v1, ans)" by fastforce
  with cancel [OF assms, of "pv_algo_id ord" s True] have v1: "inv v1" by simp
  obtain v2 tr where k: "protect_check cl ord None v1 = (v2, tr)" by fastforce
  with protect_check_inv [OF v1, of ord None] have v2: "inv v2" by simp
  obtain v3 st where p: "protect_state cl ord v2 = (v3, st)" by fastforce
  with protect_state_inv [OF v2, of ord] have "inv v3" by simp
  with c v1 v2 k p Some show ?thesis
    by (auto simp: protect_cancel_def Let_def split: sum.splits option.splits)
qed

lemma protect_place_inv:
  assumes "inv v" and "q \<le> bound s"
  shows "inv (fst (protect_place cl price env s q sl tp v live))"
  using create [OF assms(1), of "''sell''" q s] assms(2)
  by (auto simp: protect_place_def Let_def split: prod.splits sum.splits) (metis fst_conv)+

lemma place_protection_inv:
  assumes "inv (cx_venue_state x)" and "q \<le> bound s"
  shows "inv (cx_venue_state (place_protection cl env s q sl tp x))
    \<and> cx_tracker (place_protection cl env s q sl tp x) = cx_tracker x"
proof -
  have "inv v" if "protect_place cl (price_to_precision cl x) env s q sl tp (cx_venue_state x) live = (v, live1)"
    for v live live1
    using protect_place_inv [OF assms, of "price_to_precision cl x" env sl tp live] that by simp
  with assms(1) show ?thesis by (auto simp: place_protection_def split: option.splits prod.splits)
qed

lemma cancel_protection_inv:
  assumes "inv (cx_venue_state x)" and "cancel_protection cl s live x = (y, out)"
  shows "inv (cx_venue_state y)" "cx_tracker y = cx_tracker x"
  using protect_cancel_inv [OF assms(1), of s live] assms(2)
  by (auto simp: cancel_protection_def split: prod.splits)

lemma ensure_markets_inv:
  assumes "inv (cx_venue_state x)"
  shows "inv (cx_venue_state (ensure_markets cl x)) \<and> cx_tracker (ensure_markets cl x) = cx_tracker x"
proof -
  have "inv v" if "cl_load_markets cl = Some g" "g (cx_venue_state x) = (v, a)" for g v a
    using markets [OF assms that(1)] that(2) by simp
  with assms show ?thesis
    by (auto simp: ensure_markets_def split: option.splits prod.splits sum.splits)
qed

lemma amount_rounds_down:
  assumes "0 \<le> q"
  shows "amount_to_precision cl x s q \<le> q"
  using assms rounds_down by (auto simp: amount_to_precision_def split: option.splits)

lemma cancel_and_book:
  assumes "inv (cx_venue_state x)" and "book_wf (t_lots (cx_tracker x))"
    and "cancel_protection cl s live x = (x1, Inr (Some t))" and "book_triggered cl env t x1 = (y, err)"
  shows "inv (cx_venue_state y) \<and> ledger_le y x"
proof -
  note c = cancel_protection_inv [OF assms(1,3)]
  have "book_wf (t_lots (cx_tracker x1))" using assms(2) c(2) by simp
  from book_triggered_ledger [OF this assms(4)] book_triggered_frame(1) [OF assms(4)] c
  show ?thesis by (simp add: ledger_le_def)
qed

lemma sync_protection_inv:
  assumes "inv (cx_venue_state x)" and "book_wf (t_lots (cx_tracker x))"
    and "quantity (cx_tracker x) s \<le> bound s" and "sync_protection n cl env s x = (y, err)"
  shows "inv (cx_venue_state y) \<and> ledger_le y x"
  using assms
proof (induction n arbitrary: x rule: less_induct)
  case (less n x)
  have rf: "ledger_le x x" using less.prems(2) by (rule ledger_le_refl)
  from less.prems(4) show ?case
  proof (cases rule: sync_cases)
    case same
    with less.prems rf show ?thesis by simp
  next
    case (placed q sl tp x1)
    have q: "q \<le> bound s"
      using amount_rounds_down [OF quantity_nonneg [OF less.prems(2), of s], of x s] less.prems(3) placed(1)
      by (simp add: wanted_protection_def Let_def split: prod.splits)
    have "inv (cx_venue_state x1) \<and> cx_tracker x1 = cx_tracker x"
      using placed(2) cancel_protection_inv [OF less.prems(1)] less.prems(1) by blast
    with place_protection_inv [OF _ q, of x1 env sl tp] placed(3) rf show ?thesis by (simp add: ledger_le_def)
  next
    case (cancelled live out)
    from cancel_protection_inv [OF less.prems(1) cancelled(2)] rf show ?thesis by (simp add: ledger_le_def)
  next
    case (booked live x1 t)
    from cancel_and_book [OF less.prems(1,2) booked(2,3)] show ?thesis .
  next
    case (again live x1 t x2 m)
    from cancel_and_book [OF less.prems(1,2) again(2,3)] have x2: "inv (cx_venue_state x2)" "ledger_le x2 x" by simp_all
    then have "book_wf (t_lots (cx_tracker x2))" "quantity (cx_tracker x2) s \<le> bound s"
      using less.prems(3) by (auto simp: ledger_le_def intro: order_trans)
    from less.IH [OF _ x2(1) this again(5)] again(4) x2(2) show ?thesis by (auto intro: ledger_le_trans)
  qed
qed

definition safe :: "'v ccxt \<Rightarrow> bool" where
  "safe x \<longleftrightarrow> inv (cx_venue_state x) \<and> book_wf (t_lots (cx_tracker x))
     \<and> (\<forall>s. quantity (cx_tracker x) s \<le> bound s)"

lemma safe_le: "safe x \<Longrightarrow> inv (cx_venue_state y) \<Longrightarrow> ledger_le y x \<Longrightarrow> safe y"
  unfolding safe_def ledger_le_def by (blast intro: order_trans)

lemma safe_frame [simp]:
  "safe (x\<lparr>cx_order_symbols := d\<rparr>) = safe x" "safe (x\<lparr>cx_open_orders := ds\<rparr>) = safe x"
  "safe (x\<lparr>cx_exit_levels := l\<rparr>) = safe x"
  by (simp_all add: safe_def)

lemma safe_venue: "safe x \<Longrightarrow> inv v \<Longrightarrow> safe (x\<lparr>cx_venue_state := v\<rparr>)"
  by (simp add: safe_def)

lemma sync_safe: "safe x \<Longrightarrow> sync_protection n cl env s x = (y, err) \<Longrightarrow> safe y"
  using sync_protection_inv [of x s n env y err] safe_le [of x y] by (auto simp: safe_def)

lemma release_coins_safe:
  assumes "safe x" and "release_coins cl env s side x = (y, err)"
  shows "safe y"
proof (cases "cx_protection x = None \<or> side \<noteq> S_SELL")
  case True
  with assms show ?thesis by (auto simp: release_coins_def split: option.splits)
next
  case False
  then obtain live where live: "cx_protection x = Some live" by auto
  obtain x1 out where c: "cancel_protection cl s live x = (x1, out)" by fastforce
  have inv: "inv (cx_venue_state x)" "book_wf (t_lots (cx_tracker x))" using assms(1) by (simp_all add: safe_def)
  note c1 = cancel_protection_inv [OF inv(1) c]
  show ?thesis
  proof (cases "\<exists>t. out = Inr (Some t)")
    case True
    then obtain t where t: "out = Inr (Some t)" by blast
    with assms(2) live False c have b: "book_triggered cl env t x1 = (y, err)"
      by (simp add: release_coins_def)
    from cancel_and_book [OF inv c [unfolded t] b] assms(1) show ?thesis by (auto intro: safe_le)
  next
    case none: False
    with assms(2) live False c have "y = x1"
      by (auto simp: release_coins_def split: sum.splits option.splits)
    with c1 assms(1) show ?thesis by (simp add: safe_def)
  qed
qed

lemma booked_result_safe:
  assumes "safe x" and "o_side res = S_SELL"
  shows "safe (fst (booked_result cl res p did raw x))"
  using assms booked_result_ledger [of x res cl p did raw] by (auto simp: safe_def ledger_le_def intro: order_trans)

lemma settle_order_safe:
  assumes "safe x" and "rq_side r = S_SELL"
  shows "safe (fst (settle_order cl env r amount limit_price oid raw resolution x))"
proof -
  obtain status filled why where res: "resolution = (status, filled, why)" by (cases resolution)
  let ?price = "optional_float (cl_builtins cl) (json_or (jget ''average'' raw)
      (json_or (jget ''price'' raw) (or_real limit_price (rq_price r))))"
  show ?thesis
  proof (cases "\<exists>p. ?price = Inr (Some p) \<and> status = FILLED")
    case True
    then obtain p where p: "?price = Inr (Some p)" "status = FILLED" by blast
    let ?res = "plain_result oid (rq_symbol r) (rq_side r) filled (Some p) FILLED
        (Some (fill_time (cl_builtins cl) raw (ve_now env))) why"
    obtain x1 res1 where b: "booked_result cl ?res p (rq_decision_id r) raw x = (x1, res1)" by fastforce
    have "safe (fst (booked_result cl ?res p (rq_decision_id r) raw x))"
      by (rule booked_result_safe [OF assms(1)]) (simp add: plain_result_def assms(2))
    with b have x1: "safe x1" by simp
    let ?x3 = "if quantity (cx_tracker x1) (rq_symbol r) \<le> 0
        then x1\<lparr>cx_exit_levels := AList.delete (rq_symbol r) (cx_exit_levels x1)\<rparr> else x1"
    obtain x4 err where s: "sync_protection 1 cl env (rq_symbol r) ?x3 = (x4, err)" by fastforce
    from x1 have "safe ?x3" by simp
    from sync_safe [OF this s] have "safe x4" .
    with res p b s assms(2) show ?thesis
      by (cases err) (simp_all add: settle_order_def Let_def)
  next
    case False
    with assms(1) res show ?thesis
      by (auto simp: settle_order_def Let_def split: sum.splits order_status.splits option.splits)
  qed
qed

lemma confirm_poll_safe:
  assumes "safe x"
  shows "safe (fst (confirm_poll cl oid s raw x))"
proof (cases "cl_fetch_order cl")
  case (Some f)
  obtain v ans where f: "f (cx_venue_state x) oid s False = (v, ans)" by fastforce
  with fetch [OF _ Some, of "cx_venue_state x" oid s False] assms have "inv v" by (simp add: safe_def)
  with assms have "safe (x\<lparr>cx_venue_state := v\<rparr>)" by (simp add: safe_def)
  with Some f show ?thesis by (auto simp: confirm_poll_def split: sum.splits json.splits list.splits)
qed (use assms in \<open>simp add: confirm_poll_def\<close>)

lemma send_order_safe:
  assumes "safe x" and "rq_side r = S_SELL" and "amount \<le> bound (rq_symbol r)"
  shows "safe (fst (send_order cl env r amount x))"
proof -
  obtain kind limit_price where terms: "order_terms cl x (rq_symbol r) (rq_side r) (rq_price r) = (kind, limit_price)"
    by fastforce
  obtain v ans where c: "cl_create_order cl (cx_venue_state x) (rq_symbol r) kind (side_value (rq_side r)) amount
      limit_price [] = (v, ans)" by fastforce
  with create [of "cx_venue_state x" "side_value (rq_side r)" amount "rq_symbol r" kind limit_price "[]"] assms
  have x1: "safe (x\<lparr>cx_venue_state := v\<rparr>)" by (simp add: safe_def)
  show ?thesis
  proof (cases "\<exists>answer raw oid. ans = Inr answer \<and> dict_or_raise answer = Inr raw
      \<and> order_id_of (cl_builtins cl) raw = Inr oid")
    case True
    then obtain answer raw oid where a: "ans = Inr answer" "dict_or_raise answer = Inr raw"
        "order_id_of (cl_builtins cl) raw = Inr oid" by blast
    let ?x2 = "x\<lparr>cx_venue_state := v, cx_order_symbols := AList.update oid (rq_symbol r) (cx_order_symbols x)\<rparr>"
    from x1 have x2: "safe ?x2" by (simp add: safe_def)
    obtain x3 raw1 where p: "confirm_poll cl oid (rq_symbol r) raw ?x2 = (x3, raw1)" by fastforce
    with confirm_poll_safe [OF x2, of oid "rq_symbol r" raw] have x3: "safe x3" by simp
    show ?thesis
      using x2 x3 settle_order_safe [OF x2 assms(2)] settle_order_safe [OF x3 assms(2)] terms c a p
      by (auto simp: send_order_def Let_def split: sum.splits)
  next
    case False
    with x1 safe_frame terms c show ?thesis by (auto simp: send_order_def Let_def split: sum.splits)
  qed
qed

lemma place_order_safe:
  assumes "safe x" and "rq_side r = S_SELL" and "\<And>s. bound s = quantity (cx_tracker x) s"
  shows "safe (fst (cx_place_order cl env r x))"
proof -
  let ?x0 = "ensure_markets cl x" let ?s = "rq_symbol r"
  have x0: "safe ?x0" using ensure_markets_inv [of x] assms(1) by (simp add: safe_def)
  let ?amount = "amount_to_precision cl ?x0 ?s (rq_quantity r)"
  obtain x1 err where rel: "release_coins cl env ?s (rq_side r) ?x0 = (x1, err)" by fastforce
  from release_coins_safe [OF x0 rel] have x1: "safe x1" .
  have wf: "book_wf (t_lots (cx_tracker x1))" using x1 by (simp add: safe_def)
  have "a \<le> bound ?s" if "sendable_amount cl ?s S_SELL (rq_quantity r) ?amount x1 = Inr a" for a
  proof -
    have "a \<le> amount_to_precision cl x1 ?s (quantity (cx_tracker x1) ?s)"
      using that by (auto simp: sendable_amount_def Let_def split: if_splits)
    also have "\<dots> \<le> quantity (cx_tracker x1) ?s" by (rule amount_rounds_down [OF quantity_nonneg [OF wf]])
    also have "\<dots> \<le> bound ?s" using x1 by (simp add: safe_def)
    finally show ?thesis .
  qed
  then show ?thesis
    using x1 send_order_safe [OF x1 assms(2)] rel assms(2)
    by (auto simp: cx_place_order_def Let_def split: option.splits sum.splits)
qed

end

section \<open>A client that records its orders\<close>

definition lifted :: "('v \<Rightarrow> 'v \<times> 'a) \<Rightarrow> 'v \<times> 'l \<Rightarrow> ('v \<times> 'l) \<times> 'a" where
  "lifted f = (\<lambda>(v, log). case f v of (v1, out) \<Rightarrow> ((v1, log), out))"

definition recording :: "'v ccxt_client \<Rightarrow> ('v \<times> (symbol \<times> string \<times> real) list) ccxt_client" where
  "recording cl =
     \<lparr>cl_create_order = (\<lambda>(v, log) s kind side a p ps.
        case cl_create_order cl v s kind side a p ps of (v1, out) \<Rightarrow> ((v1, log @ [(s, side, a)]), out)),
      cl_cancel_order = (\<lambda>w i s algo. lifted (\<lambda>v. cl_cancel_order cl v i s algo) w),
      cl_fetch_order = map_option (\<lambda>f w i s algo. lifted (\<lambda>v. f v i s algo) w) (cl_fetch_order cl),
      cl_fetch_balance = lifted (cl_fetch_balance cl),
      cl_fetch_free_balance = lifted (cl_fetch_free_balance cl),
      cl_load_markets = map_option lifted (cl_load_markets cl),
      cl_markets = (\<lambda>w. cl_markets cl (fst w)),
      cl_amount_to_precision = map_option (\<lambda>h w. h (fst w)) (cl_amount_to_precision cl),
      cl_price_to_precision = map_option (\<lambda>h w. h (fst w)) (cl_price_to_precision cl),
      cl_list_orders = (\<lambda>w m s k. lifted (\<lambda>v. cl_list_orders cl v m s k) w),
      cl_fetch_trading_fee = map_option (\<lambda>f w s. lifted (\<lambda>v. f v s) w) (cl_fetch_trading_fee cl),
      cl_builtins = cl_builtins cl\<rparr>"

text \<open>A client whose helper rounds amounts up by \<open>0\<close> or down, as ccxt's does, keeps every record
  of a sale within the bound.\<close>

definition floors_amounts :: "'v ccxt_client \<Rightarrow> bool" where
  "floors_amounts cl \<longleftrightarrow> (case cl_amount_to_precision cl of
     None \<Rightarrow> True | Some h \<Rightarrow> \<forall>v s q r. h v s q = Some r \<longrightarrow> r \<le> q)"

definition floored :: "'v ccxt_client \<Rightarrow> 'v ccxt_client" where
  "floored cl = cl\<lparr>cl_amount_to_precision :=
     map_option (\<lambda>h v s q. map_option (min q) (h v s q)) (cl_amount_to_precision cl)\<rparr>"

lemma floored_id:
  assumes "floors_amounts cl"
  shows "floored cl = cl"
proof (cases "cl_amount_to_precision cl")
  case None
  then show ?thesis by (cases cl) (simp add: floored_def)
next
  case (Some h)
  have down: "r \<le> q" if "h v s q = Some r" for v s q r
    using assms Some that by (simp add: floors_amounts_def)
  have "map_option (min q) (h v s q) = h v s q" for v s q
    by (cases "h v s q") (simp_all add: down min_absorb2)
  then have "(\<lambda>v s q. map_option (min q) (h v s q)) = h" by (intro ext)
  with Some show ?thesis by (cases cl) (simp add: floored_def)
qed

lemma snd_lifted [simp]: "snd (fst (lifted f w)) = snd w"
  by (cases w) (simp add: lifted_def split: prod.splits)

interpretation recorded: venue_guard "recording (floored cl)"
  "\<lambda>w. \<forall>(s, side, a)\<in>set (snd w). side = ''sell'' \<longrightarrow> a \<le> bound s" bound
  for cl :: "'v ccxt_client" and bound :: "symbol \<Rightarrow> real"
proof
  fix w :: "'v \<times> (symbol \<times> string \<times> real) list" and side a s kind p ps
  assume "\<forall>(s, side, a)\<in>set (snd w). side = ''sell'' \<longrightarrow> a \<le> bound s" "side = ''sell'' \<Longrightarrow> a \<le> bound s"
  then show "\<forall>(s, side, a)\<in>set (snd (fst (cl_create_order (recording (floored cl)) w s kind side a p ps))).
      side = ''sell'' \<longrightarrow> a \<le> bound s"
    by (cases w) (auto simp: recording_def split: prod.splits)
next
  fix h and w :: "'v \<times> (symbol \<times> string \<times> real) list" and s q r
  assume "cl_amount_to_precision (recording (floored cl)) = Some h" "h w s q = Some r"
  then show "r \<le> q" by (auto simp: recording_def floored_def)
qed (auto simp: recording_def)

section \<open>Properties\<close>

text \<open>C25: A SELL never sells what the agent did not buy: whatever the venue answers, every sell order that
  placing one SELL sends to it (the order itself and any protective order after it) is for at most what
  the ledger held of that symbol before, provided the client's amount helper does not round up.\<close>

theorem sells_stay_within_ledger:
  fixes x :: "('v \<times> (symbol \<times> string \<times> real) list) ccxt"
  assumes "floors_amounts cl" and "book_wf (t_lots (cx_tracker x))" and "rq_side r = S_SELL"
    and "snd (cx_venue_state x) = []" and "cx_place_order (recording cl) env r x = (x', out)"
  shows "list_all (\<lambda>(s, side, a). side \<noteq> ''sell'' \<or> a \<le> quantity (cx_tracker x) s) (snd (cx_venue_state x'))"
proof -
  let ?bound = "quantity (cx_tracker x)"
  have "recorded.safe ?bound x" using assms(2,4) by (simp add: recorded.safe_def [of ?bound])
  from recorded.place_order_safe [OF this assms(3) refl, of cl env] assms(1,5)
  have "recorded.safe ?bound x'" by (simp add: floored_id)
  then show ?thesis by (auto simp: recorded.safe_def [of ?bound] list_all_iff)
qed


text \<open>A venue without markets or polls that leaves every order open, and an executor holding five coins.\<close>

definition demo_client :: "unit ccxt_client" where
  "demo_client =
     \<lparr>cl_create_order = (\<lambda>v s kind side a p ps. (v, Inr (JDict [(''id'', JStr ''1''), (''status'', JStr ''open'')]))),
      cl_cancel_order = (\<lambda>v i s algo. (v, Inr JNull)), cl_fetch_order = None,
      cl_fetch_balance = (\<lambda>v. (v, Inr JNull)), cl_fetch_free_balance = (\<lambda>v. (v, Inr JNull)),
      cl_load_markets = None, cl_markets = (\<lambda>v. JNull), cl_amount_to_precision = None,
      cl_price_to_precision = None, cl_list_orders = (\<lambda>v m s k. (v, Inr JNull)), cl_fetch_trading_fee = None,
      cl_builtins = \<lparr>bi_float = (\<lambda>s. None), bi_str = (\<lambda>j. [])\<rparr>\<rparr>"

definition demo_ccxt :: "'v \<Rightarrow> 'v ccxt" where
  "demo_ccxt v = (new_ccxt v ''EUR'' ''okx'' default_venue_order_settings)\<lparr>cx_tracker := demo_tracker\<rparr>"

definition demo_sell :: order_request where
  "demo_sell = \<lparr>rq_symbol = ''BTC/EUR'', rq_side = S_SELL, rq_quantity = 9, rq_price = Some 130,
     rq_decision_id = None, rq_stop_loss = None, rq_take_profit = None, rq_order_id = ''o'', rq_now = 0\<rparr>"

definition demo_env :: venue_env where
  "demo_env = \<lparr>ve_now = 0, ve_reject_id = ''r'', ve_client_id = ''c''\<rparr>"

lemma demo_ccxt_fields [simp]:
  "cx_venue_state (demo_ccxt v) = v" "cx_tracker (demo_ccxt v) = demo_tracker" "cx_markets (demo_ccxt v) = []"
  "cx_protection (demo_ccxt v) = None" "cx_open_orders (demo_ccxt v) = []"
  by (simp_all add: demo_ccxt_def new_ccxt_def default_venue_order_settings_def)

lemma demo_sell_sent:
  "snd (cx_venue_state (fst (cx_place_order (recording demo_client) demo_env demo_sell (demo_ccxt ((), [])))))
     = [(''BTC/EUR'', ''sell'', 5)]"
  by (simp add: cx_place_order_def ensure_markets_def recording_def demo_client_def nonempty_dict_def
      amount_to_precision_def demo_sell_def release_coins_def sendable_amount_def demo_tracker_facts is_dust_def
      min_amount_def send_order_def order_terms_def demo_ccxt_def new_ccxt_def default_venue_order_settings_def
      side_value_def dict_or_raise_def order_id_of_def resolve_status_def raw_status_def status_map_def
      raw_filled_def float_or_raise_def confirm_poll_def settle_order_def optional_float_def or_real_def
      plain_result_def Let_def)

theorem sells_stay_within_ledger_witness:
  "list_all (\<lambda>(s, side, a). side \<noteq> ''sell'' \<or> a \<le> quantity demo_tracker s)
     (snd (cx_venue_state (fst (cx_place_order (recording demo_client) demo_env demo_sell (demo_ccxt ((), []))))))
   \<and> snd (cx_venue_state (fst (cx_place_order (recording demo_client) demo_env demo_sell (demo_ccxt ((), [])))))
     = [(''BTC/EUR'', ''sell'', 5)]"
proof -
  obtain x' out where run: "cx_place_order (recording demo_client) demo_env demo_sell (demo_ccxt ((), [])) = (x', out)"
    by fastforce
  have "book_wf (t_lots demo_tracker)" using demo_tracker_facts(1) by (simp add: book_ok_def)
  then show ?thesis
    using sells_stay_within_ledger [OF _ _ _ _ run] run demo_sell_sent
    by (simp add: floors_amounts_def demo_client_def demo_sell_def)
qed

end
