(* ===== verification/Ccxt_Reconcile.thy ===== *)
theory Ccxt_Reconcile
  imports Ccxt_Safety
begin

text \<open>
  The two-phase reconciliation of venue orders: a resolved order is kept with its result and
  delivered again by every reconciliation until the agent confirms it.

  The locale \<open>two_phase\<close> is the contract of an executor whose results are delivered this way; it
  is interpreted on the ccxt executor here and on the Saxo executor in its theory.
\<close>

section \<open>Delivery until confirmation\<close>

text \<open>What the agent does with an executor between two restarts, as far as delivery goes.\<close>

datatype 'e rstep = Reconcile 'e | Confirm string

fun confirmed_ids :: "'e rstep list \<Rightarrow> string set" where
  "confirmed_ids [] = {}"
| "confirmed_ids (Confirm i # ss) = insert i (confirmed_ids ss)"
| "confirmed_ids (Reconcile e # ss) = confirmed_ids ss"

text \<open>What each reconciliation of a run returned.\<close>

fun reports ::
  "('e \<Rightarrow> 'x \<Rightarrow> 'x \<times> (py_error + order_result list)) \<Rightarrow> (string \<Rightarrow> 'x \<Rightarrow> 'x) \<Rightarrow> 'e rstep list \<Rightarrow> 'x \<Rightarrow>
   (py_error + order_result list) list" where
  "reports rec conf [] x = []"
| "reports rec conf (Confirm i # ss) x = reports rec conf ss (conf i x)"
| "reports rec conf (Reconcile e # ss) x = snd (rec e x) # reports rec conf ss (fst (rec e x))"

locale two_phase =
  fixes open_of :: "'x \<Rightarrow> (string, venue_order) dict"
    and rec :: "'e \<Rightarrow> 'x \<Rightarrow> 'x \<times> (py_error + order_result list)"
    and conf :: "string \<Rightarrow> 'x \<Rightarrow> 'x" and ok :: "string \<Rightarrow> 'x \<Rightarrow> bool"
  assumes rec_keeps: "ok i x \<Longrightarrow> map_of (open_of x) i = Some p \<Longrightarrow> vo_resolved p \<noteq> None \<Longrightarrow>
        ok i (fst (rec e x)) \<and> map_of (open_of (fst (rec e x))) i = Some p"
    and rec_delivers: "ok i x \<Longrightarrow> map_of (open_of x) i = Some p \<Longrightarrow> vo_resolved p = Some res \<Longrightarrow>
        snd (rec e x) = Inr rs \<Longrightarrow> res \<in> set rs"
    and conf_keeps: "ok i x \<Longrightarrow> j \<noteq> i \<Longrightarrow>
        ok i (conf j x) \<and> map_of (open_of (conf j x)) i = map_of (open_of x) i"
begin

lemma delivered_until_confirmed:
  assumes "ok i x" and "map_of (open_of x) i = Some p" and "vo_resolved p = Some res"
    and "i \<notin> confirmed_ids ss" and "Inr rs \<in> set (reports rec conf ss x)"
  shows "res \<in> set rs"
  using assms
proof (induction ss arbitrary: x)
  case (Cons st ss)
  show ?case
  proof (cases st)
    case (Reconcile e)
    with Cons rec_keeps [of i x p e] rec_delivers [of i x p res e rs] show ?thesis by auto
  next
    case (Confirm j)
    with Cons conf_keeps [of i x j] show ?thesis by auto
  qed
qed simp

end

section \<open>What reconciling keeps\<close>

text \<open>An order id is guarded when no protective fill can take its entry.\<close>

definition guarded :: "string \<Rightarrow> 'v ccxt \<Rightarrow> bool" where
  "guarded i x \<longleftrightarrow> cx_protection x = None \<or> i \<in> set (cx_known_order_ids x)"

definition kept :: "string \<Rightarrow> 'v ccxt \<Rightarrow> 'v ccxt \<Rightarrow> bool" where
  "kept i x y \<longleftrightarrow> (guarded i x \<longrightarrow> guarded i y \<and> map_of (cx_open_orders y) i = map_of (cx_open_orders x) i)
     \<and> (cx_protection x = None \<longrightarrow> cx_protection y = None)
     \<and> (distinct (map fst (cx_open_orders x)) \<longrightarrow> distinct (map fst (cx_open_orders y)))"

lemma kept_refl [simp]: "kept i x x"
  by (simp add: kept_def)

lemma kept_trans [trans]: "kept i x y \<Longrightarrow> kept i y z \<Longrightarrow> kept i x z"
  by (simp add: kept_def)

lemma kept_same:
  "cx_protection y = cx_protection x \<Longrightarrow> cx_open_orders y = cx_open_orders x \<Longrightarrow>
   cx_known_order_ids y = cx_known_order_ids x \<Longrightarrow> kept i x y"
  by (simp add: kept_def guarded_def)

lemma kept_protection:
  "cx_protection x \<noteq> None \<Longrightarrow> cx_open_orders y = cx_open_orders x \<Longrightarrow>
   cx_known_order_ids y = cx_known_order_ids x \<Longrightarrow> kept i x y"
  by (auto simp: kept_def guarded_def)

lemma kept_ensure_markets: "kept i x (ensure_markets cl x)"
  by (intro kept_same) (auto simp: ensure_markets_def split: option.splits prod.splits sum.splits)

lemma kept_cancel_protection:
  "cx_protection x = Some live \<Longrightarrow> cancel_protection cl s live x = (y, out) \<Longrightarrow> kept i x y \<and> cx_protection y \<noteq> None"
  by (auto simp: cancel_protection_def kept_protection split: prod.splits)

lemma kept_place_protection: "kept i x (place_protection cl env s q sl tp x)"
  by (auto simp: place_protection_def intro!: kept_protection split: option.splits prod.splits)

lemma book_triggered_orders:
  "fst (book_triggered cl env t x) = x \<or> tr_child_id t \<notin> set (cx_known_order_ids x)
     \<and> cx_known_order_ids (fst (book_triggered cl env t x)) = tr_child_id t # cx_known_order_ids x
     \<and> (cx_open_orders (fst (book_triggered cl env t x)) = cx_open_orders x
        \<or> (\<exists>entry. cx_open_orders (fst (book_triggered cl env t x)) = AList.update (tr_child_id t) entry (cx_open_orders x)))"
proof (cases "tr_child_id t \<in> set (cx_known_order_ids x)")
  case False
  then show ?thesis unfolding book_triggered_def Let_def
    by (simp split: sum.splits option.splits) (auto simp: case_prod_beta)
qed (simp add: book_triggered_def)

lemma kept_book_triggered:
  assumes "cx_protection x \<noteq> None" and "book_triggered cl env t x = (y, err)"
  shows "kept i x y"
  using book_triggered_orders [of cl env t x] book_triggered_frame(2) [OF assms(2)] assms
  by (auto simp: kept_def guarded_def update_conv' distinct_update)

lemma kept_sync_protection: "sync_protection n cl env s x = (y, err) \<Longrightarrow> kept i x y"
proof (induction n arbitrary: x rule: less_induct)
  case (less n x)
  have fired: "kept i x z" if "cx_protection x = Some live" "cancel_protection cl s live x = (x1, out)"
    "book_triggered cl env t x1 = (z, e)" for live x1 out t z e
    using kept_cancel_protection [OF that(1,2)] kept_book_triggered [OF _ that(3)] kept_trans by blast
  from less.prems show ?case
  proof (cases rule: sync_cases)
    case same
    then show ?thesis by simp
  next
    case (placed q sl tp x1)
    then have "kept i x x1" using kept_cancel_protection by fastforce
    with placed(3) kept_place_protection [of i x1] kept_trans show ?thesis by blast
  next
    case (cancelled live out)
    with kept_cancel_protection show ?thesis by blast
  next
    case (booked live x1 t)
    with fired show ?thesis by blast
  next
    case (again live x1 t x2 m)
    from less.IH [OF _ again(5)] again(4) fired [OF again(1-3)] show ?thesis by (auto intro: kept_trans)
  qed
qed

lemma kept_book_all:
  "cx_protection x \<noteq> None \<Longrightarrow> book_all cl env ts x = (y, err) \<Longrightarrow> kept i x y"
proof (induction ts arbitrary: x)
  case (Cons t ts)
  obtain x1 e where b: "book_triggered cl env t x = (x1, e)" by fastforce
  from kept_book_triggered [OF Cons.prems(1) b] book_triggered_frame(2) [OF b] Cons.prems
  show ?case using Cons.IH [of x1] b by (auto split: option.splits intro: kept_trans)
qed simp

lemma kept_sync_all: "sync_all cl env ss x = (y, err) \<Longrightarrow> kept i x y"
proof (induction ss arbitrary: x)
  case (Cons s ss)
  obtain x1 e where s: "sync_protection 1 cl env s x = (x1, e)" by fastforce
  from kept_sync_protection [OF s] Cons s show ?case by (auto split: option.splits intro: kept_trans)
qed simp

lemma kept_watch: "watch_protection cl env x = (y, err) \<Longrightarrow> kept i x y"
proof (cases "cx_protection x")
  case (Some live)
  assume run: "watch_protection cl env x = (y, err)"
  obtain v live1 out where p: "protect_poll cl live [] (cx_venue_state x) live = ((v, live1), out)"
    by (metis prod.exhaust)
  let ?x1 = "x\<lparr>cx_venue_state := v, cx_protection := Some live1\<rparr>"
  have x1: "kept i x ?x1" using Some by (intro kept_protection) simp_all
  show ?thesis
  proof (cases out)
    case (Inl e)
    with run p Some x1 show ?thesis by (simp add: watch_protection_def)
  next
    case (Inr fired)
    obtain x2 e where b: "book_all cl env fired ?x1 = (x2, e)" by fastforce
    from kept_book_all [OF _ b, of i] x1 have x2: "kept i x x2" by (auto intro: kept_trans)
    from run p Some Inr b x2 show ?thesis
      by (auto simp: watch_protection_def book_and_sync_def split: option.splits
          dest!: kept_sync_all [of cl env _ x2 _ _ i] intro: kept_trans)
  qed
qed (simp add: watch_protection_def)

text \<open>Resolving one order changes the entry of that order only.\<close>

lemma kept_resolve_order:
  assumes "resolve_order cl env j p found x = (y, out)" and "j \<noteq> i"
  shows "kept i x y"
proof -
  obtain raw status q why where f: "found = (raw, status, q, why)" by (cases found)
  let ?x0 = "ensure_markets cl x"
  show ?thesis
  proof (cases "optional_float (cl_builtins cl) (json_or (jget ''average'' raw) (jget ''price'' raw))")
    case (Inl e)
    with assms f show ?thesis by (auto simp: resolve_order_def intro: kept_ensure_markets)
  next
    case (Inr price)
    obtain x1 res1 where x1: "(case (status, price) of
                     (FILLED, Some pr) \<Rightarrow>
                       (case booked_result cl (plain_result j (vo_symbol p) (vo_side p) q price status
                         (if status = FILLED then Some (fill_time (cl_builtins cl) raw (ve_now env)) else None) why)
                           pr (vo_decision_id p) raw ?x0 of
                          (y, res1) \<Rightarrow>
                            (if vo_side p = S_BUY
                             then y\<lparr>cx_exit_levels :=
                                    AList.update (vo_symbol p) (vo_stop_loss p, vo_take_profit p) (cx_exit_levels y)\<rparr>
                             else y, res1))
                   | _ \<Rightarrow> (?x0, plain_result j (vo_symbol p) (vo_side p) q price status
                         (if status = FILLED then Some (fill_time (cl_builtins cl) raw (ve_now env)) else None) why))
        = (x1, res1)" by fastforce
    then have "kept i ?x0 x1"
      by (intro kept_same)
        (auto split: order_status.splits option.splits prod.splits if_splits dest!: arg_cong [where f = fst])
    let ?x2 = "x1\<lparr>cx_open_orders := AList.map_entry j (\<lambda>q. q\<lparr>vo_resolved := Some res1\<rparr>) (cx_open_orders x1)\<rparr>"
    have "kept i x1 ?x2"
      using assms(2) by (simp add: kept_def guarded_def AList.distinct_map_entry AList.map_of_map_entry split: option.splits)
    obtain x3 e where s: "sync_protection 1 cl env (vo_symbol p) ?x2 = (x3, e)" by fastforce
    have "kept i x x3"
      using kept_ensure_markets [of i x cl] \<open>kept i ?x0 x1\<close> \<open>kept i x1 ?x2\<close> kept_sync_protection [OF s, of i]
      by (blast intro: kept_trans)
    moreover have "y = x3" using assms(1) f Inr x1 s
      by (auto simp: resolve_order_def Let_def split: option.splits)
    ultimately show ?thesis by simp
  qed
qed


lemma kept_poll_orders:
  assumes "poll_orders cl env fetch ps results x = (y, out)"
    and "\<forall>p. (i, p) \<in> set ps \<longrightarrow> vo_resolved p \<noteq> None"
  shows "kept i x y \<and> (\<forall>rs. out = Inr rs \<longrightarrow> set results \<subseteq> set rs)"
  using assms
proof (induction ps arbitrary: results x)
  case (Cons ip ps)
  obtain j p where ip: "ip = (j, p)" by (cases ip)
  show ?case
  proof (cases "vo_resolved p = None")
    case False
    with Cons.prems(1) ip have "poll_orders cl env fetch ps results x = (y, out)" by simp
    from Cons.IH [OF this] Cons.prems(2) show ?thesis by simp
  next
    case True
    with Cons.prems ip have ji: "j \<noteq> i" by auto
    obtain v found where poll: "poll_order cl env (cx_settings x) fetch j p (cx_venue_state x) = (v, found)"
      by fastforce
    have x1: "kept i x (x\<lparr>cx_venue_state := v\<rparr>)" by (intro kept_same) simp_all
    consider (raised) e where "found = Inl e" | (none) "found = Inr None" | (some) f where "found = Inr (Some f)"
      by (metis sum.exhaust option.exhaust)
    then show ?thesis
    proof cases
      case raised
      with Cons.prems ip True poll x1 show ?thesis by auto
    next
      case none
      with Cons.prems ip True poll have "poll_orders cl env fetch ps results (x\<lparr>cx_venue_state := v\<rparr>) = (y, out)"
        by simp
      from Cons.IH [OF this] Cons.prems(2) x1 show ?thesis by (auto intro: kept_trans)
    next
      case (some f)
      obtain x2 res where r: "resolve_order cl env j p f (x\<lparr>cx_venue_state := v\<rparr>) = (x2, res)" by fastforce
      with kept_resolve_order [OF r ji] x1 have x2: "kept i x x2" by (auto intro: kept_trans)
      show ?thesis
      proof (cases res)
        case (Inl e)
        with Cons.prems ip True poll some r x2 show ?thesis by auto
      next
        case (Inr result)
        with Cons.prems ip True poll some r have "poll_orders cl env fetch ps (results @ [result]) x2 = (y, out)"
          by simp
        from Cons.IH [OF this] Cons.prems(2) x2 show ?thesis by (auto intro: kept_trans)
      qed
    qed
  qed
qed auto

lemma in_map_filter: "y \<in> set (List.map_filter f xs) \<longleftrightarrow> (\<exists>x\<in>set xs. f x = Some y)"
  by (induction xs) (auto simp: map_filter_simps split: option.splits)

lemma redelivered_set:
  "res \<in> set (redelivered x) \<longleftrightarrow> (\<exists>i p. (i, p) \<in> set (cx_open_orders x) \<and> vo_resolved p = Some res)"
  by (force simp: redelivered_def in_map_filter)

lemma reconcile_delivers:
  assumes "guarded i x" and "distinct (map fst (cx_open_orders x))"
    and "map_of (cx_open_orders x) i = Some p" and "vo_resolved p = Some res"
    and "reconcile_open_orders cl env x = (y, out)"
  shows "guarded i y \<and> distinct (map fst (cx_open_orders y)) \<and> map_of (cx_open_orders y) i = Some p
    \<and> (\<forall>rs. out = Inr rs \<longrightarrow> cl_fetch_order cl \<noteq> None \<longrightarrow> res \<in> set rs)"
proof -
  obtain x1 err where w: "watch_protection cl env x = (x1, err)" by fastforce
  from kept_watch [OF w, of i] assms(1-3) have x1: "guarded i x1" "distinct (map fst (cx_open_orders x1))"
    "map_of (cx_open_orders x1) i = Some p" by (simp_all add: kept_def)
  have del: "res \<in> set (redelivered x1)"
    using map_of_SomeD [OF x1(3)] assms(4) by (auto simp: redelivered_set)
  show ?thesis
  proof (cases "err = None \<and> cx_open_orders x1 \<noteq> [] \<and> length (redelivered x1) \<noteq> length (cx_open_orders x1)
      \<and> cl_fetch_order cl \<noteq> None")
    case False
    with assms(5) w x1 del show ?thesis
      by (auto simp: reconcile_open_orders_def split: option.splits if_splits)
  next
    case True
    then obtain fetch where f: "cl_fetch_order cl = Some fetch" by auto
    with True assms(5) w have run: "poll_orders cl env fetch (cx_open_orders x1) (redelivered x1) x1 = (y, out)"
      by (simp add: reconcile_open_orders_def)
    have "p' = p" if "(i, p') \<in> set (cx_open_orders x1)" for p'
      using map_of_is_SomeI [OF x1(2) that] x1(3) by simp
    with assms(4) have "\<forall>p'. (i, p') \<in> set (cx_open_orders x1) \<longrightarrow> vo_resolved p' \<noteq> None" by fastforce
    from kept_poll_orders [OF run this] x1 del show ?thesis by (auto simp: kept_def)
  qed
qed

text \<open>A client without \<^verbatim>\<open>fetch_order\<close> resolves no order; the contract is for clients that have it.\<close>

definition deliverable :: "'v ccxt_client \<Rightarrow> string \<Rightarrow> 'v ccxt \<Rightarrow> bool" where
  "deliverable cl i x \<longleftrightarrow> cl_fetch_order cl \<noteq> None \<and> guarded i x \<and> distinct (map fst (cx_open_orders x))"

lemma confirm_reconciled_open:
  "cx_open_orders (confirm_reconciled j x) = cx_open_orders x
     \<or> cx_open_orders (confirm_reconciled j x) = AList.delete j (cx_open_orders x)"
  "cx_protection (confirm_reconciled j x) = cx_protection x"
  "cx_known_order_ids (confirm_reconciled j x) = cx_known_order_ids x"
  by (auto simp: confirm_reconciled_def split: option.splits)

interpretation ccxt_delivery: two_phase cx_open_orders "reconcile_open_orders cl" confirm_reconciled "deliverable cl"
  for cl :: "'v ccxt_client"
proof
  fix i and x :: "'v ccxt" and p e
  assume *: "deliverable cl i x" "map_of (cx_open_orders x) i = Some p"
  obtain y out where r: "reconcile_open_orders cl e x = (y, out)" by fastforce
  {
    assume "vo_resolved p \<noteq> None"
    then obtain res where "vo_resolved p = Some res" by auto
    from reconcile_delivers [OF _ _ *(2) this r] *(1)
    show "deliverable cl i (fst (reconcile_open_orders cl e x))
        \<and> map_of (cx_open_orders (fst (reconcile_open_orders cl e x))) i = Some p"
      unfolding r by (simp add: deliverable_def)
  }
  fix res rs
  assume "vo_resolved p = Some res" "snd (reconcile_open_orders cl e x) = Inr rs"
  with reconcile_delivers [OF _ _ *(2) _ r, of res] *(1) r show "res \<in> set rs"
    by (simp add: deliverable_def)
next
  fix i and x :: "'v ccxt" and j
  assume "deliverable cl i x" "j \<noteq> i"
  then show "deliverable cl i (confirm_reconciled j x)
      \<and> map_of (cx_open_orders (confirm_reconciled j x)) i = map_of (cx_open_orders x) i"
    using confirm_reconciled_open [of j x]
    by (auto simp: deliverable_def guarded_def delete_conv' distinct_delete)
qed

section \<open>Properties\<close>


text \<open>One order resolved and waiting, one still open at a venue whose polls fail.\<close>

definition demo_polling_client :: "unit ccxt_client" where
  "demo_polling_client = demo_client\<lparr>cl_fetch_order := Some (\<lambda>v i s algo. (v, Inl ValueError))\<rparr>"

definition demo_result :: order_result where
  "demo_result = plain_result ''7'' ''BTC/EUR'' S_BUY 1 (Some 100) FILLED (Some 0) None"

definition demo_open_order :: "order_result option \<Rightarrow> venue_order" where
  "demo_open_order res =
     \<lparr>vo_symbol = ''BTC/EUR'', vo_side = S_BUY, vo_quantity = 1, vo_decision_id = None, vo_stop_loss = None,
      vo_take_profit = None, vo_resolved = res, vo_placed_at = None, vo_price = Some 100\<rparr>"

definition demo_waiting :: "unit ccxt" where
  "demo_waiting = (demo_ccxt ())\<lparr>cx_open_orders :=
     [(''7'', demo_open_order (Some demo_result)), (''8'', demo_open_order None)]\<rparr>"

lemma demo_waiting_reconciled:
  "reconcile_open_orders demo_polling_client demo_env demo_waiting = (demo_waiting, Inr [demo_result])"
  by (simp add: reconcile_open_orders_def watch_protection_def demo_waiting_def redelivered_def map_filter_def
      demo_open_order_def demo_polling_client_def poll_order_def)


end
