(* ===== verification/Ccxt_Restart.thy ===== *)
theory Ccxt_Restart
  imports Ccxt_Reconcile Agent
begin

text \<open>
  Restarting a ccxt executor: the ledger rebuilt by \<^verbatim>\<open>load_fills\<close> from the stored order rows is the
  ledger of the executor that booked the fills, as long as nothing was written off as dust; dust
  that was written off comes back with the rebuilt ledger.
\<close>

section \<open>Fills and their rows\<close>

text \<open>A fill as \<^verbatim>\<open>place_order\<close> and \<^verbatim>\<open>reconcile_open_orders\<close> book it.\<close>

record venue_fill_event =
  fe_order_id :: string
  fe_symbol :: symbol
  fe_side :: order_side
  fe_quantity :: real
  fe_price :: real
  fe_decision_id :: "int option"
  fe_raw :: payload

definition fill_event_result :: "venue_fill_event \<Rightarrow> order_result" where
  "fill_event_result f =
     plain_result (fe_order_id f) (fe_symbol f) (fe_side f) (fe_quantity f) (Some (fe_price f)) FILLED None None"

definition book_event :: "'v ccxt_client \<Rightarrow> venue_fill_event \<Rightarrow> 'v ccxt \<Rightarrow> 'v ccxt \<times> order_result" where
  "book_event cl f x = booked_result cl (fill_event_result f) (fe_price f) (fe_decision_id f) (fe_raw f) x"

fun book_events :: "'v ccxt_client \<Rightarrow> venue_fill_event list \<Rightarrow> 'v ccxt \<Rightarrow> 'v ccxt \<times> (order_result \<times> int option) list" where
  "book_events cl [] x = (x, [])"
| "book_events cl (f # fs) x =
     (let (x1, res) = book_event cl f x; (x2, rs) = book_events cl fs x1 in (x2, (res, fe_decision_id f) # rs))"

text \<open>The row the agent persists for a result, as far as a replay reads it.\<close>

definition stores :: "order_row \<Rightarrow> order_result \<times> int option \<Rightarrow> bool" where
  "stores row out \<longleftrightarrow> (case out of (res, did) \<Rightarrow>
     or_symbol row = o_symbol res \<and> or_side row = side_value (o_side res) \<and> or_quantity row = o_quantity res
     \<and> or_price row = o_price res \<and> or_decision_id row = did
     \<and> or_fee_base row = fee_field res (o_fee_base res) \<and> or_fee_quote row = fee_field res (o_fee_quote res))"

text \<open>No fill of the run leaves a remainder the venue cannot trade.\<close>

fun leaves_no_dust :: "'v ccxt_client \<Rightarrow> venue_fill_event list \<Rightarrow> 'v ccxt \<Rightarrow> bool" where
  "leaves_no_dust cl [] x = True"
| "leaves_no_dust cl (f # fs) x =
     (let (b, q) = fee_components (cl_builtins cl) (fe_raw f) (fe_symbol f);
          t = fst (book_fill (cx_tracker x) (fe_symbol f) (side_value (fe_side f)) (fe_quantity f) (fe_price f) b q
                (fe_decision_id f))
      in (fe_side f = S_SELL \<longrightarrow> 0 < quantity t (fe_symbol f) \<longrightarrow> \<not> is_dust cl x (fe_symbol f) (quantity t (fe_symbol f)))
         \<and> leaves_no_dust cl fs (fst (book_event cl f x)))"

section \<open>The rebuilt ledger\<close>

lemma or_zero_none_if_zero: "(case none_if_zero v of None \<Rightarrow> 0 | Some w \<Rightarrow> w) = v"
  by (simp add: none_if_zero_def)

lemma is_dust_tracker [simp]: "is_dust cl (x\<lparr>cx_tracker := t\<rparr>) s q = is_dust cl x s q"
  by (simp add: is_dust_def min_amount_def)

lemma book_event_result:
  assumes "fee_components (cl_builtins cl) (fe_raw f) (fe_symbol f) = (b, q)"
  shows "o_fee_base (snd (book_event cl f x)) = none_if_zero b" "o_fee_quote (snd (book_event cl f x)) = none_if_zero q"
    "o_symbol (snd (book_event cl f x)) = fe_symbol f" "o_side (snd (book_event cl f x)) = fe_side f"
    "o_quantity (snd (book_event cl f x)) = fe_quantity f" "o_price (snd (book_event cl f x)) = Some (fe_price f)"
    "o_status (snd (book_event cl f x)) = FILLED"
  using assms
  by (simp_all add: book_event_def booked_result_def fill_event_result_def plain_result_def reported_fees_def
      split: prod.splits)

lemma book_event_tracker:
  assumes "fee_components (cl_builtins cl) (fe_raw f) (fe_symbol f) = (b, q)"
    and t: "t = fst (book_fill (cx_tracker x) (fe_symbol f) (side_value (fe_side f)) (fe_quantity f) (fe_price f) b q
                (fe_decision_id f))"
    and "fe_side f = S_SELL \<longrightarrow> 0 < quantity t (fe_symbol f) \<longrightarrow> \<not> is_dust cl x (fe_symbol f) (quantity t (fe_symbol f))"
  shows "cx_tracker (fst (book_event cl f x)) = t"
proof -
  obtain t' out where fill: "book_fill (cx_tracker x) (fe_symbol f) (side_value (fe_side f)) (fe_quantity f) (fe_price f)
      b q (fe_decision_id f) = (t', out)" by fastforce
  with t have "t' = t" by simp
  with fill assms(1,3) show ?thesis
    by (cases "fe_side f"; cases out)
      (auto simp: book_event_def booked_result_def fill_event_result_def plain_result_def record_fill_def
        reported_fees_def write_off_dust_def Let_def)
qed

text \<open>The ledger alone decides what a replay does; the count and the levels ride along.\<close>

lemma replay_stored:
  assumes "book_events cl fs x = (y, outs)" and "leaves_no_dust cl fs x" and "list_all2 stores rows outs"
  shows "fst (replay_loop (cx_tracker x) (map (venue_fill levels) rows) n lv) = cx_tracker y"
  using assms
proof (induction fs arbitrary: x y outs rows n lv)
  case (Cons f fs)
  obtain b q where fees: "fee_components (cl_builtins cl) (fe_raw f) (fe_symbol f) = (b, q)" by fastforce
  let ?t = "fst (book_fill (cx_tracker x) (fe_symbol f) (side_value (fe_side f)) (fe_quantity f) (fe_price f) b q
      (fe_decision_id f))"
  obtain x1 res where b: "book_event cl f x = (x1, res)" by fastforce
  obtain outs1 where run: "book_events cl fs x1 = (y, outs1)" and outs: "outs = (res, fe_decision_id f) # outs1"
    using Cons.prems(1) b by (auto split: prod.splits)
  from outs Cons.prems(3) obtain row rows1 where rows: "rows = row # rows1" "stores row (res, fe_decision_id f)"
    "list_all2 stores rows1 outs1" by (auto simp: list_all2_Cons2)
  have "cx_tracker x1 = ?t"
    using book_event_tracker [OF fees refl, of x] Cons.prems(2) fees b by simp
  moreover have "leaves_no_dust cl fs x1" using Cons.prems(2) fees b by simp
  moreover have "f_symbol (venue_fill levels row) = fe_symbol f" "f_side (venue_fill levels row) = side_value (fe_side f)"
      "f_quantity (venue_fill levels row) = fe_quantity f" "f_price (venue_fill levels row) = fe_price f"
      "f_fee_base (venue_fill levels row) = b" "f_fee_quote (venue_fill levels row) = q"
      "f_decision_id (venue_fill levels row) = fe_decision_id f"
    using rows(2) book_event_result [OF fees, of x] b
    by (simp_all add: stores_def venue_fill_def fee_field_def or_zero_none_if_zero split: prod.splits)
  moreover have "side_value (fe_side f) \<in> {''buy'', ''sell''}" by (cases "fe_side f") (simp_all add: side_value_def)
  ultimately show ?case
    using Cons.IH [OF run _ rows(3)] rows(1) by (simp add: Let_def)
qed simp

section \<open>Properties\<close>


text \<open>A coin bought and sold but for a remainder below the venue's minimum.\<close>

definition demo_markets :: payload where
  "demo_markets = [(''BTC/EUR'', JDict [(''limits'', JDict [(''amount'', JDict [(''min'', JNum (1/1000))])])])]"

definition demo_trader :: "unit ccxt" where
  "demo_trader = (new_ccxt () ''EUR'' ''okx'' default_venue_order_settings)\<lparr>cx_markets := demo_markets\<rparr>"

definition demo_fill :: "order_side \<Rightarrow> real \<Rightarrow> venue_fill_event" where
  "demo_fill side q = \<lparr>fe_order_id = ''1'', fe_symbol = ''BTC/EUR'', fe_side = side, fe_quantity = q,
     fe_price = 100, fe_decision_id = Some 7, fe_raw = []\<rparr>"

definition demo_row :: "order_side \<Rightarrow> real \<Rightarrow> order_row" where
  "demo_row side q = \<lparr>or_id = 1, or_order_id = ''1'', or_symbol = ''BTC/EUR'', or_side = side_value side,
     or_quantity = q, or_price = Some 100, or_status = ''filled'', or_decision_id = Some 7, or_filled_at = Some 0,
     or_created_at = 0, or_agent = None, or_realized_pnl = None, or_venue = Some ''okx'', or_strategy = None,
     or_fee_base = None, or_fee_quote = None\<rparr>"

lemma demo_trader_fields [simp]:
  "cx_tracker demo_trader = new_tracker" "cx_exit_levels demo_trader = []"
  "min_amount demo_client demo_trader ''BTC/EUR'' = 1/1000"
  "min_amount demo_client (demo_trader\<lparr>cx_tracker := t\<rparr>) ''BTC/EUR'' = 1/1000"
  by (simp_all add: demo_trader_def new_ccxt_def min_amount_def demo_markets_def dict_else_empty_def json_or_def
      demo_client_def)

lemma demo_fees [simp]: "fee_components bi [] s = (0, 0)"
  by (simp add: fee_components_def fee_entries_def)

lemma demo_book:
  "book_fill new_tracker ''BTC/EUR'' ''buy'' 1 100 0 0 (Some 7) = (on_buy new_tracker ''BTC/EUR'' 1 100 0 (Some 7), None)"
  "quantity (on_buy new_tracker ''BTC/EUR'' 1 100 0 (Some 7)) ''BTC/EUR'' = 1"
  by (simp_all add: book_fill_def on_buy_def add_lot_def new_tracker_def quantity_def dict_lots_def)

lemma demo_sold:
  assumes "q = 1/2 \<or> q = 1999/2000"
  shows "quantity (fst (book_fill (on_buy new_tracker ''BTC/EUR'' 1 100 0 (Some 7)) ''BTC/EUR'' ''sell'' q 100 0 0 (Some 7)))
     ''BTC/EUR'' = 1 - q"
  using assms
  by (auto simp: book_fill_def on_sell_def on_buy_def add_lot_def new_tracker_def quantity_def dict_lots_def consume_def Let_def)

lemma demo_bought:
  "book_event demo_client (demo_fill S_BUY 1) demo_trader =
     (demo_trader\<lparr>cx_tracker := on_buy new_tracker ''BTC/EUR'' 1 100 0 (Some 7)\<rparr>,
      (fill_event_result (demo_fill S_BUY 1)))"
  by (simp add: book_event_def booked_result_def fill_event_result_def plain_result_def demo_fill_def record_fill_def
      reported_fees_def none_if_zero_def demo_book side_value_def)

text \<open>The two runs: one leaves half a coin, the other a two-thousandth.\<close>

lemma demo_run:
  assumes "book_events demo_client [demo_fill S_BUY 1, demo_fill S_SELL q] demo_trader = (live, outcomes)"
  shows "list_all2 stores [demo_row S_BUY 1, demo_row S_SELL q] outcomes"
proof -
  let ?x1 = "demo_trader\<lparr>cx_tracker := on_buy new_tracker ''BTC/EUR'' 1 100 0 (Some 7)\<rparr>"
  obtain x2 res where s: "book_event demo_client (demo_fill S_SELL q) ?x1 = (x2, res)" by fastforce
  have "fee_components (cl_builtins demo_client) (fe_raw (demo_fill S_SELL q)) (fe_symbol (demo_fill S_SELL q)) = (0, 0)"
    by (simp add: demo_fill_def)
  note r = book_event_result [OF this, of ?x1, unfolded s]
  from assms s have "outcomes = [(fill_event_result (demo_fill S_BUY 1), Some 7), (res, Some 7)]"
    by (simp add: demo_bought) (simp add: demo_fill_def)
  with r show ?thesis
    by (simp add: stores_def demo_row_def fill_event_result_def plain_result_def demo_fill_def fee_field_def none_if_zero_def)
qed


text \<open>What was written off as dust returns with a restart: after a coin is bought and sold but for
  one two-thousandth (below the venue's minimum of one thousandth), the live ledger is empty, while the
  ledger rebuilt from the very rows of these fills holds that remainder again.\<close>

theorem written_off_dust_returns_after_restart:
  "quantity (cx_tracker (fst (book_events demo_client [demo_fill S_BUY 1, demo_fill S_SELL (1999/2000)] demo_trader)))
     ''BTC/EUR'' = 0
   \<and> quantity (cx_tracker (fst (load_fills (map (venue_fill []) [demo_row S_BUY 1, demo_row S_SELL (1999/2000)])
       demo_trader))) ''BTC/EUR'' = 1/2000"
proof -
  let ?t1 = "on_buy new_tracker ''BTC/EUR'' 1 100 0 (Some 7)"
  obtain t2 out where "on_sell ?t1 ''BTC/EUR'' (1999/2000) 100 0 = (t2, out)" by fastforce
  then have sold: "book_fill ?t1 ''BTC/EUR'' ''sell'' (1999/2000) 100 0 0 (Some 7) = (t2, Some out)"
    using demo_book(2) by (simp add: book_fill_def)
  have t2: "quantity t2 ''BTC/EUR'' = 1/2000" using demo_sold [of "1999/2000"] sold by simp
  have "quantity (fst (discard t2 ''BTC/EUR'')) ''BTC/EUR'' = 0"
    by (simp add: discard_def quantity_def dict_lots_def Let_def delete_conv')
  then have live: "quantity (cx_tracker (fst (book_event demo_client (demo_fill S_SELL (1999/2000))
      (demo_trader\<lparr>cx_tracker := ?t1\<rparr>)))) ''BTC/EUR'' = 0"
    using sold t2
    by (simp add: book_event_def booked_result_def fill_event_result_def plain_result_def demo_fill_def record_fill_def
        reported_fees_def side_value_def write_off_dust_def is_dust_def Let_def)
  let ?fills = "map (venue_fill []) [demo_row S_BUY 1, demo_row S_SELL (1999/2000)]"
  obtain t n lv where rep: "replay_loop new_tracker ?fills 0 [] = (t, n, lv)" by (metis prod.exhaust)
  moreover have "fst (replay_loop new_tracker ?fills 0 []) = t2"
    using sold by (simp add: venue_fill_def levels_of_def demo_row_def side_value_def demo_book(1) Let_def)
  ultimately have "t = t2" by simp
  have "cx_tracker (fst (load_fills ?fills demo_trader)) = t2"
    unfolding load_fills_def replay_fills_def rep \<open>t = t2\<close> by simp
  moreover obtain x2 res where "book_event demo_client (demo_fill S_SELL (1999/2000)) (demo_trader\<lparr>cx_tracker := ?t1\<rparr>)
      = (x2, res)" by fastforce
  ultimately show ?thesis using t2 live by (simp add: demo_bought)
qed

end
