(* ===== verification/Saxo_Client.thy ===== *)
theory Saxo_Client
  imports Json
begin

text \<open>
  The Saxo OpenAPI connection: the OAuth tokens of \<^verbatim>\<open>src/src/execution/saxo_auth.py\<close> and the
  requests of \<^verbatim>\<open>src/src/execution/saxo_client.py\<close>.

  The HTTP transport is a parameter with an arbitrary server state \<open>'v\<close>: a request changes the
  state and answers or fails. \<open>saxo_world\<close> is that state together with the tokens in memory and
  the token file. Error texts are not modelled (an auth error is \<open>auth_error\<close>, an API error
  \<open>api_error\<close>), nor is the keep-alive task's timer: what it does at each tick is \<open>oauth_refresh\<close>.
  The JSON text of the token file is abstracted to its contents.
\<close>

section \<open>Tokens\<close>

record token_set =
  ts_access_token :: string
  ts_access_expires_at :: instant
  ts_refresh_token :: string
  ts_refresh_expires_at :: instant

datatype token_file = NoFile | UnreadableFile | TokenFile token_set

record http_request =
  hr_method :: string
  hr_path :: string
  hr_params :: payload
  hr_json :: payload
  hr_token :: string

text \<open>The body is \<^const>\<open>None\<close> when it is empty or not JSON.\<close>

record http_response =
  rp_status :: int
  rp_body :: "json option"

record 'v saxo_world =
  sw_server :: 'v
  sw_tokens :: "token_set option"
  sw_file :: token_file

record oauth_settings =
  oa_redirect_uri :: string
  oa_margin :: timedelta

text \<open>\<open>sa_save_fault\<close> is the error of writing the token file, if any.\<close>

record 'v saxo_api =
  sa_http :: "'v \<Rightarrow> http_request \<Rightarrow> 'v \<times> (py_error + http_response)"
  sa_token_post :: "'v \<Rightarrow> (string \<times> string) list \<Rightarrow> 'v \<times> (py_error + http_response)"
  sa_save_fault :: "token_set \<Rightarrow> py_error option"
  sa_static_token :: string
  sa_oauth :: "oauth_settings option"
  sa_builtins :: builtins

abbreviation auth_error :: py_error where
  "auth_error \<equiv> RuntimeError ''SaxoAuthError''"

abbreviation api_error :: py_error where
  "api_error \<equiv> RuntimeError ''SaxoApiError''"

definition default_refresh_ttl :: real where
  "default_refresh_ttl = 2400"

definition seconds_us :: "real \<Rightarrow> timedelta" where
  "seconds_us s = round (s * of_int second_us)"

text \<open>The tokens of a response; \<^const>\<open>None\<close> when it is malformed.\<close>

definition tokens_of :: "builtins \<Rightarrow> instant \<Rightarrow> json option \<Rightarrow> token_set option" where
  "tokens_of bi now body =
     (case body of
        Some (JDict d) \<Rightarrow>
          (case (map_of d ''access_token'', Option.bind (map_of d ''expires_in'') (to_float bi),
                 map_of d ''refresh_token'',
                 to_float bi (case map_of d ''refresh_token_expires_in'' of None \<Rightarrow> JNum default_refresh_ttl | Some v \<Rightarrow> v)) of
             (Some a, Some expires, Some r, Some refresh_expires) \<Rightarrow>
               Some \<lparr>ts_access_token = to_str bi a, ts_access_expires_at = now + seconds_us expires,
                     ts_refresh_token = to_str bi r, ts_refresh_expires_at = now + seconds_us refresh_expires\<rparr>
           | _ \<Rightarrow> None)
      | _ \<Rightarrow> None)"

definition token_request ::
  "'v saxo_api \<Rightarrow> instant \<Rightarrow> (string \<times> string) list \<Rightarrow> 'v saxo_world \<Rightarrow> 'v saxo_world \<times> (py_error + token_set)" where
  "token_request api now form w =
     (let redirect = (case sa_oauth api of None \<Rightarrow> [] | Some oa \<Rightarrow> oa_redirect_uri oa)
      in case sa_token_post api (sw_server w) (form @ [(''redirect_uri'', redirect)]) of
           (v, Inl e) \<Rightarrow> (w\<lparr>sw_server := v\<rparr>, Inl auth_error)
         | (v, Inr resp) \<Rightarrow>
             (w\<lparr>sw_server := v\<rparr>,
              if rp_status resp \<ge> 400 then Inl auth_error
              else case tokens_of (sa_builtins api) now (rp_body resp) of None \<Rightarrow> Inl auth_error | Some t \<Rightarrow> Inr t))"

text \<open>The new pair is kept first and then written: a failing write leaves it in memory.\<close>

definition keep_tokens :: "'v saxo_api \<Rightarrow> token_set \<Rightarrow> 'v saxo_world \<Rightarrow> 'v saxo_world \<times> (py_error + token_set)" where
  "keep_tokens api t w =
     (let w1 = w\<lparr>sw_tokens := Some t\<rparr>
      in case sa_save_fault api t of
           Some e \<Rightarrow> (w1, Inl e)
         | None \<Rightarrow> (w1\<lparr>sw_file := TokenFile t\<rparr>, Inr t))"

definition exchange_code :: "'v saxo_api \<Rightarrow> instant \<Rightarrow> string \<Rightarrow> 'v saxo_world \<Rightarrow> 'v saxo_world \<times> (py_error + token_set)" where
  "exchange_code api now code w =
     (case token_request api now [(''grant_type'', ''authorization_code''), (''code'', code)] w of
        (w1, Inl e) \<Rightarrow> (w1, Inl e)
      | (w1, Inr t) \<Rightarrow> keep_tokens api t w1)"

definition current_tokens :: "'v saxo_world \<Rightarrow> 'v saxo_world \<times> (py_error + token_set)" where
  "current_tokens w =
     (case sw_tokens w of
        Some t \<Rightarrow> (w, Inr t)
      | None \<Rightarrow> (case sw_file w of
                   TokenFile t \<Rightarrow> (w\<lparr>sw_tokens := Some t\<rparr>, Inr t)
                 | _ \<Rightarrow> (w, Inl auth_error)))"

definition refresh_locked :: "'v saxo_api \<Rightarrow> instant \<Rightarrow> token_set \<Rightarrow> 'v saxo_world \<Rightarrow> 'v saxo_world \<times> (py_error + token_set)" where
  "refresh_locked api now t w =
     (if ts_refresh_expires_at t \<le> now then (w, Inl auth_error)
      else case token_request api now [(''grant_type'', ''refresh_token''), (''refresh_token'', ts_refresh_token t)] w of
             (w1, Inl e) \<Rightarrow> (w1, Inl e)
           | (w1, Inr fresh) \<Rightarrow> keep_tokens api fresh w1)"

definition oauth_refresh :: "'v saxo_api \<Rightarrow> instant \<Rightarrow> 'v saxo_world \<Rightarrow> 'v saxo_world \<times> (py_error + token_set)" where
  "oauth_refresh api now w =
     (case current_tokens w of (w1, Inl e) \<Rightarrow> (w1, Inl e) | (w1, Inr t) \<Rightarrow> refresh_locked api now t w1)"

definition access_token :: "'v saxo_api \<Rightarrow> oauth_settings \<Rightarrow> instant \<Rightarrow> 'v saxo_world \<Rightarrow> 'v saxo_world \<times> (py_error + string)" where
  "access_token api oa now w =
     (case current_tokens w of
        (w1, Inl e) \<Rightarrow> (w1, Inl e)
      | (w1, Inr t) \<Rightarrow>
          if ts_access_expires_at t - oa_margin oa > now then (w1, Inr (ts_access_token t))
          else case refresh_locked api now t w1 of
                 (w2, Inl e) \<Rightarrow> (w2, Inl e)
               | (w2, Inr fresh) \<Rightarrow> (w2, Inr (ts_access_token fresh)))"

definition invalidate :: "instant \<Rightarrow> 'v saxo_world \<Rightarrow> 'v saxo_world \<times> py_error option" where
  "invalidate now w =
     (case current_tokens w of
        (w1, Inl e) \<Rightarrow> (w1, Some e)
      | (w1, Inr t) \<Rightarrow> (w1\<lparr>sw_tokens := Some (t\<lparr>ts_access_expires_at := now - second_us\<rparr>)\<rparr>, None))"

section \<open>Requests\<close>

definition http_call :: "'v saxo_api \<Rightarrow> http_request \<Rightarrow> 'v saxo_world \<Rightarrow> 'v saxo_world \<times> (py_error + http_response)" where
  "http_call api r w = (case sa_http api (sw_server w) r of (v, out) \<Rightarrow> (w\<lparr>sw_server := v\<rparr>, out))"

text \<open>With a token source, a 401 forces one refresh and one more try.\<close>

definition send :: "'v saxo_api \<Rightarrow> instant \<Rightarrow> http_request \<Rightarrow> 'v saxo_world \<Rightarrow> 'v saxo_world \<times> (py_error + http_response)" where
  "send api now r w =
     (case sa_oauth api of
        None \<Rightarrow> http_call api (r\<lparr>hr_token := sa_static_token api\<rparr>) w
      | Some oa \<Rightarrow>
          (case access_token api oa now w of
             (w1, Inl e) \<Rightarrow> (w1, Inl e)
           | (w1, Inr token) \<Rightarrow>
               (case http_call api (r\<lparr>hr_token := token\<rparr>) w1 of
                  (w2, Inl e) \<Rightarrow> (w2, Inl e)
                | (w2, Inr resp) \<Rightarrow>
                    if rp_status resp \<noteq> 401 then (w2, Inr resp)
                    else case invalidate now w2 of
                           (w3, Some e) \<Rightarrow> (w3, Inl e)
                         | (w3, None) \<Rightarrow>
                             (case access_token api oa now w3 of
                                (w4, Inl e) \<Rightarrow> (w4, Inl e)
                              | (w4, Inr token2) \<Rightarrow> http_call api (r\<lparr>hr_token := token2\<rparr>) w4))))"

definition saxo_request ::
  "'v saxo_api \<Rightarrow> instant \<Rightarrow> string \<Rightarrow> string \<Rightarrow> payload \<Rightarrow> payload \<Rightarrow> 'v saxo_world \<Rightarrow> 'v saxo_world \<times> (py_error + json)" where
  "saxo_request api now meth path params body w =
     (case send api now \<lparr>hr_method = meth, hr_path = path, hr_params = params, hr_json = body, hr_token = []\<rparr> w of
        (w1, Inl e) \<Rightarrow> (w1, Inl api_error)
      | (w1, Inr resp) \<Rightarrow>
          let payload = (case rp_body resp of None \<Rightarrow> JNull | Some j \<Rightarrow> j)
          in (w1, if rp_status resp \<ge> 400 then Inl api_error
                  else case payload of
                         JDict d \<Rightarrow> (case jget ''ErrorInfo'' d of JDict info \<Rightarrow> Inl api_error | _ \<Rightarrow> Inr payload)
                       | _ \<Rightarrow> Inr payload))"

definition saxo_data :: "json \<Rightarrow> payload list" where
  "saxo_data v =
     (case v of
        JDict d \<Rightarrow> (case jget ''Data'' d of
                      JList xs \<Rightarrow> List.map_filter (\<lambda>x. case x of JDict row \<Rightarrow> Some row | _ \<Rightarrow> None) xs
                    | _ \<Rightarrow> [])
      | _ \<Rightarrow> [])"

definition map_answer :: "('a \<Rightarrow> 'b) \<Rightarrow> 'w \<times> (py_error + 'a) \<Rightarrow> 'w \<times> (py_error + 'b)" where
  "map_answer f out = (case out of (w, Inl e) \<Rightarrow> (w, Inl e) | (w, Inr x) \<Rightarrow> (w, Inr (f x)))"

definition get_accounts :: "'v saxo_api \<Rightarrow> instant \<Rightarrow> 'v saxo_world \<Rightarrow> 'v saxo_world \<times> (py_error + payload list)" where
  "get_accounts api now w = map_answer saxo_data (saxo_request api now ''GET'' ''/port/v1/accounts/me'' [] [] w)"

definition get_balance ::
  "'v saxo_api \<Rightarrow> instant \<Rightarrow> string \<Rightarrow> json \<Rightarrow> 'v saxo_world \<Rightarrow> 'v saxo_world \<times> (py_error + payload)" where
  "get_balance api now account client_key w =
     map_answer dict_else_empty (saxo_request api now ''GET'' ''/port/v1/balances''
       ((''AccountKey'', JStr account) # (if truthy client_key then [(''ClientKey'', client_key)] else [])) [] w)"

definition find_instruments ::
  "'v saxo_api \<Rightarrow> instant \<Rightarrow> string \<Rightarrow> string \<Rightarrow> 'v saxo_world \<Rightarrow> 'v saxo_world \<times> (py_error + payload list)" where
  "find_instruments api now keyword asset_type w =
     map_answer saxo_data (saxo_request api now ''GET'' ''/ref/v1/instruments''
       [(''Keywords'', JStr keyword), (''AssetTypes'', JStr asset_type)] [] w)"

definition get_net_positions :: "'v saxo_api \<Rightarrow> instant \<Rightarrow> 'v saxo_world \<Rightarrow> 'v saxo_world \<times> (py_error + payload list)" where
  "get_net_positions api now w =
     map_answer saxo_data (saxo_request api now ''GET'' ''/port/v1/netpositions/me''
       [(''FieldGroups'', JStr ''NetPositionBase,NetPositionView'')] [] w)"

definition place_market_order ::
  "'v saxo_api \<Rightarrow> instant \<Rightarrow> string \<Rightarrow> int \<Rightarrow> string \<Rightarrow> real \<Rightarrow> string \<Rightarrow> 'v saxo_world \<Rightarrow> 'v saxo_world \<times> (py_error + string)" where
  "place_market_order api now account uic buy_sell amount asset_type w =
     (case saxo_request api now ''POST'' ''/trade/v2/orders'' []
             [(''AccountKey'', JStr account), (''Uic'', JNum (of_int uic)), (''AssetType'', JStr asset_type),
              (''BuySell'', JStr buy_sell), (''Amount'', JNum amount), (''OrderType'', JStr ''Market''),
              (''OrderDuration'', JDict [(''DurationType'', JStr ''DayOrder'')]), (''ManualOrder'', JBool False)] w of
        (w1, Inl e) \<Rightarrow> (w1, Inl e)
      | (w1, Inr payload) \<Rightarrow>
          let oid = jget ''OrderId'' (dict_else_empty payload)
          in (w1, if oid \<in> {JNull, JStr []} then Inl api_error else Inr (to_str (sa_builtins api) oid)))"

definition saxo_cancel :: "'v saxo_api \<Rightarrow> instant \<Rightarrow> string \<Rightarrow> string \<Rightarrow> 'v saxo_world \<Rightarrow> 'v saxo_world \<times> (py_error + json)" where
  "saxo_cancel api now oid account w =
     saxo_request api now ''DELETE'' (''/trade/v2/orders/'' @ oid) [(''AccountKey'', JStr account)] [] w"

definition get_order_activity ::
  "'v saxo_api \<Rightarrow> instant \<Rightarrow> string \<Rightarrow> 'v saxo_world \<Rightarrow> 'v saxo_world \<times> (py_error + payload option)" where
  "get_order_activity api now oid w =
     map_answer (\<lambda>p. let rows = saxo_data p in if rows = [] then None else Some (last rows))
       (saxo_request api now ''GET'' ''/cs/v1/audit/orderactivities''
          [(''OrderId'', JStr oid), (''EntryType'', JStr ''Last'')] [] w)"

section \<open>Rotation\<close>

text \<open>What the running process does with its tokens; the server is arbitrary.\<close>

inductive oauth_step :: "'v saxo_api \<Rightarrow> 'v saxo_world \<Rightarrow> 'v saxo_world \<Rightarrow> bool" for api where
  Login: "oauth_step api w (fst (exchange_code api now code w))"
| KeepAlive: "oauth_step api w (fst (oauth_refresh api now w))"
| Token: "oauth_step api w (fst (access_token api oa now w))"
| Rejected: "oauth_step api w (fst (invalidate now w))"
| Request: "oauth_step api w (fst (saxo_request api now meth path params body w))"

inductive_cases oauth_stepE: "oauth_step api w w'"

text \<open>What is in memory differs from the file in the access token's expiry at most.\<close>

definition persisted :: "'v saxo_world \<Rightarrow> bool" where
  "persisted w \<longleftrightarrow> (case sw_tokens w of
     None \<Rightarrow> True
   | Some t \<Rightarrow> \<exists>e. sw_file w = TokenFile (t\<lparr>ts_access_expires_at := e\<rparr>))"

lemma persisted_server [simp]: "persisted (w\<lparr>sw_server := v\<rparr>) = persisted w"
  by (simp add: persisted_def split: option.splits)

lemma same_expiry: "\<exists>e. t = t\<lparr>ts_access_expires_at := e\<rparr>" for t :: token_set
  by (cases t) (auto intro: exI [of _ "ts_access_expires_at t"])

lemma current_tokens_persisted: "persisted w \<Longrightarrow> persisted (fst (current_tokens w))"
  by (auto simp: current_tokens_def persisted_def same_expiry split: option.splits token_file.splits)

lemma current_tokens_kept: "current_tokens w = (w1, Inr t) \<Longrightarrow> sw_tokens w1 = Some t"
  by (auto simp: current_tokens_def split: option.splits token_file.splits)

lemma token_request_persisted: "persisted w \<Longrightarrow> persisted (fst (token_request api now form w))"
  by (simp add: token_request_def Let_def split: prod.splits sum.splits)

lemma keep_tokens_persisted:
  assumes "sa_save_fault api t = None"
  shows "persisted (fst (keep_tokens api t w))"
  using assms by (simp add: keep_tokens_def persisted_def same_expiry)

lemma request_and_keep_persisted:
  assumes "persisted w" and "sa_save_fault api = (\<lambda>t. None)"
  shows "persisted (fst (case token_request api now form w of
           (w1, Inl e) \<Rightarrow> (w1, Inl e) | (w1, Inr t) \<Rightarrow> keep_tokens api t w1))"
proof -
  obtain w1 out where r: "token_request api now form w = (w1, out)" by fastforce
  with token_request_persisted [OF assms(1), of api now form] have "persisted w1" by simp
  with r assms(2) show ?thesis by (cases out) (simp_all add: keep_tokens_persisted)
qed

lemma exchange_code_persisted:
  "persisted w \<Longrightarrow> sa_save_fault api = (\<lambda>t. None) \<Longrightarrow> persisted (fst (exchange_code api now code w))"
  unfolding exchange_code_def by (rule request_and_keep_persisted)

lemma refresh_locked_persisted:
  "persisted w \<Longrightarrow> sa_save_fault api = (\<lambda>t. None) \<Longrightarrow> persisted (fst (refresh_locked api now t w))"
  unfolding refresh_locked_def by (simp add: request_and_keep_persisted)

lemma oauth_refresh_persisted:
  assumes "persisted w" and "sa_save_fault api = (\<lambda>t. None)"
  shows "persisted (fst (oauth_refresh api now w))"
proof -
  obtain w1 out where c: "current_tokens w = (w1, out)" by fastforce
  with current_tokens_persisted [OF assms(1)] have "persisted w1" by simp
  with refresh_locked_persisted [OF this assms(2)] c show ?thesis by (simp add: oauth_refresh_def split: sum.splits)
qed

lemma access_token_persisted:
  assumes "persisted w" and "sa_save_fault api = (\<lambda>t. None)"
  shows "persisted (fst (access_token api oa now w))"
proof -
  obtain w1 out where c: "current_tokens w = (w1, out)" by fastforce
  with current_tokens_persisted [OF assms(1)] have w1: "persisted w1" by simp
  show ?thesis
  proof (cases out)
    case (Inr t)
    obtain w2 out2 where r: "refresh_locked api now t w1 = (w2, out2)" by fastforce
    with refresh_locked_persisted [OF w1 assms(2), of now t] c w1 Inr show ?thesis
      by (simp add: access_token_def split: sum.splits)
  qed (use c w1 in \<open>simp add: access_token_def\<close>)
qed

lemma invalidate_persisted:
  assumes "persisted w"
  shows "persisted (fst (invalidate now w))"
proof -
  obtain w1 out where c: "current_tokens w = (w1, out)" by fastforce
  with current_tokens_persisted [OF assms] have w1: "persisted w1" by simp
  show ?thesis
  proof (cases out)
    case (Inr t)
    from current_tokens_kept [of w w1 t] c w1 Inr show ?thesis
      by (auto simp: invalidate_def persisted_def)
  qed (use c w1 in \<open>simp add: invalidate_def\<close>)
qed

lemma http_call_persisted: "persisted w \<Longrightarrow> persisted (fst (http_call api r w))"
  by (simp add: http_call_def split: prod.splits)

lemma send_persisted:
  assumes "persisted w" and "sa_save_fault api = (\<lambda>t. None)"
  shows "persisted (fst (send api now r w))"
proof (cases "sa_oauth api")
  case None
  with assms(1) show ?thesis by (simp add: send_def http_call_persisted)
next
  case (Some oa)
  obtain w1 o1 where a1: "access_token api oa now w = (w1, o1)" by fastforce
  with access_token_persisted [OF assms, of oa now] have w1: "persisted w1" by simp
  show ?thesis
  proof (cases o1)
    case (Inl e)
    with Some a1 w1 show ?thesis by (simp add: send_def)
  next
    case tok: (Inr token)
    obtain w2 o2 where h: "http_call api (r\<lparr>hr_token := token\<rparr>) w1 = (w2, o2)" by fastforce
    with http_call_persisted [OF w1, of api "r\<lparr>hr_token := token\<rparr>"] have w2: "persisted w2" by simp
    obtain w3 o3 where i: "invalidate now w2 = (w3, o3)" by fastforce
    with invalidate_persisted [OF w2, of now] have w3: "persisted w3" by simp
    obtain w4 o4 where a2: "access_token api oa now w3 = (w4, o4)" by fastforce
    with access_token_persisted [OF w3 assms(2), of oa now] have w4: "persisted w4" by simp
    show ?thesis
      using Some a1 tok h w2 i w3 a2 w4 http_call_persisted [OF w4, of api]
      by (simp add: send_def split: sum.splits option.splits)
  qed
qed

lemma saxo_request_persisted:
  assumes "persisted w" and "sa_save_fault api = (\<lambda>t. None)"
  shows "persisted (fst (saxo_request api now meth path params body w))"
  using send_persisted [OF assms, of now] by (simp add: saxo_request_def Let_def case_prod_beta split: sum.splits)

lemma oauth_step_persisted:
  "oauth_step api w w' \<Longrightarrow> persisted w \<Longrightarrow> sa_save_fault api = (\<lambda>t. None) \<Longrightarrow> persisted w'"
  by (erule oauth_stepE)
    (simp_all add: exchange_code_persisted oauth_refresh_persisted access_token_persisted invalidate_persisted
      saxo_request_persisted)

section \<open>Properties\<close>


text \<open>A server that answers every token request, and a login.\<close>

definition demo_api :: "unit saxo_api" where
  "demo_api =
     \<lparr>sa_http = (\<lambda>v r. (v, Inr \<lparr>rp_status = 200, rp_body = None\<rparr>)),
      sa_token_post = (\<lambda>v form. (v, Inr \<lparr>rp_status = 201, rp_body = Some (JDict
         [(''access_token'', JStr ''a''), (''expires_in'', JNum 1200), (''refresh_token'', JStr ''r'')])\<rparr>)),
      sa_save_fault = (\<lambda>t. None), sa_static_token = [],
      sa_oauth = Some \<lparr>oa_redirect_uri = ''u'', oa_margin = 120000000\<rparr>,
      sa_builtins = \<lparr>bi_float = (\<lambda>s. None), bi_str = (\<lambda>j. [])\<rparr>\<rparr>"

definition demo_saxo_world :: "unit saxo_world" where
  "demo_saxo_world = \<lparr>sw_server = (), sw_tokens = None, sw_file = NoFile\<rparr>"

definition demo_tokens :: token_set where
  "demo_tokens = \<lparr>ts_access_token = ''a'', ts_access_expires_at = 1200000000, ts_refresh_token = ''r'',
     ts_refresh_expires_at = 2400000000\<rparr>"

lemma demo_login:
  "exchange_code demo_api 0 ''c'' demo_saxo_world =
     (\<lparr>sw_server = (), sw_tokens = Some demo_tokens, sw_file = TokenFile demo_tokens\<rparr>, Inr demo_tokens)"
  by (simp add: exchange_code_def token_request_def demo_api_def demo_saxo_world_def tokens_of_def keep_tokens_def
      default_refresh_ttl_def seconds_us_def demo_tokens_def)


end
