(* ===== verification/Saxo_Executor.thy ===== *)
theory Saxo_Executor
  imports Saxo_Client Ccxt_Reconcile
begin

text \<open>
  The stock executor over Saxo OpenAPI, \<^verbatim>\<open>src/src/execution/saxo_executor.py\<close>: the account and the
  instrument of an order, market orders with their fill polls, the FIFO ledger, two-phase
  reconciliation, positions and cash.

  \<open>saxo\<close> holds the attributes, with the connection's state in \<open>sx_world\<close>; a call of the client is
  a function of \<open>Saxo_Client\<close> at the call's time. \<open>sg_int\<close> is Python's \<^verbatim>\<open>int(value)\<close> on a payload
  value, \<^const>\<open>None\<close> when it raises. The order result of a refused order carries a text as its reason.
\<close>

section \<open>State\<close>

record saxo_instrument =
  si_uic :: int
  si_symbol :: string
  si_currency :: "string option"

record saxo_account =
  sc_key :: string
  sc_client_key :: json
  sc_currency :: "string option"
  sc_account_id :: json

record saxo_settings =
  sg_account_key :: string
  sg_account_currency :: "string option"
  sg_symbol_map :: "(symbol, string) dict"
  sg_asset_type :: string
  sg_amount_decimals :: nat
  sg_fill_polls :: nat
  sg_max_fill_deviation :: real
  sg_int :: "json \<Rightarrow> int option"

record 'v saxo =
  sx_world :: "'v saxo_world"
  sx_settings :: saxo_settings
  sx_account :: "saxo_account option"
  sx_instruments :: "(symbol, saxo_instrument) dict"
  sx_tracker :: tracker
  sx_exit_levels :: "(symbol, exit_levels) dict"
  sx_marks :: "(symbol, real) dict"
  sx_open_orders :: "(string, venue_order) dict"

definition lower_char :: "char \<Rightarrow> char" where
  "lower_char c = (let n = of_char c :: nat in if 65 \<le> n \<and> n \<le> 90 then char_of (n + 32) else c)"

definition lower :: "string \<Rightarrow> string" where
  "lower s = map lower_char s"

definition or_none :: "string \<Rightarrow> string option" where
  "or_none s = (if s = [] then None else Some s)"

definition new_saxo :: "'v saxo_world \<Rightarrow> saxo_settings \<Rightarrow> 'v saxo" where
  "new_saxo w cfg =
     \<lparr>sx_world = w,
      sx_settings = cfg\<lparr>sg_account_currency := Option.bind (sg_account_currency cfg) (\<lambda>c. or_none (upper c))\<rparr>,
      sx_account = None, sx_instruments = [], sx_tracker = new_tracker, sx_exit_levels = [], sx_marks = [],
      sx_open_orders = []\<rparr>"

section \<open>Account and instrument\<close>

text \<open>\<^verbatim>\<open>str(row.get(key) or "")\<close> and \<^verbatim>\<open>str(row.get(key, ""))\<close>\<close>

definition text_or_empty :: "builtins \<Rightarrow> string \<Rightarrow> payload \<Rightarrow> string" where
  "text_or_empty bi k row = to_str bi (json_or (jget k row) (JStr []))"

definition text_default :: "builtins \<Rightarrow> string \<Rightarrow> payload \<Rightarrow> string" where
  "text_default bi k row = (case map_of row k of None \<Rightarrow> [] | Some v \<Rightarrow> to_str bi v)"

definition account_rows :: "builtins \<Rightarrow> saxo_settings \<Rightarrow> payload list \<Rightarrow> payload list" where
  "account_rows bi cfg accounts =
     (let rows = filter (\<lambda>a. case map_of a ''Active'' of None \<Rightarrow> True | Some v \<Rightarrow> truthy v) accounts
      in if sg_account_key cfg \<noteq> [] then filter (\<lambda>a. jget ''AccountKey'' a = JStr (sg_account_key cfg)) rows
         else case sg_account_currency cfg of
                Some c \<Rightarrow> filter (\<lambda>a. upper (text_default bi ''Currency'' a) = c) rows
              | None \<Rightarrow> rows)"

definition saxo_get_account :: "'v saxo_api \<Rightarrow> instant \<Rightarrow> 'v saxo \<Rightarrow> 'v saxo \<times> (py_error + saxo_account)" where
  "saxo_get_account api now x =
     (case sx_account x of
        Some a \<Rightarrow> (x, Inr a)
      | None \<Rightarrow>
          (case get_accounts api now (sx_world x) of
             (w, Inl e) \<Rightarrow> (x\<lparr>sx_world := w\<rparr>, Inl e)
           | (w, Inr accounts) \<Rightarrow>
               (let bi = sa_builtins api; x1 = x\<lparr>sx_world := w\<rparr>
                in case account_rows bi (sx_settings x) accounts of
                     [row] \<Rightarrow>
                       (case map_of row ''AccountKey'' of
                          None \<Rightarrow> (x1, Inl KeyError)
                        | Some key \<Rightarrow>
                            let a = \<lparr>sc_key = to_str bi key, sc_client_key = jget ''ClientKey'' row,
                                     sc_currency = or_none (upper (text_or_empty bi ''Currency'' row)),
                                     sc_account_id = jget ''AccountId'' row\<rparr>
                            in (x1\<lparr>sx_account := Some a\<rparr>, Inr a))
                   | _ \<Rightarrow> (x1, Inl (RuntimeError ''cannot choose a Saxo account'')))))"

definition starts_with :: "string \<Rightarrow> string \<Rightarrow> bool" where
  "starts_with p s \<longleftrightarrow> take (length p) s = p"

definition instrument_matches :: "builtins \<Rightarrow> symbol \<Rightarrow> string option \<Rightarrow> payload \<Rightarrow> bool" where
  "instrument_matches bi s wanted row =
     (let listed = lower (text_default bi ''Symbol'' row)
      in case wanted of
           Some w \<Rightarrow> listed = lower w
         | None \<Rightarrow> starts_with (lower s @ '':'') listed \<or> listed = lower s)"

definition saxo_instrument_of ::
  "'v saxo_api \<Rightarrow> instant \<Rightarrow> symbol \<Rightarrow> 'v saxo \<Rightarrow> 'v saxo \<times> (py_error + saxo_instrument)" where
  "saxo_instrument_of api now s x =
     (case map_of (sx_instruments x) s of
        Some i \<Rightarrow> (x, Inr i)
      | None \<Rightarrow>
          (let bi = sa_builtins api; cfg = sx_settings x;
               wanted = Option.bind (map_of (sg_symbol_map cfg) s) or_none;
               keyword = takeWhile (\<lambda>c. c \<noteq> CHR '':'') (case wanted of None \<Rightarrow> s | Some w \<Rightarrow> w)
           in case find_instruments api now keyword (sg_asset_type cfg) (sx_world x) of
                (w, Inl e) \<Rightarrow> (x\<lparr>sx_world := w\<rparr>, Inl e)
              | (w, Inr rows) \<Rightarrow>
                  (case filter (instrument_matches bi s wanted) rows of
                     [row] \<Rightarrow>
                       (case map_of row ''Identifier'' of
                          None \<Rightarrow> (x\<lparr>sx_world := w\<rparr>, Inl KeyError)
                        | Some v \<Rightarrow>
                            (case sg_int cfg v of
                               None \<Rightarrow> (x\<lparr>sx_world := w\<rparr>, Inl ValueError)
                             | Some uic \<Rightarrow>
                                 let i = \<lparr>si_uic = uic, si_symbol = to_str bi (jget ''Symbol'' row),
                                          si_currency = or_none (upper (text_or_empty bi ''CurrencyCode'' row))\<rparr>
                                 in (x\<lparr>sx_world := w, sx_instruments := AList.update s i (sx_instruments x)\<rparr>, Inr i)))
                   | _ \<Rightarrow> (x\<lparr>sx_world := w\<rparr>, Inl (RuntimeError ''Saxo instrument ambiguous or unknown'')))))"

section \<open>Fills\<close>

definition filled_activities :: "string list" where
  "filled_activities = [''finalfill'']"

definition dead_activities :: "string list" where
  "dead_activities = [''cancelled'', ''canceled'', ''expired'', ''rejected'', ''deleted'']"

definition resolve_activity ::
  "builtins \<Rightarrow> payload option \<Rightarrow> real \<Rightarrow> order_status \<times> real \<times> real option \<times> reason option" where
  "resolve_activity bi entry requested =
     (case entry of
        None \<Rightarrow> (PENDING, requested, None, None)
      | Some [] \<Rightarrow> (PENDING, requested, None, None)
      | Some e \<Rightarrow>
          let status = lower (text_or_empty bi ''Status'' e);
              filled = (case to_float bi (json_or (jget ''FilledAmount'' e) (JNum 0)) of None \<Rightarrow> 0 | Some f \<Rightarrow> f);
              price = to_float bi (case map_of e ''AveragePrice'' of Some p \<Rightarrow> p | None \<Rightarrow> jget ''ExecutionPrice'' e)
          in if status \<in> set filled_activities then (FILLED, if filled \<noteq> 0 then filled else requested, price, None)
             else if status \<in> set dead_activities
             then (if filled > 0 then (FILLED, filled, price, Some (OtherReason ''partially filled; remainder cancelled at Saxo''))
                   else (if status = ''rejected'' then ORDER_REJECTED else CANCELLED, requested, None,
                         Some (OtherReason (to_str bi (json_or (jget ''SubStatus'' e) (JStr status))))))
             else (PENDING, requested, None, None))"

definition floor_amount :: "nat \<Rightarrow> real \<Rightarrow> real" where
  "floor_amount decimals q = of_int \<lfloor>q * 10 ^ decimals + 1 / 10 ^ 9\<rfloor> / 10 ^ decimals"

definition checked_fill_price :: "real \<Rightarrow> real option \<Rightarrow> real option \<Rightarrow> real option" where
  "checked_fill_price max_deviation filled requested =
     (case filled of
        Some f \<Rightarrow>
          if f > 0
          then (case requested of
                  Some r \<Rightarrow> if r > 0 \<and> \<bar>f - r\<bar> / r > max_deviation then Some r else Some f
                | None \<Rightarrow> Some f)
          else requested
      | None \<Rightarrow> requested)"

definition saxo_record_fill ::
  "symbol \<Rightarrow> order_side \<Rightarrow> real \<Rightarrow> real \<Rightarrow> int option \<Rightarrow> real option \<Rightarrow> real option \<Rightarrow> 'v saxo \<Rightarrow>
   'v saxo \<times> real option \<times> closed_entry list" where
  "saxo_record_fill s side q price did sl tp x =
     (if side = S_BUY
      then (x\<lparr>sx_tracker := on_buy (sx_tracker x) s q price 0 did,
              sx_exit_levels := AList.update s (sl, tp) (sx_exit_levels x)\<rparr>, None, [])
      else if quantity (sx_tracker x) s \<le> 0 then (x, None, [])
      else let (t, out) = on_sell (sx_tracker x) s q price 0; x1 = x\<lparr>sx_tracker := t\<rparr>
           in (if quantity t s \<le> 0 then x1\<lparr>sx_exit_levels := AList.delete s (sx_exit_levels x1)\<rparr> else x1,
               Some (so_gross_pnl out), so_closed_entries out))"

section \<open>Placing an order\<close>

text \<open>The polls right after placing: a failing one is skipped, a terminal status ends them.\<close>

fun poll_fill ::
  "'v saxo_api \<Rightarrow> instant \<Rightarrow> string \<Rightarrow> real \<Rightarrow> nat \<Rightarrow> order_status \<times> real \<times> real option \<times> reason option \<Rightarrow>
   'v saxo_world \<Rightarrow> 'v saxo_world \<times> order_status \<times> real \<times> real option \<times> reason option" where
  "poll_fill api now oid amount 0 found w = (w, found)"
| "poll_fill api now oid amount (Suc n) found w =
     (case get_order_activity api now oid w of
        (w1, Inl e) \<Rightarrow> poll_fill api now oid amount n found w1
      | (w1, Inr entry) \<Rightarrow>
          let found1 = resolve_activity (sa_builtins api) entry amount
          in if fst found1 \<noteq> PENDING then (w1, found1) else poll_fill api now oid amount n found1 w1)"

definition saxo_refused :: "order_request \<Rightarrow> real \<Rightarrow> reason \<Rightarrow> order_result" where
  "saxo_refused r q why = plain_result [] (rq_symbol r) (rq_side r) q (rq_price r) ORDER_REJECTED None (Some why)"

text \<open>What is sent, or why nothing is; a SELL is capped at the ledger.\<close>

definition saxo_quantity :: "order_request \<Rightarrow> 'v saxo \<Rightarrow> real" where
  "saxo_quantity r x = (if rq_side r = S_SELL then min (rq_quantity r) (quantity (sx_tracker x) (rq_symbol r)) else rq_quantity r)"

definition saxo_sendable :: "order_request \<Rightarrow> 'v saxo \<Rightarrow> reason + real" where
  "saxo_sendable r x =
     (if rq_side r = S_SELL \<and> quantity (sx_tracker x) (rq_symbol r) \<le> 0 then Inl (NoTrackedPosition (rq_symbol r))
      else let amount = floor_amount (sg_amount_decimals (sx_settings x)) (saxo_quantity r x)
           in if amount \<le> 0 then Inl (OtherReason ''amount rounds to zero'') else Inr amount)"

text \<open>After the polls: the result, the ledger, or the order kept for reconciliation.\<close>

definition saxo_settle ::
  "instant \<Rightarrow> order_request \<Rightarrow> string \<Rightarrow> real \<Rightarrow> order_status \<times> real \<times> real option \<times> reason option \<Rightarrow>
   'v saxo \<Rightarrow> 'v saxo \<times> order_result" where
  "saxo_settle now r oid amount found x =
     (let (status, filled, fill_price, why) = found; s = rq_symbol r;
          res = plain_result oid s (rq_side r) filled (rq_price r) status None why
      in if status = FILLED
         then let price = checked_fill_price (sg_max_fill_deviation (sx_settings x)) fill_price (rq_price r);
                  res1 = res\<lparr>o_price := price, o_filled_at := Some now\<rparr>
              in (case price of
                    None \<Rightarrow> (x, res1)
                  | Some p \<Rightarrow>
                      (case saxo_record_fill s (rq_side r) filled p (rq_decision_id r) (rq_stop_loss r) (rq_take_profit r) x of
                         (x1, realized, entries) \<Rightarrow> (x1, res1\<lparr>o_realized_pnl := realized, o_closed_entries := entries\<rparr>)))
         else if status = PENDING
         then (x\<lparr>sx_open_orders := AList.update oid
                   \<lparr>vo_symbol = s, vo_side = rq_side r, vo_quantity = amount, vo_decision_id = rq_decision_id r,
                    vo_stop_loss = rq_stop_loss r, vo_take_profit = rq_take_profit r, vo_resolved = None,
                    vo_placed_at = Some now, vo_price = rq_price r\<rparr> (sx_open_orders x)\<rparr>, res)
         else (x, res))"

definition saxo_place_order ::
  "'v saxo_api \<Rightarrow> instant \<Rightarrow> order_request \<Rightarrow> 'v saxo \<Rightarrow> 'v saxo \<times> (py_error + order_result)" where
  "saxo_place_order api now r x =
     (let refuse = (\<lambda>q why. Inr (saxo_refused r q why))
      in case saxo_sendable r x of
           Inl why \<Rightarrow> (x, refuse (if quantity (sx_tracker x) (rq_symbol r) \<le> 0 \<and> rq_side r = S_SELL
                                  then rq_quantity r else saxo_quantity r x) why)
         | Inr amount \<Rightarrow>
             (case saxo_get_account api now x of
                (x1, Inl e) \<Rightarrow> (x1, Inl e)
              | (x1, Inr account) \<Rightarrow>
                  (case saxo_instrument_of api now (rq_symbol r) x1 of
                     (x2, Inl e) \<Rightarrow> (x2, Inl e)
                   | (x2, Inr instrument) \<Rightarrow>
                       if sc_currency account \<noteq> None \<and> si_currency instrument \<noteq> None
                          \<and> sc_currency account \<noteq> si_currency instrument
                       then (x2, refuse (saxo_quantity r x) (OtherReason ''instrument in another currency''))
                       else case place_market_order api now (sc_key account) (si_uic instrument)
                                   (if rq_side r = S_BUY then ''Buy'' else ''Sell'') amount
                                   (sg_asset_type (sx_settings x2)) (sx_world x2) of
                              (w, Inl e) \<Rightarrow> (x2\<lparr>sx_world := w\<rparr>, Inl e)
                            | (w, Inr oid) \<Rightarrow>
                                (case poll_fill api now oid amount (sg_fill_polls (sx_settings x2)) (PENDING, amount, None, None) w of
                                   (w1, found) \<Rightarrow>
                                     (case saxo_settle now r oid amount found (x2\<lparr>sx_world := w1\<rparr>) of
                                        (x3, res) \<Rightarrow> (x3, Inr res))))))"

section \<open>Reconciliation\<close>

definition saxo_resolve ::
  "instant \<Rightarrow> string \<Rightarrow> venue_order \<Rightarrow> order_status \<times> real \<times> real option \<times> reason option \<Rightarrow> 'v saxo \<Rightarrow> 'v saxo \<times> order_result" where
  "saxo_resolve now oid p found x =
     (let (status, filled, price, why) = found;
          res = plain_result oid (vo_symbol p) (vo_side p) filled price status (if status = FILLED then Some now else None) why;
          (x1, res1) = (case (status, price) of
              (FILLED, Some pr) \<Rightarrow>
                (case saxo_record_fill (vo_symbol p) (vo_side p) filled pr (vo_decision_id p) (vo_stop_loss p) (vo_take_profit p) x of
                   (x1, realized, entries) \<Rightarrow> (x1, res\<lparr>o_realized_pnl := realized, o_closed_entries := entries\<rparr>))
            | _ \<Rightarrow> (x, res))
      in (x1\<lparr>sx_open_orders := AList.map_entry oid (\<lambda>q. q\<lparr>vo_resolved := Some res1\<rparr>) (sx_open_orders x1)\<rparr>, res1))"

fun saxo_poll_orders ::
  "'v saxo_api \<Rightarrow> instant \<Rightarrow> (string \<times> venue_order) list \<Rightarrow> order_result list \<Rightarrow> 'v saxo \<Rightarrow> 'v saxo \<times> order_result list" where
  "saxo_poll_orders api now [] results x = (x, results)"
| "saxo_poll_orders api now ((oid, p) # rest) results x =
     (case vo_resolved p of
        Some res \<Rightarrow> saxo_poll_orders api now rest (results @ [res]) x
      | None \<Rightarrow>
          (case get_order_activity api now oid (sx_world x) of
             (w, Inl e) \<Rightarrow> saxo_poll_orders api now rest results (x\<lparr>sx_world := w\<rparr>)
           | (w, Inr entry) \<Rightarrow>
               let found = resolve_activity (sa_builtins api) entry (vo_quantity p)
               in if fst found = PENDING then saxo_poll_orders api now rest results (x\<lparr>sx_world := w\<rparr>)
                  else (case saxo_resolve now oid p found (x\<lparr>sx_world := w\<rparr>) of
                          (x1, res) \<Rightarrow> saxo_poll_orders api now rest (results @ [res]) x1)))"

definition saxo_reconcile :: "'v saxo_api \<Rightarrow> instant \<Rightarrow> 'v saxo \<Rightarrow> 'v saxo \<times> (py_error + order_result list)" where
  "saxo_reconcile api now x =
     (case saxo_poll_orders api now (sx_open_orders x) [] x of (x1, results) \<Rightarrow> (x1, Inr results))"

definition saxo_confirm_reconciled :: "string \<Rightarrow> 'v saxo \<Rightarrow> 'v saxo" where
  "saxo_confirm_reconciled oid x =
     (case map_of (sx_open_orders x) oid of
        None \<Rightarrow> x
      | Some p \<Rightarrow> if vo_resolved p = None then x else x\<lparr>sx_open_orders := AList.delete oid (sx_open_orders x)\<rparr>)"

definition saxo_pending_decision_id :: "'v saxo \<Rightarrow> string \<Rightarrow> int option" where
  "saxo_pending_decision_id x oid =
     (case map_of (sx_open_orders x) oid of None \<Rightarrow> None | Some p \<Rightarrow> vo_decision_id p)"

definition saxo_pending_entry_decision_ids :: "'v saxo \<Rightarrow> symbol \<Rightarrow> int option list" where
  "saxo_pending_entry_decision_ids x s =
     map (\<lambda>(oid, p). vo_decision_id p)
       (filter (\<lambda>(oid, p). vo_symbol p = s \<and> vo_side p = S_BUY \<and> vo_resolved p = None) (sx_open_orders x))"

definition saxo_pending_buy_value :: "'v saxo \<Rightarrow> real" where
  "saxo_pending_buy_value x =
     (\<Sum>(oid, p)\<leftarrow>sx_open_orders x. case vo_price p of
        Some price \<Rightarrow> if vo_side p = S_BUY \<and> vo_resolved p = None then vo_quantity p * price else 0
      | None \<Rightarrow> 0)"

definition saxo_working_order_sides :: "'v saxo \<Rightarrow> symbol \<Rightarrow> order_side set" where
  "saxo_working_order_sides x s =
     (\<lambda>(oid, p). vo_side p) ` set (filter (\<lambda>(oid, p). vo_symbol p = s \<and> vo_resolved p = None) (sx_open_orders x))"

definition saxo_entry_decision_ids :: "'v saxo \<Rightarrow> symbol \<Rightarrow> int option list" where
  "saxo_entry_decision_ids x s = entry_decision_ids (sx_tracker x) s"

section \<open>Restart\<close>

definition saxo_load_fills :: "fill_record list \<Rightarrow> 'v saxo \<Rightarrow> 'v saxo \<times> nat \<times> nat" where
  "saxo_load_fills fills x =
     (let (t, replayed, levels) = replay_fills new_tracker fills
      in (x\<lparr>sx_tracker := t, sx_exit_levels := levels\<rparr>, replayed, length (symbols t)))"

definition saxo_load_pending :: "pending_order_record \<Rightarrow> 'v saxo \<Rightarrow> 'v saxo" where
  "saxo_load_pending p x =
     (if po_order_id p = [] \<or> map_of (sx_open_orders x) (po_order_id p) \<noteq> None then x
      else x\<lparr>sx_open_orders := sx_open_orders x @ [(po_order_id p,
               \<lparr>vo_symbol = po_symbol p, vo_side = po_side p, vo_quantity = po_quantity p,
                vo_decision_id = po_decision_id p, vo_stop_loss = po_stop_loss p, vo_take_profit = po_take_profit p,
                vo_resolved = None, vo_placed_at = None, vo_price = po_price p\<rparr>)]\<rparr>)"

definition saxo_load_pending_orders :: "pending_order_record list \<Rightarrow> 'v saxo \<Rightarrow> 'v saxo \<times> nat" where
  "saxo_load_pending_orders ps x = (let x1 = fold saxo_load_pending ps x in (x1, length (sx_open_orders x1)))"

section \<open>The book and the account\<close>

definition saxo_update_price :: "symbol \<Rightarrow> real \<Rightarrow> 'v saxo \<Rightarrow> 'v saxo" where
  "saxo_update_price s p x = (if p > 0 then x\<lparr>sx_marks := AList.update s p (sx_marks x)\<rparr> else x)"

text \<open>Net positions by instrument; one unreadable row makes the whole read fail.\<close>

definition net_row :: "builtins \<Rightarrow> saxo_settings \<Rightarrow> payload \<Rightarrow> (int, real \<times> json) dict \<Rightarrow> (int, real \<times> json) dict option" where
  "net_row bi cfg row net =
     (case (dict_or_raise (jget ''NetPositionBase'' row), dict_or_raise (jget ''NetPositionView'' row)) of
        (Inr base, Inr view) \<Rightarrow>
          if jget ''AssetType'' base \<notin> {JNull, JStr (sg_asset_type cfg)} \<or> jget ''Uic'' base = JNull then Some net
          else (case (sg_int cfg (jget ''Uic'' base), to_float bi (json_or (jget ''Amount'' base) (JNum 0))) of
                  (Some uic, Some a) \<Rightarrow>
                    let (amount, current) = (case map_of net uic of None \<Rightarrow> (0, JNull) | Some v \<Rightarrow> v)
                    in Some (AList.update uic (amount + a,
                         case map_of view ''CurrentPrice'' of None \<Rightarrow> current | Some p \<Rightarrow> p) net)
                | _ \<Rightarrow> None)
      | _ \<Rightarrow> None)"

fun net_rows :: "builtins \<Rightarrow> saxo_settings \<Rightarrow> payload list \<Rightarrow> (int, real \<times> json) dict \<Rightarrow> (int, real \<times> json) dict option" where
  "net_rows bi cfg [] net = Some net"
| "net_rows bi cfg (row # rows) net =
     (case net_row bi cfg row net of None \<Rightarrow> None | Some net1 \<Rightarrow> net_rows bi cfg rows net1)"

text \<open>The quantity held and the venue's price of one symbol.\<close>

definition saxo_held ::
  "'v saxo_api \<Rightarrow> instant \<Rightarrow> (int, real \<times> json) dict option \<Rightarrow> symbol \<Rightarrow> 'v saxo \<Rightarrow> 'v saxo \<times> real \<times> json" where
  "saxo_held api now net s x =
     (let q = quantity (sx_tracker x) s
      in case net of
           None \<Rightarrow> (x, q, JNull)
         | Some positions \<Rightarrow>
             (case saxo_instrument_of api now s x of
                (x1, Inl e) \<Rightarrow> (x1, q, JNull)
              | (x1, Inr i) \<Rightarrow>
                  let (held, venue_price) = (case map_of positions (si_uic i) of None \<Rightarrow> (0, JNull) | Some v \<Rightarrow> v)
                  in (x1, min q (max held 0), venue_price)))"

definition saxo_mark :: "builtins \<Rightarrow> real option \<Rightarrow> json \<Rightarrow> real \<Rightarrow> py_error + real" where
  "saxo_mark bi mark venue_price avg =
     (case mark of
        Some m \<Rightarrow> if m \<noteq> 0 then Inr m else if truthy venue_price then float_or_raise bi venue_price else Inr avg
      | None \<Rightarrow> if truthy venue_price then float_or_raise bi venue_price else Inr avg)"

fun saxo_positions ::
  "'v saxo_api \<Rightarrow> instant \<Rightarrow> (int, real \<times> json) dict option \<Rightarrow> symbol list \<Rightarrow> position list \<Rightarrow> 'v saxo \<Rightarrow>
   'v saxo \<times> (py_error + position list)" where
  "saxo_positions api now net [] ps x = (x, Inr ps)"
| "saxo_positions api now net (s # ss) ps x =
     (case saxo_held api now net s x of
        (x1, q, venue_price) \<Rightarrow>
          if q \<le> eps12 then saxo_positions api now net ss ps x1
          else let avg = (case average_price (sx_tracker x1) s of None \<Rightarrow> 0 | Some a \<Rightarrow> a);
                   (sl, tp) = (case map_of (sx_exit_levels x1) s of None \<Rightarrow> (None, None) | Some l \<Rightarrow> l)
               in case saxo_mark (sa_builtins api) (map_of (sx_marks x1) s) venue_price avg of
                    Inl e \<Rightarrow> (x1, Inl e)
                  | Inr mark \<Rightarrow>
                      saxo_positions api now net ss
                        (ps @ [\<lparr>p_symbol = s, p_quantity = q, p_avg_entry_price = avg, p_current_price = mark,
                                p_side = LONG, p_stop_loss = sl, p_take_profit = tp\<rparr>]) x1)"

definition saxo_get_positions :: "'v saxo_api \<Rightarrow> instant \<Rightarrow> 'v saxo \<Rightarrow> 'v saxo \<times> (py_error + position list)" where
  "saxo_get_positions api now x =
     (case get_net_positions api now (sx_world x) of
        (w, Inl e) \<Rightarrow> saxo_positions api now None (symbols (sx_tracker x)) [] (x\<lparr>sx_world := w\<rparr>)
      | (w, Inr rows) \<Rightarrow>
          saxo_positions api now (net_rows (sa_builtins api) (sx_settings x) rows []) (symbols (sx_tracker x)) []
            (x\<lparr>sx_world := w\<rparr>))"

definition saxo_get_cash :: "'v saxo_api \<Rightarrow> instant \<Rightarrow> 'v saxo \<Rightarrow> 'v saxo \<times> (py_error + real)" where
  "saxo_get_cash api now x =
     (case saxo_get_account api now x of
        (x1, Inl e) \<Rightarrow> (x1, Inl e)
      | (x1, Inr account) \<Rightarrow>
          (case get_balance api now (sc_key account) (sc_client_key account) (sx_world x1) of
             (w, Inl e) \<Rightarrow> (x1\<lparr>sx_world := w\<rparr>, Inl e)
           | (w, Inr balance) \<Rightarrow>
               (x1\<lparr>sx_world := w\<rparr>,
                if jget ''CashBalance'' balance = JNull then Inr 0
                else float_or_raise (sa_builtins api) (jget ''CashBalance'' balance))))"

definition saxo_cancel_order :: "'v saxo_api \<Rightarrow> instant \<Rightarrow> string \<Rightarrow> 'v saxo \<Rightarrow> 'v saxo \<times> bool" where
  "saxo_cancel_order api now oid x =
     (case saxo_get_account api now x of
        (x1, Inl e) \<Rightarrow> (x1, False)
      | (x1, Inr account) \<Rightarrow>
          (case saxo_cancel api now oid (sc_key account) (sx_world x1) of
             (w, Inl e) \<Rightarrow> (x1\<lparr>sx_world := w\<rparr>, False)
           | (w, Inr ok) \<Rightarrow> (x1\<lparr>sx_world := w, sx_open_orders := AList.delete oid (sx_open_orders x1)\<rparr>, True)))"

end
