(* ===== verification/Saxo_Safety.thy ===== *)
theory Saxo_Safety
  imports Saxo_Executor
begin

text \<open>
  What the Saxo executor guarantees for every behaviour of the server: a SELL is covered by the
  ledger (up to the rounding tolerance), an order is only sent in the account's currency, a fill
  is booked near the requested price, and a resolved order is delivered until it is confirmed.
\<close>

section \<open>A server that logs its requests\<close>

definition logging :: "'v saxo_api \<Rightarrow> ('v \<times> http_request list) saxo_api" where
  "logging api =
     \<lparr>sa_http = (\<lambda>(v, log) r. case sa_http api v r of (v1, out) \<Rightarrow> ((v1, log @ [r]), out)),
      sa_token_post = (\<lambda>(v, log) form. case sa_token_post api v form of (v1, out) \<Rightarrow> ((v1, log), out)),
      sa_save_fault = sa_save_fault api, sa_static_token = sa_static_token api, sa_oauth = sa_oauth api,
      sa_builtins = sa_builtins api\<rparr>"

definition log_ok :: "(http_request \<Rightarrow> bool) \<Rightarrow> ('v \<times> http_request list) saxo_world \<Rightarrow> bool" where
  "log_ok P w \<longleftrightarrow> (\<forall>r\<in>set (snd (sw_server w)). P r)"

lemma log_ok_frame [simp]:
  "log_ok P (w\<lparr>sw_tokens := t\<rparr>) = log_ok P w" "log_ok P (w\<lparr>sw_file := f\<rparr>) = log_ok P w"
  by (simp_all add: log_ok_def)

lemma token_request_log [simp]: "log_ok P (fst (token_request (logging api) now form w)) = log_ok P w"
  by (cases "sw_server w") (simp add: token_request_def logging_def log_ok_def split: prod.splits sum.splits option.splits)

lemma keep_tokens_log [simp]: "log_ok P (fst (keep_tokens api t w)) = log_ok P w"
  by (simp add: keep_tokens_def Let_def split: option.splits)

lemma current_tokens_log [simp]: "log_ok P (fst (current_tokens w)) = log_ok P w"
  by (simp add: current_tokens_def split: option.splits token_file.splits)

lemma refresh_locked_log [simp]: "log_ok P (fst (refresh_locked (logging api) now t w)) = log_ok P w"
proof -
  let ?form = "[(''grant_type'', ''refresh_token''), (''refresh_token'', ts_refresh_token t)]"
  obtain w1 out where r: "token_request (logging api) now ?form w = (w1, out)" by fastforce
  with token_request_log [of P api now ?form w] show ?thesis by (simp add: refresh_locked_def split: sum.splits)
qed

lemma access_token_log [simp]: "log_ok P (fst (access_token (logging api) oa now w)) = log_ok P w"
proof -
  obtain w1 out where c: "current_tokens w = (w1, out)" by fastforce
  with current_tokens_log [of P w] have w1: "log_ok P w1 = log_ok P w" by simp
  show ?thesis
  proof (cases out)
    case (Inr t)
    obtain w2 out2 where "refresh_locked (logging api) now t w1 = (w2, out2)" by fastforce
    with refresh_locked_log [of P api now t w1] c w1 Inr show ?thesis by (simp add: access_token_def split: sum.splits)
  qed (use c w1 in \<open>simp add: access_token_def\<close>)
qed

lemma invalidate_log [simp]: "log_ok P (fst (invalidate now w)) = log_ok P w"
proof -
  obtain w1 out where c: "current_tokens w = (w1, out)" by fastforce
  with current_tokens_log [of P w] show ?thesis by (simp add: invalidate_def split: sum.splits)
qed

lemma http_call_log: "P r \<Longrightarrow> log_ok P w \<Longrightarrow> log_ok P (fst (http_call (logging api) r w))"
  by (cases "sw_server w") (auto simp: http_call_def logging_def log_ok_def split: prod.splits)

lemma send_log:
  assumes "\<And>t. P (r\<lparr>hr_token := t\<rparr>)" and "log_ok P w"
  shows "log_ok P (fst (send (logging api) now r w))"
proof (cases "sa_oauth (logging api)")
  case None
  with assms show ?thesis by (simp add: send_def http_call_log)
next
  case (Some oa)
  obtain w1 o1 where a1: "access_token (logging api) oa now w = (w1, o1)" by fastforce
  with access_token_log [of P api oa now w] assms(2) have w1: "log_ok P w1" by simp
  show ?thesis
  proof (cases o1)
    case (Inl e)
    with Some a1 w1 show ?thesis by (simp add: send_def)
  next
    case tok: (Inr token)
    obtain w2 o2 where h: "http_call (logging api) (r\<lparr>hr_token := token\<rparr>) w1 = (w2, o2)" by fastforce
    with http_call_log [of P "r\<lparr>hr_token := token\<rparr>" w1 api] w1 assms(1) have w2: "log_ok P w2" by simp
    obtain w3 o3 where i: "invalidate now w2 = (w3, o3)" by fastforce
    with invalidate_log [of P now w2] w2 have w3: "log_ok P w3" by simp
    obtain w4 o4 where a2: "access_token (logging api) oa now w3 = (w4, o4)" by fastforce
    with access_token_log [of P api oa now w3] w3 have w4: "log_ok P w4" by simp
    show ?thesis
      using Some a1 tok h w2 i w3 a2 w4 http_call_log [OF _ w4, of _ api] assms(1)
      by (simp add: send_def split: sum.splits option.splits)
  qed
qed

lemma request_log:
  assumes "\<And>t. P \<lparr>hr_method = meth, hr_path = path, hr_params = params, hr_json = body, hr_token = t\<rparr>" and "log_ok P w"
  shows "log_ok P (fst (saxo_request (logging api) now meth path params body w))"
  using send_log [of P "\<lparr>hr_method = meth, hr_path = path, hr_params = params, hr_json = body, hr_token = []\<rparr>" w api now] assms
  by (simp add: saxo_request_def Let_def case_prod_beta split: sum.splits)

text \<open>What is asked of the server by everything but an order placement.\<close>

definition about_orders :: "(payload \<Rightarrow> bool) \<Rightarrow> http_request \<Rightarrow> bool" where
  "about_orders Q r \<longleftrightarrow> (hr_method r = ''POST'' \<longrightarrow> Q (hr_json r))"

lemma map_answer_fst [simp]: "fst (map_answer f out) = fst out"
  by (simp add: map_answer_def split: prod.splits sum.splits)

lemma reads_log:
  assumes "log_ok (about_orders Q) w"
  shows "log_ok (about_orders Q) (fst (get_accounts (logging api) now w))"
    and "log_ok (about_orders Q) (fst (find_instruments (logging api) now k a w))"
    and "log_ok (about_orders Q) (fst (get_order_activity (logging api) now oid w))"
  using assms
  by (simp_all add: get_accounts_def find_instruments_def get_order_activity_def request_log about_orders_def)

lemma place_log:
  assumes "log_ok (about_orders Q) w"
    and "Q [(''AccountKey'', JStr account), (''Uic'', JNum (of_int uic)), (''AssetType'', JStr asset_type),
              (''BuySell'', JStr side), (''Amount'', JNum amount), (''OrderType'', JStr ''Market''),
              (''OrderDuration'', JDict [(''DurationType'', JStr ''DayOrder'')]), (''ManualOrder'', JBool False)]"
  shows "log_ok (about_orders Q) (fst (place_market_order (logging api) now account uic side amount asset_type w))"
proof -
  let ?body = "[(''AccountKey'', JStr account), (''Uic'', JNum (of_int uic)), (''AssetType'', JStr asset_type),
              (''BuySell'', JStr side), (''Amount'', JNum amount), (''OrderType'', JStr ''Market''),
              (''OrderDuration'', JDict [(''DurationType'', JStr ''DayOrder'')]), (''ManualOrder'', JBool False)]"
  obtain w1 out where r: "saxo_request (logging api) now ''POST'' ''/trade/v2/orders'' [] ?body w = (w1, out)" by fastforce
  have "log_ok (about_orders Q) (fst (saxo_request (logging api) now ''POST'' ''/trade/v2/orders'' [] ?body w))"
    by (rule request_log) (use assms in \<open>simp_all add: about_orders_def\<close>)
  with r show ?thesis by (simp add: place_market_order_def Let_def split: sum.splits)
qed

section \<open>Orders are covered\<close>

lemma get_account_log:
  assumes "saxo_get_account (logging api) now x = (y, out)" and "log_ok (about_orders Q) (sx_world x)"
  shows "log_ok (about_orders Q) (sx_world y) \<and> sx_tracker y = sx_tracker x \<and> sx_settings y = sx_settings x"
proof -
  obtain w a where g: "get_accounts (logging api) now (sx_world x) = (w, a)" by fastforce
  with reads_log(1) [OF assms(2), of api now] have "log_ok (about_orders Q) w" by simp
  with g assms show ?thesis
    by (auto simp: saxo_get_account_def Let_def split: option.splits sum.splits list.splits)
qed

lemma instrument_log:
  assumes "saxo_instrument_of (logging api) now s x = (y, out)" and "log_ok (about_orders Q) (sx_world x)"
  shows "log_ok (about_orders Q) (sx_world y) \<and> sx_tracker y = sx_tracker x \<and> sx_settings y = sx_settings x"
proof -
  have "log_ok (about_orders Q) w" if "find_instruments (logging api) now k a (sx_world x) = (w, out)" for k a w out
    using reads_log(2) [OF assms(2), of api now k a] that by simp
  with assms show ?thesis
    by (auto simp: saxo_instrument_of_def Let_def split: option.splits sum.splits list.splits prod.splits)
qed

lemma poll_fill_log:
  "log_ok (about_orders Q) w \<Longrightarrow> log_ok (about_orders Q) (fst (poll_fill (logging api) now oid amount n found w))"
proof (induction n arbitrary: found w)
  case (Suc n)
  obtain w1 out where g: "get_order_activity (logging api) now oid w = (w1, out)" by fastforce
  with reads_log(3) [OF Suc.prems, of api now oid] have "log_ok (about_orders Q) w1" by simp
  with Suc.IH g show ?case by (simp add: Let_def split: sum.splits)
qed simp

lemma saxo_settle_world [simp]: "sx_world (fst (saxo_settle now r oid amount found x)) = sx_world x"
  by (cases found)
    (simp add: saxo_settle_def saxo_record_fill_def Let_def split: option.splits prod.splits)

lemma floor_amount_le: "floor_amount d q \<le> q + 1 / 10 ^ 9 / 10 ^ d"
proof -
  have "of_int \<lfloor>q * 10 ^ d + 1 / 10 ^ 9\<rfloor> \<le> q * 10 ^ d + (1 / 10 ^ 9 :: real)" by linarith
  then have "floor_amount d q \<le> (q * 10 ^ d + 1 / 10 ^ 9) / 10 ^ d"
    unfolding floor_amount_def by (rule divide_right_mono) simp
  also have "\<dots> = q + 1 / 10 ^ 9 / 10 ^ d" by (simp add: add_divide_distrib)
  finally show ?thesis .
qed

text \<open>The body of an order that sells at most what is held, in whole units.\<close>

definition covered_sale :: "nat \<Rightarrow> real \<Rightarrow> payload \<Rightarrow> bool" where
  "covered_sale decimals held body \<longleftrightarrow> jget ''BuySell'' body = JStr ''Sell''
     \<and> (case jget ''Amount'' body of
          JNum a \<Rightarrow> 0 < a \<and> a \<le> held + 1 / 10 ^ 9 / 10 ^ decimals \<and> a * 10 ^ decimals = of_int \<lfloor>a * 10 ^ decimals\<rfloor>
        | _ \<Rightarrow> False)"

lemma sendable_covered:
  assumes "saxo_sendable r x = Inr a" and "rq_side r = S_SELL"
  shows "0 < a" "a \<le> quantity (sx_tracker x) (rq_symbol r) + 1 / 10 ^ 9 / 10 ^ sg_amount_decimals (sx_settings x)"
    "a * 10 ^ sg_amount_decimals (sx_settings x) = of_int \<lfloor>a * 10 ^ sg_amount_decimals (sx_settings x)\<rfloor>"
proof -
  let ?d = "sg_amount_decimals (sx_settings x)"
  from assms have a: "a = floor_amount ?d (saxo_quantity r x)" "0 < a"
    by (auto simp: saxo_sendable_def Let_def split: if_splits)
  show "0 < a" by (fact a(2))
  have "saxo_quantity r x \<le> quantity (sx_tracker x) (rq_symbol r)" using assms(2) by (simp add: saxo_quantity_def)
  with floor_amount_le [of ?d "saxo_quantity r x"] a(1)
  show "a \<le> quantity (sx_tracker x) (rq_symbol r) + 1 / 10 ^ 9 / 10 ^ ?d" by linarith
  show "a * 10 ^ ?d = of_int \<lfloor>a * 10 ^ ?d\<rfloor>" unfolding a(1) floor_amount_def by simp
qed

lemma place_order_log:
  assumes "saxo_place_order (logging api) now r x = (y, out)" and "rq_side r = S_SELL"
    and "log_ok (about_orders (covered_sale (sg_amount_decimals (sx_settings x)) (quantity (sx_tracker x) (rq_symbol r))))
          (sx_world x)"
  shows "log_ok (about_orders (covered_sale (sg_amount_decimals (sx_settings x)) (quantity (sx_tracker x) (rq_symbol r))))
          (sx_world y)"
proof (cases "saxo_sendable r x")
  case (Inl why)
  with assms show ?thesis by (auto simp: saxo_place_order_def Let_def)
next
  case (Inr a)
  let ?Q = "covered_sale (sg_amount_decimals (sx_settings x)) (quantity (sx_tracker x) (rq_symbol r))"
  obtain x1 o1 where g: "saxo_get_account (logging api) now x = (x1, o1)" by fastforce
  note x1 = get_account_log [OF g assms(3)]
  show ?thesis
  proof (cases o1)
    case (Inl e)
    with assms(1) g Inr x1 show ?thesis by (auto simp: saxo_place_order_def Let_def)
  next
    case account: (Inr account)
    obtain x2 o2 where i: "saxo_instrument_of (logging api) now (rq_symbol r) x1 = (x2, o2)" by fastforce
    from instrument_log [OF i] x1 have x2: "log_ok (about_orders ?Q) (sx_world x2)" by blast
    show ?thesis
    proof (cases o2)
      case (Inl e)
      with assms(1) g Inr account i x2 show ?thesis by (auto simp: saxo_place_order_def Let_def)
    next
      case instrument: (Inr instrument)
      obtain w o3 where p: "place_market_order (logging api) now (sc_key account) (si_uic instrument) ''Sell'' a
          (sg_asset_type (sx_settings x2)) (sx_world x2) = (w, o3)" by fastforce
      have "log_ok (about_orders ?Q) (fst (place_market_order (logging api) now (sc_key account) (si_uic instrument)
          ''Sell'' a (sg_asset_type (sx_settings x2)) (sx_world x2)))"
        by (rule place_log [OF x2]) (use sendable_covered [OF Inr assms(2)] in \<open>simp add: covered_sale_def\<close>)
      with p have w: "log_ok (about_orders ?Q) w" by simp
      obtain w1 found where f: "poll_fill (logging api) now (projr o3) a (sg_fill_polls (sx_settings x2))
          (PENDING, a, None, None) w = (w1, found)" by (metis prod.exhaust)
      with poll_fill_log [OF w, of api now "projr o3" a "sg_fill_polls (sx_settings x2)" "(PENDING, a, None, None)"]
      have w1: "log_ok (about_orders ?Q) w1" by simp
      obtain x3 res where s: "saxo_settle now r (projr o3) a found (x2\<lparr>sx_world := w1\<rparr>) = (x3, res)" by fastforce
      with saxo_settle_world [of now r "projr o3" a found "x2\<lparr>sx_world := w1\<rparr>"] have x3: "sx_world x3 = w1" by simp
      show ?thesis
        using assms(1,2) g Inr account i instrument p f s x2 w w1 x3
        by (cases o3) (auto simp: saxo_place_order_def Let_def split: if_splits)
    qed
  qed
qed

section \<open>Delivery until confirmation\<close>

lemma saxo_record_fill_open [simp]: "sx_open_orders (fst (saxo_record_fill s side q p did sl tp x)) = sx_open_orders x"
  by (simp add: saxo_record_fill_def Let_def split: prod.splits)

lemma saxo_resolve_open:
  assumes "saxo_resolve now j p found x = (y, res)"
  shows "sx_open_orders y = AList.map_entry j (\<lambda>q. q\<lparr>vo_resolved := Some res\<rparr>) (sx_open_orders x)"
proof -
  obtain status filled price why where f: "found = (status, filled, price, why)" by (cases found)
  have "sx_open_orders z = sx_open_orders x"
    if "saxo_record_fill s side q pr did sl tp x = (z, out)" for z s side q pr did sl tp out
    using saxo_record_fill_open [of s side q pr did sl tp x] that by simp
  with assms f show ?thesis
    by (auto simp: saxo_resolve_def Let_def split: order_status.splits option.splits prod.splits)
qed

lemma saxo_poll_keeps:
  assumes "saxo_poll_orders api now ps results x = (y, rs)" and "\<forall>p. (i, p) \<in> set ps \<longrightarrow> vo_resolved p \<noteq> None"
  shows "set results \<subseteq> set rs \<and> map_of (sx_open_orders y) i = map_of (sx_open_orders x) i
    \<and> (dict_ok (sx_open_orders x) \<longrightarrow> dict_ok (sx_open_orders y))
    \<and> (\<forall>p res. (i, p) \<in> set ps \<longrightarrow> vo_resolved p = Some res \<longrightarrow> res \<in> set rs)"
  using assms
proof (induction ps arbitrary: results x)
  case (Cons jp ps)
  obtain j p where jp: "jp = (j, p)" by (cases jp)
  obtain w out where g: "get_order_activity api now j (sx_world x) = (w, out)" by fastforce
  consider (resolved) res where "vo_resolved p = Some res" | (silent) "vo_resolved p = None"
      "saxo_poll_orders api now ps results (x\<lparr>sx_world := w\<rparr>) = (y, rs)"
    | (found) found x1 res where "vo_resolved p = None" "saxo_resolve now j p found (x\<lparr>sx_world := w\<rparr>) = (x1, res)"
      "saxo_poll_orders api now ps (results @ [res]) x1 = (y, rs)"
    using Cons.prems(1) jp g by (auto simp: Let_def split: option.splits sum.splits if_splits prod.splits)
  then show ?case
  proof cases
    case resolved
    with Cons.prems jp have "saxo_poll_orders api now ps (results @ [res]) x = (y, rs)" by simp
    from Cons.IH [OF this] Cons.prems(2) jp resolved show ?thesis by auto
  next
    case silent
    from Cons.IH [OF silent(2)] Cons.prems(2) jp silent(1) show ?thesis by auto
  next
    case (found f x1 res)
    with Cons.prems(2) jp have "j \<noteq> i" by auto
    with Cons.IH [OF found(3)] Cons.prems(2) jp saxo_resolve_open [OF found(2)] found(1) show ?thesis
      by (auto simp: AList.map_of_map_entry AList.distinct_map_entry)
  qed
qed simp

lemma saxo_reconcile_delivers:
  assumes "dict_ok (sx_open_orders x)" and "map_of (sx_open_orders x) i = Some p" and "vo_resolved p = Some res"
    and "saxo_reconcile api now x = (y, Inr rs)"
  shows "dict_ok (sx_open_orders y) \<and> map_of (sx_open_orders y) i = Some p \<and> res \<in> set rs"
proof -
  have run: "saxo_poll_orders api now (sx_open_orders x) [] x = (y, rs)"
    using assms(4) by (auto simp: saxo_reconcile_def split: prod.splits)
  have "p' = p" if "(i, p') \<in> set (sx_open_orders x)" for p'
    using map_of_is_SomeI [OF assms(1) that] assms(2) by simp
  with assms(3) have "\<forall>p'. (i, p') \<in> set (sx_open_orders x) \<longrightarrow> vo_resolved p' \<noteq> None" by fastforce
  from saxo_poll_keeps [OF run this] assms(1-3) map_of_SomeD [OF assms(2)] show ?thesis by auto
qed

interpretation saxo_delivery: two_phase sx_open_orders "saxo_reconcile api" saxo_confirm_reconciled
  "\<lambda>i x. dict_ok (sx_open_orders x)"
  for api :: "'v saxo_api"
proof
  fix i :: string and x :: "'v saxo" and p e
  assume *: "dict_ok (sx_open_orders x)" "map_of (sx_open_orders x) i = Some p"
  obtain y rs where r: "saxo_reconcile api e x = (y, Inr rs)"
    by (cases "saxo_poll_orders api e (sx_open_orders x) [] x") (simp add: saxo_reconcile_def)
  {
    assume "vo_resolved p \<noteq> None"
    then obtain res where "vo_resolved p = Some res" by auto
    from saxo_reconcile_delivers [OF * this r] r
    show "dict_ok (sx_open_orders (fst (saxo_reconcile api e x)))
        \<and> map_of (sx_open_orders (fst (saxo_reconcile api e x))) i = Some p" by simp
  }
  fix res rs'
  assume "vo_resolved p = Some res" "snd (saxo_reconcile api e x) = Inr rs'"
  with saxo_reconcile_delivers [OF * _ r] r show "res \<in> set rs'" by simp
next
  fix i and x :: "'v saxo" and j :: string
  assume "dict_ok (sx_open_orders x)" "j \<noteq> i"
  then show "dict_ok (sx_open_orders (saxo_confirm_reconciled j x))
      \<and> map_of (sx_open_orders (saxo_confirm_reconciled j x)) i = map_of (sx_open_orders x) i"
    by (auto simp: saxo_confirm_reconciled_def delete_conv' distinct_delete split: option.splits)
qed

section \<open>Properties\<close>

text \<open>C28: The Saxo executor never opens a short: whatever the server answers (a 401 and its retry included),
  every order request that placing a SELL sends is a sale of a positive, whole multiple of the lot size
  that exceeds what the ledger held by at most the rounding tolerance of 1e-9 lots.\<close>

theorem saxo_sells_are_covered:
  assumes "rq_side r = S_SELL" and "snd (sw_server (sx_world x)) = []"
    and "saxo_place_order (logging api) now r x = (x', out)"
  shows "list_all (about_orders (covered_sale (sg_amount_decimals (sx_settings x)) (quantity (sx_tracker x) (rq_symbol r))))
     (snd (sw_server (sx_world x')))"
  using place_order_log [OF assms(3,1)] assms(2) by (simp add: log_ok_def list_all_iff)

text \<open>A Saxo fill reaches the agent too: a resolved order is reported by every reconciliation until the
  agent confirms it, whatever the server answers in between.\<close>

theorem saxo_fill_is_delivered_until_confirmed:
  assumes "distinct (map fst (sx_open_orders x))" and "map_of (sx_open_orders x) oid = Some p"
    and "vo_resolved p = Some res" and "oid \<notin> confirmed_ids steps"
    and "Inr results \<in> set (reports (saxo_reconcile api) saxo_confirm_reconciled steps x)"
  shows "res \<in> set results"
  by (rule saxo_delivery.delivered_until_confirmed [OF assms])

text \<open>A fill is booked at a plausible price: when the order had a positive reference price, the price
  checked_fill_price books deviates from it by no more than the configured fraction, and it is the venue's
  own price whenever that is within the fraction.\<close>

theorem booked_price_is_plausible:
  assumes "0 < requested" and "0 \<le> max_deviation"
  shows "\<exists>price. checked_fill_price max_deviation filled (Some requested) = Some price
     \<and> \<bar>price - requested\<bar> \<le> max_deviation * requested
     \<and> (\<forall>f. filled = Some f \<and> 0 < f \<and> \<bar>f - requested\<bar> \<le> max_deviation * requested \<longrightarrow> price = f)"
  using assms by (auto simp: checked_fill_price_def divide_le_eq less_divide_eq not_less split: option.splits)

text \<open>Ten shares held, a server that never answers usefully, and a sale of twelve.\<close>

definition demo_saxo_settings :: saxo_settings where
  "demo_saxo_settings = \<lparr>sg_account_key = [], sg_account_currency = None, sg_symbol_map = [], sg_asset_type = ''Stock'',
     sg_amount_decimals = 0, sg_fill_polls = 1, sg_max_fill_deviation = 1/5, sg_int = (\<lambda>j. None)\<rparr>"

definition demo_account :: saxo_account where
  "demo_account = \<lparr>sc_key = ''k'', sc_client_key = JNull, sc_currency = None, sc_account_id = JNull\<rparr>"

definition demo_instrument :: saxo_instrument where
  "demo_instrument = \<lparr>si_uic = 211, si_symbol = ''BTC:x'', si_currency = None\<rparr>"

definition demo_static_api :: "unit saxo_api" where
  "demo_static_api = demo_api\<lparr>sa_oauth := None\<rparr>"

definition demo_saxo :: "(unit \<times> http_request list) saxo" where
  "demo_saxo = (new_saxo \<lparr>sw_server = ((), []), sw_tokens = None, sw_file = NoFile\<rparr> demo_saxo_settings)
     \<lparr>sx_tracker := demo_tracker, sx_account := Some demo_account, sx_instruments := [(''BTC/EUR'', demo_instrument)]\<rparr>"

lemma demo_saxo_fields [simp]:
  "sx_tracker demo_saxo = demo_tracker" "snd (sw_server (sx_world demo_saxo)) = []"
  "sg_amount_decimals (sx_settings demo_saxo) = 0"
  by (simp_all add: demo_saxo_def new_saxo_def demo_saxo_settings_def)

lemma demo_saxo_sold:
  "map hr_method (snd (sw_server (sx_world (fst (saxo_place_order (logging demo_static_api) 0 demo_sell demo_saxo)))))
     = [''POST'']"
  by (simp add: saxo_place_order_def saxo_sendable_def saxo_quantity_def demo_sell_def demo_saxo_def new_saxo_def
      demo_saxo_settings_def demo_tracker_facts floor_amount_def saxo_get_account_def saxo_instrument_of_def
      demo_account_def demo_instrument_def place_market_order_def saxo_request_def send_def http_call_def logging_def
      demo_static_api_def demo_api_def dict_else_empty_def Let_def)

theorem saxo_sells_are_covered_witness:
  "list_all (about_orders (covered_sale 0 5))
     (snd (sw_server (sx_world (fst (saxo_place_order (logging demo_static_api) 0 demo_sell demo_saxo)))))
   \<and> map hr_method (snd (sw_server (sx_world (fst (saxo_place_order (logging demo_static_api) 0 demo_sell demo_saxo)))))
     = [''POST'']"
proof -
  obtain x' out where run: "saxo_place_order (logging demo_static_api) 0 demo_sell demo_saxo = (x', out)" by fastforce
  have "rq_side demo_sell = S_SELL" "rq_symbol demo_sell = ''BTC/EUR''" by (simp_all add: demo_sell_def)
  with saxo_sells_are_covered [OF _ _ run] run demo_saxo_sold show ?thesis by (simp add: demo_tracker_facts)
qed

definition demo_saxo_waiting :: "(unit \<times> http_request list) saxo" where
  "demo_saxo_waiting = demo_saxo\<lparr>sx_open_orders := [(''7'', demo_open_order (Some demo_result))]\<rparr>"

theorem saxo_fill_is_delivered_until_confirmed_witness:
  "Inr [demo_result] \<in> set (reports (saxo_reconcile (logging demo_static_api)) saxo_confirm_reconciled
     [Reconcile 0, Confirm ''8'', Reconcile 1] demo_saxo_waiting) \<and> demo_result \<in> set [demo_result]"
proof -
  have first: "Inr [demo_result] \<in> set (reports (saxo_reconcile (logging demo_static_api)) saxo_confirm_reconciled
      [Reconcile 0, Confirm ''8'', Reconcile 1] demo_saxo_waiting)"
    by (simp add: saxo_reconcile_def demo_saxo_waiting_def demo_open_order_def saxo_confirm_reconciled_def)
  have "demo_result \<in> set [demo_result]"
    by (rule saxo_fill_is_delivered_until_confirmed [OF _ _ _ _ first, of "''7''" "demo_open_order (Some demo_result)"])
      (simp_all add: demo_saxo_waiting_def demo_open_order_def)
  with first show ?thesis by blast
qed

theorem booked_price_is_plausible_witness:
  "\<exists>price. checked_fill_price (1/5) (Some 150) (Some 100) = Some price \<and> \<bar>price - 100\<bar> \<le> (1/5) * 100"
  using booked_price_is_plausible [of 100 "1/5" "Some 150"] by auto

end
