(* ===== verification/Xtb_Executor.thy ===== *)
theory Xtb_Executor
  imports Saxo_Executor
begin

text \<open>
  The XTB executor, \<^verbatim>\<open>src/src/execution/xtb_executor.py\<close>: an order opposite to open trades closes
  them first in, first out and never flips, and a SELL with nothing to close is refused.

  The client is a parameter over an arbitrary venue state; \<open>xc_int\<close> is Python's \<^verbatim>\<open>int(value)\<close>. An
  exception of a call leaves what was done before it in place.
\<close>

section \<open>State\<close>

record 'v xtb_client =
  xc_get_open_trades :: "'v \<Rightarrow> string \<Rightarrow> 'v \<times> (py_error + payload list)"
  xc_create_order :: "'v \<Rightarrow> string \<Rightarrow> string \<Rightarrow> real \<Rightarrow> real option \<Rightarrow> 'v \<times> (py_error + json)"
  xc_close_trade :: "'v \<Rightarrow> int \<Rightarrow> string \<Rightarrow> int \<Rightarrow> real \<Rightarrow> real option \<Rightarrow> 'v \<times> (py_error + json)"
  xc_cancel_order :: "'v \<Rightarrow> string \<Rightarrow> 'v \<times> (py_error + json)"
  xc_get_positions :: "'v \<Rightarrow> 'v \<times> (py_error + payload list)"
  xc_get_balance :: "'v \<Rightarrow> 'v \<times> (py_error + json)"
  xc_builtins :: builtins
  xc_int :: "json \<Rightarrow> int option"

record 'v xtb =
  xt_venue_state :: 'v
  xt_to_venue :: "(symbol, string) dict"
  xt_from_venue :: "(string, symbol) dict"
  xt_allow_short :: bool
  xt_tracker :: tracker
  xt_exit_levels :: "(symbol, exit_levels) dict"

definition inverted :: "('a \<times> 'b) list \<Rightarrow> ('b, 'a) dict" where
  "inverted d = fold (\<lambda>(k, v). AList.update v k) d []"

definition new_xtb :: "'v \<Rightarrow> bool \<Rightarrow> (symbol, string) dict \<Rightarrow> 'v xtb" where
  "new_xtb v allow_short symbol_map =
     \<lparr>xt_venue_state = v, xt_to_venue = symbol_map, xt_from_venue = inverted symbol_map,
      xt_allow_short = allow_short, xt_tracker = new_tracker, xt_exit_levels = []\<rparr>"

definition venue_symbol :: "'v xtb \<Rightarrow> symbol \<Rightarrow> string" where
  "venue_symbol x s = (case map_of (xt_to_venue x) s of None \<Rightarrow> s | Some v \<Rightarrow> v)"

definition data_symbol :: "'v xtb \<Rightarrow> string \<Rightarrow> symbol" where
  "data_symbol x s = (case map_of (xt_from_venue x) s of None \<Rightarrow> s | Some v \<Rightarrow> v)"

definition xtb_status_map :: "(string, order_status) dict" where
  "xtb_status_map =
     [(''filled'', FILLED), (''pending'', PENDING), (''open'', PENDING), (''rejected'', ORDER_REJECTED),
      (''cancelled'', CANCELLED), (''canceled'', CANCELLED)]"

definition xtb_status :: "builtins \<Rightarrow> payload \<Rightarrow> order_status" where
  "xtb_status bi raw =
     (case map_of xtb_status_map (case map_of raw ''status'' of None \<Rightarrow> ''pending'' | Some v \<Rightarrow> to_str bi v) of
        None \<Rightarrow> PENDING | Some st \<Rightarrow> st)"

definition opened_long :: int where "opened_long = 0"

definition opened_short :: int where "opened_short = 1"

text \<open>\<^verbatim>\<open>value == number\<close> for a payload value.\<close>

definition equals_int :: "json \<Rightarrow> int \<Rightarrow> bool" where
  "equals_int v c = (case v of JNum r \<Rightarrow> r = of_int c | JBool b \<Rightarrow> (if b then 1 else 0) = c | _ \<Rightarrow> False)"

text \<open>The venue's price when it sent one, else the requested one; it must read as a number.\<close>

definition leg_price :: "builtins \<Rightarrow> payload \<Rightarrow> real option \<Rightarrow> py_error + real option" where
  "leg_price bi raw price =
     (case jget ''price'' raw of
        JNull \<Rightarrow> Inr price
      | v \<Rightarrow> (case float_or_raise bi v of Inl e \<Rightarrow> Inl e | Inr p \<Rightarrow> Inr (Some p)))"

section \<open>Closing trades\<close>

record closing =
  cg_remaining :: real
  cg_volume :: real
  cg_notional :: real
  cg_order_ids :: "string list"
  cg_failure :: "reason option"

fun close_legs ::
  "'v xtb_client \<Rightarrow> string \<Rightarrow> real option \<Rightarrow> payload list \<Rightarrow> closing \<Rightarrow> 'v \<Rightarrow> 'v \<times> (py_error + closing)" where
  "close_legs cl vs price [] c v = (v, Inr c)"
| "close_legs cl vs price (trade # trades) c v =
     (let bi = xc_builtins cl
      in if cg_remaining c \<le> eps12 then (v, Inr c)
         else case float_or_raise bi (case map_of trade ''volume'' of None \<Rightarrow> JNum 0 | Some j \<Rightarrow> j) of
                Inl e \<Rightarrow> (v, Inl e)
              | Inr open_volume \<Rightarrow>
                  let volume = min open_volume (cg_remaining c)
                  in if volume \<le> 0 then close_legs cl vs price trades c v
                     else case (Option.bind (map_of trade ''order'') (xc_int cl), Option.bind (map_of trade ''cmd'') (xc_int cl)) of
                            (Some order, Some cmd) \<Rightarrow>
                              (case xc_close_trade cl v order vs cmd volume price of
                                 (v1, Inl e) \<Rightarrow> (v1, Inl e)
                               | (v1, Inr answer) \<Rightarrow>
                                   (case dict_or_raise answer of
                                      Inl e \<Rightarrow> (v1, Inl e)
                                    | Inr raw \<Rightarrow>
                                        if xtb_status bi raw \<noteq> FILLED
                                        then (v1, Inr (c\<lparr>cg_failure := Some (OtherReason ''close of a trade came back unfilled'')\<rparr>))
                                        else case leg_price bi raw price of
                                               Inl e \<Rightarrow> (v1, Inl e)
                                             | Inr p \<Rightarrow>
                                                 close_legs cl vs price trades
                                                   (c\<lparr>cg_order_ids := cg_order_ids c @
                                                        [to_str bi (json_or (jget ''order_id'' raw) (JStr []))],
                                                      cg_notional := cg_notional c + (case p of None \<Rightarrow> 0 | Some q \<Rightarrow> q * volume),
                                                      cg_volume := cg_volume c + volume,
                                                      cg_remaining := cg_remaining c - volume\<rparr>) v1))
                          | _ \<Rightarrow> (v, Inl ValueError))"

definition close_price :: "closing \<Rightarrow> real option \<Rightarrow> real option" where
  "close_price c price =
     (if cg_volume c > 0 \<and> cg_notional c > 0 then Some (cg_notional c / cg_volume c) else price)"

definition close_trades ::
  "'v xtb_client \<Rightarrow> order_request \<Rightarrow> payload list \<Rightarrow> 'v xtb \<Rightarrow> 'v xtb \<times> (py_error + order_result)" where
  "close_trades cl r trades x =
     (let s = rq_symbol r; side = rq_side r
      in case close_legs cl (venue_symbol x s) (rq_price r) trades
                \<lparr>cg_remaining = rq_quantity r, cg_volume = 0, cg_notional = 0, cg_order_ids = [], cg_failure = None\<rparr>
                (xt_venue_state x) of
           (v, Inl e) \<Rightarrow> (x\<lparr>xt_venue_state := v\<rparr>, Inl e)
         | (v, Inr c) \<Rightarrow>
             let fill_price = close_price c (rq_price r); t = xt_tracker x;
                 (t1, out) = (case fill_price of
                     Some p \<Rightarrow>
                       if cg_volume c > 0 \<and> side = S_SELL \<and> quantity t s > 0
                       then map_prod id Some (on_sell t s (cg_volume c) p 0)
                       else if cg_volume c > 0 \<and> side = S_BUY \<and> short_quantity t s > 0
                       then map_prod id Some (cover t s (cg_volume c) p 0)
                       else (t, None)
                   | None \<Rightarrow> (t, None));
                 x1 = x\<lparr>xt_venue_state := v, xt_tracker := t1\<rparr>;
                 x2 = (if quantity t1 s \<le> 0 \<and> short_quantity t1 s \<le> 0
                       then x1\<lparr>xt_exit_levels := AList.delete s (xt_exit_levels x1)\<rparr> else x1);
                 res = plain_result (case cg_order_ids c of [] \<Rightarrow> [] | oid # _ \<Rightarrow> oid) s side
                         (if cg_volume c > 0 then cg_volume c else rq_quantity r) fill_price
                         (if cg_volume c > 0 then FILLED else ORDER_REJECTED) None (cg_failure c)
             in (x2, Inr (case out of
                            None \<Rightarrow> res
                          | Some so \<Rightarrow> res\<lparr>o_realized_pnl := Some (so_gross_pnl so), o_closed_entries := so_closed_entries so\<rparr>)))"

section \<open>Placing an order\<close>

definition open_fill ::
  "order_request \<Rightarrow> real \<Rightarrow> real \<Rightarrow> order_result \<Rightarrow> 'v xtb \<Rightarrow> 'v xtb \<times> order_result" where
  "open_fill r filled price res x =
     (let s = rq_symbol r; t = xt_tracker x;
          (x1, res1) =
            (if rq_side r = S_BUY
             then (x\<lparr>xt_tracker := on_buy t s filled price 0 (rq_decision_id r),
                    xt_exit_levels := AList.update s (rq_stop_loss r, rq_take_profit r) (xt_exit_levels x)\<rparr>, res)
             else if quantity t s > 0
             then (case on_sell t s filled price 0 of
                     (t1, so) \<Rightarrow> (x\<lparr>xt_tracker := t1\<rparr>,
                       res\<lparr>o_realized_pnl := Some (so_gross_pnl so), o_closed_entries := so_closed_entries so\<rparr>))
             else (x, res))
      in (if quantity (xt_tracker x1) s \<le> 0 then x1\<lparr>xt_exit_levels := AList.delete s (xt_exit_levels x1)\<rparr> else x1, res1))"

definition xtb_open ::
  "'v xtb_client \<Rightarrow> order_request \<Rightarrow> 'v xtb \<Rightarrow> 'v xtb \<times> (py_error + order_result)" where
  "xtb_open cl r x =
     (let bi = xc_builtins cl; s = rq_symbol r
      in case xc_create_order cl (xt_venue_state x) (venue_symbol x s) (side_value (rq_side r)) (rq_quantity r) (rq_price r) of
           (v, Inl e) \<Rightarrow> (x\<lparr>xt_venue_state := v\<rparr>, Inl e)
         | (v, Inr answer) \<Rightarrow>
             let x1 = x\<lparr>xt_venue_state := v\<rparr>
             in case dict_or_raise answer of
                  Inl e \<Rightarrow> (x1, Inl e)
                | Inr raw \<Rightarrow>
                    (case (float_or_raise bi (case map_of raw ''quantity'' of None \<Rightarrow> JNum (rq_quantity r) | Some q \<Rightarrow> q),
                           leg_price bi raw (rq_price r)) of
                       (Inr filled, Inr fill_price) \<Rightarrow>
                         let status = xtb_status bi raw;
                             res = plain_result (to_str bi (json_or (json_or (jget ''order_id'' raw) (jget ''id'' raw)) (JStr [])))
                                     s (rq_side r) filled fill_price status None None
                         in (case fill_price of
                               Some p \<Rightarrow> if status = FILLED
                                          then (case open_fill r filled p res x1 of (x2, res1) \<Rightarrow> (x2, Inr res1))
                                          else (x1, Inr res)
                             | None \<Rightarrow> (x1, Inr res))
                     | (Inl e, _) \<Rightarrow> (x1, Inl e)
                     | (_, Inl e) \<Rightarrow> (x1, Inl e)))"

definition xtb_place_order ::
  "'v xtb_client \<Rightarrow> order_request \<Rightarrow> 'v xtb \<Rightarrow> 'v xtb \<times> (py_error + order_result)" where
  "xtb_place_order cl r x =
     (let closing_cmd = (if rq_side r = S_SELL then opened_long else opened_short)
      in case xc_get_open_trades cl (xt_venue_state x) (venue_symbol x (rq_symbol r)) of
           (v, Inl e) \<Rightarrow> (x\<lparr>xt_venue_state := v\<rparr>, Inl e)
         | (v, Inr trades) \<Rightarrow>
             let x1 = x\<lparr>xt_venue_state := v\<rparr>; opposite = filter (\<lambda>t. equals_int (jget ''cmd'' t) closing_cmd) trades
             in if opposite \<noteq> [] then close_trades cl r opposite x1
                else if rq_side r = S_SELL \<and> \<not> xt_allow_short x
                then (x1, Inr (plain_result [] (rq_symbol r) (rq_side r) (rq_quantity r) (rq_price r) ORDER_REJECTED None
                        (Some (NoTrackedPosition (rq_symbol r)))))
                else xtb_open cl r x1)"

section \<open>Restart, positions, cash\<close>

definition xtb_load_fills :: "fill_record list \<Rightarrow> 'v xtb \<Rightarrow> 'v xtb \<times> nat \<times> nat" where
  "xtb_load_fills fills x =
     (let (t, replayed, levels) = replay_fills new_tracker fills
      in (x\<lparr>xt_tracker := t, xt_exit_levels := levels\<rparr>, replayed, length (symbols t)))"

definition xtb_entry_decision_ids :: "'v xtb \<Rightarrow> symbol \<Rightarrow> int option list" where
  "xtb_entry_decision_ids x s = entry_decision_ids (xt_tracker x) s"

definition float_or_zero :: "builtins \<Rightarrow> json \<Rightarrow> py_error + real" where
  "float_or_zero bi v = float_or_raise bi (json_or v (JNum 0))"

definition xtb_position :: "builtins \<Rightarrow> 'v xtb \<Rightarrow> payload \<Rightarrow> py_error + position option" where
  "xtb_position bi x pos =
     (case float_or_zero bi (json_or (jget ''quantity'' pos) (jget ''contracts'' pos)) of
        Inl e \<Rightarrow> Inl e
      | Inr q \<Rightarrow>
          if q = 0 then Inr None
          else (case float_or_zero bi (json_or (jget ''avg_entry_price'' pos) (jget ''entry_price'' pos)) of
                  Inl e \<Rightarrow> Inl e
                | Inr avg \<Rightarrow>
                    (case float_or_raise bi (json_or (json_or (jget ''current_price'' pos) (jget ''mark_price'' pos)) (JNum avg)) of
                       Inl e \<Rightarrow> Inl e
                     | Inr current \<Rightarrow>
                         let s = data_symbol x (to_str bi (jget ''symbol'' pos));
                             (sl, tp) = (case map_of (xt_exit_levels x) s of None \<Rightarrow> (None, None) | Some l \<Rightarrow> l);
                             side = (case map_of pos ''side'' of None \<Rightarrow> ''long'' | Some v \<Rightarrow> to_str bi v)
                         in Inr (Some \<lparr>p_symbol = s, p_quantity = \<bar>q\<bar>, p_avg_entry_price = avg, p_current_price = current,
                              p_side = (if lower side = ''short'' \<or> q < 0 then SHORT else LONG),
                              p_stop_loss = sl, p_take_profit = tp\<rparr>))))"

definition xtb_positions_of :: "builtins \<Rightarrow> 'v xtb \<Rightarrow> payload list \<Rightarrow> py_error + position list" where
  "xtb_positions_of bi x rows =
     (case all_ok (map (xtb_position bi x) rows) of
        Inl e \<Rightarrow> Inl e | Inr ps \<Rightarrow> Inr (List.map_filter id ps))"

definition xtb_get_positions :: "'v xtb_client \<Rightarrow> 'v xtb \<Rightarrow> 'v xtb \<times> (py_error + position list)" where
  "xtb_get_positions cl x =
     (case xc_get_positions cl (xt_venue_state x) of
        (v, Inl e) \<Rightarrow> (x\<lparr>xt_venue_state := v\<rparr>, Inl e)
      | (v, Inr rows) \<Rightarrow> (x\<lparr>xt_venue_state := v\<rparr>, xtb_positions_of (xc_builtins cl) x rows))"

definition xtb_cancel_order :: "'v xtb_client \<Rightarrow> string \<Rightarrow> 'v xtb \<Rightarrow> 'v xtb \<times> bool" where
  "xtb_cancel_order cl oid x =
     (case xc_cancel_order cl (xt_venue_state x) oid of (v, out) \<Rightarrow> (x\<lparr>xt_venue_state := v\<rparr>, \<not> isl out))"

definition xtb_get_cash :: "'v xtb_client \<Rightarrow> 'v xtb \<Rightarrow> 'v xtb \<times> (py_error + real)" where
  "xtb_get_cash cl x =
     (case xc_get_balance cl (xt_venue_state x) of
        (v, Inl e) \<Rightarrow> (x\<lparr>xt_venue_state := v\<rparr>, Inl e)
      | (v, Inr balance) \<Rightarrow> (x\<lparr>xt_venue_state := v\<rparr>, float_or_raise (xc_builtins cl) balance))"

section \<open>Closing never flips\<close>

datatype xtb_call = CreateCall string real | CloseCall int real

definition watched :: "'v xtb_client \<Rightarrow> ('v \<times> xtb_call list) xtb_client" where
  "watched cl =
     \<lparr>xc_get_open_trades = (\<lambda>(v, calls) s. case xc_get_open_trades cl v s of (v1, out) \<Rightarrow> ((v1, calls), out)),
      xc_create_order = (\<lambda>(v, calls) s side q p.
        case xc_create_order cl v s side q p of (v1, out) \<Rightarrow> ((v1, calls @ [CreateCall side q]), out)),
      xc_close_trade = (\<lambda>(v, calls) order s cmd volume p.
        case xc_close_trade cl v order s cmd volume p of (v1, out) \<Rightarrow> ((v1, calls @ [CloseCall cmd volume]), out)),
      xc_cancel_order = (\<lambda>(v, calls) oid. case xc_cancel_order cl v oid of (v1, out) \<Rightarrow> ((v1, calls), out)),
      xc_get_positions = (\<lambda>(v, calls). case xc_get_positions cl v of (v1, out) \<Rightarrow> ((v1, calls), out)),
      xc_get_balance = (\<lambda>(v, calls). case xc_get_balance cl v of (v1, out) \<Rightarrow> ((v1, calls), out)),
      xc_builtins = xc_builtins cl, xc_int = xc_int cl\<rparr>"

fun closed_volume :: "xtb_call list \<Rightarrow> real" where
  "closed_volume [] = 0"
| "closed_volume (CloseCall cmd q # calls) = q + closed_volume calls"
| "closed_volume (CreateCall side q # calls) = closed_volume calls"

lemma closed_volume_append [simp]: "closed_volume (calls @ calls') = closed_volume calls + closed_volume calls'"
  by (induction calls rule: closed_volume.induct) simp_all

definition only_closes :: "xtb_call list \<Rightarrow> bool" where
  "only_closes calls \<longleftrightarrow> (\<forall>call\<in>set calls. case call of CloseCall cmd q \<Rightarrow> 0 < q | CreateCall side q \<Rightarrow> False)"

lemma only_closes_append [simp]: "only_closes (calls @ calls') \<longleftrightarrow> only_closes calls \<and> only_closes calls'"
  by (auto simp: only_closes_def)

text \<open>What the legs sent, the failing last one included, is within what was left to close.\<close>

lemma close_legs_bounded:
  assumes "close_legs (watched cl) vs price trades c w = (w', out)" and "0 \<le> cg_remaining c"
    and "only_closes (snd w)"
  shows "only_closes (snd w') \<and> closed_volume (snd w') \<le> closed_volume (snd w) + cg_remaining c"
  using assms
proof (induction trades arbitrary: c w)
  case (Cons trade trades)
  obtain v calls where w: "w = (v, calls)" by (cases w)
  let ?bi = "xc_builtins (watched cl)"
  consider (stop) "w' = w"
    | (skip) "close_legs (watched cl) vs price trades c w = (w', out)"
    | (asked) volume cmd v1 where "0 < volume" "volume \<le> cg_remaining c" "w' = (v1, calls @ [CloseCall cmd volume])"
    | (closed) volume cmd v1 c1 where "0 < volume" "volume \<le> cg_remaining c"
      "cg_remaining c1 = cg_remaining c - volume"
      "close_legs (watched cl) vs price trades c1 (v1, calls @ [CloseCall cmd volume]) = (w', out)"
  proof -
    let ?open = "float_or_raise ?bi (case map_of trade ''volume'' of None \<Rightarrow> JNum 0 | Some j \<Rightarrow> j)"
    show thesis
    proof (cases "cg_remaining c \<le> eps12 \<or> isl ?open")
      case True
      with Cons.prems(1) have "w' = w" by (auto simp: Let_def split: if_splits sum.splits)
      then show thesis by (rule stop)
    next
      case False
      then obtain open_volume where o: "?open = Inr open_volume" by (cases ?open) auto
      let ?volume = "min open_volume (cg_remaining c)"
      show thesis
      proof (cases "?volume \<le> 0")
        case True
        with False have "open_volume \<le> 0" by (auto simp: min_le_iff_disj)
        with Cons.prems(1) False o show thesis by (intro skip) (simp add: Let_def)
      next
        case pos: False
        show thesis
        proof (cases "\<exists>order cmd. Option.bind (map_of trade ''order'') (xc_int (watched cl)) = Some order
            \<and> Option.bind (map_of trade ''cmd'') (xc_int (watched cl)) = Some cmd")
          case False': False
          have "w' = w"
          proof (cases "Option.bind (map_of trade ''order'') (xc_int (watched cl))")
            case None
            with Cons.prems(1) False o pos show ?thesis by (simp add: Let_def)
          next
            case (Some order)
            with False' have "Option.bind (map_of trade ''cmd'') (xc_int (watched cl)) = None" by simp
            with Some Cons.prems(1) False o pos show ?thesis by (simp add: Let_def)
          qed
          then show thesis by (rule stop)
        next
          case True
          then obtain order cmd where t: "Option.bind (map_of trade ''order'') (xc_int (watched cl)) = Some order"
            "Option.bind (map_of trade ''cmd'') (xc_int (watched cl)) = Some cmd" by blast
          obtain v1 answer where call: "xc_close_trade cl v order vs cmd ?volume price = (v1, answer)" by fastforce
          then have call': "xc_close_trade (watched cl) w order vs cmd ?volume price =
              ((v1, calls @ [CloseCall cmd ?volume]), answer)" by (simp add: watched_def w)
          show thesis
          proof (cases "\<exists>a raw p. answer = Inr a \<and> dict_or_raise a = Inr raw \<and> xtb_status ?bi raw = FILLED
              \<and> leg_price ?bi raw price = Inr p")
            case True
            then obtain a raw p where f: "answer = Inr a" "dict_or_raise a = Inr raw" "xtb_status ?bi raw = FILLED"
              "leg_price ?bi raw price = Inr p" by blast
            from Cons.prems(1) False o pos t call' f show thesis
              by (intro closed [of ?volume _ v1 cmd]) (simp_all add: Let_def)
          next
            case False'': False
            with Cons.prems(1) False o pos t call' have "w' = (v1, calls @ [CloseCall cmd ?volume])"
              by (auto simp: Let_def split: sum.splits if_splits)
            with pos show thesis by (intro asked [of ?volume v1 cmd]) (auto simp: not_le)
          qed
        qed
      qed
    qed
  qed
  then show ?case
  proof cases
    case stop
    with Cons.prems show ?thesis by simp
  next
    case skip
    from Cons.IH [OF this Cons.prems(2,3)] show ?thesis .
  next
    case (asked volume cmd v1)
    with Cons.prems w show ?thesis by (simp add: only_closes_def)
  next
    case (closed volume cmd v1 c1)
    have "only_closes (snd (v1, calls @ [CloseCall cmd volume]))"
      using Cons.prems(3) w closed(1) by (simp add: only_closes_def)
    from Cons.IH [OF closed(4) _ this] closed(2,3) w show ?thesis by simp
  qed
qed simp

lemma xtb_place_bounded:
  assumes "xtb_place_order (watched cl) r x = (y, out)" and "rq_side r = S_SELL" and "\<not> xt_allow_short x"
    and "0 \<le> rq_quantity r" and "snd (xt_venue_state x) = []"
  shows "only_closes (snd (xt_venue_state y)) \<and> closed_volume (snd (xt_venue_state y)) \<le> rq_quantity r"
proof -
  obtain v where x: "xt_venue_state x = (v, [])" using assms(5) by (cases "xt_venue_state x") simp
  obtain v1 o1 where "xc_get_open_trades cl v (venue_symbol x (rq_symbol r)) = (v1, o1)" by fastforce
  then have g: "xc_get_open_trades (watched cl) (xt_venue_state x) (venue_symbol x (rq_symbol r)) = ((v1, []), o1)"
    by (simp add: x watched_def)
  show ?thesis
  proof (cases "\<exists>trades. o1 = Inr trades \<and> filter (\<lambda>t. equals_int (jget ''cmd'' t) opened_long) trades \<noteq> []")
    case False
    with assms g have "xt_venue_state y = (v1, [])"
      by (auto simp: xtb_place_order_def Let_def split: sum.splits if_splits)
    with assms(4) show ?thesis by (simp add: only_closes_def)
  next
    case True
    then obtain trades where t: "o1 = Inr trades" "filter (\<lambda>t. equals_int (jget ''cmd'' t) opened_long) trades \<noteq> []"
      by blast
    let ?x1 = "x\<lparr>xt_venue_state := (v1, [])\<rparr>" and ?ts = "filter (\<lambda>t. equals_int (jget ''cmd'' t) opened_long) trades"
    let ?c = "\<lparr>cg_remaining = rq_quantity r, cg_volume = 0, cg_notional = 0, cg_order_ids = [], cg_failure = None\<rparr>"
    have run: "close_trades (watched cl) r ?ts ?x1 = (y, out)"
      using assms(1,2) g t by (simp add: xtb_place_order_def Let_def)
    obtain w o2 where legs: "close_legs (watched cl) (venue_symbol ?x1 (rq_symbol r)) (rq_price r) ?ts ?c (v1, []) = (w, o2)"
      by fastforce
    from run legs have "xt_venue_state y = w"
      by (auto simp: close_trades_def Let_def split: sum.splits prod.splits)
    with close_legs_bounded [OF legs] assms(4) show ?thesis by (simp add: only_closes_def)
  qed
qed

section \<open>Properties\<close>

text \<open>C32: The long-only XTB executor never opens a short and never flips: whatever the venue answers, placing a
  SELL only closes trades (it never opens one), each with a positive volume and together no more than the
  quantity asked for.\<close>

theorem xtb_sell_only_closes:
  assumes "rq_side r = S_SELL" and "\<not> xt_allow_short x" and "0 \<le> rq_quantity r"
    and "snd (xt_venue_state x) = []" and "xtb_place_order (watched cl) r x = (x', out)"
  shows "only_closes (snd (xt_venue_state x')) \<and> closed_volume (snd (xt_venue_state x')) \<le> rq_quantity r"
  by (rule xtb_place_bounded [OF assms(5,1-4)])

text \<open>Two open trades of one unit; the venue closes the first and its connection breaks at the second.\<close>

definition demo_trade :: payload where
  "demo_trade = [(''cmd'', JNum 0), (''order'', JNum 1), (''volume'', JNum 1)]"

definition demo_xtb_client :: "nat xtb_client" where
  "demo_xtb_client =
     \<lparr>xc_get_open_trades = (\<lambda>v s. (v, Inr [demo_trade, demo_trade])),
      xc_create_order = (\<lambda>v s side q p. (v, Inl ValueError)),
      xc_close_trade = (\<lambda>v order s cmd volume p.
        (Suc v, if v = 0 then Inr (JDict [(''status'', JStr ''filled''), (''order_id'', JStr ''1'')])
                else Inl (ExternalError ''ConnectionError''))),
      xc_cancel_order = (\<lambda>v oid. (v, Inr JNull)), xc_get_positions = (\<lambda>v. (v, Inr [])),
      xc_get_balance = (\<lambda>v. (v, Inr (JNum 0))), xc_builtins = \<lparr>bi_float = (\<lambda>s. None), bi_str = (\<lambda>j. [])\<rparr>,
      xc_int = (\<lambda>j. case j of JNum r \<Rightarrow> Some \<lfloor>r\<rfloor> | _ \<Rightarrow> None)\<rparr>"

definition demo_xtb :: "(nat \<times> xtb_call list) xtb" where
  "demo_xtb = (new_xtb (0, []) False [])\<lparr>xt_tracker := demo_tracker\<rparr>"

lemma demo_xtb_sold:
  "xtb_place_order (watched demo_xtb_client) demo_sell demo_xtb =
     (demo_xtb\<lparr>xt_venue_state := (2, [CloseCall 0 1, CloseCall 0 1])\<rparr>, Inl (ExternalError ''ConnectionError''))"
  by (simp add: xtb_place_order_def demo_sell_def demo_xtb_def new_xtb_def watched_def demo_xtb_client_def demo_trade_def
      equals_int_def opened_long_def close_trades_def float_or_raise_def dict_or_raise_def xtb_status_def
      xtb_status_map_def leg_price_def venue_symbol_def Let_def)

theorem xtb_sell_only_closes_witness:
  "\<exists>x' out. xtb_place_order (watched demo_xtb_client) demo_sell demo_xtb = (x', out)
     \<and> only_closes (snd (xt_venue_state x')) \<and> closed_volume (snd (xt_venue_state x')) \<le> 9"
proof -
  have "rq_side demo_sell = S_SELL" "rq_quantity demo_sell = 9" by (simp_all add: demo_sell_def)
  moreover have "\<not> xt_allow_short demo_xtb" "snd (xt_venue_state demo_xtb) = []"
    by (simp_all add: demo_xtb_def new_xtb_def)
  ultimately show ?thesis
    using xtb_sell_only_closes [of demo_sell demo_xtb demo_xtb_client] demo_xtb_sold by auto
qed


end
