(* ===== verification/Config_Sections.thy ===== *)
theory Config_Sections
  imports Sleeves Saxo_Executor
begin

text \<open>
  The remaining blocks of \<^verbatim>\<open>src/src/core/config.py\<close> with their validators, the profile overlay and
  the construction of \<^verbatim>\<open>Settings\<close>.

  A block is a record of typed fields, as Pydantic hands them to the validators; reading YAML
  and coercing its types is the library's work (\<open>decode\<close> below). Error messages are not
  modelled: a failing validator is \<^const>\<open>ValueError\<close>. The environment is a function from variable
  names to texts, empty when unset. What \<^verbatim>\<open>ZoneInfo(name)\<close>, \<^verbatim>\<open>date.fromisoformat\<close> and
  \<^verbatim>\<open>datetime.fromisoformat\<close> accept are parameters. \<^verbatim>\<open>control_api\<close> has no rule of its own.
\<close>

record calendar_lib =
  cal_known_zone :: "string \<Rightarrow> bool"
  cal_date :: "string \<Rightarrow> int option"
  cal_instant :: "string \<Rightarrow> (instant \<times> bool) option"

type_synonym environment = "string \<Rightarrow> string"

definition non_empty :: "string \<Rightarrow> string option" where
  "non_empty s = (if s = [] then None else Some s)"

definition option_or_none :: "string option \<Rightarrow> string option" where
  "option_or_none v = Option.bind v non_empty"

definition require :: "bool \<Rightarrow> 'a \<Rightarrow> py_error + 'a" where
  "require ok x = (if ok then Inr x else Inl ValueError)"

section \<open>Shared rules\<close>

definition importance_levels :: "string list" where
  "importance_levels = [''low'', ''medium'', ''high'']"

definition playbook_names :: "string list" where
  "playbook_names = [''swing'', ''position'', ''test'']"

definition is_upper :: "char \<Rightarrow> bool" where
  "is_upper c = (let n = of_char c :: nat in 65 \<le> n \<and> n \<le> 90)"

text \<open>A \<^verbatim>\<open>$\<close> also matches before a final newline.\<close>

definition before_newline :: "string \<Rightarrow> string" where
  "before_newline s = (if s \<noteq> [] \<and> last s = CHR 0x0A then butlast s else s)"

definition is_currency :: "string \<Rightarrow> bool" where
  "is_currency s \<longleftrightarrow> length (before_newline s) = 3 \<and> list_all is_upper (before_newline s)"

text \<open>\<^verbatim>\<open>pair.split("/")[-1]\<close>\<close>

definition quote_of :: "symbol \<Rightarrow> string" where
  "quote_of p = rev (takeWhile (\<lambda>c. c \<noteq> CHR ''/'') (rev p))"

definition pairs_not_quoted_in :: "symbol list \<Rightarrow> string option \<Rightarrow> symbol list" where
  "pairs_not_quoted_in pairs currency =
     (case option_or_none currency of None \<Rightarrow> [] | Some q \<Rightarrow> filter (\<lambda>p. upper (quote_of p) \<noteq> upper q) pairs)"

definition live_trading_ack_phrase :: string where
  "live_trading_ack_phrase = ''I_ACCEPT_REAL_MONEY_RISK''"

definition live_trading_acknowledged :: "environment \<Rightarrow> bool" where
  "live_trading_acknowledged env \<longleftrightarrow> strip (env ''LIVE_TRADING_ACK'') = live_trading_ack_phrase"

section \<open>LLM\<close>

record llm_settings =
  ll_endpoint :: string
  ll_model :: string
  ll_timeout_seconds :: int
  ll_max_retries :: int
  ll_use_json_schema :: bool
  ll_temperature :: real
  ll_max_tokens :: int
  ll_retry_backoff_base_seconds :: real
  ll_seed :: "int option"
  ll_reasoning :: string
  ll_cancel_path :: "string option"
  ll_api_key :: "string option"

definition max_response_chars :: "llm_settings \<Rightarrow> int" where
  "max_response_chars s = 4 * ll_max_tokens s"

text \<open>A key in the YAML is refused, whatever it says.\<close>

definition llm_settings_of :: "environment \<Rightarrow> bool \<Rightarrow> llm_settings \<Rightarrow> py_error + llm_settings" where
  "llm_settings_of env key_given s =
     (if key_given then Inl ValueError
      else Inr (s\<lparr>ll_endpoint := (let e = strip (env ''LOCAL_LLM_ENDPOINT'') in if e = [] then ll_endpoint s else e),
                 ll_api_key := non_empty (strip (env ''LLM_API_KEY'')),
                 ll_use_json_schema := ll_use_json_schema s
                   \<or> lower (strip (env ''LOCAL_LLM_USE_JSON_SCHEMA'')) \<in> {''1'', ''true'', ''yes''}\<rparr>))"

section \<open>Market context\<close>

record sentiment_settings =
  se_enabled :: bool
  se_source :: string
  se_url :: string
  se_max_age_hours :: real

definition check_sentiment_settings :: "sentiment_settings \<Rightarrow> py_error + sentiment_settings" where
  "check_sentiment_settings s = require (se_source s = ''fear_greed'' \<and> se_max_age_hours s > 0) s"

record macro_context_settings =
  mc_enabled :: bool
  mc_currencies :: "string list"
  mc_min_importance :: string

definition check_macro_context_settings :: "macro_context_settings \<Rightarrow> py_error + macro_context_settings" where
  "check_macro_context_settings s =
     (let s1 = s\<lparr>mc_currencies := map upper (mc_currencies s)\<rparr>
      in require (list_all is_currency (mc_currencies s1) \<and> mc_min_importance s1 \<in> set importance_levels) s1)"

record announcements_settings =
  an_enabled :: bool
  an_base_url :: string
  an_max_age_days :: int

definition rstrip_slash :: "string \<Rightarrow> string" where
  "rstrip_slash s = rev (dropWhile (\<lambda>c. c = CHR ''/'') (rev s))"

definition check_announcements_settings :: "announcements_settings \<Rightarrow> py_error + announcements_settings" where
  "check_announcements_settings s =
     (let s1 = s\<lparr>an_base_url := rstrip_slash (an_base_url s)\<rparr> in require (an_max_age_days s1 > 0) s1)"

record earnings_settings =
  es_enabled :: bool
  es_lookahead_days :: int

definition check_earnings_settings :: "earnings_settings \<Rightarrow> py_error + earnings_settings" where
  "check_earnings_settings s = require (es_lookahead_days s > 0) s"

record news_feed_spec =
  nf_name :: string
  nf_url :: string
  nf_symbols :: "symbol list"

definition check_news_feed_spec :: "news_feed_spec \<Rightarrow> py_error + news_feed_spec" where
  "check_news_feed_spec s =
     (let s1 = s\<lparr>nf_name := strip (nf_name s)\<rparr>
      in require (nf_name s1 \<noteq> [] \<and> length (nf_name s1) \<le> 40
           \<and> (starts_with ''https://'' (nf_url s1) \<or> starts_with ''http://'' (nf_url s1))) s1)"

record news_settings =
  nw_enabled :: bool
  nw_feeds :: "news_feed_spec list"
  nw_aliases :: "(symbol, string list) dict"
  nw_max_items_per_feed :: int
  nw_max_item_chars :: int
  nw_max_age_hours :: real
  nw_max_feed_bytes :: int

definition check_news_settings :: "news_settings \<Rightarrow> py_error + news_settings" where
  "check_news_settings s =
     (let s1 = s\<lparr>nw_aliases := map (\<lambda>(k, ws). (k, map lower ws)) (nw_aliases s)\<rparr>
      in require (\<not> (nw_enabled s \<and> nw_feeds s = []) \<and> list_all (\<lambda>(k, ws). [] \<notin> set ws) (nw_aliases s)
           \<and> nw_max_items_per_feed s > 0 \<and> nw_max_item_chars s > 0 \<and> nw_max_age_hours s > 0
           \<and> nw_max_feed_bytes s > 0) s1)"

text \<open>The names of the overridden fields; their values are applied to a copy of the trading block.\<close>

record summarizer_settings =
  su_enabled :: bool
  su_refresh_minutes :: int
  su_card_ttl_hours :: real
  su_lookback_hours :: real
  su_max_items_per_card :: int
  su_max_symbols_per_run :: int
  su_llm :: payload

definition summarizer_llm_fields :: "string list" where
  "summarizer_llm_fields =
     [''endpoint'', ''model'', ''timeout_seconds'', ''max_retries'', ''temperature'', ''max_tokens'',
      ''retry_backoff_base_seconds'', ''seed'', ''reasoning'']"

definition check_summarizer_settings :: "summarizer_settings \<Rightarrow> py_error + summarizer_settings" where
  "check_summarizer_settings s =
     require (fst ` set (su_llm s) \<subseteq> set summarizer_llm_fields \<and> su_refresh_minutes s > 0 \<and> su_card_ttl_hours s > 0
       \<and> su_lookback_hours s > 0 \<and> su_max_items_per_card s > 0 \<and> su_max_symbols_per_run s > 0) s"

record context_settings =
  ct_enabled :: bool
  ct_refresh_minutes :: int
  ct_lookahead_hours :: real
  ct_http_user_agent :: string
  ct_http_timeout_seconds :: real
  ct_sentiment :: sentiment_settings
  ct_macro :: macro_context_settings
  ct_announcements :: announcements_settings
  ct_earnings :: earnings_settings
  ct_news :: news_settings
  ct_summarizer :: summarizer_settings

definition check_context_settings :: "context_settings \<Rightarrow> py_error + context_settings" where
  "check_context_settings s =
     require (ct_refresh_minutes s > 0 \<and> ct_lookahead_hours s > 0 \<and> ct_http_timeout_seconds s > 0
       \<and> (su_enabled (ct_summarizer s) \<longrightarrow> nw_enabled (ct_news s))) s"

section \<open>Macro calendar\<close>

record macro_event =
  me_at :: instant
  me_title :: string
  me_currency :: string
  me_importance :: string

text \<open>One event body; \<open>at\<close> must carry a zone.\<close>

definition parse_macro_event :: "builtins \<Rightarrow> calendar_lib \<Rightarrow> payload \<Rightarrow> py_error + macro_event" where
  "parse_macro_event bi cal body =
     (if \<not> fst ` set body \<subseteq> {''at'', ''title'', ''currency'', ''importance''} then Inl ValueError
      else case jget ''at'' body of
             JStr text \<Rightarrow>
               (case cal_instant cal text of
                  Some (t, True) \<Rightarrow>
                    (case jget ''title'' body of
                       JStr title \<Rightarrow>
                         (let currency = upper (case map_of body ''currency'' of None \<Rightarrow> [] | Some c \<Rightarrow> to_str bi c)
                          in if strip title = [] \<or> length title > 200 \<or> \<not> is_currency currency then Inl ValueError
                             else case (case map_of body ''importance'' of None \<Rightarrow> JStr ''high'' | Some i \<Rightarrow> i) of
                                    JStr i \<Rightarrow> require (i \<in> set importance_levels)
                                               \<lparr>me_at = t, me_title = strip title, me_currency = currency, me_importance = i\<rparr>
                                  | _ \<Rightarrow> Inl ValueError)
                     | _ \<Rightarrow> Inl ValueError)
                | _ \<Rightarrow> Inl ValueError)
           | _ \<Rightarrow> Inl ValueError)"

record macro_calendar_settings =
  cd_feed_url :: string
  cd_events :: "macro_event list"

definition macro_calendar_of ::
  "builtins \<Rightarrow> calendar_lib \<Rightarrow> string option \<Rightarrow> payload list \<Rightarrow> py_error + macro_calendar_settings" where
  "macro_calendar_of bi cal feed events =
     (case all_ok (map (parse_macro_event bi cal) events) of
        Inl e \<Rightarrow> Inl e
      | Inr es \<Rightarrow> Inr \<lparr>cd_feed_url = (case feed of None \<Rightarrow> [] | Some u \<Rightarrow> u), cd_events = es\<rparr>)"

section \<open>Agents\<close>

record exchange_window =
  ew_name :: string
  ew_market_hours :: string
  ew_market_timezone :: string
  ew_market_holidays :: "string list"

text \<open>\<^verbatim>\<open>\d{1,2}:\d{2}\<close>\<close>

definition clock_text :: "string \<Rightarrow> bool" where
  "clock_text s \<longleftrightarrow> (let h = takeWhile (\<lambda>c. c \<noteq> CHR '':'') s; m = drop (Suc (length h)) s
     in length h \<in> {1, 2} \<and> list_all is_digit h \<and> drop (length h) s = CHR '':'' # m
        \<and> length m = 2 \<and> list_all is_digit m)"

definition window_text :: "string \<Rightarrow> bool" where
  "window_text s \<longleftrightarrow> (let a = takeWhile (\<lambda>c. c \<noteq> CHR ''-'') s; b = drop (Suc (length a)) s
     in clock_text a \<and> drop (length a) s = CHR ''-'' # b \<and> clock_text b)"

definition check_exchange_window :: "calendar_lib \<Rightarrow> exchange_window \<Rightarrow> py_error + exchange_window" where
  "check_exchange_window cal w =
     (let w1 = w\<lparr>ew_market_hours := strip (ew_market_hours w)\<rparr>
      in require (window_text (ew_market_hours w1) \<and> cal_known_zone cal (ew_market_timezone w1)
           \<and> list_all (\<lambda>d. cal_date cal d \<noteq> None) (ew_market_holidays w1)) w1)"

record agent_config =
  gc_enabled :: bool
  gc_exchange :: "string option"
  gc_testnet :: bool
  gc_interval_minutes :: int
  gc_pairs :: "symbol list"
  gc_symbols :: "symbol list"
  gc_market_hours :: "string option"
  gc_market_timezone :: "string option"
  gc_market_holidays :: "string list"
  gc_decision_history_limit :: int
  gc_timeframe :: "string option"
  gc_decide_on_new_bar_only :: bool
  gc_live_trading :: bool
  gc_quote_currency :: "string option"
  gc_playbook :: "string option"
  gc_watchlist :: watchlist_settings
  gc_sleeves :: sleeves_settings
  gc_context :: context_settings
  gc_exchanges :: "(string, exchange_window) dict"
  gc_symbol_exchanges :: "(symbol, string) dict"

definition check_agent_config :: "agent_config \<Rightarrow> py_error + agent_config" where
  "check_agent_config c0 =
     (let c = c0\<lparr>gc_quote_currency := map_option upper (option_or_none (gc_quote_currency c0))\<rparr>
      in require ((case gc_playbook c of None \<Rightarrow> True | Some p \<Rightarrow> p \<in> set playbook_names)
           \<and> list_all (\<lambda>(s, code). map_of (gc_exchanges c) code \<noteq> None) (gc_symbol_exchanges c)
           \<and> (nm_enabled (wl_news_mentions (gc_watchlist c)) \<longrightarrow> ct_enabled (gc_context c) \<and> nw_enabled (ct_news (gc_context c)))
           \<and> pairs_not_quoted_in (gc_pairs c) (gc_quote_currency c) = []) c)"

text \<open>A block with nested blocks: the nested ones are validated first.\<close>

definition on_ok :: "py_error + 'a \<Rightarrow> ('a \<Rightarrow> py_error + 'b) \<Rightarrow> py_error + 'b" where
  "on_ok r f = (case r of Inl e \<Rightarrow> Inl e | Inr x \<Rightarrow> f x)"

definition validate_news :: "news_settings \<Rightarrow> py_error + news_settings" where
  "validate_news s = on_ok (all_ok (map check_news_feed_spec (nw_feeds s))) (\<lambda>feeds. check_news_settings (s\<lparr>nw_feeds := feeds\<rparr>))"

definition validate_context :: "context_settings \<Rightarrow> py_error + context_settings" where
  "validate_context s =
     on_ok (check_sentiment_settings (ct_sentiment s)) (\<lambda>sentiment.
     on_ok (check_macro_context_settings (ct_macro s)) (\<lambda>macro.
     on_ok (check_announcements_settings (ct_announcements s)) (\<lambda>announcements.
     on_ok (check_earnings_settings (ct_earnings s)) (\<lambda>earnings.
     on_ok (validate_news (ct_news s)) (\<lambda>news.
     on_ok (check_summarizer_settings (ct_summarizer s)) (\<lambda>summarizer.
       check_context_settings (s\<lparr>ct_sentiment := sentiment, ct_macro := macro, ct_announcements := announcements,
         ct_earnings := earnings, ct_news := news, ct_summarizer := summarizer\<rparr>)))))))"

definition validate_watchlist :: "watchlist_settings \<Rightarrow> py_error + watchlist_settings" where
  "validate_watchlist s =
     on_ok (check_news_mention_settings (wl_news_mentions s)) (\<lambda>mentions. check_watchlist_settings (s\<lparr>wl_news_mentions := mentions\<rparr>))"

definition validate_sleeves :: "sleeves_settings \<Rightarrow> py_error + sleeves_settings" where
  "validate_sleeves s =
     on_ok (all_ok (map check_sleeve_spec (ss_strategies s))) (\<lambda>specs. check_sleeves_settings (s\<lparr>ss_strategies := specs\<rparr>))"

definition validate_agent :: "calendar_lib \<Rightarrow> agent_config \<Rightarrow> py_error + agent_config" where
  "validate_agent cal c =
     on_ok (validate_watchlist (gc_watchlist c)) (\<lambda>watchlist.
     on_ok (validate_sleeves (gc_sleeves c)) (\<lambda>sleeves.
     on_ok (validate_context (gc_context c)) (\<lambda>context.
     on_ok (all_ok (map (check_exchange_window cal) (map snd (gc_exchanges c)))) (\<lambda>windows.
       check_agent_config (c\<lparr>gc_watchlist := watchlist, gc_sleeves := sleeves, gc_context := context,
         gc_exchanges := zip (map fst (gc_exchanges c)) windows\<rparr>)))))"

section \<open>Execution, storage, monitoring, dashboard\<close>

record cost_params =
  cp_paper_fee_pct :: real
  cp_paper_slippage_pct :: real
  cp_paper_min_commission :: real
  cp_paper_fx_fee_pct :: real

record execution_settings =
  xs_costs :: cost_params
  xs_initial_cash :: real
  xs_paper_costs :: "(string, payload) dict"

definition cost_fields :: "string list" where
  "cost_fields = [''paper_fee_pct'', ''paper_slippage_pct'', ''paper_min_commission'', ''paper_fx_fee_pct'']"

definition check_cost_entry :: "string \<times> json \<Rightarrow> bool" where
  "check_cost_entry kv \<longleftrightarrow> fst kv \<in> set cost_fields \<and> (case snd kv of JNum v \<Rightarrow> v \<ge> 0 | _ \<Rightarrow> False)"

definition check_execution_settings :: "execution_settings \<Rightarrow> py_error + execution_settings" where
  "check_execution_settings s = require (list_all (\<lambda>(agent, costs). list_all check_cost_entry costs) (xs_paper_costs s)) s"

definition with_cost :: "string \<times> json \<Rightarrow> cost_params \<Rightarrow> cost_params" where
  "with_cost kv c =
     (case kv of
        (k, JNum v) \<Rightarrow>
          (if k = ''paper_fee_pct'' then c\<lparr>cp_paper_fee_pct := v\<rparr>
           else if k = ''paper_slippage_pct'' then c\<lparr>cp_paper_slippage_pct := v\<rparr>
           else if k = ''paper_min_commission'' then c\<lparr>cp_paper_min_commission := v\<rparr>
           else if k = ''paper_fx_fee_pct'' then c\<lparr>cp_paper_fx_fee_pct := v\<rparr> else c)
      | _ \<Rightarrow> c)"

definition paper_cost_params :: "execution_settings \<Rightarrow> string option \<Rightarrow> cost_params" where
  "paper_cost_params s agent =
     fold with_cost
       (case map_of (xs_paper_costs s) (case agent of None \<Rightarrow> [] | Some a \<Rightarrow> a) of None \<Rightarrow> [] | Some d \<Rightarrow> d)
       (xs_costs s)"

record storage_settings =
  sr_data_dir :: string
  sr_in_memory :: bool
  sr_snapshot_retention_days :: int
  sr_history_retention_days :: int
  sr_prune_interval_minutes :: int
  sr_backup_dir :: string
  sr_backup_keep :: int
  sr_context_retention_days :: int

definition check_storage_settings :: "storage_settings \<Rightarrow> py_error + storage_settings" where
  "check_storage_settings s = require (sr_context_retention_days s \<ge> 0) s"

record monitoring_settings =
  mo_log_level :: string
  mo_alert_dedup_window_seconds :: int
  mo_alert_webhook_format :: string
  mo_alert_min_severity :: string

definition check_monitoring_settings :: "monitoring_settings \<Rightarrow> py_error + monitoring_settings" where
  "check_monitoring_settings s =
     require (mo_alert_webhook_format s \<in> {''json'', ''ntfy''} \<and> mo_alert_min_severity s \<in> {''info'', ''warning'', ''error''}) s"

record dashboard_settings =
  da_host :: string
  da_port :: int
  da_refresh_seconds :: int
  da_agents :: "string list"
  da_allow_launch :: bool
  da_allowed_hosts :: "string list"
  da_timezone :: "string option"

definition check_dashboard_settings :: "calendar_lib \<Rightarrow> dashboard_settings \<Rightarrow> py_error + dashboard_settings" where
  "check_dashboard_settings cal s =
     require (case da_timezone s of None \<Rightarrow> True | Some z \<Rightarrow> cal_known_zone cal z)
       (s\<lparr>da_refresh_seconds := max 1 (da_refresh_seconds s),
          da_agents := (if da_agents s = [] then [''crypto'', ''stocks''] else da_agents s)\<rparr>)"

section \<open>Venues\<close>

definition symbol_map_ok :: "(symbol, string) dict \<Rightarrow> bool" where
  "symbol_map_ok d \<longleftrightarrow> list_all (\<lambda>(k, v). v \<noteq> []) d \<and> distinct (map snd d)"

record xtb_execution_settings =
  xe_enabled :: bool
  xe_host :: string
  xe_account_type :: string
  xe_request_timeout_seconds :: real
  xe_symbol_map :: "(symbol, string) dict"

definition check_xtb_execution_settings :: "xtb_execution_settings \<Rightarrow> py_error + xtb_execution_settings" where
  "check_xtb_execution_settings s = require (symbol_map_ok (xe_symbol_map s) \<and> xe_account_type s \<in> {''demo'', ''real''}) s"

record saxo_oauth_settings =
  so_enabled :: bool
  so_redirect_uri :: string
  so_auth_base_url :: "string option"
  so_token_file :: "string option"
  so_refresh_margin_seconds :: real
  so_keepalive_minutes :: real

definition check_saxo_oauth_settings :: "saxo_oauth_settings \<Rightarrow> py_error + saxo_oauth_settings" where
  "check_saxo_oauth_settings s =
     require ((starts_with ''http://'' (so_redirect_uri s) \<or> starts_with ''https://'' (so_redirect_uri s))
         \<and> so_refresh_margin_seconds s \<ge> 0 \<and> so_keepalive_minutes s \<ge> 0)
       (s\<lparr>so_auth_base_url := option_or_none (so_auth_base_url s), so_token_file := option_or_none (so_token_file s)\<rparr>)"

record saxo_execution_settings =
  sv_enabled :: bool
  sv_environment :: string
  sv_account_key :: "string option"
  sv_account_currency :: "string option"
  sv_symbol_map :: "(symbol, string) dict"
  sv_request_timeout_seconds :: real
  sv_fill_poll_delays :: "real list"
  sv_amount_decimals :: int
  sv_oauth :: saxo_oauth_settings

definition check_saxo_execution_settings :: "saxo_execution_settings \<Rightarrow> py_error + saxo_execution_settings" where
  "check_saxo_execution_settings s =
     require (symbol_map_ok (sv_symbol_map s) \<and> sv_environment s \<in> {''sim'', ''live''}
         \<and> sv_fill_poll_delays s \<noteq> [] \<and> list_all (\<lambda>d. d \<ge> 0) (sv_fill_poll_delays s)
         \<and> 0 \<le> sv_amount_decimals s \<and> sv_amount_decimals s \<le> 8)
       (s\<lparr>sv_account_key := option_or_none (sv_account_key s),
          sv_account_currency := map_option upper (option_or_none (sv_account_currency s))\<rparr>)"

section \<open>The whole file\<close>

fun deep_merge :: "payload \<Rightarrow> payload \<Rightarrow> payload" where
  "deep_merge base [] = base"
| "deep_merge base ((k, JDict d) # rest) =
     deep_merge
       (AList.update k (case map_of base k of Some (JDict m) \<Rightarrow> JDict (deep_merge m d) | _ \<Rightarrow> JDict d) base) rest"
| "deep_merge base ((k, v) # rest) = deep_merge (AList.update k v base) rest"

definition profile_name_ok :: "string \<Rightarrow> bool" where
  "profile_name_ok name =
     (case before_newline name of
        [] \<Rightarrow> False
      | c # cs \<Rightarrow> is_lower c \<and> length cs \<le> 11 \<and> list_all (\<lambda>x. is_lower x \<or> is_digit x \<or> x = CHR ''_'') cs)"

text \<open>The blocks of the file before their own rules, as decoded.\<close>

record raw_settings =
  rw_llm :: llm_settings
  rw_llm_key_given :: bool
  rw_crypto_agent :: agent_config
  rw_stocks_agent :: agent_config
  rw_risk :: risk_settings
  rw_execution :: execution_settings
  rw_storage :: storage_settings
  rw_monitoring :: monitoring_settings
  rw_dashboard :: dashboard_settings
  rw_xtb_execution :: xtb_execution_settings
  rw_saxo_execution :: saxo_execution_settings
  rw_venue_orders :: venue_order_settings

record app_settings =
  as_profile :: "string option"
  as_llm :: llm_settings
  as_llm_baseline :: llm_settings
  as_crypto_agent :: agent_config
  as_stocks_agent :: agent_config
  as_crypto_baseline :: agent_config
  as_stocks_baseline :: agent_config
  as_risk :: risk_settings
  as_risk_baseline :: risk_settings
  as_execution :: execution_settings
  as_execution_baseline :: execution_settings
  as_storage :: storage_settings
  as_monitoring :: monitoring_settings
  as_dashboard :: dashboard_settings
  as_xtb_execution :: xtb_execution_settings
  as_saxo_execution :: saxo_execution_settings
  as_venue_orders :: venue_order_settings

text \<open>Every block is validated; the baselines are second copies of the same blocks.\<close>

definition new_settings ::
  "environment \<Rightarrow> calendar_lib \<Rightarrow> string option \<Rightarrow> raw_settings \<Rightarrow> py_error + app_settings" where
  "new_settings env cal profile raw =
     (case (llm_settings_of env (rw_llm_key_given raw) (rw_llm raw), validate_agent cal (rw_crypto_agent raw),
            validate_agent cal (rw_stocks_agent raw), check_risk_settings (rw_risk raw),
            check_execution_settings (rw_execution raw), check_storage_settings (rw_storage raw)) of
        (Inr llm, Inr crypto, Inr stocks, Inr risk, Inr execution, Inr storage) \<Rightarrow>
          (case (check_monitoring_settings (rw_monitoring raw), check_dashboard_settings cal (rw_dashboard raw),
                 check_xtb_execution_settings (rw_xtb_execution raw), check_saxo_execution_settings (rw_saxo_execution raw),
                 check_venue_order_settings (rw_venue_orders raw)) of
             (Inr monitoring, Inr dashboard, Inr xtb, Inr saxo, Inr venue) \<Rightarrow>
               require (\<not> (xe_enabled xtb \<and> sv_enabled saxo))
                 \<lparr>as_profile = profile, as_llm = llm, as_llm_baseline = llm, as_crypto_agent = crypto,
                  as_stocks_agent = stocks, as_crypto_baseline = crypto, as_stocks_baseline = stocks,
                  as_risk = risk, as_risk_baseline = risk, as_execution = execution, as_execution_baseline = execution,
                  as_storage = storage, as_monitoring = monitoring, as_dashboard = dashboard,
                  as_xtb_execution = xtb, as_saxo_execution = saxo, as_venue_orders = venue\<rparr>
           | _ \<Rightarrow> Inl ValueError)
      | _ \<Rightarrow> Inl ValueError)"

text \<open>\<open>profile_file\<close> is the parsed overlay, \<^const>\<open>None\<close> when there is no such file.\<close>

definition load_settings ::
  "(payload \<Rightarrow> py_error + raw_settings) \<Rightarrow> environment \<Rightarrow> calendar_lib \<Rightarrow> payload \<Rightarrow> string option \<Rightarrow>
   payload option \<Rightarrow> py_error + app_settings" where
  "load_settings decode env cal file profile profile_file =
     (case (case profile of
              None \<Rightarrow> Inr file
            | Some name \<Rightarrow>
                (if \<not> profile_name_ok name then Inl ValueError
                 else case profile_file of None \<Rightarrow> Inl ValueError | Some overlay \<Rightarrow> Inr (deep_merge file overlay))) of
        Inl e \<Rightarrow> Inl e
      | Inr merged \<Rightarrow> (case decode merged of Inl e \<Rightarrow> Inl e | Inr raw \<Rightarrow> new_settings env cal profile raw))"

section \<open>The overlay\<close>

definition is_dict :: "json \<Rightarrow> bool" where
  "is_dict v \<longleftrightarrow> (case v of JDict d \<Rightarrow> True | _ \<Rightarrow> False)"

definition merged_value :: "json option \<Rightarrow> json \<Rightarrow> json" where
  "merged_value old v =
     (case v of JDict d \<Rightarrow> JDict (case old of Some (JDict m) \<Rightarrow> deep_merge m d | _ \<Rightarrow> d) | _ \<Rightarrow> v)"

lemma merged_value_simps [simp]:
  "\<not> is_dict v \<Longrightarrow> merged_value old v = v"
  "merged_value old (JDict d) = JDict (case old of Some (JDict m) \<Rightarrow> deep_merge m d | _ \<Rightarrow> d)"
  by (cases v) (simp_all add: merged_value_def is_dict_def)

lemma merged_value_None [simp]: "merged_value None v = v"
  by (cases v) (simp_all add: merged_value_def)

lemma deep_merge_Cons: "deep_merge base ((k, v) # rest) = deep_merge (AList.update k (merged_value (map_of base k) v) base) rest"
  by (cases v) (simp_all add: merged_value_def split: option.splits json.splits)

lemma deep_merge_lookup:
  "dict_ok overlay \<Longrightarrow> map_of (deep_merge base overlay) k =
     (case map_of overlay k of None \<Rightarrow> map_of base k | Some v \<Rightarrow> Some (merged_value (map_of base k) v))"
proof (induction overlay arbitrary: base)
  case (Cons kv rest)
  obtain j v where kv: "kv = (j, v)" by (cases kv)
  with Cons.prems have "dict_ok rest" "map_of rest j = None" by (auto simp: map_of_eq_None_iff)
  with Cons.IH [OF this(1), of "AList.update j (merged_value (map_of base j) v) base"] kv show ?case
    by (cases "map_of rest k") (auto simp: deep_merge_Cons update_conv')
qed simp

fun at_path :: "string list \<Rightarrow> json \<Rightarrow> json option" where
  "at_path [] v = Some v"
| "at_path (k # ks) v = (case v of JDict d \<Rightarrow> Option.bind (map_of d k) (at_path ks) | _ \<Rightarrow> None)"

fun json_wf :: "json \<Rightarrow> bool" where
  "json_wf (JDict d) \<longleftrightarrow> dict_ok d \<and> (\<forall>kv\<in>set d. json_wf (snd kv))"
| "json_wf (JList xs) \<longleftrightarrow> (\<forall>x\<in>set xs. json_wf x)"
| "json_wf _ \<longleftrightarrow> True"

lemma json_wf_value: "json_wf (JDict d) \<Longrightarrow> map_of d k = Some v \<Longrightarrow> json_wf v"
  using map_of_SomeD [of d k v] by fastforce

lemma overlay_value:
  assumes "json_wf (JDict overlay)" and "at_path p (JDict overlay) = Some v" and "\<not> is_dict v"
  shows "at_path p (JDict (deep_merge base overlay)) = Some v"
  using assms
proof (induction p arbitrary: base overlay)
  case Nil
  then show ?case by (auto simp: is_dict_def)
next
  case (Cons k ks)
  from Cons.prems(2) obtain w where w: "map_of overlay k = Some w" "at_path ks w = Some v"
    by (auto simp: bind_eq_Some_conv)
  have wf: "json_wf w" using Cons.prems(1) w(1) by (rule json_wf_value)
  have ok: "dict_ok overlay" using Cons.prems(1) by simp
  show ?case
  proof (cases w)
    case (JDict d)
    have "at_path ks (JDict (deep_merge m d)) = Some v" for m
      using Cons.IH [of d m] wf w(2) Cons.prems(3) JDict by simp
    moreover have "at_path ks (JDict d) = Some v" using w(2) JDict by simp
    ultimately show ?thesis
      using w(1) JDict deep_merge_lookup [OF ok, of base k] by (simp split: option.splits json.splits)
  qed (use w deep_merge_lookup [OF ok, of base k] in \<open>simp_all add: is_dict_def\<close>)
qed

text \<open>No prefix of the path leads to a value of the overlay that is not a dictionary.\<close>

fun untouched :: "string list \<Rightarrow> payload \<Rightarrow> bool" where
  "untouched [] overlay = False"
| "untouched (k # ks) overlay =
     (case map_of overlay k of None \<Rightarrow> True | Some (JDict d) \<Rightarrow> untouched ks d | Some v \<Rightarrow> False)"

lemma base_value:
  assumes "json_wf (JDict overlay)" and "untouched p overlay"
  shows "at_path p (JDict (deep_merge base overlay)) = at_path p (JDict base)"
  using assms
proof (induction p arbitrary: base overlay)
  case (Cons k ks)
  have ok: "dict_ok overlay" using Cons.prems(1) by simp
  show ?case
  proof (cases "map_of overlay k")
    case None
    with deep_merge_lookup [OF ok, of base k] show ?thesis by simp
  next
    case (Some w)
    with Cons.prems(2) obtain d where d: "w = JDict d" "untouched ks d" by (auto split: json.splits)
    then obtain j js where ks: "ks = j # js" by (cases ks) auto
    have wf: "json_wf (JDict d)" using json_wf_value [OF Cons.prems(1) Some] d(1) by simp
    have IH: "at_path ks (JDict (deep_merge m d)) = at_path ks (JDict m)" for m
      using Cons.IH [OF wf d(2)] .
    from IH [of "[]"] have "at_path ks (JDict (deep_merge [] d)) = None" by (simp add: ks)
    moreover have "map_of (deep_merge [] d) j = map_of d j"
      using deep_merge_lookup [of d "[]" j] wf by (simp split: option.splits)
    ultimately have none: "at_path ks (JDict d) = None" by (simp add: ks)
    show ?thesis
      using Some d(1) deep_merge_lookup [OF ok, of base k] IH none ks
      by (auto split: option.splits json.splits)
  qed
qed simp

section \<open>Validation\<close>

lemma require_Inr [simp]: "require ok x = Inr y \<longleftrightarrow> ok \<and> y = x"
  by (auto simp: require_def)

lemma upper_char_idem: "upper_char (upper_char c) = upper_char c"
proof (cases "97 \<le> (of_char c :: nat) \<and> (of_char c :: nat) \<le> 122")
  case True
  then have "(of_char c - 32 :: nat) mod 256 = of_char c - 32" by (intro mod_less) linarith
  then have "(of_char (char_of (of_char c - 32 :: nat)) :: nat) = of_char c - 32" by simp
  moreover have "\<not> 97 \<le> (of_char c - 32 :: nat)" using True by linarith
  ultimately show ?thesis using True by (simp add: upper_char_def Let_def)
next
  case False
  then have "upper_char c = c" unfolding upper_char_def Let_def by (rule if_not_P)
  then show ?thesis by simp
qed

lemma upper_idem [simp]: "upper (upper s) = upper s"
  by (simp add: upper_def upper_char_idem comp_def)

lemma upper_Nil [simp]: "upper s = [] \<longleftrightarrow> s = []" "upper [] = []"
  by (simp_all add: upper_def)

lemma option_or_none_idem [simp]:
  "option_or_none (option_or_none v) = option_or_none v"
  "option_or_none (map_option upper (option_or_none v)) = map_option upper (option_or_none v)"
  by (cases v; simp add: option_or_none_def non_empty_def)+

lemma on_ok_Inr: "on_ok r f = Inr y \<longleftrightarrow> (\<exists>x. r = Inr x \<and> f x = Inr y)"
  by (cases r) (simp_all add: on_ok_def)

lemma agent_config_idem:
  "check_agent_config c0 = Inr c \<Longrightarrow> check_agent_config c = Inr c"
  by (auto simp: check_agent_config_def Let_def option.map_comp comp_def)

lemma validate_agent_idem:
  assumes "validate_agent cal c0 = Inr c"
  shows "check_agent_config c = Inr c"
proof -
  obtain c1 where "check_agent_config c1 = Inr c" using assms by (auto simp: validate_agent_def on_ok_Inr)
  then show ?thesis by (rule agent_config_idem)
qed

text \<open>What holds of settings that were built: every block passes its own rules, the live blocks
  are the file's, and at most one stocks venue is on.\<close>

definition settings_ok :: "app_settings \<Rightarrow> bool" where
  "settings_ok s \<longleftrightarrow>
     check_agent_config (as_crypto_agent s) = Inr (as_crypto_agent s)
     \<and> check_agent_config (as_stocks_agent s) = Inr (as_stocks_agent s)
     \<and> check_risk_settings (as_risk s) = Inr (as_risk s)
     \<and> check_execution_settings (as_execution s) = Inr (as_execution s)
     \<and> check_storage_settings (as_storage s) = Inr (as_storage s)
     \<and> check_monitoring_settings (as_monitoring s) = Inr (as_monitoring s)
     \<and> check_xtb_execution_settings (as_xtb_execution s) = Inr (as_xtb_execution s)
     \<and> check_saxo_execution_settings (as_saxo_execution s) = Inr (as_saxo_execution s)
     \<and> check_venue_order_settings (as_venue_orders s) = Inr (as_venue_orders s)
     \<and> as_llm s = as_llm_baseline s \<and> as_risk s = as_risk_baseline s \<and> as_execution s = as_execution_baseline s
     \<and> as_crypto_agent s = as_crypto_baseline s \<and> as_stocks_agent s = as_stocks_baseline s
     \<and> \<not> (xe_enabled (as_xtb_execution s) \<and> sv_enabled (as_saxo_execution s))"

lemma saxo_settings_idem:
  "check_saxo_execution_settings c0 = Inr c \<Longrightarrow> check_saxo_execution_settings c = Inr c"
  by (auto simp: check_saxo_execution_settings_def option.map_comp comp_def)

lemma unchanged_checks:
  "check_risk_settings r = Inr r' \<Longrightarrow> r' = r"
  "check_execution_settings x = Inr x' \<Longrightarrow> x' = x"
  "check_storage_settings st = Inr st' \<Longrightarrow> st' = st"
  "check_monitoring_settings m = Inr m' \<Longrightarrow> m' = m"
  "check_xtb_execution_settings e = Inr e' \<Longrightarrow> e' = e"
  "check_venue_order_settings v = Inr v' \<Longrightarrow> v' = v"
  by (auto simp: check_risk_settings_def check_execution_settings_def check_storage_settings_def
      check_monitoring_settings_def check_xtb_execution_settings_def check_venue_order_settings_def split: if_splits)

lemma new_settings_ok:
  assumes "new_settings env cal profile raw = Inr s"
  shows "settings_ok s"
proof -
  obtain llm crypto stocks risk execution storage monitoring dashboard xtb saxo venue where
    b: "llm_settings_of env (rw_llm_key_given raw) (rw_llm raw) = Inr llm"
      "validate_agent cal (rw_crypto_agent raw) = Inr crypto" "validate_agent cal (rw_stocks_agent raw) = Inr stocks"
      "check_risk_settings (rw_risk raw) = Inr risk" "check_execution_settings (rw_execution raw) = Inr execution"
      "check_storage_settings (rw_storage raw) = Inr storage" "check_monitoring_settings (rw_monitoring raw) = Inr monitoring"
      "check_dashboard_settings cal (rw_dashboard raw) = Inr dashboard"
      "check_xtb_execution_settings (rw_xtb_execution raw) = Inr xtb"
      "check_saxo_execution_settings (rw_saxo_execution raw) = Inr saxo"
      "check_venue_order_settings (rw_venue_orders raw) = Inr venue"
    using assms unfolding new_settings_def by (simp split: sum.splits)
  note same = unchanged_checks(1) [OF b(4)] unchanged_checks(2) [OF b(5)] unchanged_checks(3) [OF b(6)]
    unchanged_checks(4) [OF b(7)] unchanged_checks(5) [OF b(9)] unchanged_checks(6) [OF b(11)]
  from assms b have s: "s = \<lparr>as_profile = profile, as_llm = llm, as_llm_baseline = llm, as_crypto_agent = crypto,
                  as_stocks_agent = stocks, as_crypto_baseline = crypto, as_stocks_baseline = stocks,
                  as_risk = risk, as_risk_baseline = risk, as_execution = execution, as_execution_baseline = execution,
                  as_storage = storage, as_monitoring = monitoring, as_dashboard = dashboard,
                  as_xtb_execution = xtb, as_saxo_execution = saxo, as_venue_orders = venue\<rparr>"
    "\<not> (xe_enabled xtb \<and> sv_enabled saxo)"
    by (simp_all add: new_settings_def)
  show ?thesis
    unfolding settings_ok_def s(1)
    using s(2) b(4-7,9,11) validate_agent_idem [OF b(2)] validate_agent_idem [OF b(3)] saxo_settings_idem [OF b(10)] same
    by simp
qed

section \<open>Properties\<close>


text \<open>A profile overlays the settings file value by value: at every path where the profile has a value that
  is not a mapping, the merged settings have that value, and at every path the profile does not touch they
  have the file's.\<close>

theorem profile_overlay_wins:
  assumes "json_wf (JDict overlay)"
  shows "(\<forall>v. at_path p (JDict overlay) = Some v \<and> \<not> is_dict v \<longrightarrow> at_path p (JDict (deep_merge file overlay)) = Some v)
    \<and> (untouched p overlay \<longrightarrow> at_path p (JDict (deep_merge file overlay)) = at_path p (JDict file))"
  using overlay_value [OF assms] base_value [OF assms] by blast

definition demo_file :: payload where
  "demo_file = [(''risk'', JDict [(''min_confidence'', JNum (6/10)), (''max_open_positions'', JNum 5)])]"

definition demo_overlay :: payload where
  "demo_overlay = [(''risk'', JDict [(''min_confidence'', JNum (1/10))])]"

theorem profile_overlay_wins_witness:
  "at_path [''risk'', ''min_confidence''] (JDict (deep_merge demo_file demo_overlay)) = Some (JNum (1/10))
   \<and> at_path [''risk'', ''max_open_positions''] (JDict (deep_merge demo_file demo_overlay)) = Some (JNum 5)"
proof -
  have wf: "json_wf (JDict demo_overlay)" by (simp add: demo_overlay_def)
  from profile_overlay_wins [OF wf, of "[''risk'', ''min_confidence'']" demo_file]
    profile_overlay_wins [OF wf, of "[''risk'', ''max_open_positions'']" demo_file]
  show ?thesis by (simp add: demo_overlay_def demo_file_def is_dict_def)
qed

text \<open>The defaults of the source, for one crypto and one stocks agent.\<close>

definition demo_context :: context_settings where
  "demo_context =
     \<lparr>ct_enabled = False, ct_refresh_minutes = 60, ct_lookahead_hours = 48, ct_http_user_agent = ''trading-agent'',
      ct_http_timeout_seconds = 15,
      ct_sentiment = \<lparr>se_enabled = False, se_source = ''fear_greed'', se_url = ''u'', se_max_age_hours = 36\<rparr>,
      ct_macro = \<lparr>mc_enabled = False, mc_currencies = [''USD'', ''EUR''], mc_min_importance = ''high''\<rparr>,
      ct_announcements = \<lparr>an_enabled = False, an_base_url = ''https://eea.okx.com'', an_max_age_days = 120\<rparr>,
      ct_earnings = \<lparr>es_enabled = False, es_lookahead_days = 45\<rparr>,
      ct_news = \<lparr>nw_enabled = False, nw_feeds = [], nw_aliases = [], nw_max_items_per_feed = 30, nw_max_item_chars = 2000,
        nw_max_age_hours = 48, nw_max_feed_bytes = 2000000\<rparr>,
      ct_summarizer = \<lparr>su_enabled = False, su_refresh_minutes = 240, su_card_ttl_hours = 12, su_lookback_hours = 24,
        su_max_items_per_card = 8, su_max_symbols_per_run = 5, su_llm = []\<rparr>\<rparr>"

definition demo_agent_config :: agent_config where
  "demo_agent_config =
     \<lparr>gc_enabled = True, gc_exchange = Some ''okx'', gc_testnet = True, gc_interval_minutes = 5, gc_pairs = [''BTC/EUR''],
      gc_symbols = [], gc_market_hours = None, gc_market_timezone = None, gc_market_holidays = [],
      gc_decision_history_limit = 10, gc_timeframe = None, gc_decide_on_new_bar_only = True, gc_live_trading = False,
      gc_quote_currency = Some ''EUR'', gc_playbook = None,
      gc_watchlist = \<lparr>wl_enabled = False, wl_refresh_minutes = 360, wl_max_dynamic_symbols = 2, wl_ttl_hours = 96,
        wl_min_quote_volume_24h = 1000000, wl_momentum_days = 14, wl_lookback_days = 30, wl_min_daily_volatility = 5/1000,
        wl_max_daily_volatility = Some (1/4), wl_max_candidates = 20, wl_exclude_symbols = [],
        wl_news_mentions = \<lparr>nm_enabled = False, nm_lookback_hours = 48, nm_min_mentions = 2\<rparr>\<rparr>,
      gc_sleeves = \<lparr>ss_enabled = False, ss_backstop_max_drawdown_pct = 2/10, ss_strategies = []\<rparr>,
      gc_context = demo_context, gc_exchanges = [], gc_symbol_exchanges = []\<rparr>"

definition demo_stocks_config :: agent_config where
  "demo_stocks_config = demo_agent_config\<lparr>gc_market_hours := Some ''09:30-16:00''\<rparr>"

definition demo_raw_settings :: raw_settings where
  "demo_raw_settings =
     \<lparr>rw_llm = \<lparr>ll_endpoint = ''http://localhost'', ll_model = ''m'', ll_timeout_seconds = 30, ll_max_retries = 3,
        ll_use_json_schema = False, ll_temperature = 2/10, ll_max_tokens = 1024, ll_retry_backoff_base_seconds = 1,
        ll_seed = None, ll_reasoning = ''default'', ll_cancel_path = None, ll_api_key = None\<rparr>,
      rw_llm_key_given = False, rw_crypto_agent = demo_agent_config, rw_stocks_agent = demo_stocks_config,
      rw_risk = default_risk_settings,
      rw_execution = \<lparr>xs_costs = \<lparr>cp_paper_fee_pct = 0, cp_paper_slippage_pct = 1/1000, cp_paper_min_commission = 0,
        cp_paper_fx_fee_pct = 0\<rparr>, xs_initial_cash = 100000, xs_paper_costs = []\<rparr>,
      rw_storage = \<lparr>sr_data_dir = ''data'', sr_in_memory = False, sr_snapshot_retention_days = 30,
        sr_history_retention_days = 0, sr_prune_interval_minutes = 1440, sr_backup_dir = [], sr_backup_keep = 0,
        sr_context_retention_days = 30\<rparr>,
      rw_monitoring = \<lparr>mo_log_level = ''INFO'', mo_alert_dedup_window_seconds = 300, mo_alert_webhook_format = ''json'',
        mo_alert_min_severity = ''warning''\<rparr>,
      rw_dashboard = \<lparr>da_host = ''127.0.0.1'', da_port = 8080, da_refresh_seconds = 5, da_agents = [], da_allow_launch = False,
        da_allowed_hosts = [], da_timezone = None\<rparr>,
      rw_xtb_execution = \<lparr>xe_enabled = False, xe_host = ''h'', xe_account_type = ''demo'', xe_request_timeout_seconds = 10,
        xe_symbol_map = []\<rparr>,
      rw_saxo_execution = \<lparr>sv_enabled = False, sv_environment = ''sim'', sv_account_key = None,
        sv_account_currency = Some ''USD'', sv_symbol_map = [], sv_request_timeout_seconds = 10,
        sv_fill_poll_delays = [1/2, 1], sv_amount_decimals = 0,
        sv_oauth = \<lparr>so_enabled = False, so_redirect_uri = ''http://localhost'', so_auth_base_url = None, so_token_file = None,
          so_refresh_margin_seconds = 120, so_keepalive_minutes = 10\<rparr>\<rparr>,
      rw_venue_orders = default_venue_order_settings\<rparr>"

lemma demo_context_ok: "\<exists>c. validate_context demo_context = Inr c \<and> nw_enabled (ct_news c) = False"
  by (simp add: validate_context_def validate_news_def on_ok_def require_def demo_context_def check_sentiment_settings_def
      check_macro_context_settings_def check_announcements_settings_def check_earnings_settings_def check_news_settings_def
      check_summarizer_settings_def check_context_settings_def is_currency_def before_newline_def is_upper_def upper_def
      upper_char_def importance_levels_def)

lemma demo_agent_config_ok:
  "\<exists>c. validate_agent cal demo_agent_config = Inr c \<and> gc_market_hours c = None"
  "\<exists>c. validate_agent cal demo_stocks_config = Inr c \<and> gc_market_hours c = Some ''09:30-16:00''"
proof -
  obtain ctx where "validate_context demo_context = Inr ctx" using demo_context_ok by blast
  then show "\<exists>c. validate_agent cal demo_agent_config = Inr c \<and> gc_market_hours c = None"
    "\<exists>c. validate_agent cal demo_stocks_config = Inr c \<and> gc_market_hours c = Some ''09:30-16:00''"
    by (simp_all add: validate_agent_def on_ok_def demo_stocks_config_def demo_agent_config_def validate_watchlist_def check_news_mention_settings_def
        check_watchlist_settings_def validate_sleeves_def check_sleeves_settings_def check_agent_config_def
        option_or_none_def non_empty_def upper_def upper_char_def pairs_not_quoted_in_def quote_of_def require_def)
qed

lemma demo_blocks_ok:
  "\<exists>l. llm_settings_of (\<lambda>v. []) False (rw_llm demo_raw_settings) = Inr l"
  "check_risk_settings default_risk_settings = Inr default_risk_settings"
  "check_execution_settings (rw_execution demo_raw_settings) = Inr (rw_execution demo_raw_settings)"
  "check_storage_settings (rw_storage demo_raw_settings) = Inr (rw_storage demo_raw_settings)"
  "check_monitoring_settings (rw_monitoring demo_raw_settings) = Inr (rw_monitoring demo_raw_settings)"
  "check_xtb_execution_settings (rw_xtb_execution demo_raw_settings) = Inr (rw_xtb_execution demo_raw_settings)"
  "\<exists>d. check_dashboard_settings cal (rw_dashboard demo_raw_settings) = Inr d"
  "\<exists>v. check_saxo_execution_settings (rw_saxo_execution demo_raw_settings) = Inr v"
  "check_venue_order_settings default_venue_order_settings = Inr default_venue_order_settings"
  by (simp_all add: demo_raw_settings_def llm_settings_of_def check_risk_settings_def default_risk_settings_def
      check_execution_settings_def check_storage_settings_def check_monitoring_settings_def
      check_xtb_execution_settings_def check_dashboard_settings_def check_saxo_execution_settings_def symbol_map_ok_def
      check_venue_order_settings_def default_venue_order_settings_def)

definition demo_calendar :: calendar_lib where
  "demo_calendar = \<lparr>cal_known_zone = (\<lambda>z. True), cal_date = (\<lambda>d. None), cal_instant = (\<lambda>t. None)\<rparr>"

lemma demo_settings_load:
  "\<exists>s. load_settings (\<lambda>f. Inr demo_raw_settings) (\<lambda>v. []) demo_calendar [] None None = Inr s
    \<and> gc_market_hours (as_crypto_baseline s) = None \<and> gc_market_hours (as_stocks_baseline s) = Some ''09:30-16:00''
    \<and> rs_max_open_positions (as_risk_baseline s) = 5"
proof -
  obtain c where c: "validate_agent demo_calendar demo_agent_config = Inr c" "gc_market_hours c = None"
    using demo_agent_config_ok(1) by blast
  obtain t where t: "validate_agent demo_calendar demo_stocks_config = Inr t" "gc_market_hours t = Some ''09:30-16:00''"
    using demo_agent_config_ok(2) by blast
  obtain l where l: "llm_settings_of (\<lambda>v. []) False (rw_llm demo_raw_settings) = Inr l" using demo_blocks_ok(1) by blast
  obtain d where d: "check_dashboard_settings demo_calendar (rw_dashboard demo_raw_settings) = Inr d"
    using demo_blocks_ok(7) by blast
  obtain v where v: "check_saxo_execution_settings (rw_saxo_execution demo_raw_settings) = Inr v" using demo_blocks_ok(8) by blast
  have fields: "rw_crypto_agent demo_raw_settings = demo_agent_config" "rw_stocks_agent demo_raw_settings = demo_stocks_config"
    "rw_risk demo_raw_settings = default_risk_settings" "rw_llm_key_given demo_raw_settings = False"
    "rw_venue_orders demo_raw_settings = default_venue_order_settings"
    "\<not> xe_enabled (rw_xtb_execution demo_raw_settings)"
    by (simp_all add: demo_raw_settings_def)
  show ?thesis
    using c t l d v fields demo_blocks_ok(2-6,9)
    by (simp add: default_risk_settings_def load_settings_def new_settings_def require_def)
qed


text \<open>At startup the live blocks are their baselines.\<close>

lemma loaded_blocks_are_baselines:
  assumes "load_settings decode env cal file profile profile_file = Inr s"
  shows "as_risk s = as_risk_baseline s" "as_llm s = as_llm_baseline s" "as_crypto_agent s = as_crypto_baseline s"
    "as_stocks_agent s = as_stocks_baseline s" "as_execution s = as_execution_baseline s"
  using assms by (auto simp: load_settings_def new_settings_def split: sum.splits if_splits prod.splits)

end
