(* ===== verification/Control_Config.thy ===== *)
theory Control_Config
  imports Config_Sections
begin

text \<open>
  The operator's safe configuration surface, \<^verbatim>\<open>src/src/core/control_config.py\<close>: which overrides a
  form or the control API may store, how they are applied to the live objects each cycle, and how
  they are stripped of what the file already says.

  The live objects are \<open>live_config\<close>: the settings (which hold their own baselines, so the
  fall-backs for settings without them do not occur), the executor's and the pipeline's knobs and the
  agent's symbols. \<open>decode\<close> is \<^verbatim>\<open>json.loads\<close> with Pydantic's reading of types, which refuses unknown keys;
  the ranges of the fields are written out here.
\<close>

section \<open>Overrides\<close>

record risk_limits =
  rl_max_position_pct :: "real option"
  rl_daily_loss_limit_pct :: "real option"
  rl_max_drawdown_pct :: "real option"
  rl_consecutive_losses_cooldown_minutes :: "int option"
  rl_max_open_positions :: "int option"
  rl_min_confidence :: "real option"

record execution_override =
  eo_paper_fee_pct :: "real option"
  eo_paper_slippage_pct :: "real option"

record llm_override =
  lo_max_tokens :: "int option"
  lo_timeout_seconds :: "int option"
  lo_temperature :: "real option"
  lo_reasoning :: "string option"

record safe_overrides =
  ov_interval_minutes :: "int option"
  ov_pairs :: "symbol list option"
  ov_symbols :: "symbol list option"
  ov_market_hours :: "string option"
  ov_decision_history_limit :: "int option"
  ov_risk :: "risk_limits option"
  ov_execution :: "execution_override option"
  ov_llm :: "llm_override option"

definition no_risk :: risk_limits where
  "no_risk = \<lparr>rl_max_position_pct = None, rl_daily_loss_limit_pct = None, rl_max_drawdown_pct = None,
     rl_consecutive_losses_cooldown_minutes = None, rl_max_open_positions = None, rl_min_confidence = None\<rparr>"

definition no_execution :: execution_override where
  "no_execution = \<lparr>eo_paper_fee_pct = None, eo_paper_slippage_pct = None\<rparr>"

definition no_llm :: llm_override where
  "no_llm = \<lparr>lo_max_tokens = None, lo_timeout_seconds = None, lo_temperature = None, lo_reasoning = None\<rparr>"

definition no_overrides :: safe_overrides where
  "no_overrides = \<lparr>ov_interval_minutes = None, ov_pairs = None, ov_symbols = None, ov_market_hours = None,
     ov_decision_history_limit = None, ov_risk = None, ov_execution = None, ov_llm = None\<rparr>"

definition given :: "('a \<Rightarrow> bool) \<Rightarrow> 'a option \<Rightarrow> bool" where
  "given P v \<longleftrightarrow> (case v of None \<Rightarrow> True | Some x \<Rightarrow> P x)"

definition reasoning_modes :: "string list" where
  "reasoning_modes = [''default'', ''off'', ''low'', ''medium'', ''high'', ''xhigh'']"

definition risk_in_range :: "risk_limits \<Rightarrow> bool" where
  "risk_in_range r \<longleftrightarrow> given (\<lambda>v. 0 < v \<and> v \<le> 1) (rl_max_position_pct r) \<and> given (\<lambda>v. 0 < v \<and> v \<le> 1) (rl_daily_loss_limit_pct r)
     \<and> given (\<lambda>v. 0 < v \<and> v \<le> 1) (rl_max_drawdown_pct r) \<and> given (\<lambda>v. 0 \<le> v) (rl_consecutive_losses_cooldown_minutes r)
     \<and> given (\<lambda>v. 1 \<le> v) (rl_max_open_positions r) \<and> given (\<lambda>v. 0 \<le> v \<and> v \<le> 1) (rl_min_confidence r)"

definition execution_in_range :: "execution_override \<Rightarrow> bool" where
  "execution_in_range x \<longleftrightarrow> given (\<lambda>v. 0 \<le> v \<and> v < 1) (eo_paper_fee_pct x) \<and> given (\<lambda>v. 0 \<le> v \<and> v < 1) (eo_paper_slippage_pct x)"

definition llm_in_range :: "llm_override \<Rightarrow> bool" where
  "llm_in_range l \<longleftrightarrow> given (\<lambda>v. 1024 \<le> v \<and> v \<le> 65536) (lo_max_tokens l) \<and> given (\<lambda>v. 30 \<le> v \<and> v \<le> 3600) (lo_timeout_seconds l)
     \<and> given (\<lambda>v. 0 \<le> v \<and> v \<le> 1) (lo_temperature l) \<and> given (\<lambda>v. v \<in> set reasoning_modes) (lo_reasoning l)"

definition overrides_in_range :: "safe_overrides \<Rightarrow> bool" where
  "overrides_in_range ov \<longleftrightarrow> given (\<lambda>v. 1 \<le> v \<and> v \<le> 24 * 60) (ov_interval_minutes ov)
     \<and> given (\<lambda>v. 0 \<le> v \<and> v \<le> 100) (ov_decision_history_limit ov) \<and> given risk_in_range (ov_risk ov)
     \<and> given execution_in_range (ov_execution ov) \<and> given llm_in_range (ov_llm ov)"

definition validated :: "safe_overrides \<Rightarrow> py_error + safe_overrides" where
  "validated ov = (if overrides_in_range ov then Inr ov else Inl ValidationError)"

definition parse_overrides ::
  "(string \<Rightarrow> py_error + safe_overrides) \<Rightarrow> string option \<Rightarrow> py_error + safe_overrides option" where
  "parse_overrides decode raw =
     (case raw of
        None \<Rightarrow> Inr None
      | Some text \<Rightarrow>
          if strip text = [] then Inr None
          else on_ok (decode text) (\<lambda>ov. on_ok (validated ov) (\<lambda>ov1. Inr (Some ov1))))"

section \<open>Tighter only\<close>

definition loosens_le :: "'a::linorder option \<Rightarrow> 'a \<Rightarrow> bool" where
  "loosens_le v base \<longleftrightarrow> (case v of None \<Rightarrow> False | Some x \<Rightarrow> x > base)"

definition loosens_ge :: "'a::linorder option \<Rightarrow> 'a \<Rightarrow> bool" where
  "loosens_ge v base \<longleftrightarrow> (case v of None \<Rightarrow> False | Some x \<Rightarrow> x < base)"

definition loosened_risk_fields :: "risk_limits option \<Rightarrow> risk_settings \<Rightarrow> string list" where
  "loosened_risk_fields risk base =
     (case risk of
        None \<Rightarrow> []
      | Some r \<Rightarrow>
          (if loosens_le (rl_max_position_pct r) (rs_max_position_pct base) then [''max_position_pct''] else [])
        @ (if loosens_le (rl_daily_loss_limit_pct r) (rs_daily_loss_limit_pct base) then [''daily_loss_limit_pct''] else [])
        @ (if loosens_le (rl_max_drawdown_pct r) (rs_max_drawdown_pct base) then [''max_drawdown_pct''] else [])
        @ (if loosens_le (rl_max_open_positions r) (rs_max_open_positions base) then [''max_open_positions''] else [])
        @ (if loosens_ge (rl_min_confidence r) (rs_min_confidence base) then [''min_confidence''] else [])
        @ (if loosens_ge (rl_consecutive_losses_cooldown_minutes r) (rs_consecutive_losses_cooldown_minutes base)
           then [''consecutive_losses_cooldown_minutes''] else []))"

text \<open>\<open>Inl\<close> is the refusal of the form.\<close>

definition validate_overrides_payload ::
  "('p \<Rightarrow> py_error + safe_overrides) \<Rightarrow> 'p \<Rightarrow> risk_settings \<Rightarrow> string option \<Rightarrow> py_error + safe_overrides" where
  "validate_overrides_payload decode payload base currency =
     on_ok (decode payload) (\<lambda>ov. on_ok (validated ov) (\<lambda>ov1.
       if loosened_risk_fields (ov_risk ov1) base \<noteq> [] then Inl ValueError
       else if pairs_not_quoted_in (case ov_pairs ov1 of None \<Rightarrow> [] | Some ps \<Rightarrow> ps) currency \<noteq> [] then Inl ValueError
       else Inr ov1))"

section \<open>Applying\<close>

record pipeline_knobs =
  pk_costs :: "(real \<times> real) option"
  pk_history_limit :: int

record live_config =
  lc_settings :: app_settings
  lc_pipeline :: "pipeline_knobs option"
  lc_symbols :: "symbol list option"

definition effective :: "'a option \<Rightarrow> 'a \<Rightarrow> 'a" where
  "effective v base = (case v of None \<Rightarrow> base | Some x \<Rightarrow> x)"

text \<open>A field is reported when its value changes.\<close>

definition noted_if :: "string \<Rightarrow> bool \<Rightarrow> string list" where
  "noted_if name differs = (if differs then [name] else [])"

definition agent_block :: "string \<Rightarrow> app_settings \<Rightarrow> (agent_config \<times> agent_config) option" where
  "agent_block key s =
     (if key = ''crypto'' then Some (as_crypto_agent s, as_crypto_baseline s)
      else if key = ''stocks'' then Some (as_stocks_agent s, as_stocks_baseline s) else None)"

definition set_agent_block :: "string \<Rightarrow> agent_config \<Rightarrow> app_settings \<Rightarrow> app_settings" where
  "set_agent_block key c s =
     (if key = ''crypto'' then s\<lparr>as_crypto_agent := c\<rparr> else if key = ''stocks'' then s\<lparr>as_stocks_agent := c\<rparr> else s)"

text \<open>A market-hours value of \<^verbatim>\<open>None\<close> (no override, nothing in the file) is not written.\<close>

definition effective_pairs :: "safe_overrides \<Rightarrow> agent_config \<Rightarrow> agent_config \<Rightarrow> symbol list" where
  "effective_pairs ov base live =
     (case ov_pairs ov of
        None \<Rightarrow> gc_pairs base
      | Some ps \<Rightarrow> if pairs_not_quoted_in ps (gc_quote_currency live) \<noteq> [] then gc_pairs base else ps)"

definition apply_agent :: "safe_overrides \<Rightarrow> agent_config \<Rightarrow> agent_config \<Rightarrow> agent_config" where
  "apply_agent ov base live =
     live\<lparr>gc_interval_minutes := effective (ov_interval_minutes ov) (gc_interval_minutes base),
          gc_market_hours := (case ov_market_hours ov of
             Some h \<Rightarrow> Some h | None \<Rightarrow> (case gc_market_hours base of Some h \<Rightarrow> Some h | None \<Rightarrow> gc_market_hours live)),
          gc_decision_history_limit := effective (ov_decision_history_limit ov) (gc_decision_history_limit base),
          gc_pairs := effective_pairs ov base live,
          gc_symbols := effective (ov_symbols ov) (gc_symbols base)\<rparr>"

definition changed_agent :: "agent_config \<Rightarrow> agent_config \<Rightarrow> string list" where
  "changed_agent old new =
     noted_if ''interval_minutes'' (gc_interval_minutes old \<noteq> gc_interval_minutes new)
     @ noted_if ''market_hours'' (gc_market_hours old \<noteq> gc_market_hours new)
     @ noted_if ''decision_history_limit'' (gc_decision_history_limit old \<noteq> gc_decision_history_limit new)
     @ noted_if ''pairs'' (gc_pairs old \<noteq> gc_pairs new) @ noted_if ''symbols'' (gc_symbols old \<noteq> gc_symbols new)"

text \<open>A stored value that would loosen the file's limit is skipped, leaving the live value.\<close>

definition risk_le :: "'a::linorder option \<Rightarrow> 'a \<Rightarrow> 'a \<Rightarrow> 'a" where
  "risk_le v base live = (if loosens_le v base then live else effective v base)"

definition risk_ge :: "'a::linorder option \<Rightarrow> 'a \<Rightarrow> 'a \<Rightarrow> 'a" where
  "risk_ge v base live = (if loosens_ge v base then live else effective v base)"

definition apply_risk_override :: "risk_limits \<Rightarrow> risk_settings \<Rightarrow> risk_settings \<Rightarrow> risk_settings" where
  "apply_risk_override r base live =
     live\<lparr>rs_max_position_pct := risk_le (rl_max_position_pct r) (rs_max_position_pct base) (rs_max_position_pct live),
          rs_daily_loss_limit_pct := risk_le (rl_daily_loss_limit_pct r) (rs_daily_loss_limit_pct base) (rs_daily_loss_limit_pct live),
          rs_max_drawdown_pct := risk_le (rl_max_drawdown_pct r) (rs_max_drawdown_pct base) (rs_max_drawdown_pct live),
          rs_consecutive_losses_cooldown_minutes :=
            risk_ge (rl_consecutive_losses_cooldown_minutes r) (rs_consecutive_losses_cooldown_minutes base)
              (rs_consecutive_losses_cooldown_minutes live),
          rs_max_open_positions := risk_le (rl_max_open_positions r) (rs_max_open_positions base) (rs_max_open_positions live),
          rs_min_confidence := risk_ge (rl_min_confidence r) (rs_min_confidence base) (rs_min_confidence live)\<rparr>"

definition changed_risk :: "risk_settings \<Rightarrow> risk_settings \<Rightarrow> string list" where
  "changed_risk old new =
     noted_if ''max_position_pct'' (rs_max_position_pct old \<noteq> rs_max_position_pct new)
     @ noted_if ''daily_loss_limit_pct'' (rs_daily_loss_limit_pct old \<noteq> rs_daily_loss_limit_pct new)
     @ noted_if ''max_drawdown_pct'' (rs_max_drawdown_pct old \<noteq> rs_max_drawdown_pct new)
     @ noted_if ''consecutive_losses_cooldown_minutes''
         (rs_consecutive_losses_cooldown_minutes old \<noteq> rs_consecutive_losses_cooldown_minutes new)
     @ noted_if ''max_open_positions'' (rs_max_open_positions old \<noteq> rs_max_open_positions new)
     @ noted_if ''min_confidence'' (rs_min_confidence old \<noteq> rs_min_confidence new)"

definition apply_costs :: "execution_override \<Rightarrow> cost_params \<Rightarrow> real \<times> real" where
  "apply_costs x base = (effective (eo_paper_fee_pct x) (cp_paper_fee_pct base), effective (eo_paper_slippage_pct x) (cp_paper_slippage_pct base))"

text \<open>The pipeline keeps a non-negative limit; without agent settings its limit follows the override only.\<close>

definition apply_pipeline :: "safe_overrides \<Rightarrow> app_settings \<Rightarrow> int option \<Rightarrow> pipeline_knobs \<Rightarrow> pipeline_knobs \<times> string list" where
  "apply_pipeline ov s limit p =
     (let costs = apply_costs (effective (ov_execution ov) no_execution) (xs_costs (as_execution_baseline s));
          p1 = p\<lparr>pk_costs := (case pk_costs p of None \<Rightarrow> None | Some c \<Rightarrow> Some costs)\<rparr>;
          noted = (case pk_costs p of
                     None \<Rightarrow> []
                   | Some c \<Rightarrow> noted_if ''fee_pct'' (fst c \<noteq> fst costs) @ noted_if ''slippage_pct'' (snd c \<noteq> snd costs))
      in case limit of
           None \<Rightarrow> (p1, noted)
         | Some n \<Rightarrow>
             (if pk_history_limit p \<noteq> n then (p1\<lparr>pk_history_limit := max 0 n\<rparr>, noted @ [''decision_history_limit''])
              else (p1, noted)))"

definition apply_llm :: "llm_override \<Rightarrow> llm_settings \<Rightarrow> llm_settings \<Rightarrow> llm_settings" where
  "apply_llm l base live =
     live\<lparr>ll_max_tokens := effective (lo_max_tokens l) (ll_max_tokens base),
          ll_timeout_seconds := effective (lo_timeout_seconds l) (ll_timeout_seconds base),
          ll_temperature := effective (lo_temperature l) (ll_temperature base),
          ll_reasoning := effective (lo_reasoning l) (ll_reasoning base)\<rparr>"

definition changed_llm :: "llm_settings \<Rightarrow> llm_settings \<Rightarrow> string list" where
  "changed_llm old new =
     noted_if ''max_tokens'' (ll_max_tokens old \<noteq> ll_max_tokens new)
     @ noted_if ''timeout_seconds'' (ll_timeout_seconds old \<noteq> ll_timeout_seconds new)
     @ noted_if ''temperature'' (ll_temperature old \<noteq> ll_temperature new)
     @ noted_if ''reasoning'' (ll_reasoning old \<noteq> ll_reasoning new)"

definition follow_symbols :: "symbol list option \<Rightarrow> symbol list \<Rightarrow> symbol list option" where
  "follow_symbols held ss = (case held of None \<Rightarrow> None | Some old \<Rightarrow> Some (if ss \<noteq> [] then ss else old))"

definition apply_safe_overrides :: "string \<Rightarrow> safe_overrides \<Rightarrow> live_config \<Rightarrow> live_config \<times> string list" where
  "apply_safe_overrides key ov lc =
     (let s = lc_settings lc; block = agent_block key s;
          new_block = (case block of None \<Rightarrow> None | Some (live, base) \<Rightarrow> Some (apply_agent ov base live));
          s1 = (case new_block of None \<Rightarrow> s | Some c \<Rightarrow> set_agent_block key c s);
          s2 = s1\<lparr>as_risk := apply_risk_override (effective (ov_risk ov) no_risk) (as_risk_baseline s) (as_risk s)\<rparr>;
          s3 = s2\<lparr>as_llm := apply_llm (effective (ov_llm ov) no_llm) (as_llm_baseline s) (as_llm s)\<rparr>;
          limit = (case block of
                     None \<Rightarrow> ov_decision_history_limit ov
                   | Some (live, base) \<Rightarrow> Some (effective (ov_decision_history_limit ov) (gc_decision_history_limit base)));
          knobs = (case lc_pipeline lc of None \<Rightarrow> (None, []) | Some p \<Rightarrow> map_prod Some id (apply_pipeline ov s limit p));
          symbols = (case new_block of
                       Some c \<Rightarrow> follow_symbols (lc_symbols lc) (if key = ''crypto'' then gc_pairs c else gc_symbols c)
                     | None \<Rightarrow> follow_symbols (lc_symbols lc)
                                 (case ov_symbols ov of Some ss \<Rightarrow> ss
                                  | None \<Rightarrow> if key = ''crypto'' then effective (ov_pairs ov) [] else []))
      in (\<lparr>lc_settings = s3, lc_pipeline = fst knobs, lc_symbols = symbols\<rparr>,
          (case (block, new_block) of (Some (live, base), Some c) \<Rightarrow> changed_agent live c | _ \<Rightarrow> [])
          @ changed_risk (as_risk s) (as_risk s2) @ snd knobs @ changed_llm (as_llm s) (as_llm s3)))"

definition parse_and_apply ::
  "(string \<Rightarrow> py_error + safe_overrides) \<Rightarrow> string \<Rightarrow> string option \<Rightarrow> live_config \<Rightarrow> live_config \<times> (py_error + string list)" where
  "parse_and_apply decode key raw lc =
     (case parse_overrides decode raw of
        Inl e \<Rightarrow> (lc, Inl e)
      | Inr ov \<Rightarrow> (case apply_safe_overrides key (effective ov no_overrides) lc of (lc1, changed) \<Rightarrow> (lc1, Inr changed)))"

section \<open>Storing and showing\<close>

definition unless_same :: "'a option \<Rightarrow> 'a \<Rightarrow> 'a option" where
  "unless_same v base = (if v = Some base then None else v)"

definition or_none_if :: "'a \<Rightarrow> 'a \<Rightarrow> 'a option" where
  "or_none_if nothing v = (if v = nothing then None else Some v)"

definition strip_risk :: "risk_settings \<Rightarrow> risk_limits \<Rightarrow> risk_limits" where
  "strip_risk base r =
     \<lparr>rl_max_position_pct = unless_same (rl_max_position_pct r) (rs_max_position_pct base),
      rl_daily_loss_limit_pct = unless_same (rl_daily_loss_limit_pct r) (rs_daily_loss_limit_pct base),
      rl_max_drawdown_pct = unless_same (rl_max_drawdown_pct r) (rs_max_drawdown_pct base),
      rl_consecutive_losses_cooldown_minutes =
        unless_same (rl_consecutive_losses_cooldown_minutes r) (rs_consecutive_losses_cooldown_minutes base),
      rl_max_open_positions = unless_same (rl_max_open_positions r) (rs_max_open_positions base),
      rl_min_confidence = unless_same (rl_min_confidence r) (rs_min_confidence base)\<rparr>"

definition strip_execution :: "cost_params \<Rightarrow> execution_override \<Rightarrow> execution_override" where
  "strip_execution base x =
     \<lparr>eo_paper_fee_pct = unless_same (eo_paper_fee_pct x) (cp_paper_fee_pct base),
      eo_paper_slippage_pct = unless_same (eo_paper_slippage_pct x) (cp_paper_slippage_pct base)\<rparr>"

definition strip_llm :: "llm_settings \<Rightarrow> llm_override \<Rightarrow> llm_override" where
  "strip_llm base l =
     \<lparr>lo_max_tokens = unless_same (lo_max_tokens l) (ll_max_tokens base),
      lo_timeout_seconds = unless_same (lo_timeout_seconds l) (ll_timeout_seconds base),
      lo_temperature = unless_same (lo_temperature l) (ll_temperature base),
      lo_reasoning = unless_same (lo_reasoning l) (ll_reasoning base)\<rparr>"

definition strip_agent :: "agent_config \<Rightarrow> safe_overrides \<Rightarrow> safe_overrides" where
  "strip_agent base ov =
     ov\<lparr>ov_interval_minutes := unless_same (ov_interval_minutes ov) (gc_interval_minutes base),
        ov_market_hours := (if ov_market_hours ov = gc_market_hours base then None else ov_market_hours ov),
        ov_decision_history_limit := unless_same (ov_decision_history_limit ov) (gc_decision_history_limit base),
        ov_pairs := unless_same (ov_pairs ov) (gc_pairs base),
        ov_symbols := unless_same (ov_symbols ov) (gc_symbols base)\<rparr>"

definition strip_noop_overrides :: "safe_overrides \<Rightarrow> app_settings \<Rightarrow> string \<Rightarrow> safe_overrides" where
  "strip_noop_overrides ov s key =
     (let ov1 = (case agent_block key s of None \<Rightarrow> ov | Some (live, base) \<Rightarrow> strip_agent base ov)
      in ov1\<lparr>ov_risk := Option.bind (ov_risk ov) (\<lambda>r. or_none_if no_risk (strip_risk (as_risk_baseline s) r)),
             ov_execution := Option.bind (ov_execution ov)
               (\<lambda>x. or_none_if no_execution (strip_execution (xs_costs (as_execution_baseline s)) x)),
             ov_llm := Option.bind (ov_llm ov) (\<lambda>l. or_none_if no_llm (strip_llm (as_llm_baseline s) l))\<rparr>)"

text \<open>What the form shows: the file's values with the stored overrides on top.\<close>

definition shown :: "'a option \<Rightarrow> 'a \<Rightarrow> 'a option" where
  "shown v base = Some (effective v base)"

definition safe_config_view :: "app_settings \<Rightarrow> safe_overrides \<Rightarrow> risk_limits \<times> execution_override \<times> llm_override" where
  "safe_config_view s ov =
     (let b = as_risk_baseline s; r = effective (ov_risk ov) no_risk;
          c = xs_costs (as_execution_baseline s); x = effective (ov_execution ov) no_execution;
          m = as_llm_baseline s; l = effective (ov_llm ov) no_llm
      in (\<lparr>rl_max_position_pct = shown (rl_max_position_pct r) (rs_max_position_pct b),
           rl_daily_loss_limit_pct = shown (rl_daily_loss_limit_pct r) (rs_daily_loss_limit_pct b),
           rl_max_drawdown_pct = shown (rl_max_drawdown_pct r) (rs_max_drawdown_pct b),
           rl_consecutive_losses_cooldown_minutes =
             shown (rl_consecutive_losses_cooldown_minutes r) (rs_consecutive_losses_cooldown_minutes b),
           rl_max_open_positions = shown (rl_max_open_positions r) (rs_max_open_positions b),
           rl_min_confidence = shown (rl_min_confidence r) (rs_min_confidence b)\<rparr>,
          \<lparr>eo_paper_fee_pct = shown (eo_paper_fee_pct x) (cp_paper_fee_pct c),
           eo_paper_slippage_pct = shown (eo_paper_slippage_pct x) (cp_paper_slippage_pct c)\<rparr>,
          \<lparr>lo_max_tokens = shown (lo_max_tokens l) (ll_max_tokens m),
           lo_timeout_seconds = shown (lo_timeout_seconds l) (ll_timeout_seconds m),
           lo_temperature = shown (lo_temperature l) (ll_temperature m),
           lo_reasoning = shown (lo_reasoning l) (ll_reasoning m)\<rparr>))"

definition agent_config_view :: "agent_config \<Rightarrow> safe_overrides \<Rightarrow> safe_overrides" where
  "agent_config_view base ov =
     \<lparr>ov_interval_minutes = shown (ov_interval_minutes ov) (gc_interval_minutes base),
      ov_pairs = shown (ov_pairs ov) (gc_pairs base), ov_symbols = shown (ov_symbols ov) (gc_symbols base),
      ov_market_hours = (case ov_market_hours ov of Some h \<Rightarrow> Some h | None \<Rightarrow> gc_market_hours base),
      ov_decision_history_limit = shown (ov_decision_history_limit ov) (gc_decision_history_limit base),
      ov_risk = None, ov_execution = None, ov_llm = None\<rparr>"

section \<open>Lemmas\<close>

lemma effective_simps [simp]: "effective None b = b" "effective (Some v) b = v"
  by (simp_all add: effective_def)

lemma risk_le_bound: "live \<le> base \<Longrightarrow> risk_le v base live \<le> base"
  by (auto simp: risk_le_def loosens_le_def split: option.splits)

lemma risk_ge_bound: "base \<le> live \<Longrightarrow> base \<le> risk_ge v base live"
  by (auto simp: risk_ge_def loosens_ge_def split: option.splits)

lemma risk_none [simp]: "risk_le None base live = base" "risk_ge None base live = base"
  by (simp_all add: risk_le_def risk_ge_def loosens_le_def loosens_ge_def)

lemma unless_same_effective [simp]:
  "effective (unless_same v b) b = effective v b"
  "risk_le (unless_same v1 b1) b1 live1 = risk_le v1 b1 live1"
  "risk_ge (unless_same v1 b1) b1 live1 = risk_ge v1 b1 live1"
  by (auto simp: unless_same_def risk_le_def risk_ge_def loosens_le_def loosens_ge_def)

lemma unless_same_shown [simp]: "unless_same (shown v b) b = unless_same v b"
  by (cases v) (auto simp: shown_def unless_same_def)

lemma unless_same_None [simp]: "unless_same None b = None"
  by (simp add: unless_same_def)

lemma effective_or_none_if [simp]: "effective (or_none_if nothing v) nothing = v"
  by (simp add: or_none_if_def)

lemma or_none_if_self [simp]: "or_none_if v v = None"
  by (simp add: or_none_if_def)

text \<open>The live limits are at least as tight as the file's, and the others are the file's.\<close>

definition tight :: "risk_settings \<Rightarrow> risk_settings \<Rightarrow> bool" where
  "tight live base \<longleftrightarrow>
     rs_max_position_pct live \<le> rs_max_position_pct base \<and> rs_daily_loss_limit_pct live \<le> rs_daily_loss_limit_pct base
     \<and> rs_max_drawdown_pct live \<le> rs_max_drawdown_pct base \<and> rs_max_open_positions live \<le> rs_max_open_positions base
     \<and> rs_min_confidence base \<le> rs_min_confidence live
     \<and> rs_consecutive_losses_cooldown_minutes base \<le> rs_consecutive_losses_cooldown_minutes live
     \<and> (\<exists>p d m c n f. live = base\<lparr>rs_max_position_pct := p, rs_daily_loss_limit_pct := d, rs_max_drawdown_pct := m,
          rs_consecutive_losses_cooldown_minutes := c, rs_max_open_positions := n, rs_min_confidence := f\<rparr>)"

lemma tight_refl: "tight base base"
proof -
  have "base = base\<lparr>rs_max_position_pct := rs_max_position_pct base, rs_daily_loss_limit_pct := rs_daily_loss_limit_pct base,
      rs_max_drawdown_pct := rs_max_drawdown_pct base,
      rs_consecutive_losses_cooldown_minutes := rs_consecutive_losses_cooldown_minutes base,
      rs_max_open_positions := rs_max_open_positions base, rs_min_confidence := rs_min_confidence base\<rparr>"
    by (cases base) simp
  then show ?thesis unfolding tight_def by blast
qed

lemma apply_risk_tight:
  assumes "tight live base"
  shows "tight (apply_risk_override r base live) base"
proof -
  from assms obtain p d m c n f where
    "live = base\<lparr>rs_max_position_pct := p, rs_daily_loss_limit_pct := d, rs_max_drawdown_pct := m,
          rs_consecutive_losses_cooldown_minutes := c, rs_max_open_positions := n, rs_min_confidence := f\<rparr>"
    unfolding tight_def by blast
  then have "\<exists>p d m c n f. apply_risk_override r base live =
      base\<lparr>rs_max_position_pct := p, rs_daily_loss_limit_pct := d, rs_max_drawdown_pct := m,
          rs_consecutive_losses_cooldown_minutes := c, rs_max_open_positions := n, rs_min_confidence := f\<rparr>"
    unfolding apply_risk_override_def by (cases base) auto
  with assms show ?thesis
    by (simp add: tight_def apply_risk_override_def risk_le_bound risk_ge_bound)
qed

lemma set_agent_block_frame [simp]:
  "as_risk (set_agent_block key c s) = as_risk s" "as_risk_baseline (set_agent_block key c s) = as_risk_baseline s"
  "as_llm (set_agent_block key c s) = as_llm s" "as_llm_baseline (set_agent_block key c s) = as_llm_baseline s"
  "as_execution_baseline (set_agent_block key c s) = as_execution_baseline s"
  "as_crypto_baseline (set_agent_block key c s) = as_crypto_baseline s"
  "as_stocks_baseline (set_agent_block key c s) = as_stocks_baseline s"
  by (simp_all add: set_agent_block_def)

lemma apply_safe_risk:
  assumes "apply_safe_overrides key ov lc = (lc1, changed)"
  shows "as_risk (lc_settings lc1) = apply_risk_override (effective (ov_risk ov) no_risk)
      (as_risk_baseline (lc_settings lc)) (as_risk (lc_settings lc))"
    and "as_risk_baseline (lc_settings lc1) = as_risk_baseline (lc_settings lc)"
  using assms by (auto simp: apply_safe_overrides_def Let_def split: option.splits prod.splits)

text \<open>One apply per cycle, with the text stored at that time.\<close>

definition apply_each ::
  "(string \<Rightarrow> py_error + safe_overrides) \<Rightarrow> string \<Rightarrow> string option list \<Rightarrow> live_config \<Rightarrow> live_config" where
  "apply_each decode key raws lc = fold (\<lambda>raw c. fst (parse_and_apply decode key raw c)) raws lc"

lemma parse_and_apply_cases:
  obtains (refused) e where "parse_and_apply decode key raw lc = (lc, Inl e)"
  | (applied) ov lc1 changed where "apply_safe_overrides key ov lc = (lc1, changed)"
      "parse_and_apply decode key raw lc = (lc1, Inr changed)"
proof (cases "parse_overrides decode raw")
  case (Inl e)
  then show ?thesis by (intro refused) (simp add: parse_and_apply_def)
next
  case (Inr ov)
  obtain lc1 changed where "apply_safe_overrides key (effective ov no_overrides) lc = (lc1, changed)"
    by (cases "apply_safe_overrides key (effective ov no_overrides) lc") simp
  with Inr show ?thesis by (intro applied) (simp_all add: parse_and_apply_def)
qed

lemma parse_and_apply_None [simp]:
  "parse_and_apply decode key None lc = (case apply_safe_overrides key no_overrides lc of (lc1, changed) \<Rightarrow> (lc1, Inr changed))"
  by (simp add: parse_and_apply_def parse_overrides_def)

lemma apply_each_tight:
  assumes "tight (as_risk (lc_settings lc)) (as_risk_baseline (lc_settings lc))"
  shows "as_risk_baseline (lc_settings (apply_each decode key raws lc)) = as_risk_baseline (lc_settings lc)
    \<and> tight (as_risk (lc_settings (apply_each decode key raws lc))) (as_risk_baseline (lc_settings lc))"
  using assms
proof (induction raws arbitrary: lc)
  case Nil
  then show ?case by (simp add: apply_each_def)
next
  case (Cons raw raws)
  let ?lc1 = "fst (parse_and_apply decode key raw lc)"
  have step: "as_risk_baseline (lc_settings ?lc1) = as_risk_baseline (lc_settings lc)
      \<and> tight (as_risk (lc_settings ?lc1)) (as_risk_baseline (lc_settings lc))"
  proof (cases rule: parse_and_apply_cases [of decode key raw lc])
    case (refused e)
    with Cons.prems show ?thesis by simp
  next
    case (applied ov lc1 changed)
    with apply_safe_risk [OF applied(1)] Cons.prems show ?thesis by (simp add: apply_risk_tight)
  qed
  with Cons.IH [of ?lc1] show ?case by (simp add: apply_each_def)
qed

text \<open>C29: Overrides only tighten: from settings loaded from the file, whatever texts are stored and applied cycle
  after cycle, every live risk limit is at least as strict as the file's, and the risk settings outside the
  form are the file's.\<close>

theorem overrides_only_tighten:
  assumes "load_settings decode_file env cal file profile profile_file = Inr (lc_settings lc)"
  shows "tight (as_risk (lc_settings (apply_each decode key raws lc))) (as_risk_baseline (lc_settings lc))"
  using apply_each_tight [of lc decode key raws] loaded_blocks_are_baselines(1) [OF assms] by (simp add: tight_refl)

definition demo_overrides :: safe_overrides where
  "demo_overrides = no_overrides\<lparr>ov_market_hours := Some ''09:30-16:00'',
     ov_risk := Some (no_risk\<lparr>rl_max_open_positions := Some 1\<rparr>)\<rparr>"

theorem overrides_only_tighten_witness:
  "\<exists>s. tight (as_risk (lc_settings (apply_each (\<lambda>text. Inr demo_overrides) ''crypto'' [Some ''x'', None, Some ''y'']
       \<lparr>lc_settings = s, lc_pipeline = None, lc_symbols = None\<rparr>))) (as_risk_baseline s)"
proof -
  obtain s where "load_settings (\<lambda>f. Inr demo_raw_settings) (\<lambda>v. []) demo_calendar [] None None = Inr s"
    using demo_settings_load by blast
  with overrides_only_tighten [where lc = "\<lparr>lc_settings = s, lc_pipeline = None, lc_symbols = None\<rparr>"]
  show ?thesis by fastforce
qed

lemma no_overrides_simps [simp]:
  "ov_interval_minutes no_overrides = None" "ov_pairs no_overrides = None" "ov_symbols no_overrides = None"
  "ov_market_hours no_overrides = None" "ov_decision_history_limit no_overrides = None" "ov_risk no_overrides = None"
  "ov_execution no_overrides = None" "ov_llm no_overrides = None"
  by (simp_all add: no_overrides_def)

lemma apply_safe_settings:
  "lc_settings (fst (apply_safe_overrides key ov lc)) =
     (case agent_block key (lc_settings lc) of
        None \<Rightarrow> lc_settings lc
      | Some (live, base) \<Rightarrow> set_agent_block key (apply_agent ov base live) (lc_settings lc))
     \<lparr>as_risk := apply_risk_override (effective (ov_risk ov) no_risk) (as_risk_baseline (lc_settings lc)) (as_risk (lc_settings lc)),
      as_llm := apply_llm (effective (ov_llm ov) no_llm) (as_llm_baseline (lc_settings lc)) (as_llm (lc_settings lc))\<rparr>"
  by (simp add: apply_safe_overrides_def Let_def split: option.splits prod.splits)

text \<open>Taking every override back undoes any apply.\<close>

lemma apply_risk_undone: "apply_risk_override no_risk base (apply_risk_override r base live) = apply_risk_override no_risk base live"
  by (simp add: apply_risk_override_def no_risk_def)

lemma apply_llm_undone: "apply_llm no_llm base (apply_llm l base live) = apply_llm no_llm base live"
  by (simp add: apply_llm_def no_llm_def)

lemma apply_agent_undone:
  "gc_market_hours base \<noteq> None \<Longrightarrow> apply_agent no_overrides base (apply_agent ov base live) = apply_agent no_overrides base live"
  by (cases "gc_market_hours base") (simp_all add: apply_agent_def effective_pairs_def)

lemma apply_at_baseline:
  "apply_risk_override no_risk b b = b" "apply_llm no_llm m m = m" "apply_agent no_overrides c c = c"
  by (cases b, simp add: apply_risk_override_def no_risk_def)
    (cases m, simp add: apply_llm_def no_llm_def, cases c, simp add: apply_agent_def effective_pairs_def split: option.splits)

definition hours_configured :: "string \<Rightarrow> app_settings \<Rightarrow> bool" where
  "hours_configured key s \<longleftrightarrow> (case agent_block key s of None \<Rightarrow> True | Some (live, base) \<Rightarrow> gc_market_hours base \<noteq> None)"

lemma agent_block_cases:
  obtains (crypto) "key = ''crypto''" "\<And>s. agent_block key s = Some (as_crypto_agent s, as_crypto_baseline s)"
      "\<And>c s. set_agent_block key c s = s\<lparr>as_crypto_agent := c\<rparr>"
  | (stocks) "key = ''stocks''" "\<And>s. agent_block key s = Some (as_stocks_agent s, as_stocks_baseline s)"
      "\<And>c s. set_agent_block key c s = s\<lparr>as_stocks_agent := c\<rparr>"
  | (other) "\<And>s. agent_block key s = None"
  by (cases "key = ''crypto''"; cases "key = ''stocks''") (simp_all add: agent_block_def set_agent_block_def)

lemma apply_safe_undone:
  assumes "hours_configured key (lc_settings lc)"
  shows "hours_configured key (lc_settings (fst (apply_safe_overrides key ov lc)))"
    and "lc_settings (fst (apply_safe_overrides key no_overrides (fst (apply_safe_overrides key ov lc))))
      = lc_settings (fst (apply_safe_overrides key no_overrides lc))"
  using assms
  by (cases key rule: agent_block_cases;
      simp add: apply_safe_settings apply_risk_undone apply_llm_undone apply_agent_undone hours_configured_def)+

lemma apply_each_undone:
  assumes "hours_configured key (lc_settings lc)"
  shows "lc_settings (apply_each decode key (raws @ [None]) lc) = lc_settings (fst (apply_safe_overrides key no_overrides lc))"
  using assms
proof (induction raws arbitrary: lc)
  case Nil
  then show ?case by (simp add: apply_each_def split: prod.splits)
next
  case (Cons raw raws)
  let ?lc1 = "fst (parse_and_apply decode key raw lc)"
  have "hours_configured key (lc_settings ?lc1)
      \<and> lc_settings (fst (apply_safe_overrides key no_overrides ?lc1)) = lc_settings (fst (apply_safe_overrides key no_overrides lc))"
    using apply_safe_undone [OF Cons.prems] Cons.prems
    by (cases rule: parse_and_apply_cases [of decode key raw lc]) (simp, metis fst_conv)
  with Cons.IH [of ?lc1] show ?case by (simp add: apply_each_def)
qed

text \<open>C30: Removing the overrides restores the file: from loaded settings whose agent has trading hours in the file,
  whatever texts were applied before, an apply with nothing stored leaves the settings exactly as loaded.\<close>

theorem removed_overrides_restore_the_file:
  assumes "load_settings decode_file env cal file profile profile_file = Inr (lc_settings lc)"
    and "hours_configured key (lc_settings lc)"
  shows "lc_settings (apply_each decode key (raws @ [None]) lc) = lc_settings lc"
  unfolding apply_each_undone [OF assms(2)] using loaded_blocks_are_baselines [OF assms(1)]
  by (cases "lc_settings lc"; cases key rule: agent_block_cases) (simp_all add: apply_safe_settings apply_at_baseline)

theorem removed_overrides_restore_the_file_witness:
  "\<exists>s. lc_settings (apply_each (\<lambda>text. Inr demo_overrides) ''stocks'' ([Some ''x'', Some ''y''] @ [None])
       \<lparr>lc_settings = s, lc_pipeline = None, lc_symbols = None\<rparr>) = s"
proof -
  obtain s where s: "load_settings (\<lambda>f. Inr demo_raw_settings) (\<lambda>v. []) demo_calendar [] None None = Inr s"
    and "gc_market_hours (as_stocks_baseline s) = Some ''09:30-16:00''"
    using demo_settings_load by blast
  then have "hours_configured ''stocks'' s" by (simp add: hours_configured_def agent_block_def)
  with removed_overrides_restore_the_file [where lc = "\<lparr>lc_settings = s, lc_pipeline = None, lc_symbols = None\<rparr>"
      and key = "''stocks''" and raws = "[Some ''x'', Some ''y'']" and decode = "\<lambda>text. Inr demo_overrides"] s
  show ?thesis by (intro exI [of _ s]) simp
qed

lemma applied_block:
  assumes "agent_block key (lc_settings lc) = Some (live, base)"
  shows "agent_block key (lc_settings (fst (apply_safe_overrides key ov lc))) = Some (apply_agent ov base live, base)"
  using assms by (cases key rule: agent_block_cases) (simp_all add: apply_safe_settings)

lemma apply_each_simps:
  "apply_each decode key [] lc = lc"
  "apply_each decode key (raw # raws) lc = apply_each decode key raws (fst (parse_and_apply decode key raw lc))"
  "fst (parse_and_apply decode key None lc) = fst (apply_safe_overrides key no_overrides lc)"
  by (simp_all add: apply_each_def split: prod.splits)

lemma hours_stay:
  assumes "agent_block key (lc_settings lc) = Some (live, base)" "gc_market_hours base = None" "gc_market_hours live = Some h"
  shows "map_option (\<lambda>(live1, base1). gc_market_hours live1)
      (agent_block key (lc_settings (apply_each decode key (replicate n None) lc))) = Some (Some h)"
  using assms
proof (induction n arbitrary: lc live)
  case 0
  then show ?case by (simp add: apply_each_def)
next
  case (Suc n)
  let ?lc1 = "fst (apply_safe_overrides key no_overrides lc)"
  have "agent_block key (lc_settings ?lc1) = Some (apply_agent no_overrides base live, base)"
    by (rule applied_block) (fact Suc.prems(1))
  moreover have "gc_market_hours (apply_agent no_overrides base live) = Some h"
    using Suc.prems(2,3) by (simp add: apply_agent_def)
  ultimately have "map_option (\<lambda>(live1, base1). gc_market_hours live1)
      (agent_block key (lc_settings (apply_each decode key (replicate n None) ?lc1))) = Some (Some h)"
    using Suc.IH Suc.prems(2) by blast
  then show ?case by (simp only: replicate_Suc apply_each_simps)
qed

text \<open>C38: When the file gives no trading hours, an override of them cannot be taken back: after it was applied once,
  any number of applies with nothing stored leave the agent's live trading hours at the removed override.\<close>

theorem removed_hours_override_sticks:
  assumes "agent_block key (lc_settings lc) = Some (live, base)" "gc_market_hours base = None"
    and "parse_overrides decode (Some text) = Inr (Some ov)" "ov_market_hours ov = Some h"
  shows "map_option (\<lambda>(live1, base1). gc_market_hours live1)
      (agent_block key (lc_settings (apply_each decode key (Some text # replicate n None) lc))) = Some (Some h)"
proof -
  let ?lc1 = "fst (apply_safe_overrides key ov lc)"
  have "fst (parse_and_apply decode key (Some text) lc) = ?lc1"
    using assms(3) by (simp add: parse_and_apply_def split: prod.splits)
  then have "apply_each decode key (Some text # replicate n None) lc = apply_each decode key (replicate n None) ?lc1"
    by (simp add: apply_each_def)
  moreover have "gc_market_hours (apply_agent ov base live) = Some h"
    using assms(4) by (simp add: apply_agent_def)
  ultimately show ?thesis
    using hours_stay [OF applied_block [OF assms(1)] assms(2)] by simp
qed

lemma demo_overrides_parse: "parse_overrides (\<lambda>text. Inr demo_overrides) (Some ''x'') = Inr (Some demo_overrides)"
  by (simp add: parse_overrides_def strip_def is_space_def on_ok_def validated_def overrides_in_range_def given_def demo_overrides_def
      risk_in_range_def no_risk_def)

theorem removed_hours_override_sticks_witness:
  "\<exists>s. gc_market_hours (as_crypto_baseline s) = None
     \<and> map_option (\<lambda>(live1, base1). gc_market_hours live1)
      (agent_block ''crypto'' (lc_settings (apply_each (\<lambda>text. Inr demo_overrides) ''crypto'' (Some ''x'' # replicate 3 None)
         \<lparr>lc_settings = s, lc_pipeline = None, lc_symbols = None\<rparr>))) = Some (Some ''09:30-16:00'')"
proof -
  from demo_settings_load obtain s :: app_settings where none: "gc_market_hours (as_crypto_baseline s) = None"
    by blast
  have "agent_block ''crypto'' (lc_settings \<lparr>lc_settings = s, lc_pipeline = None, lc_symbols = None\<rparr>)
      = Some (as_crypto_agent s, as_crypto_baseline s)" by (simp add: agent_block_def)
  from removed_hours_override_sticks [OF this none demo_overrides_parse, of "''09:30-16:00''" 3] none
  show ?thesis by (intro exI [of _ s]) (simp add: demo_overrides_def)
qed

section \<open>The form\<close>

text \<open>What is stored of a saved form: its values, less those of the file.\<close>

definition saved_form :: "app_settings \<Rightarrow> string \<Rightarrow> safe_overrides \<Rightarrow> safe_overrides" where
  "saved_form s key ov =
     (case agent_block key s of
        None \<Rightarrow> no_overrides
      | Some (live, base) \<Rightarrow>
          (case safe_config_view s ov of (r, x, l) \<Rightarrow>
             (agent_config_view base ov)\<lparr>ov_risk := Some r, ov_execution := Some x, ov_llm := Some l\<rparr>))"

lemma strip_view:
  "strip_risk (as_risk_baseline s) (fst (safe_config_view s ov)) = strip_risk (as_risk_baseline s) (effective (ov_risk ov) no_risk)"
  "strip_execution (xs_costs (as_execution_baseline s)) (fst (snd (safe_config_view s ov)))
     = strip_execution (xs_costs (as_execution_baseline s)) (effective (ov_execution ov) no_execution)"
  "strip_llm (as_llm_baseline s) (snd (snd (safe_config_view s ov)))
     = strip_llm (as_llm_baseline s) (effective (ov_llm ov) no_llm)"
  by (simp_all add: safe_config_view_def Let_def strip_risk_def strip_execution_def strip_llm_def)

lemma strip_nothing [simp]: "strip_risk b no_risk = no_risk" "strip_execution c no_execution = no_execution" "strip_llm m no_llm = no_llm"
  by (simp_all add: strip_risk_def no_risk_def strip_execution_def no_execution_def strip_llm_def no_llm_def)

lemma stripped_section:
  assumes "f nothing = nothing"
  shows "or_none_if nothing (f (effective v nothing)) = Option.bind v (\<lambda>x. or_none_if nothing (f x))"
    and "effective (Option.bind v (\<lambda>x. or_none_if nothing (f x))) nothing = f (effective v nothing)"
  using assms by (cases v; simp)+

lemma strip_overrides_eq:
  "strip_noop_overrides ov s key =
     (case agent_block key s of None \<Rightarrow> ov | Some (live, base) \<Rightarrow> strip_agent base ov)
     \<lparr>ov_risk := or_none_if no_risk (strip_risk (as_risk_baseline s) (effective (ov_risk ov) no_risk)),
      ov_execution := or_none_if no_execution
        (strip_execution (xs_costs (as_execution_baseline s)) (effective (ov_execution ov) no_execution)),
      ov_llm := or_none_if no_llm (strip_llm (as_llm_baseline s) (effective (ov_llm ov) no_llm))\<rparr>"
  by (simp add: strip_noop_overrides_def Let_def stripped_section(1))

text \<open>Saving the form changes nothing by itself: stripping what the form shows of stored overrides leaves exactly
  the stored overrides stripped, so an untouched form pins no default of the file.\<close>

theorem saving_the_form_pins_nothing:
  assumes "agent_block key s \<noteq> None"
  shows "strip_noop_overrides (saved_form s key ov) s key = strip_noop_overrides ov s key"
proof -
  obtain live base where block: "agent_block key s = Some (live, base)" using assms by auto
  obtain r x l where view: "safe_config_view s ov = (r, x, l)" by (cases "safe_config_view s ov") auto
  have sections: "strip_risk (as_risk_baseline s) r = strip_risk (as_risk_baseline s) (effective (ov_risk ov) no_risk)"
    "strip_execution (xs_costs (as_execution_baseline s)) x
      = strip_execution (xs_costs (as_execution_baseline s)) (effective (ov_execution ov) no_execution)"
    "strip_llm (as_llm_baseline s) l = strip_llm (as_llm_baseline s) (effective (ov_llm ov) no_llm)"
    using strip_view [of s ov] by (simp_all add: view)
  have "strip_agent base (agent_config_view base ov) = (strip_agent base ov)\<lparr>ov_risk := None, ov_execution := None, ov_llm := None\<rparr>"
    by (simp add: strip_agent_def agent_config_view_def split: option.splits)
  moreover have "strip_agent base (ov1\<lparr>ov_risk := a, ov_execution := b, ov_llm := c\<rparr>)
      = (strip_agent base ov1)\<lparr>ov_risk := a, ov_execution := b, ov_llm := c\<rparr>" for ov1 a b c
    by (simp add: strip_agent_def)
  ultimately show ?thesis
    by (simp add: strip_overrides_eq saved_form_def block view sections)
qed

theorem saving_the_form_pins_nothing_witness:
  "\<exists>s. strip_noop_overrides (saved_form s ''crypto'' demo_overrides) s ''crypto'' = strip_noop_overrides demo_overrides s ''crypto''
     \<and> ov_risk (strip_noop_overrides demo_overrides s ''crypto'') = Some (no_risk\<lparr>rl_max_open_positions := Some 1\<rparr>)"
proof -
  obtain s :: app_settings where "rs_max_open_positions (as_risk_baseline s) = 5"
    using demo_settings_load by blast
  have "agent_block ''crypto'' s \<noteq> None" by (simp add: agent_block_def)
  from saving_the_form_pins_nothing [OF this, of demo_overrides] \<open>rs_max_open_positions (as_risk_baseline s) = 5\<close>
  show ?thesis
    by (intro exI [of _ s])
      (simp add: strip_overrides_eq demo_overrides_def strip_risk_def no_risk_def unless_same_def or_none_if_def)
qed

text \<open>C35: What is stripped before storing is invisible: applying the stripped overrides gives the same live settings,
  pipeline, symbols and reported changes as applying the original ones.\<close>

theorem stripped_overrides_apply_the_same:
  "apply_safe_overrides key (strip_noop_overrides ov (lc_settings lc) key) lc = apply_safe_overrides key ov lc"
proof -
  have risk: "apply_risk_override (strip_risk b r) b live = apply_risk_override r b live" for r b live
    by (simp add: apply_risk_override_def strip_risk_def)
  have llm: "apply_llm (strip_llm m l) m live = apply_llm l m live" for m l live
    by (simp add: apply_llm_def strip_llm_def)
  have costs: "apply_costs (strip_execution c x) c = apply_costs x c" for c x
    by (simp add: apply_costs_def strip_execution_def)
  have agent: "apply_agent (strip_agent base ov) base live = apply_agent ov base live" for base live
    by (auto simp: apply_agent_def strip_agent_def effective_pairs_def unless_same_def split: option.splits)
  have frame: "apply_agent (ov1\<lparr>ov_risk := r, ov_execution := x, ov_llm := l\<rparr>) = apply_agent ov1" for ov1 r x l
    by (intro ext) (simp add: apply_agent_def effective_pairs_def)
  let ?s = "lc_settings lc" and ?ov = "strip_noop_overrides ov (lc_settings lc) key"
  have knobs: "apply_pipeline ?ov ?s = apply_pipeline ov ?s"
    by (intro ext) (simp add: apply_pipeline_def strip_overrides_eq costs)
  have parts: "effective (ov_risk ?ov) no_risk = strip_risk (as_risk_baseline ?s) (effective (ov_risk ov) no_risk)"
    "effective (ov_llm ?ov) no_llm = strip_llm (as_llm_baseline ?s) (effective (ov_llm ov) no_llm)"
    by (simp_all add: strip_overrides_eq)
  show ?thesis
  proof (cases "agent_block key ?s")
    case None
    then have "ov_decision_history_limit ?ov = ov_decision_history_limit ov" "ov_pairs ?ov = ov_pairs ov"
      "ov_symbols ?ov = ov_symbols ov"
      by (simp_all add: strip_overrides_eq)
    moreover have "key \<noteq> ''crypto''" using None by (auto simp: agent_block_def)
    ultimately show ?thesis using None
      by (cases "lc_pipeline lc"; cases "ov_symbols ov") (simp_all add: apply_safe_overrides_def Let_def knobs parts risk llm)
  next
    case (Some block)
    obtain live base where block: "agent_block key ?s = Some (live, base)" using Some by (cases block) simp
    then have "apply_agent ?ov base live = apply_agent ov base live"
      "effective (ov_decision_history_limit ?ov) (gc_decision_history_limit base)
        = effective (ov_decision_history_limit ov) (gc_decision_history_limit base)"
      by (simp_all add: strip_overrides_eq frame agent) (simp add: strip_agent_def)
    with block show ?thesis
      by (cases "lc_pipeline lc") (simp_all add: apply_safe_overrides_def Let_def knobs parts risk llm)
  qed
qed

text \<open>A form the validator accepts is applied in full: with the file's limits and the agent's cash currency, an
  accepted set of overrides makes every live value the overridden one, or the file's where it is absent, so
  none of it is skipped as loosening or unpayable.\<close>

theorem accepted_overrides_are_applied:
  assumes "validate_overrides_payload decode payload (as_risk_baseline (lc_settings lc)) (gc_quote_currency live) = Inr ov"
    and "agent_block key (lc_settings lc) = Some (live, base)"
  shows "(let r = effective (ov_risk ov) no_risk; b = as_risk_baseline (lc_settings lc);
              new = as_risk (lc_settings (fst (apply_safe_overrides key ov lc)))
          in rs_max_position_pct new = effective (rl_max_position_pct r) (rs_max_position_pct b)
            \<and> rs_daily_loss_limit_pct new = effective (rl_daily_loss_limit_pct r) (rs_daily_loss_limit_pct b)
            \<and> rs_max_drawdown_pct new = effective (rl_max_drawdown_pct r) (rs_max_drawdown_pct b)
            \<and> rs_max_open_positions new = effective (rl_max_open_positions r) (rs_max_open_positions b)
            \<and> rs_min_confidence new = effective (rl_min_confidence r) (rs_min_confidence b)
            \<and> rs_consecutive_losses_cooldown_minutes new
                = effective (rl_consecutive_losses_cooldown_minutes r) (rs_consecutive_losses_cooldown_minutes b))
    \<and> map_option (\<lambda>(live1, base1). gc_pairs live1) (agent_block key (lc_settings (fst (apply_safe_overrides key ov lc))))
      = Some (effective (ov_pairs ov) (gc_pairs base))"
proof -
  have tighter: "loosened_risk_fields (ov_risk ov) (as_risk_baseline (lc_settings lc)) = []"
    and paid: "pairs_not_quoted_in (case ov_pairs ov of None \<Rightarrow> [] | Some ps \<Rightarrow> ps) (gc_quote_currency live) = []"
    using assms(1) by (auto simp: validate_overrides_payload_def on_ok_def split: sum.splits if_splits)
  have "let r = effective (ov_risk ov) no_risk; b = as_risk_baseline (lc_settings lc)
      in apply_risk_override r b live0
        = live0\<lparr>rs_max_position_pct := effective (rl_max_position_pct r) (rs_max_position_pct b),
            rs_daily_loss_limit_pct := effective (rl_daily_loss_limit_pct r) (rs_daily_loss_limit_pct b),
            rs_max_drawdown_pct := effective (rl_max_drawdown_pct r) (rs_max_drawdown_pct b),
            rs_consecutive_losses_cooldown_minutes :=
              effective (rl_consecutive_losses_cooldown_minutes r) (rs_consecutive_losses_cooldown_minutes b),
            rs_max_open_positions := effective (rl_max_open_positions r) (rs_max_open_positions b),
            rs_min_confidence := effective (rl_min_confidence r) (rs_min_confidence b)\<rparr>" for live0
    using tighter
    by (cases "ov_risk ov")
      (auto simp: loosened_risk_fields_def apply_risk_override_def risk_le_def risk_ge_def no_risk_def Let_def
        loosens_le_def loosens_ge_def split: if_splits)
  moreover have "effective_pairs ov base live = effective (ov_pairs ov) (gc_pairs base)"
    using paid by (auto simp: effective_pairs_def split: option.splits)
  ultimately show ?thesis
    using applied_block [OF assms(2), of ov]
    by (simp add: apply_safe_settings Let_def apply_agent_def split: option.splits prod.splits)
qed

theorem accepted_overrides_are_applied_witness:
  "\<exists>s. rs_max_open_positions (as_risk (lc_settings (fst (apply_safe_overrides ''crypto'' demo_overrides
       \<lparr>lc_settings = s, lc_pipeline = None, lc_symbols = None\<rparr>)))) = 1"
proof -
  obtain s :: app_settings where s: "rs_max_open_positions (as_risk_baseline s) = 5"
    using demo_settings_load by blast
  let ?lc = "\<lparr>lc_settings = s, lc_pipeline = None, lc_symbols = None\<rparr>"
  have block: "agent_block ''crypto'' (lc_settings ?lc) = Some (as_crypto_agent s, as_crypto_baseline s)"
    by (simp add: agent_block_def)
  have "validate_overrides_payload Inr demo_overrides (as_risk_baseline (lc_settings ?lc)) (gc_quote_currency (as_crypto_agent s))
      = Inr demo_overrides"
    using s by (simp add: validate_overrides_payload_def on_ok_def validated_def overrides_in_range_def given_def
        demo_overrides_def risk_in_range_def no_risk_def loosened_risk_fields_def loosens_le_def loosens_ge_def
        pairs_not_quoted_in_def split: option.splits)
  from accepted_overrides_are_applied [OF this block]
  show ?thesis by (intro exI [of _ s]) (simp add: demo_overrides_def Let_def)
qed

end
