(* ===== verification/Market_Hours.thy ===== *)
theory Market_Hours
  imports Control_Config Agent
begin

text \<open>
  The market-hours guard of the stocks agent, \<^verbatim>\<open>src/src/agents/stocks_agent.py\<close>: the two skip hooks
  that \<^verbatim>\<open>run_cycle\<close> consults.

  A time of day is in microseconds since midnight, a date is the day number since 1970-01-01 (a
  Thursday), and a local instant is \<open>now\<close> plus the zone's offset. \<open>offset_of\<close> is the zone database of
  \<^verbatim>\<open>zoneinfo\<close>: the offset in force at an instant, \<^const>\<open>None\<close> for an unknown name. A hook reads the clock once
  (the code reads it once per window, microseconds apart). \<open>cal_date\<close> is \<^verbatim>\<open>date.fromisoformat\<close>.
\<close>

type_synonym zone_db = "string \<Rightarrow> (instant \<Rightarrow> int) option"

section \<open>Windows\<close>

definition time_min :: int where
  "time_min = 0"

definition time_max :: int where
  "time_max = day_us - 1"

text \<open>\<^verbatim>\<open>value.split(sep, 1)\<close>, when it has two parts.\<close>

definition split_once :: "char \<Rightarrow> string \<Rightarrow> (string \<times> string) option" where
  "split_once sep s =
     (let a = takeWhile (\<lambda>c. c \<noteq> sep) s
      in if length a = length s then None else Some (a, drop (Suc (length a)) s))"

text \<open>\<^verbatim>\<open>int(text)\<close>: blanks around, a sign, and digits with single underscores between them.\<close>

fun underscored :: "string \<Rightarrow> bool" where
  "underscored [] = False"
| "underscored [c] = is_digit c"
| "underscored (c # d # cs) = (is_digit c \<and> (if d = CHR ''_'' then underscored cs else underscored (d # cs)))"

definition int_of_text :: "string \<Rightarrow> int option" where
  "int_of_text text =
     (let s = strip text; signed = s \<noteq> [] \<and> (hd s = CHR ''-'' \<or> hd s = CHR ''+'');
          ds = (if signed then tl s else s); n = digits_value (filter is_digit ds)
      in if underscored ds then Some (if s \<noteq> [] \<and> hd s = CHR ''-'' then - n else n) else None)"

definition parse_time :: "string \<Rightarrow> py_error + int" where
  "parse_time v =
     (case split_once CHR '':'' v of
        None \<Rightarrow> Inl ValueError
      | Some (hours, minutes) \<Rightarrow>
          (case (int_of_text hours, int_of_text minutes) of
             (Some h, Some m) \<Rightarrow>
               if 0 \<le> h \<and> h < 24 \<and> 0 \<le> m \<and> m < 60 then Inr ((3600 * h + 60 * m) * second_us) else Inl ValueError
           | _ \<Rightarrow> Inl ValueError))"

definition parse_market_hours :: "string \<Rightarrow> py_error + int \<times> int" where
  "parse_market_hours spec =
     (case split_once CHR ''-'' (strip spec) of
        None \<Rightarrow> Inr (time_min, time_max)
      | Some (a, b) \<Rightarrow> on_ok (parse_time (strip a)) (\<lambda>start. on_ok (parse_time (strip b)) (\<lambda>end_t. Inr (start, end_t))))"

definition parse_holidays :: "calendar_lib \<Rightarrow> string list \<Rightarrow> py_error + int list" where
  "parse_holidays cal raws =
     all_ok (map (\<lambda>raw. case cal_date cal (strip raw) of None \<Rightarrow> Inl ValueError | Some d \<Rightarrow> Inr d) raws)"

definition local_date :: "instant \<Rightarrow> int" where
  "local_date t = t div day_us"

definition weekday :: "instant \<Rightarrow> int" where
  "weekday t = (local_date t + 3) mod 7"

definition time_of_day :: "instant \<Rightarrow> int" where
  "time_of_day t = t mod day_us"

definition market_closed_reason :: "instant \<Rightarrow> string \<Rightarrow> int list \<Rightarrow> py_error + string option" where
  "market_closed_reason t market_hours holidays =
     on_ok (parse_market_hours market_hours) (\<lambda>(start, end_t). Inr (
       if start = time_min \<and> end_t = time_max then None
       else if weekday t \<ge> 5 then Some ''weekend''
       else if local_date t \<in> set holidays then Some ''holiday''
       else if start > end_t then (if time_of_day t \<ge> start \<or> time_of_day t \<le> end_t then None else Some ''outside trading window'')
       else if start \<le> time_of_day t \<and> time_of_day t \<le> end_t then None else Some ''outside trading window''))"

section \<open>The guard of the stocks agent\<close>

record stocks_guard =
  sg_market_hours :: string
  sg_market_timezone :: string
  sg_holidays :: "int list"
  sg_exchange_holidays :: "(string, int list) dict"

definition default_market_hours :: string where
  "default_market_hours = ''09:30-16:00''"

definition default_market_timezone :: string where
  "default_market_timezone = ''America/New_York''"

definition new_stocks_guard :: "calendar_lib \<Rightarrow> string \<Rightarrow> string \<Rightarrow> string list \<Rightarrow> py_error + stocks_guard" where
  "new_stocks_guard cal market_hours market_timezone market_holidays =
     on_ok (parse_holidays cal market_holidays) (\<lambda>ds. Inr
       \<lparr>sg_market_hours = market_hours, sg_market_timezone = market_timezone, sg_holidays = ds, sg_exchange_holidays = []\<rparr>)"

text \<open>The live settings come first; \<^const>\<open>None\<close> is an agent built without them.\<close>

definition effective_market_hours :: "agent_config option \<Rightarrow> stocks_guard \<Rightarrow> string" where
  "effective_market_hours cfg g =
     (case Option.bind cfg (\<lambda>c. option_or_none (gc_market_hours c)) of Some h \<Rightarrow> h | None \<Rightarrow> sg_market_hours g)"

definition local_now :: "zone_db \<Rightarrow> instant \<Rightarrow> string option \<Rightarrow> stocks_guard \<Rightarrow> instant" where
  "local_now offset_of now zone g =
     (case offset_of (case option_or_none zone of Some z \<Rightarrow> z | None \<Rightarrow> sg_market_timezone g) of
        Some offset \<Rightarrow> now + offset now | None \<Rightarrow> now)"

definition guard_exchanges :: "agent_config option \<Rightarrow> (string, exchange_window) dict" where
  "guard_exchanges cfg = (case cfg of None \<Rightarrow> [] | Some c \<Rightarrow> gc_exchanges c)"

definition symbol_exchange :: "agent_config option \<Rightarrow> symbol \<Rightarrow> string option" where
  "symbol_exchange cfg s =
     (case Option.bind cfg (\<lambda>c. map_of (gc_symbol_exchanges c) s) of
        None \<Rightarrow> None
      | Some code \<Rightarrow> if map_of (guard_exchanges cfg) code = None then None else Some code)"

definition default_closed_reason ::
  "zone_db \<Rightarrow> instant \<Rightarrow> agent_config option \<Rightarrow> stocks_guard \<Rightarrow> py_error + string option" where
  "default_closed_reason offset_of now cfg g =
     market_closed_reason (local_now offset_of now None g) (effective_market_hours cfg g) (sg_holidays g)"

text \<open>The closures of an exchange are parsed once and kept under its name.\<close>

definition window_holidays :: "calendar_lib \<Rightarrow> exchange_window \<Rightarrow> stocks_guard \<Rightarrow> stocks_guard \<times> (py_error + int list)" where
  "window_holidays cal w g =
     (case map_of (sg_exchange_holidays g) (ew_name w) of
        Some ds \<Rightarrow> (g, Inr ds)
      | None \<Rightarrow>
          (case parse_holidays cal (ew_market_holidays w) of
             Inl e \<Rightarrow> (g, Inl e)
           | Inr ds \<Rightarrow> (g\<lparr>sg_exchange_holidays := AList.update (ew_name w) ds (sg_exchange_holidays g)\<rparr>, Inr ds)))"

definition exchange_closed_reason ::
  "calendar_lib \<Rightarrow> zone_db \<Rightarrow> instant \<Rightarrow> exchange_window \<Rightarrow> stocks_guard \<Rightarrow> stocks_guard \<times> (py_error + string option)" where
  "exchange_closed_reason cal offset_of now w g =
     (case window_holidays cal w g of
        (g1, Inl e) \<Rightarrow> (g1, Inl e)
      | (g1, Inr ds) \<Rightarrow>
          (g1, market_closed_reason (local_now offset_of now (Some (ew_market_timezone w)) g1) (ew_market_hours w) ds))"

definition code_key :: "string option \<Rightarrow> string" where
  "code_key code = (case code of None \<Rightarrow> [] | Some c \<Rightarrow> c)"

text \<open>The reasons per exchange code, in the order the symbols name them.\<close>

fun collect_reasons ::
  "calendar_lib \<Rightarrow> zone_db \<Rightarrow> instant \<Rightarrow> agent_config option \<Rightarrow> string option \<Rightarrow> symbol list \<Rightarrow>
   (string, string option) dict \<Rightarrow> stocks_guard \<Rightarrow> stocks_guard \<times> (py_error + (string, string option) dict)" where
  "collect_reasons cal offset_of now cfg dflt [] reasons g = (g, Inr reasons)"
| "collect_reasons cal offset_of now cfg dflt (s # ss) reasons g =
     (let key = code_key (symbol_exchange cfg s)
      in if map_of reasons key \<noteq> None then collect_reasons cal offset_of now cfg dflt ss reasons g
         else if key = [] then collect_reasons cal offset_of now cfg dflt ss (AList.update key dflt reasons) g
         else case exchange_closed_reason cal offset_of now (the (map_of (guard_exchanges cfg) key)) g of
                (g1, Inl e) \<Rightarrow> (g1, Inl e)
              | (g1, Inr r) \<Rightarrow> collect_reasons cal offset_of now cfg dflt ss (AList.update key r reasons) g1)"

fun join_with :: "string \<Rightarrow> string list \<Rightarrow> string" where
  "join_with sep [] = []"
| "join_with sep [x] = x"
| "join_with sep (x # y # xs) = x @ sep @ join_with sep (y # xs)"

definition reason_line :: "string \<times> string option \<Rightarrow> string" where
  "reason_line = (\<lambda>(code, reason). (if code = [] then ''default'' else code) @ '': '' @ (case reason of None \<Rightarrow> ''None'' | Some r \<Rightarrow> r))"

definition skip_cycle_reason ::
  "calendar_lib \<Rightarrow> zone_db \<Rightarrow> instant \<Rightarrow> agent_config option \<Rightarrow> symbol list \<Rightarrow> stocks_guard \<Rightarrow>
   stocks_guard \<times> (py_error + string option)" where
  "skip_cycle_reason cal offset_of now cfg ss g =
     (case default_closed_reason offset_of now cfg g of
        Inl e \<Rightarrow> (g, Inl e)
      | Inr dflt \<Rightarrow>
          if guard_exchanges cfg = [] then (g, Inr dflt)
          else (case collect_reasons cal offset_of now cfg dflt ss [] g of
                  (g1, Inl e) \<Rightarrow> (g1, Inl e)
                | (g1, Inr reasons) \<Rightarrow>
                    (g1, Inr (if reasons \<noteq> [] \<and> list_all (\<lambda>(code, r). r \<noteq> None) reasons
                              then Some (join_with ''; '' (map reason_line reasons)) else None))))"

definition skip_symbol_reason ::
  "calendar_lib \<Rightarrow> zone_db \<Rightarrow> instant \<Rightarrow> agent_config option \<Rightarrow> symbol \<Rightarrow> stocks_guard \<Rightarrow>
   stocks_guard \<times> (py_error + string option)" where
  "skip_symbol_reason cal offset_of now cfg s g =
     (if guard_exchanges cfg = [] then (g, Inr None)
      else case symbol_exchange cfg s of
             None \<Rightarrow> (g, default_closed_reason offset_of now cfg g)
           | Some code \<Rightarrow>
               (case exchange_closed_reason cal offset_of now (the (map_of (guard_exchanges cfg) code)) g of
                  (g1, Inl e) \<Rightarrow> (g1, Inl e)
                | (g1, Inr reason) \<Rightarrow> (g1, Inr (map_option (\<lambda>r. code @ '': '' @ r) reason))))"

section \<open>Sessions\<close>

text \<open>A window as a stretch of the clock face: from \<open>start\<close>, going round, until \<open>end_t\<close>.\<close>

definition on_the_clock :: "int \<Rightarrow> int \<Rightarrow> instant \<Rightarrow> bool" where
  "on_the_clock start end_t t \<longleftrightarrow> (t - start) mod day_us \<le> (end_t - start) mod day_us"

definition in_session :: "string \<Rightarrow> int list \<Rightarrow> instant \<Rightarrow> bool" where
  "in_session hours holidays t \<longleftrightarrow>
     CHR ''-'' \<notin> set (strip hours)
     \<or> (weekday t < 5 \<and> local_date t \<notin> set holidays
        \<and> (case parse_market_hours hours of Inl e \<Rightarrow> False | Inr (start, end_t) \<Rightarrow> on_the_clock start end_t t))"

lemma split_once_None: "split_once c s = None \<longleftrightarrow> c \<notin> set s"
proof -
  have "length (takeWhile (\<lambda>x. x \<noteq> c) s) = length s \<longleftrightarrow> takeWhile (\<lambda>x. x \<noteq> c) s = s"
    by (metis takeWhile_eq_take take_all_iff order_refl)
  then show ?thesis by (auto simp: split_once_def Let_def takeWhile_eq_all_conv)
qed

lemma parse_time_bounds:
  assumes "parse_time v = Inr t"
  shows "0 \<le> t \<and> t \<le> 86340 * second_us"
proof -
  obtain h m where "t = (3600 * h + 60 * m) * second_us" "0 \<le> h" "h < 24" "0 \<le> m" "m < 60"
    using assms by (auto simp: parse_time_def split: option.splits prod.splits if_splits)
  then show ?thesis by simp
qed

lemma on_the_clock_cases:
  assumes "0 \<le> start" "start < day_us" "0 \<le> end_t" "end_t < day_us"
  shows "on_the_clock start end_t t \<longleftrightarrow>
    (if start > end_t then time_of_day t \<ge> start \<or> time_of_day t \<le> end_t else start \<le> time_of_day t \<and> time_of_day t \<le> end_t)"
proof -
  let ?d = "time_of_day t"
  have d: "0 \<le> ?d" "?d < day_us" by (simp_all add: time_of_day_def)
  have wrap: "(a - b) mod day_us = (if b \<le> a then a - b else a - b + day_us)"
    if "0 \<le> a" "a < day_us" "0 \<le> b" "b < day_us" for a b
  proof (cases "b \<le> a")
    case True
    with that show ?thesis by (simp add: mod_pos_pos_trivial)
  next
    case False
    then have "(a - b + day_us) mod day_us = a - b + day_us" using that by (intro mod_pos_pos_trivial) auto
    with False show ?thesis by simp
  qed
  have "(t - start) mod day_us = (?d - start) mod day_us" by (simp add: time_of_day_def mod_diff_left_eq)
  then show ?thesis
    using wrap [OF d assms(1,2)] wrap [OF assms(3,4,1,2)] assms d by (auto simp: on_the_clock_def)
qed

lemma parse_market_hours_cases:
  assumes "parse_market_hours spec = Inr (start, end_t)"
  obtains (always) "CHR ''-'' \<notin> set (strip spec)" "start = time_min" "end_t = time_max"
  | (window) "CHR ''-'' \<in> set (strip spec)" "\<not> (start = time_min \<and> end_t = time_max)"
      "0 \<le> start" "start < day_us" "0 \<le> end_t" "end_t < day_us"
proof (cases "split_once CHR ''-'' (strip spec)")
  case None
  with assms show ?thesis by (intro always) (simp_all add: parse_market_hours_def split_once_None)
next
  case (Some ab)
  obtain a b where ab: "ab = (a, b)" by (cases ab)
  then have "parse_time (strip a) = Inr start" "parse_time (strip b) = Inr end_t"
    using assms Some by (auto simp: parse_market_hours_def on_ok_def split: sum.splits)
  with parse_time_bounds [of "strip a" start] parse_time_bounds [of "strip b" end_t]
  have "0 \<le> start" "start < day_us" "0 \<le> end_t" "end_t < day_us" "end_t \<noteq> time_max"
    by (simp_all add: time_max_def)
  moreover have "CHR ''-'' \<in> set (strip spec)"
    using Some split_once_None [of "CHR ''-''" "strip spec"] by auto
  ultimately show ?thesis by (intro window) auto
qed

lemma closed_reason_iff:
  assumes "market_closed_reason t hours holidays = Inr r"
  shows "r = None \<longleftrightarrow> in_session hours holidays t"
proof -
  obtain start end_t where parsed: "parse_market_hours hours = Inr (start, end_t)"
    using assms by (auto simp: market_closed_reason_def on_ok_def split: sum.splits)
  then show ?thesis
  proof (cases rule: parse_market_hours_cases)
    case always
    with assms parsed show ?thesis by (auto simp: market_closed_reason_def on_ok_def in_session_def)
  next
    case window
    with assms parsed show ?thesis
      by (auto simp: market_closed_reason_def on_ok_def in_session_def on_the_clock_cases split: if_splits)
  qed
qed

text \<open>C36: The guard is open exactly in session: when it answers at all, it lets a local instant pass if and only if
  the setting gives no range, or the instant is on a weekday that is no holiday and lies on the stretch of
  the clock from the window's start round to its end, overnight windows included.\<close>

theorem market_open_iff_in_session:
  assumes "market_closed_reason t hours holidays = Inr r"
  shows "r = None \<longleftrightarrow> in_session hours holidays t"
  using assms by (rule closed_reason_iff)

theorem market_open_iff_in_session_witness:
  "market_closed_reason (23 * hour_us) ''22:00-08:00'' [] = Inr None \<and> in_session ''22:00-08:00'' [] (23 * hour_us)"
proof -
  have "market_closed_reason (23 * hour_us) ''22:00-08:00'' [] = Inr None" by code_simp
  with market_open_iff_in_session [OF this] show ?thesis by simp
qed

section \<open>The hooks agree\<close>

text \<open>Closures once read stay as they are.\<close>

definition extends_guard :: "stocks_guard \<Rightarrow> stocks_guard \<Rightarrow> bool" where
  "extends_guard g g1 \<longleftrightarrow> map_of (sg_exchange_holidays g) \<subseteq>\<^sub>m map_of (sg_exchange_holidays g1)
     \<and> sg_market_hours g1 = sg_market_hours g \<and> sg_market_timezone g1 = sg_market_timezone g \<and> sg_holidays g1 = sg_holidays g"

lemma extends_refl: "extends_guard g g"
  by (simp add: extends_guard_def)

lemma extends_trans: "extends_guard g g1 \<Longrightarrow> extends_guard g1 g2 \<Longrightarrow> extends_guard g g2"
  by (auto simp: extends_guard_def intro: map_le_trans)

lemma window_holidays_extends:
  assumes "window_holidays cal w g = (g1, Inr ds)"
  shows "extends_guard g g1 \<and> map_of (sg_exchange_holidays g1) (ew_name w) = Some ds"
  using assms
  by (auto simp: window_holidays_def extends_refl extends_guard_def map_le_def update_conv' split: option.splits sum.splits)

lemma exchange_reason_extends:
  assumes "exchange_closed_reason cal offset_of now w g = (g1, Inr r)"
  shows "extends_guard g g1" "extends_guard g1 g2 \<Longrightarrow> exchange_closed_reason cal offset_of now w g2 = (g2, Inr r)"
proof -
  obtain ds where ds: "window_holidays cal w g = (g1, Inr ds)"
    and r: "market_closed_reason (local_now offset_of now (Some (ew_market_timezone w)) g1) (ew_market_hours w) ds = Inr r"
    using assms by (auto simp: exchange_closed_reason_def split: prod.splits sum.splits)
  from window_holidays_extends [OF ds] show "extends_guard g g1" by blast
  show "exchange_closed_reason cal offset_of now w g2 = (g2, Inr r)" if "extends_guard g1 g2"
  proof -
    have "map_of (sg_exchange_holidays g2) (ew_name w) = Some ds"
      using that window_holidays_extends [OF ds] by (auto simp: extends_guard_def map_le_def dom_def)
    moreover have "local_now offset_of now zone g2 = local_now offset_of now zone g1" for zone
      using that by (auto simp: extends_guard_def local_now_def cong: option.case_cong)
    ultimately show ?thesis
      using r by (simp add: exchange_closed_reason_def window_holidays_def)
  qed
qed

definition settled ::
  "calendar_lib \<Rightarrow> zone_db \<Rightarrow> instant \<Rightarrow> agent_config option \<Rightarrow> string option \<Rightarrow> (string, string option) dict \<Rightarrow> stocks_guard \<Rightarrow> bool" where
  "settled cal offset_of now cfg dflt reasons g \<longleftrightarrow>
     (\<forall>key r. map_of reasons key = Some r \<longrightarrow>
        (if key = [] then r = dflt
         else exchange_closed_reason cal offset_of now (the (map_of (guard_exchanges cfg) key)) g = (g, Inr r)))"

lemma settled_extends:
  "settled cal offset_of now cfg dflt reasons g \<Longrightarrow> extends_guard g g1 \<Longrightarrow> settled cal offset_of now cfg dflt reasons g1"
  unfolding settled_def using exchange_reason_extends(2) by meson

lemma collect_reasons_settled:
  assumes "collect_reasons cal offset_of now cfg dflt ss reasons g = (g1, Inr reasons1)"
    and "settled cal offset_of now cfg dflt reasons g" "distinct (map fst reasons)"
  shows "distinct (map fst reasons1) \<and> extends_guard g g1 \<and> settled cal offset_of now cfg dflt reasons1 g1
    \<and> fst ` set reasons1 = fst ` set reasons \<union> (\<lambda>s. code_key (symbol_exchange cfg s)) ` set ss"
  using assms
proof (induction ss arbitrary: reasons g)
  case Nil
  then show ?case by (simp add: extends_refl)
next
  case (Cons s ss)
  let ?key = "code_key (symbol_exchange cfg s)"
  consider (seen) "map_of reasons ?key \<noteq> None" | (default) "map_of reasons ?key = None" "?key = []"
    | (exchange) "map_of reasons ?key = None" "?key \<noteq> []" by blast
  then show ?case
  proof cases
    case seen
    then have "?key \<in> fst ` set reasons" by (simp add: map_of_eq_None_iff)
    with seen Cons.IH [of reasons g] Cons.prems show ?thesis by (auto simp: Let_def)
  next
    case default
    then have start: "settled cal offset_of now cfg dflt (AList.update ?key dflt reasons) g"
      using Cons.prems(2) by (auto simp: settled_def update_conv')
    have rest: "collect_reasons cal offset_of now cfg dflt ss (AList.update ?key dflt reasons) g = (g1, Inr reasons1)"
      using default Cons.prems(1) by (simp add: Let_def)
    from Cons.IH [OF rest start dict_ok_update [OF Cons.prems(3)]] show ?thesis by (auto simp: dom_update)
  next
    case exchange
    then obtain g2 r where step: "exchange_closed_reason cal offset_of now (the (map_of (guard_exchanges cfg) ?key)) g = (g2, Inr r)"
      and rest: "collect_reasons cal offset_of now cfg dflt ss (AList.update ?key r reasons) g2 = (g1, Inr reasons1)"
      using Cons.prems(1) by (auto simp: Let_def split: prod.splits sum.splits)
    have "settled cal offset_of now cfg dflt (AList.update ?key r reasons) g2"
      using settled_extends [OF Cons.prems(2) exchange_reason_extends(1) [OF step]]
        exchange_reason_extends(2) [OF step extends_refl] exchange(2)
      by (auto simp: settled_def update_conv')
    from Cons.IH [OF rest this dict_ok_update [OF Cons.prems(3)]] extends_trans [OF exchange_reason_extends(1) [OF step]]
    show ?thesis by (auto simp: dom_update)
  qed
qed

lemma default_reason_extends:
  "extends_guard g g1 \<Longrightarrow> default_closed_reason offset_of now cfg g1 = default_closed_reason offset_of now cfg g"
  by (simp add: extends_guard_def default_closed_reason_def effective_market_hours_def local_now_def cong: option.case_cong)

lemma no_open_reason:
  assumes "dict_ok reasons"
  shows "list_all (\<lambda>(code, r). r \<noteq> None) reasons \<longleftrightarrow> (\<forall>key \<in> fst ` set reasons. map_of reasons key \<noteq> Some None)"
proof -
  have "(case entry of (code, r) \<Rightarrow> r \<noteq> None) \<longleftrightarrow> map_of reasons (fst entry) \<noteq> Some None" if "entry \<in> set reasons" for entry
  proof -
    obtain code r where "entry = (code, r)" by (cases entry)
    with that assms show ?thesis by simp
  qed
  then show ?thesis by (simp add: list_all_iff)
qed

lemma skip_cycle_settles:
  assumes "skip_cycle_reason cal offset_of now cfg ss g = (g1, Inr r)" "guard_exchanges cfg \<noteq> []"
  obtains dflt reasons where "default_closed_reason offset_of now cfg g1 = Inr dflt"
    "settled cal offset_of now cfg dflt reasons g1" "extends_guard g g1"
    "fst ` set reasons = (\<lambda>s. code_key (symbol_exchange cfg s)) ` set ss"
    "r \<noteq> None \<longleftrightarrow> reasons \<noteq> [] \<and> (\<forall>key \<in> fst ` set reasons. map_of reasons key \<noteq> Some None)"
proof -
  obtain dflt reasons where dflt: "default_closed_reason offset_of now cfg g = Inr dflt"
    and reasons: "collect_reasons cal offset_of now cfg dflt ss [] g = (g1, Inr reasons)"
    and r: "r \<noteq> None \<longleftrightarrow> reasons \<noteq> [] \<and> list_all (\<lambda>(code, r). r \<noteq> None) reasons"
    using assms by (auto simp: skip_cycle_reason_def split: sum.splits prod.splits if_splits)
  have collected: "distinct (map fst reasons)" "extends_guard g g1" "settled cal offset_of now cfg dflt reasons g1"
    "fst ` set reasons = (\<lambda>s. code_key (symbol_exchange cfg s)) ` set ss"
    using collect_reasons_settled [OF reasons] by (simp_all add: settled_def)
  have every: "list_all (\<lambda>(code, r). r \<noteq> None) reasons \<longleftrightarrow> (\<forall>key \<in> fst ` set reasons. map_of reasons key \<noteq> Some None)"
    by (rule no_open_reason) (fact collected(1))
  show thesis
  proof (rule that)
    show "default_closed_reason offset_of now cfg g1 = Inr dflt"
      using dflt default_reason_extends [OF collected(2)] by simp
    show "r \<noteq> None \<longleftrightarrow> reasons \<noteq> [] \<and> (\<forall>key \<in> fst ` set reasons. map_of reasons key \<noteq> Some None)"
      using r unfolding every .
  qed (use collected in simp_all)
qed

lemma skip_symbol_settled:
  assumes "settled cal offset_of now cfg dflt reasons g" "default_closed_reason offset_of now cfg g = Inr dflt"
    and "guard_exchanges cfg \<noteq> []" "map_of (guard_exchanges cfg) [] = None"
    and "map_of reasons (code_key (symbol_exchange cfg s)) = Some r"
  shows "\<exists>out. skip_symbol_reason cal offset_of now cfg s g = (g, Inr out) \<and> (out = None \<longleftrightarrow> r = None)"
proof (cases "symbol_exchange cfg s")
  case None
  with assms show ?thesis by (auto simp: skip_symbol_reason_def settled_def code_key_def)
next
  case (Some code)
  then have "code \<noteq> []" using assms(4) by (auto simp: symbol_exchange_def split: option.splits if_splits)
  with Some assms(1,3,5) show ?thesis by (auto simp: skip_symbol_reason_def settled_def code_key_def)
qed

text \<open>With per-exchange windows the two hooks agree: a cycle is skipped as a whole exactly when each of its
  symbols would be skipped on its own, so no cycle is skipped while a symbol can trade and none starts with
  nothing to do.\<close>

theorem cycle_skipped_iff_every_symbol_is:
  assumes "skip_cycle_reason cal offset_of now cfg ss g = (g1, Inr r)" "ss \<noteq> []"
    and "guard_exchanges cfg \<noteq> []" "map_of (guard_exchanges cfg) [] = None"
  shows "r \<noteq> None \<longleftrightarrow> (\<forall>s \<in> set ss. \<exists>reason. skip_symbol_reason cal offset_of now cfg s g1 = (g1, Inr (Some reason)))"
proof -
  obtain dflt reasons where dflt: "default_closed_reason offset_of now cfg g1 = Inr dflt"
    and settled: "settled cal offset_of now cfg dflt reasons g1"
    and keys: "fst ` set reasons = (\<lambda>s. code_key (symbol_exchange cfg s)) ` set ss"
    and r: "r \<noteq> None \<longleftrightarrow> reasons \<noteq> [] \<and> (\<forall>key \<in> fst ` set reasons. map_of reasons key \<noteq> Some None)"
    by (rule skip_cycle_settles [OF assms(1,3)])
  have each: "map_of reasons (code_key (symbol_exchange cfg s)) \<noteq> Some None
      \<longleftrightarrow> (\<exists>reason. skip_symbol_reason cal offset_of now cfg s g1 = (g1, Inr (Some reason)))" if "s \<in> set ss" for s
  proof -
    have "code_key (symbol_exchange cfg s) \<in> fst ` set reasons" unfolding keys using that by (rule imageI)
    then obtain x where x: "map_of reasons (code_key (symbol_exchange cfg s)) = Some x"
      unfolding dom_map_of_conv_image_fst [symmetric] by blast
    obtain out where out: "skip_symbol_reason cal offset_of now cfg s g1 = (g1, Inr out)" "out = None \<longleftrightarrow> x = None"
      using skip_symbol_settled [OF settled dflt assms(3,4) x] by blast
    have "(\<exists>reason. skip_symbol_reason cal offset_of now cfg s g1 = (g1, Inr (Some reason))) \<longleftrightarrow> out \<noteq> None"
      unfolding out(1) by simp
    with out(2) show ?thesis unfolding x by simp
  qed
  have "reasons \<noteq> []" using keys assms(2) by auto
  then have "r \<noteq> None \<longleftrightarrow> (\<forall>s \<in> set ss. map_of reasons (code_key (symbol_exchange cfg s)) \<noteq> Some None)"
    unfolding r keys by (simp only: ball_simps HOL.simp_thms not_False_eq_True)
  also have "\<dots> \<longleftrightarrow> (\<forall>s \<in> set ss. \<exists>reason. skip_symbol_reason cal offset_of now cfg s g1 = (g1, Inr (Some reason)))"
    using each by (rule ball_cong [OF refl])
  finally show ?thesis .
qed

section \<open>The guard in a cycle\<close>

text \<open>The agent's hooks, as a cycle of the stocks agent sees them after the whole-cycle check.\<close>

definition market_env ::
  "calendar_lib \<Rightarrow> zone_db \<Rightarrow> instant \<Rightarrow> agent_config option \<Rightarrow> string option \<Rightarrow> stocks_guard \<Rightarrow> agent_env \<Rightarrow> agent_env" where
  "market_env cal offset_of now cfg skip g env =
     env\<lparr>ae_skip_cycle := skip,
         ae_skip_symbol := (\<lambda>s. case snd (skip_symbol_reason cal offset_of now cfg s g) of Inl e \<Rightarrow> None | Inr reason \<Rightarrow> reason)\<rparr>"

text \<open>What the guard is for: a symbol's own exchange window, or the agent's, is in session.\<close>

definition symbol_in_session ::
  "calendar_lib \<Rightarrow> zone_db \<Rightarrow> instant \<Rightarrow> agent_config option \<Rightarrow> stocks_guard \<Rightarrow> symbol \<Rightarrow> bool" where
  "symbol_in_session cal offset_of now cfg g s \<longleftrightarrow>
     (case Option.bind (symbol_exchange cfg s) (map_of (guard_exchanges cfg)) of
        None \<Rightarrow> in_session (effective_market_hours cfg g) (sg_holidays g) (local_now offset_of now None g)
      | Some w \<Rightarrow> (\<exists>ds. parse_holidays cal (ew_market_holidays w) = Inr ds
          \<and> in_session (ew_market_hours w) ds (local_now offset_of now (Some (ew_market_timezone w)) g)))"

text \<open>The kept closures are those of every window of that name.\<close>

definition closures_ok :: "calendar_lib \<Rightarrow> agent_config option \<Rightarrow> stocks_guard \<Rightarrow> bool" where
  "closures_ok cal cfg g \<longleftrightarrow>
     (\<forall>w \<in> snd ` set (guard_exchanges cfg). \<forall>ds. map_of (sg_exchange_holidays g) (ew_name w) = Some ds \<longrightarrow>
        parse_holidays cal (ew_market_holidays w) = Inr ds)"

definition one_calendar_per_name :: "agent_config option \<Rightarrow> bool" where
  "one_calendar_per_name cfg \<longleftrightarrow>
     (\<forall>w \<in> snd ` set (guard_exchanges cfg). \<forall>v \<in> snd ` set (guard_exchanges cfg).
        ew_name w = ew_name v \<longrightarrow> ew_market_holidays w = ew_market_holidays v)"

lemma window_holidays_ok:
  assumes "window_holidays cal w g = (g1, Inr ds)" "w \<in> snd ` set (guard_exchanges cfg)"
    and "closures_ok cal cfg g" "one_calendar_per_name cfg"
  shows "parse_holidays cal (ew_market_holidays w) = Inr ds" "closures_ok cal cfg g1"
proof -
  show parsed: "parse_holidays cal (ew_market_holidays w) = Inr ds"
    using assms(1-3) by (auto simp: window_holidays_def closures_ok_def split: option.splits sum.splits)
  have same: "parse_holidays cal (ew_market_holidays v) = Inr ds"
    if "v \<in> snd ` set (guard_exchanges cfg)" "ew_name v = ew_name w" for v
    using that assms(2,4) parsed unfolding one_calendar_per_name_def by metis
  have kept: "map_of (sg_exchange_holidays g1) name = map_of (sg_exchange_holidays g) name" if "name \<noteq> ew_name w" for name
    using assms(1) that by (auto simp: window_holidays_def update_conv' split: option.splits sum.splits)
  have own: "map_of (sg_exchange_holidays g1) (ew_name w) = Some ds"
    using window_holidays_extends [OF assms(1)] by blast
  have "parse_holidays cal (ew_market_holidays v) = Inr es"
    if v: "v \<in> snd ` set (guard_exchanges cfg)" "map_of (sg_exchange_holidays g1) (ew_name v) = Some es" for v es
  proof (cases "ew_name v = ew_name w")
    case True
    with own v(2) same [OF v(1)] show ?thesis by simp
  next
    case False
    with kept v assms(3) show ?thesis unfolding closures_ok_def by metis
  qed
  then show "closures_ok cal cfg g1" unfolding closures_ok_def by blast
qed

lemma exchange_reason_ok:
  assumes "exchange_closed_reason cal offset_of now w g = (g1, Inr r)" "w \<in> snd ` set (guard_exchanges cfg)"
    and "closures_ok cal cfg g" "one_calendar_per_name cfg"
  shows "closures_ok cal cfg g1"
    and "r = None \<Longrightarrow> \<exists>ds. parse_holidays cal (ew_market_holidays w) = Inr ds
      \<and> in_session (ew_market_hours w) ds (local_now offset_of now (Some (ew_market_timezone w)) g1)"
proof -
  obtain ds where ds: "window_holidays cal w g = (g1, Inr ds)"
    and r: "market_closed_reason (local_now offset_of now (Some (ew_market_timezone w)) g1) (ew_market_hours w) ds = Inr r"
    using assms(1) by (auto simp: exchange_closed_reason_def split: prod.splits sum.splits)
  show "closures_ok cal cfg g1" by (rule window_holidays_ok(2) [OF ds assms(2-4)])
  show "\<exists>ds. parse_holidays cal (ew_market_holidays w) = Inr ds
      \<and> in_session (ew_market_hours w) ds (local_now offset_of now (Some (ew_market_timezone w)) g1)" if "r = None"
    using window_holidays_ok(1) [OF ds assms(2-4)] closed_reason_iff [OF r] that by blast
qed

lemma symbol_window:
  assumes "symbol_exchange cfg s = Some code"
  shows "\<exists>w. map_of (guard_exchanges cfg) code = Some w \<and> w \<in> snd ` set (guard_exchanges cfg)"
  using assms by (force simp: symbol_exchange_def split: option.splits if_splits dest: map_of_SomeD)

lemma collect_reasons_ok:
  assumes "collect_reasons cal offset_of now cfg dflt ss reasons g = (g1, Inr reasons1)"
    and "closures_ok cal cfg g" "one_calendar_per_name cfg"
  shows "closures_ok cal cfg g1"
  using assms(1,2)
proof (induction ss arbitrary: reasons g)
  case Nil
  then show ?case by simp
next
  case (Cons s ss)
  let ?key = "code_key (symbol_exchange cfg s)"
  consider (kept) reasons2 where "collect_reasons cal offset_of now cfg dflt ss reasons2 g = (g1, Inr reasons1)"
    | (exchange) g2 r where "?key \<noteq> []"
        "exchange_closed_reason cal offset_of now (the (map_of (guard_exchanges cfg) ?key)) g = (g2, Inr r)"
        "collect_reasons cal offset_of now cfg dflt ss (AList.update ?key r reasons) g2 = (g1, Inr reasons1)"
    using Cons.prems(1) by (auto simp: Let_def split: prod.splits sum.splits if_splits)
  then show ?case
  proof cases
    case kept
    with Cons.IH Cons.prems(2) show ?thesis by blast
  next
    case exchange
    then obtain code where "symbol_exchange cfg s = Some code" "?key = code" by (auto simp: code_key_def split: option.splits)
    with symbol_window obtain w where w: "map_of (guard_exchanges cfg) ?key = Some w" "w \<in> snd ` set (guard_exchanges cfg)" by metis
    with exchange(2) have "exchange_closed_reason cal offset_of now w g = (g2, Inr r)" by simp
    from exchange_reason_ok(1) [OF this w(2) Cons.prems(2) assms(3)] Cons.IH [OF exchange(3)] show ?thesis by blast
  qed
qed

lemma local_now_extends: "extends_guard g g1 \<Longrightarrow> local_now offset_of now zone g1 = local_now offset_of now zone g"
  by (simp add: extends_guard_def local_now_def cong: option.case_cong)

lemma open_symbol_in_session:
  assumes "skip_cycle_reason cal offset_of now cfg ss g = (g1, Inr None)" "s \<in> set ss"
    and "map_of (guard_exchanges cfg) [] = None" "closures_ok cal cfg g" "one_calendar_per_name cfg"
    and "snd (skip_symbol_reason cal offset_of now cfg s g1) = Inr None"
  shows "symbol_in_session cal offset_of now cfg g1 s"
proof (cases "symbol_exchange cfg s")
  case None
  have "default_closed_reason offset_of now cfg g1 = Inr None"
  proof (cases "guard_exchanges cfg = []")
    case True
    then have "g1 = g" "default_closed_reason offset_of now cfg g = Inr None"
      using assms(1) by (auto simp: skip_cycle_reason_def split: sum.splits)
    then show ?thesis by simp
  next
    case False
    with None assms(6) show ?thesis by (simp add: skip_symbol_reason_def)
  qed
  then show ?thesis
    using None closed_reason_iff by (auto simp: symbol_in_session_def default_closed_reason_def)
next
  case (Some code)
  then obtain w where w: "map_of (guard_exchanges cfg) code = Some w" "w \<in> snd ` set (guard_exchanges cfg)"
    using symbol_window by metis
  then have some: "guard_exchanges cfg \<noteq> []" by auto
  obtain g2 r where call: "exchange_closed_reason cal offset_of now w g1 = (g2, Inr r)" "r = None"
    using assms(6) Some w(1) some by (auto simp: skip_symbol_reason_def split: prod.splits sum.splits)
  obtain dflt reasons where "collect_reasons cal offset_of now cfg dflt ss [] g = (g1, Inr reasons)"
    using assms(1) some by (auto simp: skip_cycle_reason_def split: sum.splits prod.splits)
  then have "closures_ok cal cfg g1" using collect_reasons_ok assms(4,5) by metis
  from exchange_reason_ok(2) [OF call(1) w(2) this assms(5) call(2)] exchange_reason_extends(1) [OF call(1)]
  show ?thesis using Some w(1) by (simp add: symbol_in_session_def local_now_extends)
qed

lemma skip_symbol_answers:
  assumes "skip_cycle_reason cal offset_of now cfg ss g = (g1, Inr r)" "s \<in> set ss" "map_of (guard_exchanges cfg) [] = None"
  shows "\<exists>out. skip_symbol_reason cal offset_of now cfg s g1 = (g1, Inr out)"
proof (cases "guard_exchanges cfg = []")
  case True
  then show ?thesis by (simp add: skip_symbol_reason_def)
next
  case False
  obtain dflt reasons where settled: "default_closed_reason offset_of now cfg g1 = Inr dflt"
    "settled cal offset_of now cfg dflt reasons g1"
    and keys: "fst ` set reasons = (\<lambda>s. code_key (symbol_exchange cfg s)) ` set ss"
    by (rule skip_cycle_settles [OF assms(1) False])
  have "code_key (symbol_exchange cfg s) \<in> fst ` set reasons" unfolding keys using assms(2) by (rule imageI)
  then obtain x where "map_of reasons (code_key (symbol_exchange cfg s)) = Some x"
    unfolding dom_map_of_conv_image_fst [symmetric] by blast
  from skip_symbol_settled [OF settled(2,1) False assms(3) this] show ?thesis by blast
qed


text \<open>C39: The settings accept trading hours that the guard cannot read: the override form takes any text, and once
  ''9-17'' is applied every cycle's check raises \<^const>\<open>ValueError\<close> at every instant; an exchange window
  of ''25:00-26:00'' passes its validator and raises whenever it is consulted.\<close>

theorem unreadable_hours_are_accepted:
  "validate_overrides_payload Inr (no_overrides\<lparr>ov_market_hours := Some ''9-17''\<rparr>) limits currency
     = Inr (no_overrides\<lparr>ov_market_hours := Some ''9-17''\<rparr>)
   \<and> skip_cycle_reason cal offset_of now (Some (apply_agent (no_overrides\<lparr>ov_market_hours := Some ''9-17''\<rparr>) base live)) ss g
     = (g, Inl ValueError)
   \<and> check_exchange_window (cal\<lparr>cal_known_zone := \<lambda>z. True\<rparr>)
       \<lparr>ew_name = n, ew_market_hours = ''25:00-26:00'', ew_market_timezone = z, ew_market_holidays = []\<rparr>
     = Inr \<lparr>ew_name = n, ew_market_hours = ''25:00-26:00'', ew_market_timezone = z, ew_market_holidays = []\<rparr>
   \<and> snd (exchange_closed_reason cal offset_of now
       \<lparr>ew_name = n, ew_market_hours = ''25:00-26:00'', ew_market_timezone = z, ew_market_holidays = []\<rparr> g) = Inl ValueError"
proof -
  have "parse_market_hours ''9-17'' = Inl ValueError" "parse_market_hours ''25:00-26:00'' = Inl ValueError"
    "strip ''25:00-26:00'' = ''25:00-26:00''" "window_text ''25:00-26:00''"
    by code_simp+
  moreover have "loosened_risk_fields None limits = []" "pairs_not_quoted_in [] currency = []"
    by (simp_all add: loosened_risk_fields_def pairs_not_quoted_in_def split: option.splits)
  ultimately show ?thesis
    by (simp add: validate_overrides_payload_def on_ok_def validated_def overrides_in_range_def given_def
        skip_cycle_reason_def default_closed_reason_def market_closed_reason_def effective_market_hours_def apply_agent_def
        option_or_none_def non_empty_def check_exchange_window_def Let_def require_def exchange_closed_reason_def
        window_holidays_def parse_holidays_def split: option.splits)
qed

section \<open>Two exchanges\<close>

definition demo_windows :: agent_config where
  "demo_windows = demo_agent_config\<lparr>
     gc_exchanges := [(''WSE'', \<lparr>ew_name = ''Warsaw'', ew_market_hours = ''09:00-16:30'', ew_market_timezone = ''Europe/Warsaw'',
                       ew_market_holidays = []\<rparr>),
                      (''US'', \<lparr>ew_name = ''New York'', ew_market_hours = ''09:30-16:00'', ew_market_timezone = ''America/New_York'',
                       ew_market_holidays = []\<rparr>)],
     gc_symbol_exchanges := [(''CDR'', ''WSE''), (''AAPL'', ''US'')]\<rparr>"

definition demo_zones :: zone_db where
  "demo_zones z = (if z = ''Europe/Warsaw'' then Some (\<lambda>t. hour_us) else Some (\<lambda>t. - (5 * hour_us)))"

definition demo_guard :: stocks_guard where
  "demo_guard = \<lparr>sg_market_hours = default_market_hours, sg_market_timezone = default_market_timezone, sg_holidays = [],
     sg_exchange_holidays = []\<rparr>"

definition demo_read_guard :: stocks_guard where
  "demo_read_guard = demo_guard\<lparr>sg_exchange_holidays := [(''Warsaw'', []), (''New York'', [])]\<rparr>"

lemma demo_exchanges:
  "guard_exchanges (Some demo_windows) = [(''WSE'', \<lparr>ew_name = ''Warsaw'', ew_market_hours = ''09:00-16:30'',
       ew_market_timezone = ''Europe/Warsaw'', ew_market_holidays = []\<rparr>),
     (''US'', \<lparr>ew_name = ''New York'', ew_market_hours = ''09:30-16:00'', ew_market_timezone = ''America/New_York'',
       ew_market_holidays = []\<rparr>)]"
  "symbol_exchange (Some demo_windows) ''CDR'' = Some ''WSE''" "symbol_exchange (Some demo_windows) ''AAPL'' = Some ''US''"
  by (simp_all add: guard_exchanges_def symbol_exchange_def demo_windows_def)

lemma demo_morning:
  "skip_cycle_reason demo_calendar demo_zones (10 * hour_us) (Some demo_windows) [''CDR'', ''AAPL''] demo_guard
    = (demo_read_guard, Inr None)"
  "skip_symbol_reason demo_calendar demo_zones (10 * hour_us) (Some demo_windows) ''CDR'' demo_read_guard = (demo_read_guard, Inr None)"
  "snd (skip_symbol_reason demo_calendar demo_zones (10 * hour_us) (Some demo_windows) ''AAPL'' demo_read_guard)
    = Inr (Some ''US: outside trading window'')"
  by code_simp+

lemma demo_night:
  "skip_cycle_reason demo_calendar demo_zones (23 * hour_us) (Some demo_windows) [''CDR'', ''AAPL''] demo_guard
    = (demo_read_guard, Inr (Some ''WSE: outside trading window; US: outside trading window''))"
  by code_simp

theorem cycle_skipped_iff_every_symbol_is_witness:
  "\<forall>s \<in> {''CDR'', ''AAPL''}. \<exists>reason. skip_symbol_reason demo_calendar demo_zones (23 * hour_us) (Some demo_windows) s demo_read_guard
     = (demo_read_guard, Inr (Some reason))"
  using cycle_skipped_iff_every_symbol_is [OF demo_night] by (simp add: demo_exchanges)


end
