(* ===== verification/Spec2Isabelle.thy ===== *)
theory Spec2Isabelle
  imports Agent_Restart Backtester Ccxt_Restart Saxo_Safety Xtb_Executor Market_Hours
begin

text \<open>
  A verification library for smartyTrader, an autonomous trading agent in Python. All paths
  below are under \<^verbatim>\<open>src/src/\<close> of the repository.

  \<^bold>\<open>The program.\<close> An agent (\<^verbatim>\<open>agents/base_agent.py\<close>) runs cycles. In each it obeys the operator's
  control row, polls venue orders left open, and runs the decision pipeline
  (\<^verbatim>\<open>core/decision_pipeline.py\<close>) once per symbol and strategy sleeve: fetch candles, mark the
  book, close what breached its stop or target, honour the sleeve's time stop and symbol lock,
  wait for a new closed bar, ask the LLM, size the order, gate it (\<^verbatim>\<open>core/risk_engine.py\<close>),
  persist the decision, send the order. Executors book fills in a FIFO lot ledger
  (\<^verbatim>\<open>execution/position_tracker.py\<close>); the paper one (\<^verbatim>\<open>execution/paper_executor.py\<close>) fills at
  once. Everything that must survive a restart is in the database (\<^verbatim>\<open>core/storage/\<close>), from which
  \<^verbatim>\<open>core/rehydration.py\<close> rebuilds the state.

  \<^bold>\<open>The theories\<close>, bottom up:
  \<^item> \<open>Prelude\<close>: dictionaries as association lists, the 1e-8 quantity grid, exceptions, time.
  \<^item> \<open>Models\<close>: \<^verbatim>\<open>core/models.py\<close>; reasons of rejections are constructors, not strings.
  \<^item> \<open>Costs\<close>: \<^verbatim>\<open>core/costs.py\<close> and \<^verbatim>\<open>core/portfolio.py\<close>; the largest payable fill.
  \<^item> \<open>Position_Tracker\<close>: \<^verbatim>\<open>execution/position_tracker.py\<close>; conservation of quantity and money, FIFO
    order, termination of the consumption loop, the dust it may write off.
  \<^item> \<open>Risk_Engine\<close>: \<^verbatim>\<open>core/risk_engine.py\<close> with the risk section of \<^verbatim>\<open>core/config.py\<close>; the gate
    decides exactly its seven rules, and the trackers (daily baseline, high-water mark, loss
    streak) cannot be walked around by any sequence of operations.
  \<^item> \<open>Sizing\<close>: the sizing functions at the end of \<^verbatim>\<open>core/decision_pipeline.py\<close>; planned orders are
    payable, fit the cap and the risk budget.
  \<^item> \<open>Paper_Executor\<close>: the paper book as an honest ledger; restart from stored fills.
  \<^item> \<open>Candles\<close>: \<^verbatim>\<open>analysis/candles.py\<close>; no decision looks at a bar that has not closed.
  \<^item> \<open>Storage\<close>: the tables of \<^verbatim>\<open>core/storage/\<close> as lists of rows, every query with its scoping.
  \<^item> \<open>Rehydration\<close>: \<^verbatim>\<open>core/rehydration.py\<close>; a restart does not forget a losing streak.
  \<^item> \<open>Sleeves\<close>: \<^verbatim>\<open>core/sleeves.py\<close>; ownership, allocation and the limits of strategy sleeves.
  \<^item> \<open>Decision_Pipeline\<close>, \<open>Pipeline_Safety\<close>: the decision cycle and what it guarantees.
  \<^item> \<open>Agent\<close>, \<open>Agent_Safety\<close>, \<open>Agent_Restart\<close>: the agent's cycle; no executed order is lost, and a
    paper agent can be restarted from its database after any number of cycles.
  \<^item> \<open>Screener\<close>, \<open>Watchlist\<close>: \<^verbatim>\<open>analysis/screener.py\<close> and \<^verbatim>\<open>core/watchlist.py\<close>; a refresh never drops core or
    held symbols and respects the cap.
  \<^item> \<open>Baselines\<close>: \<^verbatim>\<open>analysis/baselines.py\<close> and \<^verbatim>\<open>core/performance.py\<close>; the incremental crossover equals the
    recomputed one.
  \<^item> \<open>Backtester\<close>: \<^verbatim>\<open>core/backtester.py\<close>; a replay sees closed bars only and its books balance.
  \<^item> \<open>Json\<close>, \<open>Venue_Orders\<close>: Python's reading of loosely typed payloads; the order payloads of ccxt and the
    protective orders of \<^verbatim>\<open>execution/protective_orders.py\<close>.
  \<^item> \<open>Ccxt_Executor\<close>, \<open>Ccxt_Safety\<close>, \<open>Ccxt_Reconcile\<close>, \<open>Ccxt_Restart\<close>: \<^verbatim>\<open>execution/ccxt_executor.py\<close>; what it
    sells is covered by its ledger, a resolved order is delivered until it is confirmed, and the
    stored fills rebuild the ledger up to dust.
  \<^item> \<open>Saxo_Client\<close>: \<^verbatim>\<open>execution/saxo_auth.py\<close> and \<^verbatim>\<open>execution/saxo_client.py\<close>; rotated tokens are on disk before
    they are used.
  \<^item> \<open>Saxo_Executor\<close>, \<open>Saxo_Safety\<close>: \<^verbatim>\<open>execution/saxo_executor.py\<close>; sales are covered, booked prices plausible.
  \<^item> \<open>Xtb_Executor\<close>: \<^verbatim>\<open>execution/xtb_executor.py\<close>; a sale only closes open trades, and what an interrupted
    close loses.
  \<^item> \<open>Config_Sections\<close>: the other sections of \<^verbatim>\<open>core/config.py\<close>, the profile overlay, \<^verbatim>\<open>Settings\<close>; what is loaded is
    well formed.
  \<^item> \<open>Control_Config\<close>: \<^verbatim>\<open>core/control_config.py\<close>; operator overrides only tighten, and taking them back
    restores the file (but for trading hours the file does not give).
  \<^item> \<open>Market_Hours\<close>: \<^verbatim>\<open>agents/stocks_agent.py\<close>; the stocks agent decides only in session.

  \<^bold>\<open>State.\<close> A class is a record with a field per attribute, its methods functions that return the
  new record. What several objects share is kept once: risk engines live in a store indexed by
  references (\<open>engines\<close>), because the pipelines and the sleeve book mutate the same ones; a
  pipeline's \<open>world\<close> holds its own attributes and the shared parts, and the \<open>agent\<close> owns the parts
  its pipelines share. Exceptions are values: \<open>Inl e\<close>. Every storage call can fail (\<open>faults\<close>), so
  the fail-soft branches of the source are branches of the model.

  \<^bold>\<open>Interfaces.\<close> \<open>fee_schedule\<close> (Costs) is what sizing needs of a cost model; \<open>order_book\<close>
  (Paper_Executor) what a ledger invariant needs of one order step; \<open>closing_executor\<close>
  (Pipeline_Safety) what exit levels and close-all need of an executor; \<open>executor_effects\<close> and its
  extension \<open>sized_executor\<close> (Agent_Safety) what a cycle may do to an executor; \<open>venue_guard\<close> (Ccxt_Safety)
  what the operations of a live executor may send to a venue; \<open>two_phase\<close> (Ccxt_Reconcile) the report and
  confirm contract of an executor that resolves orders later, which both the ccxt and the Saxo
  executor meet. Each is interpreted on the definitions above.

  \<^bold>\<open>Numbers.\<close> Python floats are reals: rounding errors of binary floating point are outside the model,
  while the roundings the code performs (quantities floored to 8 decimals, the 1e-12 dust
  thresholds) are in it. Instants are integer microseconds in UTC. Loops run over lists or
  have a measure. The one recursion with fuel is \<open>sync_protection\<close> (Ccxt_Executor), which calls itself
  once after a cancelled order: fuel 1 is enough by lemma \<open>sync_fuel\<close>.

  \<^bold>\<open>Not modelled\<close>, because it is I/O, text or third-party computation: the XTB websocket client, the network
  side of the LLM client, prompt texts, the pandas indicators, market-data and context feeds and
  their tables, the dashboard, the control API's HTTP routes, alert delivery and the scripts;
  \<^verbatim>\<open>core/runner.py\<close>, which builds the objects and schedules them; SQLAlchemy sessions, WAL, migrations
  and backups; YAML and JSON parsing with Pydantic's type coercion; asyncio scheduling beyond the
  cycle lock; cancellation at shutdown. Market data, indicator values, LLM answers, context,
  zone offsets, venue answers and clock readings are parameters, so the theorems hold for all of
  them.
\<close>

end
